(* ===== verification/Prelude.thy ===== *)
theory Prelude
  imports Main "HOL-Library.AList" "HOL-Library.Char_ord" "HOL-Library.List_Lexorder"
begin

text \<open>
  Shared vocabulary of the development.

  \<^item> Errors: every \<open>throw\<close> of the TypeScript is an \<open>Inl\<close> of a \<open>js_error\<close>; \<open>ebind\<close> sequences calls
    that may throw and \<open>mapE\<close> is \<open>Array.prototype.map\<close> with a callback that may throw.
  \<^item> Strings: a JavaScript string is a sequence of UTF-16 code units. The model's \<open>string\<close> holds one
    code unit per character, so it covers the strings whose code units are below 256 (Latin-1).
    \<open>length\<close>, \<open>=\<close> and the lexicographic \<open><\<close> of \<open>HOL-Library.List_Lexorder\<close> are then JavaScript's.
  \<^item> \<open>Map\<close>: a JavaScript \<open>Map\<close> is an association list in insertion order. \<open>AList.update\<close> replaces in
    place or appends, as \<open>Map.prototype.set\<close> does; \<open>map_of\<close> is \<open>get\<close>; \<open>AList.delete\<close> is \<open>delete\<close>.
\<close>

named_theorems err_simps \<open>how successful results come out of composed calls\<close>
named_theorems jmap_simps \<open>lookups in a JavaScript Map after set and delete\<close>

subsection \<open>Errors as values\<close>

text \<open>\<open>CodedError\<close> is an error object with a \<open>code\<close> and a message, as the error classes of the
  packages are; \<open>TxNotFoundError\<close> holds the transaction id that was not found.\<close>

datatype js_error =
    TypeError string
  | RangeError string
  | PlainError string
  | CodedError string string
  | TxNotFoundError string
  | ZodError

type_synonym 'a result = "js_error + 'a"

definition ebind :: "'e + 'a \<Rightarrow> ('a \<Rightarrow> 'e + 'b) \<Rightarrow> 'e + 'b" where
  "ebind m f = (case m of Inl e \<Rightarrow> Inl e | Inr x \<Rightarrow> f x)"

lemma ebind_simps [simp]:
  "ebind (Inl e) f = Inl e"
  "ebind (Inr x) f = f x"
  by (simp_all add: ebind_def)

lemma ebind_Inr_iff [err_simps]: "ebind m f = Inr y \<longleftrightarrow> (\<exists>x. m = Inr x \<and> f x = Inr y)"
  by (cases m) simp_all

lemma ebind_Inl_iff [err_simps]:
  "ebind m f = Inl e \<longleftrightarrow> m = Inl e \<or> (\<exists>x. m = Inr x \<and> f x = Inl e)"
  by (cases m) simp_all

lemma ebind_cong [fundef_cong]:
  "m = m' \<Longrightarrow> (\<And>x. m' = Inr x \<Longrightarrow> f x = f' x) \<Longrightarrow> ebind m f = ebind m' f'"
  by (cases m') simp_all

fun mapE :: "('a \<Rightarrow> 'e + 'b) \<Rightarrow> 'a list \<Rightarrow> 'e + 'b list" where
  "mapE f [] = Inr []"
| "mapE f (x # xs) = ebind (f x) (\<lambda>y. ebind (mapE f xs) (\<lambda>ys. Inr (y # ys)))"

lemma mapE_cong [fundef_cong]:
  "xs = ys \<Longrightarrow> (\<And>x. x \<in> set ys \<Longrightarrow> f x = g x) \<Longrightarrow> mapE f xs = mapE g ys"
  by (induction ys arbitrary: xs) auto

lemma mapE_Inr_iff [err_simps]:
  "mapE f xs = Inr ys \<longleftrightarrow> list_all2 (\<lambda>x y. f x = Inr y) xs ys"
  by (induction xs arbitrary: ys) (auto simp: ebind_Inr_iff list_all2_Cons1)

lemma mapE_total: "(\<And>x. x \<in> set xs \<Longrightarrow> \<exists>y. f x = Inr y) \<Longrightarrow> \<exists>ys. mapE f xs = Inr ys"
  by (induction xs) (auto simp: ebind_def split: sum.splits, metis sum.distinct(1))

definition ok :: "'e + 'a \<Rightarrow> bool" where
  "ok m = (case m of Inl _ \<Rightarrow> False | Inr _ \<Rightarrow> True)"

lemma ok_simps [simp]: "ok (Inr x)" "\<not> ok (Inl e)"
  by (simp_all add: ok_def)

lemma ok_iff: "ok m \<longleftrightarrow> (\<exists>x. m = Inr x)"
  by (cases m) simp_all

text \<open>A function that may throw or return early: the checks of a handler, before its last step.
  \<open>throwing\<close> is a call in it that may throw, \<open>require_that\<close> a guard.\<close>

datatype 'r exit = Thrown js_error | Early 'r

definition throwing :: "'a result \<Rightarrow> 'r exit + 'a" where
  "throwing m = (case m of Inl e \<Rightarrow> Inl (Thrown e) | Inr x \<Rightarrow> Inr x)"

definition require_that :: "bool \<Rightarrow> 'r \<Rightarrow> 'r exit + unit" where
  "require_that b r = (if b then Inr () else Inl (Early r))"

definition finish :: "'r exit + 'r \<Rightarrow> 'r result" where
  "finish m = (case m of Inl (Thrown e) \<Rightarrow> Inl e | Inl (Early r) \<Rightarrow> Inr r | Inr r \<Rightarrow> Inr r)"

lemma throwing_Inr [err_simps]: "throwing m = Inr x \<longleftrightarrow> m = Inr x"
  by (cases m) (simp_all add: throwing_def)

lemma require_that_Inr [err_simps]: "require_that b r = Inr u \<longleftrightarrow> b"
  by (simp add: require_that_def)

lemma throwing_simps [simp]: "throwing (Inr x) = Inr x" "throwing (Inl e) = Inl (Thrown e)"
  by (simp_all add: throwing_def)

lemma require_that_simps [simp]: "require_that True r = Inr ()" "require_that False r = Inl (Early r)"
  by (simp_all add: require_that_def)

lemma finish_simps [simp]:
  "finish (Inr r) = Inr r" "finish (Inl (Early r)) = Inr r" "finish (Inl (Thrown e)) = Inl e"
  by (simp_all add: finish_def)

text \<open>\<open>err instanceof Error ? err.message : String(err)\<close>. The text of a \<open>ZodError\<close>, a list of issues,
  is not modelled.\<close>

fun err_text :: "js_error \<Rightarrow> string" where
  "err_text (TypeError m) = m"
| "err_text (RangeError m) = m"
| "err_text (PlainError m) = m"
| "err_text (CodedError c m) = m"
| "err_text (TxNotFoundError t) = ''Transaction not found: '' @ t"
| "err_text ZodError = []"

subsection \<open>Characters and strings\<close>

abbreviation code :: "char \<Rightarrow> nat" where
  "code c \<equiv> of_char c"

lemma code_less_256: "code c < 256"
  by (metis mod_less_divisor of_char_mod_256 zero_less_numeral)

definition in_range :: "nat \<Rightarrow> nat \<Rightarrow> char \<Rightarrow> bool" where
  "in_range lo hi c \<longleftrightarrow> lo \<le> code c \<and> code c \<le> hi"

definition is_digit :: "char \<Rightarrow> bool" where
  "is_digit c \<longleftrightarrow> in_range 48 57 c"

definition is_upper :: "char \<Rightarrow> bool" where
  "is_upper c \<longleftrightarrow> in_range 65 90 c"

definition is_lower :: "char \<Rightarrow> bool" where
  "is_lower c \<longleftrightarrow> in_range 97 122 c"

text \<open>The character class \<open>[0-9a-f]\<close>.\<close>

definition is_lower_hex :: "char \<Rightarrow> bool" where
  "is_lower_hex c \<longleftrightarrow> is_digit c \<or> in_range 97 102 c"

text \<open>The character class \<open>[A-Za-z0-9_-]\<close>.\<close>

definition is_base64url :: "char \<Rightarrow> bool" where
  "is_base64url c \<longleftrightarrow> is_upper c \<or> is_lower c \<or> is_digit c \<or> c = CHR ''_'' \<or> c = CHR ''-''"

lemmas char_class_defs =
  in_range_def is_digit_def is_upper_def is_lower_def is_lower_hex_def is_base64url_def

text \<open>\<open>String.prototype.toLowerCase\<close> on Latin-1: the ASCII capitals and the capitals 192 to 222, of
  which 215 is the multiplication sign.\<close>

definition lower_char :: "char \<Rightarrow> char" where
  "lower_char c = (let n = code c in
     if (65 \<le> n \<and> n \<le> 90) \<or> (192 \<le> n \<and> n \<le> 222 \<and> n \<noteq> 215) then char_of (n + 32) else c)"

definition toLowerCase :: "string \<Rightarrow> string" where
  "toLowerCase s = map lower_char s"

text \<open>\<open>toUpperCase\<close> is applied to ASCII tokens only.\<close>

definition upper_char :: "char \<Rightarrow> char" where
  "upper_char c = (if is_lower c then char_of (code c - 32) else c)"

definition toUpperCase :: "string \<Rightarrow> string" where
  "toUpperCase s = map upper_char s"

lemma lower_char_idem [simp]: "lower_char (lower_char c) = lower_char c"
  by (auto simp: lower_char_def Let_def)

lemma toLowerCase_idem [simp]: "toLowerCase (toLowerCase s) = toLowerCase s"
  by (simp add: toLowerCase_def)

lemma lower_char_hex [simp]: "is_lower_hex c \<Longrightarrow> lower_char c = c"
  by (auto simp: lower_char_def Let_def char_class_defs)

lemma toLowerCase_hex [simp]: "list_all is_lower_hex s \<Longrightarrow> toLowerCase s = s"
  unfolding toLowerCase_def list_all_iff by (rule map_idI) simp

lemma upper_char_idem [simp]: "upper_char (upper_char c) = upper_char c"
  by (auto simp: upper_char_def char_class_defs)

lemma toUpperCase_idem [simp]: "toUpperCase (toUpperCase s) = toUpperCase s"
  by (simp add: toUpperCase_def)

text \<open>White space and line terminators below 256, as \<open>trim\<close> strips them.\<close>

definition is_space :: "char \<Rightarrow> bool" where
  "is_space c \<longleftrightarrow> code c \<in> {9, 10, 11, 12, 13, 32, 160}"

definition trim :: "string \<Rightarrow> string" where
  "trim s = rev (dropWhile is_space (rev (dropWhile is_space s)))"

text \<open>A text between apostrophes, in messages.\<close>

definition quoted :: "string \<Rightarrow> string" where
  "quoted s = CHR 0x27 # s @ [CHR 0x27]"

definition startsWith :: "string \<Rightarrow> string \<Rightarrow> bool" where
  "startsWith s p \<longleftrightarrow> take (length p) s = p"

definition endsWith :: "string \<Rightarrow> string \<Rightarrow> bool" where
  "endsWith s p \<longleftrightarrow> startsWith (rev s) (rev p)"

fun str_includes :: "string \<Rightarrow> string \<Rightarrow> bool" where
  "str_includes [] p \<longleftrightarrow> p = []"
| "str_includes (c # cs) p \<longleftrightarrow> startsWith (c # cs) p \<or> str_includes cs p"

fun split_on :: "char \<Rightarrow> string \<Rightarrow> string list" where
  "split_on d [] = [[]]"
| "split_on d (c # cs) =
     (if c = d then [] # split_on d cs
      else (case split_on d cs of [] \<Rightarrow> [[c]] | p # ps \<Rightarrow> (c # p) # ps))"

fun join_with :: "string \<Rightarrow> string list \<Rightarrow> string" where
  "join_with d [] = []"
| "join_with d [x] = x"
| "join_with d (x # y # ys) = x @ d @ join_with d (y # ys)"

lemma split_on_nonempty [simp]: "split_on d s \<noteq> []"
  by (cases s) (auto split: list.splits)

lemma join_split [simp]: "join_with [d] (split_on d s) = s"
proof (induction s)
  case (Cons c s)
  then show ?case
    by (cases "split_on d s"; cases "tl (split_on d s)") (auto split: list.splits)
qed simp

lemma startsWith_iff: "startsWith s p \<longleftrightarrow> (\<exists>t. s = p @ t)"
  unfolding startsWith_def by (metis append_eq_conv_conj append_take_drop_id)

lemma startsWith_append [simp]: "startsWith (p @ s) p"
  by (simp add: startsWith_def)

lemma str_includes_iff: "str_includes s p \<longleftrightarrow> (\<exists>a b. s = a @ p @ b)"
proof (induction s p rule: str_includes.induct)
  case (1 p)
  show ?case by simp
next
  case (2 c cs p)
  then show ?case
    by (auto simp: startsWith_iff Cons_eq_append_conv)
qed

lemma includes_append: "str_includes (a @ p @ b) p"
  by (auto simp: str_includes_iff)

lemma includes_prefix [simp]: "str_includes (p @ b) p"
  by (metis append_Nil includes_append)

subsection \<open>Decimal numerals\<close>

definition digit_char :: "nat \<Rightarrow> char" where
  "digit_char d = char_of (48 + d)"

fun nat_to_dec :: "nat \<Rightarrow> string" where
  "nat_to_dec n = (if n < 10 then [digit_char n] else nat_to_dec (n div 10) @ [digit_char (n mod 10)])"

declare nat_to_dec.simps [simp del]

text \<open>\<open>BigInt.prototype.toString(10)\<close>, and \<open>String(n)\<close> of a safe integer.\<close>

definition int_to_dec :: "int \<Rightarrow> string" where
  "int_to_dec i = (if i < 0 then ''-'' @ nat_to_dec (nat (- i)) else nat_to_dec (nat i))"

definition dec_to_nat :: "string \<Rightarrow> nat" where
  "dec_to_nat s = foldl (\<lambda>n c. 10 * n + (code c - 48)) 0 s"

lemma digit_char_0 [simp]: "digit_char 0 = CHR ''0''"
  unfolding digit_char_def by code_simp

lemma code_digit_char [simp]: "d < 10 \<Longrightarrow> code (digit_char d) = 48 + d"
  by (simp add: digit_char_def)

lemma is_digit_digit_char [simp]: "d < 10 \<Longrightarrow> is_digit (digit_char d)"
  by (simp add: is_digit_def in_range_def)

lemma dec_to_nat_snoc: "dec_to_nat (s @ [c]) = 10 * dec_to_nat s + (code c - 48)"
  by (simp add: dec_to_nat_def)

lemma dec_to_nat_to_dec [simp]: "dec_to_nat (nat_to_dec n) = n"
proof (induction n rule: nat_to_dec.induct)
  case (1 n)
  show ?case
  proof (cases "n < 10")
    case True
    then show ?thesis by (simp add: nat_to_dec.simps [of n] dec_to_nat_def)
  next
    case False
    with 1 show ?thesis by (simp add: nat_to_dec.simps [of n] dec_to_nat_snoc)
  qed
qed

lemma nat_to_dec_digits [simp]: "list_all is_digit (nat_to_dec n)"
proof (induction n rule: nat_to_dec.induct)
  case (1 n)
  then show ?case by (cases "n < 10") (simp_all add: nat_to_dec.simps [of n])
qed

lemma nat_to_dec_nonempty [simp]: "nat_to_dec n \<noteq> []"
  by (subst nat_to_dec.simps) simp

lemma nat_to_dec_inj [simp]: "nat_to_dec m = nat_to_dec n \<longleftrightarrow> m = n"
  by (metis dec_to_nat_to_dec)

text \<open>The regular expressions \<open>^[1-9][0-9]*$\<close> and \<open>^(0|[1-9][0-9]*)$\<close>.\<close>

definition is_positive_dec :: "string \<Rightarrow> bool" where
  "is_positive_dec s \<longleftrightarrow> (case s of [] \<Rightarrow> False | c # cs \<Rightarrow> in_range 49 57 c \<and> list_all is_digit cs)"

definition is_canonical_dec :: "string \<Rightarrow> bool" where
  "is_canonical_dec s \<longleftrightarrow> s = ''0'' \<or> is_positive_dec s"

lemma hd_nat_to_dec: "0 < n \<Longrightarrow> in_range 49 57 (hd (nat_to_dec n))"
proof (induction n rule: nat_to_dec.induct)
  case (1 n)
  then show ?case
    by (cases "n < 10") (simp_all add: nat_to_dec.simps [of n] in_range_def)
qed

lemma nat_to_dec_positive: "0 < n \<Longrightarrow> is_positive_dec (nat_to_dec n)"
  using hd_nat_to_dec [of n] nat_to_dec_digits [of n]
  by (cases "nat_to_dec n") (simp_all add: is_positive_dec_def)

lemma nat_to_dec_canonical: "is_canonical_dec (nat_to_dec n)"
proof (cases "n = 0")
  case True
  then show ?thesis by (simp add: is_canonical_dec_def nat_to_dec.simps)
next
  case False
  then show ?thesis by (simp add: is_canonical_dec_def nat_to_dec_positive)
qed

lemma dec_to_nat_ge: "in_range 49 57 c \<Longrightarrow> 1 \<le> dec_to_nat (c # cs)"
proof (induction cs rule: rev_induct)
  case Nil
  then have "49 \<le> code c" by (simp add: in_range_def)
  then show ?case unfolding dec_to_nat_def by simp
next
  case (snoc x xs)
  then have "1 \<le> dec_to_nat (c # xs)" by simp
  moreover have "dec_to_nat (c # xs @ [x]) = 10 * dec_to_nat (c # xs) + (code x - 48)"
    using dec_to_nat_snoc [of "c # xs" x] by simp
  ultimately show ?case by simp
qed

lemma positive_dec_pos: "is_positive_dec s \<Longrightarrow> 0 < dec_to_nat s"
  using dec_to_nat_ge [of "hd s" "tl s"] by (simp add: is_positive_dec_def split: list.splits)

lemma digit_char_code: "is_digit c \<Longrightarrow> digit_char (code c - 48) = c"
  by (simp add: is_digit_def in_range_def digit_char_def)

lemma nat_to_dec_of_positive: "is_positive_dec s \<Longrightarrow> nat_to_dec (dec_to_nat s) = s"
proof (induction s rule: rev_induct)
  case Nil
  then show ?case by (simp add: is_positive_dec_def)
next
  case (snoc x xs)
  show ?case
  proof (cases "xs = []")
    case True
    with snoc.prems have "in_range 49 57 x" by (simp add: is_positive_dec_def)
    then have "is_digit x" and "code x - 48 < 10" by (auto simp: is_digit_def in_range_def)
    with True show ?thesis
      by (simp add: dec_to_nat_def nat_to_dec.simps [of "code x - 48"] digit_char_code)
  next
    case False
    then obtain c cs where xs: "xs = c # cs" by (cases xs) auto
    with snoc.prems have pos: "is_positive_dec xs" and x: "is_digit x"
      by (auto simp: is_positive_dec_def)
    from x have lt: "code x - 48 < 10" by (auto simp: is_digit_def in_range_def)
    from pos have ge: "1 \<le> dec_to_nat xs" using positive_dec_pos by force
    have "nat_to_dec (10 * dec_to_nat xs + (code x - 48)) =
          nat_to_dec (dec_to_nat xs) @ [digit_char (code x - 48)]"
      using lt ge by (subst nat_to_dec.simps) simp
    with snoc.IH [OF pos] x show ?thesis by (simp add: dec_to_nat_snoc digit_char_code)
  qed
qed

subsection \<open>JavaScript maps as association lists\<close>

type_synonym ('k, 'v) jmap = "('k \<times> 'v) list"

abbreviation jget :: "('k, 'v) jmap \<Rightarrow> 'k \<Rightarrow> 'v option" where
  "jget m \<equiv> map_of m"

definition jset :: "('k, 'v) jmap \<Rightarrow> 'k \<Rightarrow> 'v \<Rightarrow> ('k, 'v) jmap" where
  "jset m k v = AList.update k v m"

definition jdelete :: "('k, 'v) jmap \<Rightarrow> 'k \<Rightarrow> ('k, 'v) jmap" where
  "jdelete m k = AList.delete k m"

definition jhas :: "('k, 'v) jmap \<Rightarrow> 'k \<Rightarrow> bool" where
  "jhas m k \<longleftrightarrow> jget m k \<noteq> None"

lemma jget_jset [jmap_simps, simp]: "jget (jset m k v) k' = (if k' = k then Some v else jget m k')"
  by (simp add: jset_def update_conv')

lemma jget_jdelete [jmap_simps, simp]: "jget (jdelete m k) k' = (if k' = k then None else jget m k')"
  by (simp add: jdelete_def delete_conv')

lemma distinct_jset [simp]: "distinct (map fst m) \<Longrightarrow> distinct (map fst (jset m k v))"
  by (simp add: jset_def distinct_update)

lemma distinct_jdelete [simp]: "distinct (map fst m) \<Longrightarrow> distinct (map fst (jdelete m k))"
  by (simp add: jdelete_def distinct_delete)

lemma jget_filter:
  "distinct (map fst m) \<Longrightarrow>
   jget (filter P m) k = (case jget m k of None \<Rightarrow> None | Some v \<Rightarrow> if P (k, v) then Some v else None)"
  by (induction m) (auto split: option.splits simp: map_of_eq_None_iff rev_image_eqI)

lemma distinct_fst_filter [simp]: "distinct (map fst m) \<Longrightarrow> distinct (map fst (filter P m))"
  by (simp add: distinct_map_filter)

end
