(* ===== verification/Js_Values.thy ===== *)
theory Js_Values
  imports Prelude
begin

text \<open>
  JavaScript values as the code meets them: the \<open>unknown\<close> inputs that the schemas parse, the
  canonicalizable values, and what \<open>JSON.stringify\<close> prints for a string. A number is a safe
  integer, minus zero, another finite number given by its \<open>Number.prototype.toString\<close> text, NaN or
  an infinity. \<open>wf_value\<close> is what every value of the running program satisfies: the numbers are of
  that form and the keys of an object are distinct.
\<close>

subsection \<open>Numbers\<close>

datatype js_number = NInt int | NNegZero | NFloat string | NNaN | NInf bool

definition max_safe_integer :: int where
  "max_safe_integer = 9007199254740991"

fun isSafeInteger :: "js_number \<Rightarrow> bool" where
  "isSafeInteger (NInt i) \<longleftrightarrow> \<bar>i\<bar> \<le> max_safe_integer"
| "isSafeInteger NNegZero \<longleftrightarrow> True"
| "isSafeInteger _ \<longleftrightarrow> False"

text \<open>The integer a safe integer compares and adds as; minus zero is 0.\<close>

fun num_int :: "js_number \<Rightarrow> int option" where
  "num_int (NInt i) = (if \<bar>i\<bar> \<le> max_safe_integer then Some i else None)"
| "num_int NNegZero = Some 0"
| "num_int _ = None"

text \<open>\<open>Number.isSafeInteger(n) && n >= 0\<close>, giving the value.\<close>

definition safe_nonneg :: "js_number \<Rightarrow> int option" where
  "safe_nonneg n = (case num_int n of None \<Rightarrow> None | Some i \<Rightarrow> if 0 \<le> i then Some i else None)"

lemma num_int_safe: "num_int n = Some i \<Longrightarrow> isSafeInteger n \<and> \<bar>i\<bar> \<le> max_safe_integer"
  by (cases n) (auto simp: max_safe_integer_def split: if_splits)

lemma isSafeInteger_iff: "isSafeInteger n \<longleftrightarrow> (\<exists>i. num_int n = Some i)"
  by (cases n) auto

lemma safe_nonneg_range: "safe_nonneg n = Some i \<Longrightarrow> 0 \<le> i \<and> i \<le> max_safe_integer"
  using num_int_safe [of n i] by (auto simp: safe_nonneg_def split: option.splits if_splits)

lemma safe_nonneg_NInt [simp]:
  "safe_nonneg (NInt i) = (if 0 \<le> i \<and> i \<le> max_safe_integer then Some i else None)"
  by (auto simp: safe_nonneg_def)

lemma safe_nonneg_simps [simp]:
  "safe_nonneg NNegZero = Some 0" "safe_nonneg (NFloat s) = None"
  "safe_nonneg NNaN = None" "safe_nonneg (NInf b) = None"
  by (simp_all add: safe_nonneg_def)

subsection \<open>Values\<close>

text \<open>
  \<open>JObj\<close> is a plain object (its prototype is \<open>Object.prototype\<close> or null), \<open>JInst\<close> any other object
  that is not an array, \<open>JFun\<close> a function or a symbol. Fields are in insertion order.
\<close>

datatype js_value =
    JUndef
  | JNull
  | JBool bool
  | JNum js_number
  | JBigInt int
  | JStr string
  | JArr "js_value list"
  | JObj "(string \<times> js_value) list"
  | JInst "(string \<times> js_value) list"
  | JFun

text \<open>The \<open>isRecord\<close> helper that the packages share.\<close>

fun isRecord :: "js_value \<Rightarrow> bool" where
  "isRecord (JObj _) \<longleftrightarrow> True"
| "isRecord (JInst _) \<longleftrightarrow> True"
| "isRecord _ \<longleftrightarrow> False"

fun fields_of :: "js_value \<Rightarrow> (string \<times> js_value) list" where
  "fields_of (JObj fs) = fs"
| "fields_of (JInst fs) = fs"
| "fields_of _ = []"

text \<open>Property read: an absent property reads as \<open>undefined\<close>.\<close>

definition prop_of :: "js_value \<Rightarrow> string \<Rightarrow> js_value" where
  "prop_of v k = (case map_of (fields_of v) k of None \<Rightarrow> JUndef | Some x \<Rightarrow> x)"

text \<open>The characters of a number's text, and the texts of the safe integers.\<close>

definition num_char :: "char \<Rightarrow> bool" where
  "num_char c \<longleftrightarrow> is_digit c \<or> c \<in> set ''-+.e''"

definition is_safe_dec :: "string \<Rightarrow> bool" where
  "is_safe_dec s \<longleftrightarrow>
     (is_canonical_dec s \<and> int (dec_to_nat s) \<le> max_safe_integer) \<or>
     (startsWith s ''-'' \<and> is_positive_dec (drop 1 s) \<and> int (dec_to_nat (drop 1 s)) \<le> max_safe_integer)"

fun wf_number :: "js_number \<Rightarrow> bool" where
  "wf_number (NInt i) \<longleftrightarrow> \<bar>i\<bar> \<le> max_safe_integer"
| "wf_number (NFloat s) \<longleftrightarrow> s \<noteq> [] \<and> list_all num_char s \<and> \<not> is_safe_dec s"
| "wf_number _ \<longleftrightarrow> True"

lemma int_to_dec_num_char: "list_all num_char (int_to_dec i)"
  using nat_to_dec_digits [of "nat i"] nat_to_dec_digits [of "nat (- i)"]
  by (auto simp: int_to_dec_def num_char_def list_all_iff)

lemma int_to_dec_nonempty [simp]: "int_to_dec i \<noteq> []"
  by (simp add: int_to_dec_def)

lemma int_to_dec_safe: "\<bar>i\<bar> \<le> max_safe_integer \<Longrightarrow> is_safe_dec (int_to_dec i)"
  by (auto simp: is_safe_dec_def int_to_dec_def nat_to_dec_canonical nat_to_dec_positive startsWith_def)

lemma nat_to_dec_not_minus: "nat_to_dec n \<noteq> CHR ''-'' # s"
proof
  assume "nat_to_dec n = CHR ''-'' # s"
  with nat_to_dec_digits [of n] have "is_digit CHR ''-''" by (metis list.pred_inject(2))
  then show False by (simp add: is_digit_def in_range_def)
qed

lemma int_to_dec_inj [simp]: "int_to_dec i = int_to_dec j \<longleftrightarrow> i = j"
  by (auto simp: int_to_dec_def nat_to_dec_not_minus nat_to_dec_not_minus [symmetric])

subsection \<open>Conversions\<close>

text \<open>\<open>BigInt(s)\<close> on a decimal numeral.\<close>

definition BigInt_of :: "string \<Rightarrow> int" where
  "BigInt_of s = (if startsWith s ''-'' then - int (dec_to_nat (drop 1 s)) else int (dec_to_nat s))"

lemma nat_to_dec_hd_digit: "\<not> startsWith (nat_to_dec n) ''-''"
  using nat_to_dec_not_minus by (auto simp: startsWith_iff)

lemma BigInt_of_to_dec [simp]: "BigInt_of (int_to_dec i) = i"
  by (cases "i < 0") (simp_all add: BigInt_of_def int_to_dec_def nat_to_dec_hd_digit, simp add: startsWith_def)

text \<open>\<open>String(v)\<close>. A plain object prints by the method it inherits; with an own \<open>toString\<close>, which is data
  in an object that was parsed from JSON, the conversion throws.\<close>

fun num_to_string :: "js_number \<Rightarrow> string" where
  "num_to_string (NInt i) = int_to_dec i"
| "num_to_string NNegZero = ''0''"
| "num_to_string (NFloat s) = s"
| "num_to_string NNaN = ''NaN''"
| "num_to_string (NInf neg) = (if neg then ''-Infinity'' else ''Infinity'')"

fun String_of :: "js_value \<Rightarrow> string result" where
  "String_of JUndef = Inr ''undefined''"
| "String_of JNull = Inr ''null''"
| "String_of (JBool b) = Inr (if b then ''true'' else ''false'')"
| "String_of (JNum n) = Inr (num_to_string n)"
| "String_of (JBigInt i) = Inr (int_to_dec i)"
| "String_of (JStr s) = Inr s"
| "String_of (JArr xs) =
     ebind (mapE (\<lambda>x. case x of JUndef \<Rightarrow> Inr [] | JNull \<Rightarrow> Inr [] | _ \<Rightarrow> String_of x) xs)
       (\<lambda>ss. Inr (join_with '','' ss))"
| "String_of (JObj fs) =
     (if map_of fs ''toString'' \<noteq> None then Inl (TypeError ''Cannot convert object to primitive value'')
      else Inr ''[object Object]'')"
| "String_of (JInst fs) = Inr ''[object Object]''"
| "String_of JFun = Inr ''function''"

subsection \<open>Strings in JSON\<close>

definition hex_digit :: "nat \<Rightarrow> char" where
  "hex_digit d = (if d < 10 then char_of (48 + d) else char_of (87 + d))"

definition esc_char :: "char \<Rightarrow> string" where
  "esc_char c = (let n = code c in
     if n = 34 \<or> n = 92 then [CHR 0x5C, c]
     else if n = 8 then [CHR 0x5C, CHR ''b'']
     else if n = 9 then [CHR 0x5C, CHR ''t'']
     else if n = 10 then [CHR 0x5C, CHR ''n'']
     else if n = 12 then [CHR 0x5C, CHR ''f'']
     else if n = 13 then [CHR 0x5C, CHR ''r'']
     else if n < 32 then [CHR 0x5C, CHR ''u'', CHR ''0'', CHR ''0'', hex_digit (n div 16), hex_digit (n mod 16)]
     else [c])"

definition json_quote :: "string \<Rightarrow> string" where
  "json_quote s = CHR 0x22 # concat (map esc_char s) @ [CHR 0x22]"

text \<open>
  Reading one escape back from the front of a text. It is not a function of the program; that it
  inverts \<open>esc_char\<close> shows that no escape is a proper prefix of another.
\<close>

definition hex_val :: "char \<Rightarrow> nat" where
  "hex_val c = (if is_digit c then code c - 48 else code c - 87)"

definition unesc :: "string \<Rightarrow> (char \<times> string) option" where
  "unesc s = (case s of
     [] \<Rightarrow> None
   | c # r \<Rightarrow>
       if code c \<noteq> 92 then Some (c, r)
       else (case r of
           [] \<Rightarrow> None
         | e # r' \<Rightarrow>
             if e = CHR ''b'' then Some (char_of (8 :: nat), r')
             else if e = CHR ''t'' then Some (char_of (9 :: nat), r')
             else if e = CHR ''n'' then Some (char_of (10 :: nat), r')
             else if e = CHR ''f'' then Some (char_of (12 :: nat), r')
             else if e = CHR ''r'' then Some (char_of (13 :: nat), r')
             else if e = CHR ''u'' then
               (case r' of
                  _ # _ # h # l # r'' \<Rightarrow> Some (char_of (16 * hex_val h + hex_val l), r'')
                | _ \<Rightarrow> None)
             else Some (e, r')))"

lemma char_of_34_92: "char_of (34 :: nat) = CHR 0x22" "char_of (92 :: nat) = CHR 0x5C"
  by code_simp+

lemma char_eq_code: "code c = n \<Longrightarrow> c = char_of n"
  by (metis char_of_char)

lemma hex_val_digit [simp]: "d < 16 \<Longrightarrow> hex_val (hex_digit d) = d"
  by (auto simp: hex_val_def hex_digit_def char_class_defs)

lemma unesc_esc [simp]: "unesc (esc_char c @ x) = Some (c, x)"
proof -
  consider "code c = 34 \<or> code c = 92" | "code c \<in> {8, 9, 10, 12, 13}"
    | "code c < 32" "code c \<notin> {8, 9, 10, 12, 13}"
    | "code c \<ge> 32" "code c \<noteq> 34" "code c \<noteq> 92"
    by fastforce
  then show ?thesis
  proof cases
    case 1
    then have "c = CHR 0x22 \<or> c = CHR 0x5C"
      using char_eq_code [of c 34] char_eq_code [of c 92] by (auto simp: char_of_34_92)
    then show ?thesis by (auto simp: esc_char_def unesc_def)
  next
    case 2
    then show ?thesis by (auto simp: esc_char_def unesc_def dest!: char_eq_code)
  next
    case 3
    then have "16 * (code c div 16) + code c mod 16 = code c" by simp
    moreover from 3 have "code c div 16 < 16" "code c mod 16 < 16" by simp_all
    ultimately show ?thesis using 3 by (simp add: esc_char_def unesc_def Let_def)
  next
    case 4
    then show ?thesis by (auto simp: esc_char_def unesc_def Let_def)
  qed
qed

lemma esc_char_cancel: "esc_char c @ x = esc_char d @ y \<Longrightarrow> c = d \<and> x = y"
  by (metis Pair_inject option.inject unesc_esc)

lemma esc_char_not_quote: "esc_char c @ x \<noteq> CHR 0x22 # y"
  by (auto simp: esc_char_def Let_def)

lemma quote_body_cancel:
  "concat (map esc_char s) @ CHR 0x22 # x = concat (map esc_char t) @ CHR 0x22 # y \<Longrightarrow> s = t \<and> x = y"
proof (induction s arbitrary: t)
  case Nil
  then show ?case
    by (cases t) (auto simp: esc_char_not_quote [symmetric])
next
  case (Cons c s)
  show ?case
  proof (cases t)
    case Nil
    with Cons.prems show ?thesis by (simp add: esc_char_not_quote)
  next
    case (Cons d t')
    with Cons.prems have "esc_char c @ (concat (map esc_char s) @ CHR 0x22 # x) =
        esc_char d @ (concat (map esc_char t') @ CHR 0x22 # y)" by simp
    then have "c = d" and "concat (map esc_char s) @ CHR 0x22 # x = concat (map esc_char t') @ CHR 0x22 # y"
      by (auto dest: esc_char_cancel)
    with Cons.IH Cons show ?thesis by blast
  qed
qed

lemma json_quote_cancel: "json_quote s @ x = json_quote t @ y \<Longrightarrow> s = t \<and> x = y"
  using quote_body_cancel [of s x t y] by (simp add: json_quote_def)

lemma json_quote_inj [simp]: "json_quote s = json_quote t \<longleftrightarrow> s = t"
  using json_quote_cancel [of s "[]" t "[]"] by auto

lemma json_quote_head [simp]: "json_quote s \<noteq> []" "hd (json_quote s) = CHR 0x22"
  by (simp_all add: json_quote_def)

subsection \<open>UTF-8\<close>

text \<open>\<open>Buffer.from(s, "utf8")\<close> on code units below 256: one or two bytes each.\<close>

definition utf8_char :: "char \<Rightarrow> string" where
  "utf8_char c = (let n = code c in
     if n < 128 then [c] else [char_of (192 + n div 64), char_of (128 + n mod 64)])"

definition utf8_encode :: "string \<Rightarrow> string" where
  "utf8_encode s = concat (map utf8_char s)"

lemma utf8_char_ascii [simp]: "code c < 128 \<Longrightarrow> utf8_char c = [c]"
  by (simp add: utf8_char_def)

lemma utf8_encode_ascii: "list_all (\<lambda>c. code c < 128) s \<Longrightarrow> utf8_encode s = s"
  by (induction s) (simp_all add: utf8_encode_def)

lemma utf8_char_cancel: "utf8_char c @ x = utf8_char d @ y \<Longrightarrow> c = d \<and> x = y"
proof -
  assume eq: "utf8_char c @ x = utf8_char d @ y"
  have lt: "code c < 256" "code d < 256" by (rule code_less_256)+
  show ?thesis
  proof (cases "code c < 128"; cases "code d < 128")
    assume "code c < 128" "code d < 128"
    with eq show ?thesis by simp
  next
    assume c: "code c < 128" and d: "\<not> code d < 128"
    with eq have "c = char_of (192 + code d div 64)" by (simp add: utf8_char_def Let_def)
    then have "code c = (192 + code d div 64) mod 256" by simp
    with c lt show ?thesis by simp
  next
    assume c: "\<not> code c < 128" and d: "code d < 128"
    with eq have "d = char_of (192 + code c div 64)" by (simp add: utf8_char_def Let_def)
    then have "code d = (192 + code c div 64) mod 256" by simp
    with d lt show ?thesis by simp
  next
    assume c: "\<not> code c < 128" and d: "\<not> code d < 128"
    with eq have "code (char_of (192 + code c div 64)) = code (char_of (192 + code d div 64))"
      and "code (char_of (128 + code c mod 64)) = code (char_of (128 + code d mod 64))" and "x = y"
      by (simp_all add: utf8_char_def Let_def)
    moreover from lt have "code c div 64 < 4" "code d div 64 < 4" by (simp_all add: less_mult_imp_div_less)
    ultimately have "code c div 64 = code d div 64" and "code c mod 64 = code d mod 64" by simp_all
    then have "code c = code d" by (metis div_mult_mod_eq)
    with \<open>x = y\<close> show ?thesis by simp
  qed
qed

lemma utf8_char_nonempty [simp]: "utf8_char c \<noteq> []"
  by (simp add: utf8_char_def Let_def)

lemma utf8_encode_inj [simp]: "utf8_encode s = utf8_encode t \<longleftrightarrow> s = t"
proof
  show "utf8_encode s = utf8_encode t \<Longrightarrow> s = t"
  proof (induction s arbitrary: t)
    case Nil
    then show ?case by (cases t) (simp_all add: utf8_encode_def)
  next
    case (Cons c s)
    then obtain d t' where t: "t = d # t'" by (cases t) (simp_all add: utf8_encode_def)
    with Cons.prems have "utf8_char c @ utf8_encode s = utf8_char d @ utf8_encode t'"
      by (simp add: utf8_encode_def)
    then have "c = d" and "utf8_encode s = utf8_encode t'" by (auto dest: utf8_char_cancel)
    with Cons.IH t show ?case by simp
  qed
qed simp

end
