(* ===== verification/Canonical.thy ===== *)
theory Canonical
  imports Js_Values
begin

text \<open>
  \<open>packages/x402-xec-core/src/canonicalize.ts\<close>: canonical JSON, on which every hash of the protocol
  is taken. \<open>canonicalize\<close> sorts the keys of each object by code units and throws on a value that is
  not JSON. \<open>normal\<close> is the value up to what canonical JSON forgets (the order of keys, the sign of
  zero). The lemmas show that canonical texts can be read back from the front of any text, so that
  equal texts come from equal normal forms, and that equal hashes do too unless they exhibit a
  collision of the hash function. SHA-256 (\<open>node:crypto\<close>) is the parameter \<open>sha\<close>, from the bytes of
  the UTF-8 text to the hexadecimal digest.
\<close>

subsection \<open>The code\<close>

definition canonical_number :: "js_number \<Rightarrow> string result" where
  "canonical_number n = (case n of
     NNaN \<Rightarrow> Inl (TypeError ''Canonical numbers must be finite'')
   | NInf _ \<Rightarrow> Inl (TypeError ''Canonical numbers must be finite'')
   | NNegZero \<Rightarrow> Inr ''0''
   | NInt i \<Rightarrow> Inr (int_to_dec i)
   | NFloat s \<Rightarrow> Inr s)"

lemma size_field [termination_simp]:
  "(k, v) \<in> set fs \<Longrightarrow> size v < Suc (size_list (size_prod f size) fs)"
  by (induction fs) auto

fun canonicalize :: "js_value \<Rightarrow> string result" where
  "canonicalize JNull = Inr ''null''"
| "canonicalize (JBool b) = Inr (if b then ''true'' else ''false'')"
| "canonicalize (JStr s) = Inr (json_quote s)"
| "canonicalize (JNum n) = canonical_number n"
| "canonicalize (JArr xs) =
     ebind (mapE canonicalize xs) (\<lambda>ss. Inr (''['' @ join_with '','' ss @ '']''))"
| "canonicalize (JObj fs) =
     ebind (mapE (\<lambda>(k, v). ebind (canonicalize v) (\<lambda>c. Inr (json_quote k @ '':'' @ c))) (sort_key fst fs))
       (\<lambda>ss. Inr (''{'' @ join_with '','' ss @ ''}''))"
| "canonicalize _ = Inl (TypeError ''Value is not canonicalizable JSON'')"

type_synonym hasher = "string \<Rightarrow> string"

definition sha256Hex :: "hasher \<Rightarrow> string \<Rightarrow> string" where
  "sha256Hex sha value = sha (utf8_encode value)"

definition canonicalHash :: "hasher \<Rightarrow> js_value \<Rightarrow> string result" where
  "canonicalHash sha v = ebind (canonicalize v) (\<lambda>c. Inr (sha256Hex sha c))"

text \<open>Two given texts that collide. Such pairs exist for every hash function; a property that ends
  in \<open>collides\<close> exhibits one, built from its own inputs.\<close>

definition collides :: "hasher \<Rightarrow> string \<Rightarrow> string \<Rightarrow> bool" where
  "collides sha c d \<longleftrightarrow> c \<noteq> d \<and> sha256Hex sha c = sha256Hex sha d"

subsection \<open>Well-formed values and normal forms\<close>

fun wf_value :: "js_value \<Rightarrow> bool" where
  "wf_value (JNum n) \<longleftrightarrow> wf_number n"
| "wf_value (JArr xs) \<longleftrightarrow> list_all wf_value xs"
| "wf_value (JObj fs) \<longleftrightarrow> distinct (map fst fs) \<and> list_all (\<lambda>(k, v). wf_value v) fs"
| "wf_value (JInst fs) \<longleftrightarrow> distinct (map fst fs) \<and> list_all (\<lambda>(k, v). wf_value v) fs"
| "wf_value _ \<longleftrightarrow> True"

fun normal_number :: "js_number \<Rightarrow> js_number" where
  "normal_number NNegZero = NInt 0"
| "normal_number n = n"

fun normal :: "js_value \<Rightarrow> js_value" where
  "normal (JNum n) = JNum (normal_number n)"
| "normal (JArr xs) = JArr (map normal xs)"
| "normal (JObj fs) = JObj (map (\<lambda>(k, v). (k, normal v)) (sort_key fst fs))"
| "normal v = v"

subsection \<open>Reading a canonical text back\<close>

text \<open>What can follow a value in a canonical text: nothing, a comma or a closing bracket.\<close>

definition delim :: "string \<Rightarrow> bool" where
  "delim s \<longleftrightarrow> (case s of [] \<Rightarrow> True | c # _ \<Rightarrow> c \<in> set '',]}'')"

lemma delim_simps [simp]:
  "delim []" "delim (CHR '','' # s)" "delim (CHR '']'' # s)" "delim (CHR ''}'' # s)"
  by (simp_all add: delim_def)

lemma num_char_not_delim: "num_char c \<Longrightarrow> \<not> delim (c # s)"
  by (auto simp: num_char_def delim_def char_class_defs)

lemma num_text_cancel:
  "list_all num_char a \<Longrightarrow> list_all num_char b \<Longrightarrow> a @ s = b @ t \<Longrightarrow> delim s \<Longrightarrow> delim t \<Longrightarrow>
   a = b \<and> s = t"
proof (induction a arbitrary: b)
  case Nil
  then show ?case by (cases b) (auto simp: num_char_not_delim)
next
  case (Cons c a)
  then show ?case by (cases b) (auto simp: num_char_not_delim)
qed

text \<open>The first character of a canonical text tells which kind of value it is.\<close>

datatype kind = KNull | KBool | KStr | KNum | KArr | KObj

fun kind_of :: "js_value \<Rightarrow> kind" where
  "kind_of (JBool _) = KBool"
| "kind_of (JStr _) = KStr"
| "kind_of (JNum _) = KNum"
| "kind_of (JArr _) = KArr"
| "kind_of (JObj _) = KObj"
| "kind_of _ = KNull"

definition char_kind :: "char \<Rightarrow> kind" where
  "char_kind c =
     (if c = CHR ''n'' then KNull else if c = CHR ''t'' \<or> c = CHR ''f'' then KBool
      else if c = CHR 0x22 then KStr else if c = CHR ''['' then KArr
      else if c = CHR ''{'' then KObj else KNum)"

lemma char_kind_num: "num_char c \<Longrightarrow> char_kind c = KNum"
  by (auto simp: num_char_def char_kind_def char_class_defs)

lemma canonical_number_text:
  "canonical_number n = Inr a \<Longrightarrow> wf_number n \<Longrightarrow> a \<noteq> [] \<and> list_all num_char a"
  by (cases n) (auto simp: canonical_number_def int_to_dec_num_char num_char_def char_class_defs)

lemma canonical_number_inj:
  assumes "canonical_number m = Inr a" "canonical_number n = Inr a" "wf_number m" "wf_number n"
  shows "normal_number m = normal_number n"
proof -
  have zero: "int_to_dec 0 = ''0''"
    by (simp add: int_to_dec_def nat_to_dec.simps)
  have zero_iff: "int_to_dec i = ''0'' \<longleftrightarrow> i = 0" for i
    using int_to_dec_inj [of i 0] unfolding zero .
  then have zero_iff': "''0'' = int_to_dec i \<longleftrightarrow> i = 0" for i
    by (metis (no_types))
  have "is_safe_dec ''0''"
    using int_to_dec_safe [of 0] by (simp add: zero max_safe_integer_def)
  then show ?thesis
    using assms int_to_dec_safe
    by (cases m; cases n) (auto simp: canonical_number_def zero_iff zero_iff')
qed

lemma list_all_hd: "xs \<noteq> [] \<Longrightarrow> list_all P xs \<Longrightarrow> P (hd xs)"
  by (cases xs) auto

lemma canonicalize_kind:
  "canonicalize v = Inr a \<Longrightarrow> wf_value v \<Longrightarrow> a \<noteq> [] \<and> char_kind (hd a) = kind_of v"
proof (cases v)
  case (JNum n)
  assume "canonicalize v = Inr a" "wf_value v"
  with JNum have "a \<noteq> []" "list_all num_char a" using canonical_number_text by auto
  with JNum show ?thesis by (simp add: list_all_hd char_kind_num)
qed (auto simp: err_simps char_kind_def split: if_splits)

lemma canonicalize_first:
  "canonicalize v = Inr a \<Longrightarrow> wf_value v \<Longrightarrow> a \<noteq> [] \<and> hd a \<notin> set '',]}''"
  using canonicalize_kind [of v a]
  by (cases v) (auto simp: char_kind_def err_simps split: if_splits
      dest!: canonical_number_text list_all_hd simp: num_char_def char_class_defs)

text \<open>Lists of texts separated by commas and closed by a bracket, for arrays and objects alike.\<close>

lemma join_cancel:
  assumes "list_all2 R xs as" "list_all2 R ys bs"
    and "\<And>x y a b s t. x \<in> set xs \<Longrightarrow> y \<in> set ys \<Longrightarrow> R x a \<Longrightarrow> R y b \<Longrightarrow> a @ s = b @ t \<Longrightarrow>
           delim s \<Longrightarrow> delim t \<Longrightarrow> f x = f y \<and> s = t"
    and "\<And>x a. x \<in> set xs \<union> set ys \<Longrightarrow> R x a \<Longrightarrow> a \<noteq> [] \<and> hd a \<noteq> cl"
    and "cl = CHR '']'' \<or> cl = CHR ''}''"
    and "join_with '','' as @ cl # s = join_with '','' bs @ cl # t"
  shows "map f xs = map f ys \<and> s = t"
  using assms(1,2,3,4,6)
proof (induction xs as arbitrary: ys bs rule: list_all2_induct)
  case Nil
  show ?case
  proof (cases ys)
    case Nil
    with \<open>list_all2 R ys bs\<close> have "bs = []" by simp
    with Nil Nil.prems show ?thesis by simp
  next
    case (Cons y ys')
    with Nil.prems obtain b bs' where b: "bs = b # bs'" "R y b" by (auto simp: list_all2_Cons1)
    with Cons Nil.prems(3) have "b \<noteq> []" "hd b \<noteq> cl" by auto
    with b Nil.prems(4) show ?thesis by (cases b; cases bs') auto
  qed
next
  case (Cons x xs a as)
  have ax: "a \<noteq> []" "hd a \<noteq> cl" using Cons.prems(3) [of x a] Cons.hyps(1) by auto
  show ?case
  proof (cases ys)
    case Nil
    with Cons.prems(1) have "bs = []" by simp
    with ax Cons.prems(4) show ?thesis by (cases a; cases as) auto
  next
    case (Cons y ys')
    with Cons.prems(1) obtain b bs' where b: "bs = b # bs'" "R y b" "list_all2 R ys' bs'"
      by (auto simp: list_all2_Cons1)
    define tl1 where "tl1 as = (if as = [] then [cl] else CHR '','' # join_with '','' as @ [cl])" for as
    have split: "join_with '','' (p # ps) @ cl # u = p @ (tl1 ps @ u)" for p ps u
      by (cases ps) (simp_all add: tl1_def)
    have dl: "delim (tl1 ps @ u)" for ps u using assms(5) by (auto simp: tl1_def)
    from Cons.prems(4) b have "a @ (tl1 as @ s) = b @ (tl1 bs' @ t)" by (simp only: split)
    with Cons.prems(2) [of x y a b] Cons.hyps(1) b Cons dl
    have fxy: "f x = f y" and tls: "tl1 as @ s = tl1 bs' @ t" by auto
    have emp: "as = [] \<longleftrightarrow> bs' = []"
      using tls assms(5) by (auto simp: tl1_def split: if_splits)
    have "map f xs = map f ys' \<and> s = t"
    proof (cases "as = []")
      case True
      with emp tls Cons.hyps(2) b show ?thesis by (simp add: tl1_def)
    next
      case False
      with emp tls have "join_with '','' as @ cl # s = join_with '','' bs' @ cl # t"
        by (simp add: tl1_def)
      moreover have "\<And>x' a'. x' \<in> set xs \<union> set ys' \<Longrightarrow> R x' a' \<Longrightarrow> a' \<noteq> [] \<and> hd a' \<noteq> cl"
        using Cons.prems(3) Cons by auto
      moreover have "\<And>x' y' a' b' s' t'. x' \<in> set xs \<Longrightarrow> y' \<in> set ys' \<Longrightarrow> R x' a' \<Longrightarrow> R y' b' \<Longrightarrow>
          a' @ s' = b' @ t' \<Longrightarrow> delim s' \<Longrightarrow> delim t' \<Longrightarrow> f x' = f y' \<and> s' = t'"
        using Cons.prems(2) Cons by (meson list.set_intros(2))
      ultimately show ?thesis using Cons.IH [OF b(3)] by blast
    qed
    with fxy Cons show ?thesis by simp
  qed
qed

lemma field_text_first:
  "(\<lambda>(k, v). ebind (canonicalize v) (\<lambda>c. Inr (json_quote k @ '':'' @ c))) x = Inr a \<Longrightarrow>
   a \<noteq> [] \<and> hd a = CHR 0x22"
  by (auto simp: err_simps split: prod.splits)

lemma canonicalize_same_kind:
  "canonicalize v = Inr a \<Longrightarrow> canonicalize w = Inr b \<Longrightarrow> wf_value v \<Longrightarrow> wf_value w \<Longrightarrow>
   a @ s = b @ t \<Longrightarrow> kind_of w = kind_of v"
  by (metis canonicalize_kind hd_append2)

lemma canonicalize_cancel:
  "canonicalize v = Inr a \<Longrightarrow> canonicalize w = Inr b \<Longrightarrow> wf_value v \<Longrightarrow> wf_value w \<Longrightarrow>
   a @ s = b @ t \<Longrightarrow> delim s \<Longrightarrow> delim t \<Longrightarrow> normal v = normal w \<and> s = t"
proof (induction v arbitrary: w a b s t rule: canonicalize.induct)
  case 1
  then have "kind_of w = KNull" using canonicalize_same_kind [of JNull a w b s t] by simp
  with 1 show ?case by (cases w) auto
next
  case (2 x)
  then have "kind_of w = KBool" using canonicalize_same_kind [of "JBool x" a w b s t] by simp
  with 2 show ?case by (cases w) (auto split: if_splits)
next
  case (3 x)
  then have "kind_of w = KStr" using canonicalize_same_kind [of "JStr x" a w b s t] by simp
  with 3 show ?case by (cases w) (auto dest: json_quote_cancel)
next
  case (4 n)
  then have "kind_of w = KNum" using canonicalize_same_kind [of "JNum n" a w b s t] by simp
  then obtain m where w: "w = JNum m" by (cases w) auto
  with 4 have "list_all num_char a" "list_all num_char b"
    using canonical_number_text [of n a] canonical_number_text [of m b] by simp_all
  with 4 have "a = b \<and> s = t" using num_text_cancel [of a b s t] by simp
  with 4 w show ?case using canonical_number_inj [of n a m] by simp
next
  case (5 xs)
  then have "kind_of w = KArr" using canonicalize_same_kind [of "JArr xs" a w b s t] by simp
  then obtain ys where w: "w = JArr ys" by (cases w) auto
  let ?R = "\<lambda>x c. canonicalize x = Inr c"
  from 5 w obtain as bs where as: "list_all2 ?R xs as" and bs: "list_all2 ?R ys bs"
    and eq: "join_with '','' as @ CHR '']'' # s = join_with '','' bs @ CHR '']'' # t"
    by (auto simp: err_simps)
  have "map normal xs = map normal ys \<and> s = t"
  proof (rule join_cancel [OF as bs _ _ _ eq])
    fix x y a b s t
    assume xy: "x \<in> set xs" "y \<in> set ys" "?R x a" "?R y b" "a @ s = b @ t" "delim s" "delim t"
    have "wf_value x" "wf_value y" using "5.prems"(3,4) w xy(1,2) by (auto simp: list_all_iff)
    then show "normal x = normal y \<and> s = t" using "5.IH" [of x a y b s t] xy by simp
  next
    fix x a
    assume "x \<in> set xs \<union> set ys" "?R x a"
    moreover from calculation have "wf_value x"
      using "5.prems"(3,4) w by (auto simp: list_all_iff)
    ultimately have "a \<noteq> [] \<and> hd a \<notin> set '',]}''" using canonicalize_first [of x a] by simp
    then show "a \<noteq> [] \<and> hd a \<noteq> CHR '']''" by auto
  qed simp
  with w show ?case by simp
next
  case (6 fs)
  then have "kind_of w = KObj" using canonicalize_same_kind [of "JObj fs" a w b s t] by simp
  then obtain gs where w: "w = JObj gs" by (cases w) auto
  let ?R = "\<lambda>x c. (\<lambda>(k, v). ebind (canonicalize v) (\<lambda>c. Inr (json_quote k @ '':'' @ c))) x = Inr c"
  let ?n = "\<lambda>(k, v). (k, normal v)"
  from 6 w obtain as bs where as: "list_all2 ?R (sort_key fst fs) as" and bs: "list_all2 ?R (sort_key fst gs) bs"
    and eq: "join_with '','' as @ CHR ''}'' # s = join_with '','' bs @ CHR ''}'' # t"
    by (auto simp: err_simps mapE_Inr_iff)
  have "map ?n (sort_key fst fs) = map ?n (sort_key fst gs) \<and> s = t"
  proof (rule join_cancel [OF as bs _ _ _ eq])
    fix x y a b s t
    assume xy: "x \<in> set (sort_key fst fs)" "y \<in> set (sort_key fst gs)" "?R x a" "?R y b"
      "a @ s = b @ t" "delim s" "delim t"
    obtain k v l u where kv: "x = (k, v)" "y = (l, u)" by (cases x; cases y) auto
    with xy obtain c d where c: "canonicalize v = Inr c" "a = json_quote k @ '':'' @ c"
      and d: "canonicalize u = Inr d" "b = json_quote l @ '':'' @ d" by (auto simp: err_simps)
    with xy(5) have "json_quote k @ ('':'' @ c @ s) = json_quote l @ ('':'' @ d @ t)" by simp
    then have "k = l" and "c @ s = d @ t" by (auto dest: json_quote_cancel)
    moreover have "wf_value v" "wf_value u"
      using "6.prems"(3,4) w xy(1,2) kv by (auto simp: list_all_iff)
    ultimately show "?n x = ?n y \<and> s = t"
      using "6.IH" [of x k v c u d s t] xy(1,6,7) kv c(1) d(1) by simp
  next
    fix x a
    assume "?R x a"
    from field_text_first [OF this] show "a \<noteq> [] \<and> hd a \<noteq> CHR ''}''" by auto
  qed simp
  with w show ?case by simp
qed auto

text \<open>Canonical JSON depends on the normal form only.\<close>

lemma insort_map_snd:
  "insort_key fst (k, f v) (map (\<lambda>(k, v). (k, f v)) xs) = map (\<lambda>(k, v). (k, f v)) (insort_key fst (k, v) xs)"
  by (induction xs) auto

lemma sort_map_snd:
  "sort_key fst (map (\<lambda>(k, v). (k, f v)) xs) = map (\<lambda>(k, v). (k, f v)) (sort_key fst xs)"
  by (induction xs) (auto simp: insort_map_snd)

lemma mapE_map: "mapE g (map f xs) = mapE (\<lambda>x. g (f x)) xs"
  by (induction xs) simp_all

lemma canonical_number_normal [simp]: "canonical_number (normal_number n) = canonical_number n"
  by (cases n) (simp_all add: canonical_number_def int_to_dec_def nat_to_dec.simps)

lemma canonicalize_normal [simp]: "canonicalize (normal v) = canonicalize v"
proof (induction v rule: canonicalize.induct)
  case (5 xs)
  then have "mapE canonicalize (map normal xs) = mapE canonicalize xs"
    unfolding mapE_map by (intro mapE_cong) auto
  then show ?case by simp
next
  case (6 fs)
  let ?g = "\<lambda>(k, v). ebind (canonicalize v) (\<lambda>c. Inr (json_quote k @ '':'' @ c))"
  let ?n = "\<lambda>(k, v). (k, normal v)"
  have "sort_key fst (map ?n (sort_key fst fs)) = map ?n (sort_key fst fs)"
    unfolding sort_map_snd by (simp add: sort_key_id_if_sorted)
  moreover have "mapE ?g (map ?n (sort_key fst fs)) = mapE ?g (sort_key fst fs)"
    unfolding mapE_map using 6 by (intro mapE_cong) auto
  ultimately show ?case by simp
qed simp_all

lemma canonicalize_eq_iff:
  assumes "canonicalize v = Inr c" "wf_value v" "wf_value w"
  shows "canonicalize w = Inr c \<longleftrightarrow> normal w = normal v"
proof
  assume "canonicalize w = Inr c"
  then show "normal w = normal v"
    using canonicalize_cancel [of w c v c "[]" "[]"] assms by simp
next
  assume "normal w = normal v"
  then show "canonicalize w = Inr c" by (metis assms(1) canonicalize_normal)
qed

lemma canonicalHash_binding:
  assumes "canonicalHash sha v = Inr h" "canonicalHash sha w = Inr h" "wf_value v" "wf_value w"
  shows "normal v = normal w \<or>
         (\<exists>c d. canonicalize v = Inr c \<and> canonicalize w = Inr d \<and> collides sha c d)"
proof -
  from assms(1,2) obtain c d where c: "canonicalize v = Inr c" and d: "canonicalize w = Inr d"
    and eq: "sha256Hex sha c = sha256Hex sha d"
    by (auto simp: canonicalHash_def err_simps)
  show ?thesis
  proof (cases "c = d")
    case True
    with c d assms canonicalize_eq_iff [of v c w] show ?thesis by simp
  next
    case False
    with c d eq show ?thesis by (auto simp: collides_def)
  qed
qed

text \<open>The JSON values, on which \<open>canonicalize\<close> never throws.\<close>

fun finite_number :: "js_number \<Rightarrow> bool" where
  "finite_number NNaN \<longleftrightarrow> False"
| "finite_number (NInf _) \<longleftrightarrow> False"
| "finite_number _ \<longleftrightarrow> True"

fun is_json :: "js_value \<Rightarrow> bool" where
  "is_json JNull \<longleftrightarrow> True"
| "is_json (JBool _) \<longleftrightarrow> True"
| "is_json (JStr _) \<longleftrightarrow> True"
| "is_json (JNum n) \<longleftrightarrow> finite_number n"
| "is_json (JArr xs) \<longleftrightarrow> list_all is_json xs"
| "is_json (JObj fs) \<longleftrightarrow> list_all (\<lambda>(k, v). is_json v) fs"
| "is_json _ \<longleftrightarrow> False"

lemma mapE_ok_iff: "ok (mapE f xs) \<longleftrightarrow> (\<forall>x \<in> set xs. ok (f x))"
  by (induction xs) (auto simp: ebind_def ok_def split: sum.splits)

lemma ok_ebind_Inr [simp]: "ok (ebind m (\<lambda>x. Inr (f x))) \<longleftrightarrow> ok m"
  by (cases m) simp_all

lemma canonicalize_ok_iff: "ok (canonicalize v) \<longleftrightarrow> is_json v"
proof (induction v rule: canonicalize.induct)
  case (4 n)
  then show ?case by (cases n) (simp_all add: canonical_number_def)
next
  case (6 fs)
  then show ?case by (auto simp: mapE_ok_iff list_all_iff)
qed (auto simp: mapE_ok_iff list_all_iff)

end
