(* ===== verification/Schemas.thy ===== *)
theory Schemas
  imports Canonical "HOL-Library.Monad_Syntax"
begin

text \<open>
  \<open>packages/x402-xec-core/src/schemas.ts\<close>: the strict zod schemas of the protocol. A schema is a
  validity predicate on the record it produces, and a parser from an untrusted JavaScript value that
  accepts exactly the objects with the schema's keys and valid fields (\<open>safeParse(v).data\<close>). The
  schemas of zod behave as its documentation says: \<open>strict\<close> objects refuse unknown keys, \<open>literal\<close> is
  \<open>===\<close>, \<open>int().nonnegative().safe()\<close> accepts minus zero. A record field has the prefix of its
  record and otherwise its name in the source.
\<close>

definition X402_VERSION :: int where "X402_VERSION = 1"
definition XEC_MAINNET :: string where "XEC_MAINNET = ''xec:mainnet''"
definition XEC_SCHEME :: string where "XEC_SCHEME = ''exact''"

lemmas protocol_consts = X402_VERSION_def XEC_MAINNET_def XEC_SCHEME_def

subsection \<open>Field formats\<close>

definition is_hash :: "string \<Rightarrow> bool" where
  "is_hash s \<longleftrightarrow> length s = 64 \<and> list_all is_lower_hex s"

definition is_amount :: "string \<Rightarrow> bool" where
  "is_amount s \<longleftrightarrow> is_positive_dec s"

definition is_address :: "string \<Rightarrow> bool" where
  "is_address s \<longleftrightarrow> startsWith s ''ecash:'' \<and>
     (case drop 6 s of [] \<Rightarrow> False
      | c # cs \<Rightarrow> (c = CHR ''q'' \<or> c = CHR ''p'') \<and> 41 \<le> length cs \<and> list_all (\<lambda>d. is_lower d \<or> is_digit d) cs)"

definition is_nonce :: "string \<Rightarrow> bool" where
  "is_nonce s \<longleftrightarrow> 22 \<le> length s \<and> length s \<le> 128 \<and> list_all is_base64url s"

definition is_timestamp :: "int \<Rightarrow> bool" where
  "is_timestamp t \<longleftrightarrow> 0 \<le> t \<and> t \<le> max_safe_integer"

definition is_signature :: "string \<Rightarrow> bool" where
  "is_signature s \<longleftrightarrow> 1 \<le> length s \<and> length s \<le> 1024 \<and> list_all is_base64url s"

lemma is_hash_lower [simp]: "is_hash s \<Longrightarrow> toLowerCase s = s"
  by (simp add: is_hash_def)

subsection \<open>Reading fields of an untrusted object\<close>

definition only_keys :: "js_value \<Rightarrow> string list \<Rightarrow> bool" where
  "only_keys v ks \<longleftrightarrow> list_all (\<lambda>(k, _). k \<in> set ks) (fields_of v)"

definition str_field :: "(string \<Rightarrow> bool) \<Rightarrow> js_value \<Rightarrow> string \<Rightarrow> string option" where
  "str_field p v k = (case prop_of v k of JStr s \<Rightarrow> if p s then Some s else None | _ \<Rightarrow> None)"

definition int_field :: "js_value \<Rightarrow> string \<Rightarrow> int option" where
  "int_field v k = (case prop_of v k of JNum n \<Rightarrow> safe_nonneg n | _ \<Rightarrow> None)"

text \<open>\<open>z.literal(1)\<close>.\<close>

definition version_field :: "js_value \<Rightarrow> string \<Rightarrow> int option" where
  "version_field v k = (if prop_of v k = JNum (NInt X402_VERSION) then Some X402_VERSION else None)"

definition guard :: "bool \<Rightarrow> unit option" where
  "guard b = (if b then Some () else None)"

lemma guard_Some [simp]: "guard b = Some u \<longleftrightarrow> b"
  by (simp add: guard_def)

lemma guard_True [simp]: "guard True = Some ()"
  by (simp add: guard_def)

lemma str_field_Some: "str_field p v k = Some s \<longleftrightarrow> prop_of v k = JStr s \<and> p s"
  by (auto simp: str_field_def split: js_value.splits if_splits)

lemma int_field_Some: "int_field v k = Some i \<longleftrightarrow> (\<exists>n. prop_of v k = JNum n \<and> safe_nonneg n = Some i)"
  by (auto simp: int_field_def split: js_value.splits)

lemma int_field_timestamp: "int_field v k = Some i \<Longrightarrow> is_timestamp i"
  by (auto simp: int_field_Some is_timestamp_def dest: safe_nonneg_range)

lemma version_field_Some:
  "version_field v k = Some i \<longleftrightarrow> i = X402_VERSION \<and> prop_of v k = JNum (NInt X402_VERSION)"
  by (auto simp: version_field_def)

lemmas field_simps_json = str_field_Some int_field_Some version_field_Some

subsection \<open>Invoices\<close>

record invoice =
  inv_x402Version :: int
  inv_scheme :: string
  inv_network :: string
  inv_resourceHash :: string
  inv_amountSats :: string
  inv_payTo :: string
  inv_nonce :: string
  inv_issuedAt :: int
  inv_expiresAt :: int

definition invoice_valid :: "invoice \<Rightarrow> bool" where
  "invoice_valid i \<longleftrightarrow>
     inv_x402Version i = X402_VERSION \<and> inv_scheme i = XEC_SCHEME \<and> inv_network i = XEC_MAINNET \<and>
     is_hash (inv_resourceHash i) \<and> is_amount (inv_amountSats i) \<and> is_address (inv_payTo i) \<and>
     is_nonce (inv_nonce i) \<and> is_timestamp (inv_issuedAt i) \<and> is_timestamp (inv_expiresAt i) \<and>
     inv_issuedAt i < inv_expiresAt i"

definition invoice_keys :: "string list" where
  "invoice_keys = [''x402Version'', ''scheme'', ''network'', ''resourceHash'', ''amountSats'', ''payTo'',
     ''nonce'', ''issuedAt'', ''expiresAt'']"

definition parse_invoice :: "js_value \<Rightarrow> invoice option" where
  "parse_invoice v = do {
     guard (isRecord v \<and> only_keys v invoice_keys);
     ver \<leftarrow> version_field v ''x402Version'';
     sch \<leftarrow> str_field (\<lambda>s. s = XEC_SCHEME) v ''scheme'';
     net \<leftarrow> str_field (\<lambda>s. s = XEC_MAINNET) v ''network'';
     rh \<leftarrow> str_field is_hash v ''resourceHash'';
     amt \<leftarrow> str_field is_amount v ''amountSats'';
     pay \<leftarrow> str_field is_address v ''payTo'';
     non \<leftarrow> str_field is_nonce v ''nonce'';
     iss \<leftarrow> int_field v ''issuedAt'';
     exp \<leftarrow> int_field v ''expiresAt'';
     guard (exp > iss);
     Some \<lparr>inv_x402Version = ver, inv_scheme = sch, inv_network = net, inv_resourceHash = rh,
           inv_amountSats = amt, inv_payTo = pay, inv_nonce = non, inv_issuedAt = iss,
           inv_expiresAt = exp\<rparr> }"

definition invoice_to_json :: "invoice \<Rightarrow> js_value" where
  "invoice_to_json i = JObj
     [(''x402Version'', JNum (NInt (inv_x402Version i))), (''scheme'', JStr (inv_scheme i)),
      (''network'', JStr (inv_network i)), (''resourceHash'', JStr (inv_resourceHash i)),
      (''amountSats'', JStr (inv_amountSats i)), (''payTo'', JStr (inv_payTo i)),
      (''nonce'', JStr (inv_nonce i)), (''issuedAt'', JNum (NInt (inv_issuedAt i))),
      (''expiresAt'', JNum (NInt (inv_expiresAt i)))]"

lemma parse_invoice_valid: "parse_invoice v = Some i \<Longrightarrow> invoice_valid i"
  by (auto simp: parse_invoice_def invoice_valid_def bind_eq_Some_conv str_field_Some
      version_field_Some dest: int_field_timestamp)

lemma parse_invoice_to_json: "invoice_valid i \<Longrightarrow> parse_invoice (invoice_to_json i) = Some i"
  by (simp add: parse_invoice_def invoice_to_json_def invoice_valid_def bind_eq_Some_conv only_keys_def
      invoice_keys_def str_field_def int_field_def version_field_def prop_of_def is_timestamp_def)

lemma wf_invoice_json: "invoice_valid i \<Longrightarrow> wf_value (invoice_to_json i)"
  by (simp add: invoice_to_json_def invoice_valid_def is_timestamp_def X402_VERSION_def max_safe_integer_def)

subsection \<open>Authorizations\<close>

record tx_ref =
  ref_txid :: string
  ref_vout :: int

record unsigned_authorization =
  auth_x402Version :: int
  auth_scheme :: string
  auth_network :: string
  auth_invoiceHash :: string
  auth_resourceHash :: string
  auth_amountSats :: string
  auth_payTo :: string
  auth_nonce :: string
  auth_payer :: string
  auth_transaction :: tx_ref

record authorization = unsigned_authorization +
  auth_signature :: string

definition unsigned_valid :: "'a unsigned_authorization_scheme \<Rightarrow> bool" where
  "unsigned_valid a \<longleftrightarrow>
     auth_x402Version a = X402_VERSION \<and> auth_scheme a = XEC_SCHEME \<and> auth_network a = XEC_MAINNET \<and>
     is_hash (auth_invoiceHash a) \<and> is_hash (auth_resourceHash a) \<and> is_amount (auth_amountSats a) \<and>
     is_address (auth_payTo a) \<and> is_nonce (auth_nonce a) \<and> is_address (auth_payer a) \<and>
     is_hash (ref_txid (auth_transaction a)) \<and> is_timestamp (ref_vout (auth_transaction a))"

definition authorization_valid :: "authorization \<Rightarrow> bool" where
  "authorization_valid a \<longleftrightarrow> unsigned_valid a \<and> is_signature (auth_signature a)"

definition tx_ref_to_json :: "tx_ref \<Rightarrow> js_value" where
  "tx_ref_to_json t = JObj [(''txid'', JStr (ref_txid t)), (''vout'', JNum (NInt (ref_vout t)))]"

definition unsigned_fields :: "'a unsigned_authorization_scheme \<Rightarrow> (string \<times> js_value) list" where
  "unsigned_fields a =
     [(''x402Version'', JNum (NInt (auth_x402Version a))), (''scheme'', JStr (auth_scheme a)),
      (''network'', JStr (auth_network a)), (''invoiceHash'', JStr (auth_invoiceHash a)),
      (''resourceHash'', JStr (auth_resourceHash a)), (''amountSats'', JStr (auth_amountSats a)),
      (''payTo'', JStr (auth_payTo a)), (''nonce'', JStr (auth_nonce a)), (''payer'', JStr (auth_payer a)),
      (''transaction'', tx_ref_to_json (auth_transaction a))]"

definition unsigned_to_json :: "'a unsigned_authorization_scheme \<Rightarrow> js_value" where
  "unsigned_to_json a = JObj (unsigned_fields a)"

definition authorization_to_json :: "authorization \<Rightarrow> js_value" where
  "authorization_to_json a = JObj (unsigned_fields a @ [(''signature'', JStr (auth_signature a))])"

definition parse_tx_ref :: "js_value \<Rightarrow> tx_ref option" where
  "parse_tx_ref v = do {
     guard (isRecord v \<and> only_keys v [''txid'', ''vout'']);
     t \<leftarrow> str_field is_hash v ''txid'';
     n \<leftarrow> int_field v ''vout'';
     Some \<lparr>ref_txid = t, ref_vout = n\<rparr> }"

definition authorization_keys :: "string list" where
  "authorization_keys = [''x402Version'', ''scheme'', ''network'', ''invoiceHash'', ''resourceHash'',
     ''amountSats'', ''payTo'', ''nonce'', ''payer'', ''transaction'', ''signature'']"

definition parse_authorization :: "js_value \<Rightarrow> authorization option" where
  "parse_authorization v = do {
     guard (isRecord v \<and> only_keys v authorization_keys);
     ver \<leftarrow> version_field v ''x402Version'';
     sch \<leftarrow> str_field (\<lambda>s. s = XEC_SCHEME) v ''scheme'';
     net \<leftarrow> str_field (\<lambda>s. s = XEC_MAINNET) v ''network'';
     ih \<leftarrow> str_field is_hash v ''invoiceHash'';
     rh \<leftarrow> str_field is_hash v ''resourceHash'';
     amt \<leftarrow> str_field is_amount v ''amountSats'';
     pay \<leftarrow> str_field is_address v ''payTo'';
     non \<leftarrow> str_field is_nonce v ''nonce'';
     payer \<leftarrow> str_field is_address v ''payer'';
     tx \<leftarrow> parse_tx_ref (prop_of v ''transaction'');
     sig \<leftarrow> str_field is_signature v ''signature'';
     Some \<lparr>auth_x402Version = ver, auth_scheme = sch, auth_network = net, auth_invoiceHash = ih,
           auth_resourceHash = rh, auth_amountSats = amt, auth_payTo = pay, auth_nonce = non,
           auth_payer = payer, auth_transaction = tx, auth_signature = sig\<rparr> }"

lemma parse_tx_ref_Some:
  "parse_tx_ref v = Some t \<Longrightarrow> is_hash (ref_txid t) \<and> is_timestamp (ref_vout t)"
  by (auto simp: parse_tx_ref_def bind_eq_Some_conv str_field_Some dest: int_field_timestamp)

lemma parse_authorization_valid: "parse_authorization v = Some a \<Longrightarrow> authorization_valid a"
  by (auto simp: parse_authorization_def authorization_valid_def unsigned_valid_def bind_eq_Some_conv
      str_field_Some version_field_Some dest!: parse_tx_ref_Some)

lemma parse_tx_ref_to_json:
  "is_hash (ref_txid t) \<Longrightarrow> is_timestamp (ref_vout t) \<Longrightarrow> parse_tx_ref (tx_ref_to_json t) = Some t"
  by (simp add: parse_tx_ref_def tx_ref_to_json_def bind_eq_Some_conv only_keys_def str_field_def
      int_field_def prop_of_def is_timestamp_def)

lemma parse_authorization_to_json:
  "authorization_valid a \<Longrightarrow> parse_authorization (authorization_to_json a) = Some a"
  by (simp add: parse_authorization_def authorization_to_json_def unsigned_fields_def
      authorization_valid_def unsigned_valid_def bind_eq_Some_conv only_keys_def authorization_keys_def
      str_field_def version_field_def prop_of_def parse_tx_ref_to_json)

lemma wf_unsigned_json: "unsigned_valid a \<Longrightarrow> wf_value (unsigned_to_json a)"
  by (simp add: unsigned_to_json_def unsigned_fields_def unsigned_valid_def tx_ref_to_json_def
      is_timestamp_def X402_VERSION_def max_safe_integer_def)

lemma wf_authorization_json: "authorization_valid a \<Longrightarrow> wf_value (authorization_to_json a)"
  by (simp add: authorization_to_json_def authorization_valid_def unsigned_fields_def unsigned_valid_def
      tx_ref_to_json_def is_timestamp_def X402_VERSION_def max_safe_integer_def)

subsection \<open>Amounts\<close>

definition parseAmountSats :: "string \<Rightarrow> int result" where
  "parseAmountSats s = (if is_amount s then Inr (int (dec_to_nat s)) else Inl ZodError)"

lemma parseAmountSats_Inr: "parseAmountSats s = Inr n \<longleftrightarrow> is_amount s \<and> n = int (dec_to_nat s)"
  by (auto simp: parseAmountSats_def)

lemma parseAmountSats_pos: "parseAmountSats s = Inr n \<Longrightarrow> 0 < n"
  by (auto simp: parseAmountSats_Inr is_amount_def dest: positive_dec_pos)

lemma parseAmountSats_inj: "parseAmountSats s = Inr n \<Longrightarrow> parseAmountSats t = Inr n \<Longrightarrow> s = t"
  by (metis is_amount_def nat_to_dec_of_positive of_nat_eq_iff parseAmountSats_Inr)

lemma int_to_dec_amount: "0 < n \<Longrightarrow> is_amount (int_to_dec n)"
  by (simp add: is_amount_def int_to_dec_def nat_to_dec_positive)

lemma parseAmountSats_to_dec: "0 < n \<Longrightarrow> parseAmountSats (int_to_dec n) = Inr n"
  using int_to_dec_amount [of n] by (simp add: parseAmountSats_def int_to_dec_def)

lemma int_to_dec_parse: "parseAmountSats s = Inr n \<Longrightarrow> int_to_dec n = s"
  by (auto simp: parseAmountSats_Inr is_amount_def int_to_dec_def nat_to_dec_of_positive)

subsection \<open>Settlement proofs\<close>

record settlement_proof =
  prf_x402Version :: int
  prf_network :: string
  prf_invoiceHash :: string
  prf_txid :: string

definition proof_valid :: "settlement_proof \<Rightarrow> bool" where
  "proof_valid p \<longleftrightarrow> prf_x402Version p = X402_VERSION \<and> prf_network p = XEC_MAINNET \<and>
     is_hash (prf_invoiceHash p) \<and> is_hash (prf_txid p)"

definition parse_proof :: "js_value \<Rightarrow> settlement_proof option" where
  "parse_proof v = do {
     guard (isRecord v \<and> only_keys v [''x402Version'', ''network'', ''invoiceHash'', ''txid'']);
     ver \<leftarrow> version_field v ''x402Version'';
     net \<leftarrow> str_field (\<lambda>s. s = XEC_MAINNET) v ''network'';
     ih \<leftarrow> str_field is_hash v ''invoiceHash'';
     t \<leftarrow> str_field is_hash v ''txid'';
     Some \<lparr>prf_x402Version = ver, prf_network = net, prf_invoiceHash = ih, prf_txid = t\<rparr> }"

definition proof_to_json :: "settlement_proof \<Rightarrow> js_value" where
  "proof_to_json p = JObj
     [(''x402Version'', JNum (NInt (prf_x402Version p))), (''network'', JStr (prf_network p)),
      (''invoiceHash'', JStr (prf_invoiceHash p)), (''txid'', JStr (prf_txid p))]"

lemma parse_proof_valid: "parse_proof v = Some p \<Longrightarrow> proof_valid p"
  by (auto simp: parse_proof_def proof_valid_def bind_eq_Some_conv str_field_Some version_field_Some)

lemma parse_proof_to_json: "proof_valid p \<Longrightarrow> parse_proof (proof_to_json p) = Some p"
  by (simp add: parse_proof_def proof_to_json_def proof_valid_def bind_eq_Some_conv only_keys_def
      str_field_def version_field_def prop_of_def)

text \<open>\<open>createSettlementProof\<close>: an absent \<open>network\<close> is the mainnet.\<close>

definition createSettlementProof :: "string \<Rightarrow> string \<Rightarrow> string option \<Rightarrow> settlement_proof result" where
  "createSettlementProof invoiceHash txid network =
     (let p = \<lparr>prf_x402Version = X402_VERSION,
               prf_network = (case network of None \<Rightarrow> XEC_MAINNET | Some n \<Rightarrow> n),
               prf_invoiceHash = invoiceHash, prf_txid = txid\<rparr>
      in if proof_valid p then Inr p else Inl ZodError)"

record settlement_receipt =
  rcp_txid :: string
  rcp_network :: "string option"

definition createSettlementProofFromReceipt :: "settlement_receipt \<Rightarrow> string \<Rightarrow> settlement_proof result" where
  "createSettlementProofFromReceipt receipt invoiceHash =
     createSettlementProof invoiceHash (rcp_txid receipt)
       (Some (case rcp_network receipt of None \<Rightarrow> XEC_MAINNET | Some n \<Rightarrow> n))"

lemma createSettlementProof_parse:
  "createSettlementProof h t n = Inr p \<Longrightarrow> parse_proof (proof_to_json p) = Some p"
  by (auto simp: createSettlementProof_def Let_def parse_proof_to_json split: if_splits)

end
