(* ===== verification/Resource.thy ===== *)
theory Resource
  imports Schemas
begin

text \<open>
  \<open>packages/x402-xec-core/src/resource.ts\<close>: the resource that an invoice is bound to, and its hash.
  The record \<open>runtime\<close> gathers the functions of the JavaScript runtime that the code calls and that
  are not under \<open>src/\<close>: SHA-256, the WHATWG URL parser (\<open>None\<close> where \<open>new URL\<close> throws), and the
  order in which \<open>Array.prototype.sort\<close> leaves its input when the comparator is not consistent, which
  happens for query keys that are not strings only. An absent \<open>query\<close> or \<open>body\<close> is \<open>JUndef\<close>.
\<close>

record url =
  url_protocol :: string
  url_username :: string
  url_password :: string
  url_pathname :: string
  url_search :: string
  url_hash :: string
  url_origin :: string

record runtime =
  rt_sha256 :: hasher
  rt_url :: "string \<Rightarrow> url option"
  rt_sort :: "(js_value \<times> js_value) list \<Rightarrow> (js_value \<times> js_value) list"

record resource_request =
  res_serverOrigin :: string
  res_method :: string
  res_path :: string
  res_query :: js_value
  res_body :: js_value

subsection \<open>Normalisation\<close>

definition normalizeServerOrigin :: "runtime \<Rightarrow> string \<Rightarrow> string result" where
  "normalizeServerOrigin E input = (case rt_url E input of
     None \<Rightarrow> Inl (TypeError ''serverOrigin must be an absolute URL'')
   | Some u \<Rightarrow>
       if url_protocol u \<noteq> ''https:'' \<and> url_protocol u \<noteq> ''http:'' then
         Inl (TypeError ''serverOrigin must use http or https'')
       else if url_username u \<noteq> [] \<or> url_password u \<noteq> [] then
         Inl (TypeError ''serverOrigin must not contain credentials'')
       else if url_pathname u \<noteq> ''/'' \<or> url_search u \<noteq> [] \<or> url_hash u \<noteq> [] then
         Inl (TypeError ''serverOrigin must not contain a path, query, or fragment'')
       else Inr (url_origin u))"

text \<open>\<open>HTTP_TOKEN\<close>.\<close>

definition is_token_char :: "char \<Rightarrow> bool" where
  "is_token_char c \<longleftrightarrow> c \<in> set ''!#$%&*+-.^_|~'' \<or> code c = 39 \<or> code c = 96 \<or>
     is_digit c \<or> is_upper c \<or> is_lower c"

definition is_http_token :: "string \<Rightarrow> bool" where
  "is_http_token s \<longleftrightarrow> s \<noteq> [] \<and> list_all is_token_char s"

definition normalizeMethod :: "string \<Rightarrow> string result" where
  "normalizeMethod m =
     (if \<not> is_http_token m then Inl (TypeError ''method must be a valid HTTP token'')
      else Inr (toUpperCase m))"

definition validatePath :: "string \<Rightarrow> string result" where
  "validatePath p =
     (if \<not> startsWith p ''/'' \<or> startsWith p ''//'' \<or> str_includes p ''?'' \<or> str_includes p ''#''
      then Inl (TypeError ''path must be origin-form without query or fragment'')
      else Inr p)"

text \<open>
  \<open>canonicalQuery\<close> takes its argument from typed callers (an array of pairs of strings) and, in
  \<open>validatePaymentRequired\<close>, unchecked from the network. \<open>query_pair\<close> is the array destructuring
  \<open>[key, value]\<close> of one element: missing positions are \<open>undefined\<close>, strings are iterated by character,
  other values are not iterable. The sort is by key only and stable (the index breaks ties).
\<close>

definition nth_or_undef :: "js_value list \<Rightarrow> nat \<Rightarrow> js_value" where
  "nth_or_undef xs i = (if i < length xs then xs ! i else JUndef)"

definition query_pair :: "js_value \<Rightarrow> (js_value \<times> js_value) result" where
  "query_pair v = (case v of
     JArr xs \<Rightarrow> Inr (nth_or_undef xs 0, nth_or_undef xs 1)
   | JStr s \<Rightarrow> Inr (nth_or_undef (map (\<lambda>c. JStr [c]) s) 0, nth_or_undef (map (\<lambda>c. JStr [c]) s) 1)
   | _ \<Rightarrow> Inl (TypeError ''value is not iterable''))"

fun str_of :: "js_value \<Rightarrow> string" where
  "str_of (JStr s) = s"
| "str_of _ = []"

fun is_str :: "js_value \<Rightarrow> bool" where
  "is_str (JStr s) \<longleftrightarrow> True"
| "is_str _ \<longleftrightarrow> False"

definition sort_pairs :: "runtime \<Rightarrow> (js_value \<times> js_value) list \<Rightarrow> (js_value \<times> js_value) list" where
  "sort_pairs E ps =
     (if list_all (\<lambda>(k, _). is_str k) ps then sort_key (\<lambda>(k, _). str_of k) ps else rt_sort E ps)"

definition canonicalQuery :: "runtime \<Rightarrow> js_value \<Rightarrow> js_value result" where
  "canonicalQuery E q = (case q of
     JUndef \<Rightarrow> Inr (JArr [])
   | JArr xs \<Rightarrow> ebind (mapE query_pair xs) (\<lambda>ps. Inr (JArr (map (\<lambda>(k, v). JArr [k, v]) (sort_pairs E ps))))
   | JNull \<Rightarrow> Inl (TypeError ''Cannot read properties of null'')
   | _ \<Rightarrow> Inl (TypeError ''query.map is not a function''))"

text \<open>\<open>request.body ?? null\<close>.\<close>

definition body_or_null :: "js_value \<Rightarrow> js_value" where
  "body_or_null b = (case b of JUndef \<Rightarrow> JNull | _ \<Rightarrow> b)"

definition body_and_query_json :: "runtime \<Rightarrow> resource_request \<Rightarrow> js_value result" where
  "body_and_query_json E r =
     ebind (canonicalQuery E (res_query r)) (\<lambda>q.
       Inr (JObj [(''body'', body_or_null (res_body r)), (''query'', q)]))"

definition computeBodyAndQueryHash :: "runtime \<Rightarrow> resource_request \<Rightarrow> string result" where
  "computeBodyAndQueryHash E r = ebind (body_and_query_json E r) (canonicalHash (rt_sha256 E))"

definition resource_json :: "runtime \<Rightarrow> resource_request \<Rightarrow> js_value result" where
  "resource_json E r =
     ebind (computeBodyAndQueryHash E r) (\<lambda>bq.
     ebind (normalizeMethod (res_method r)) (\<lambda>m.
     ebind (validatePath (res_path r)) (\<lambda>p.
     ebind (normalizeServerOrigin E (res_serverOrigin r)) (\<lambda>so.
       Inr (JObj [(''bodyAndQueryHash'', JStr bq), (''method'', JStr m), (''path'', JStr p),
                  (''serverOrigin'', JStr so)])))))"

definition computeResourceHash :: "runtime \<Rightarrow> resource_request \<Rightarrow> string result" where
  "computeResourceHash E r = ebind (resource_json E r) (canonicalHash (rt_sha256 E))"

subsection \<open>What the hash binds\<close>

definition wf_resource :: "runtime \<Rightarrow> resource_request \<Rightarrow> bool" where
  "wf_resource E r \<longleftrightarrow> wf_value (res_body r) \<and> wf_value (res_query r) \<and>
     (\<forall>q. canonicalQuery E (res_query r) = Inr q \<longrightarrow> wf_value q)"

text \<open>The request as far as the protocol tells requests apart.\<close>

definition resource_view ::
  "runtime \<Rightarrow> resource_request \<Rightarrow> string result \<times> string result \<times> string result \<times> js_value \<times> js_value result" where
  "resource_view E r =
     (normalizeServerOrigin E (res_serverOrigin r), normalizeMethod (res_method r), validatePath (res_path r),
      normal (body_or_null (res_body r)),
      ebind (canonicalQuery E (res_query r)) (\<lambda>q. Inr (normal q)))"

text \<open>The two texts that are hashed for a request.\<close>

definition hashed_texts :: "runtime \<Rightarrow> resource_request \<Rightarrow> string set" where
  "hashed_texts E r =
     {c. ebind (body_and_query_json E r) canonicalize = Inr c \<or> ebind (resource_json E r) canonicalize = Inr c}"

lemma normal_obj_fields:
  assumes "normal (JObj fs) = normal (JObj gs)" "distinct (map fst fs)" "distinct (map fst gs)"
  shows "map_option normal (map_of fs k) = map_option normal (map_of gs k)"
proof -
  let ?n = "\<lambda>(k, v). (k, normal v)"
  have keys: "map fst (map ?n xs) = map fst xs" for xs :: "(string \<times> js_value) list"
    by (induction xs) auto
  from assms(1) have "map ?n (sort_key fst fs) = map ?n (sort_key fst gs)" by simp
  then have "set (map ?n (sort_key fst fs)) = set (map ?n (sort_key fst gs))" by (rule arg_cong)
  then have "set (map ?n fs) = set (map ?n gs)" by simp
  moreover have "distinct (map fst (map ?n fs))" "distinct (map fst (map ?n gs))"
    using assms(2,3) by (simp_all only: keys)
  ultimately have eq: "map_of (map ?n fs) = map_of (map ?n gs)"
    using map_of_inject_set by blast
  have lookup: "map_of (map ?n xs) k = map_option normal (map_of xs k)" for xs
    by (induction xs) auto
  from eq show ?thesis by (simp only: lookup [symmetric])
qed

lemma canonicalHash_obj_binding:
  assumes "canonicalHash sha (JObj fs) = Inr h" "canonicalHash sha (JObj gs) = Inr h"
    and "wf_value (JObj fs)" "wf_value (JObj gs)"
  shows "(\<forall>k. map_option normal (map_of fs k) = map_option normal (map_of gs k)) \<or>
         (\<exists>c d. canonicalize (JObj fs) = Inr c \<and> canonicalize (JObj gs) = Inr d \<and> collides sha c d)"
  using canonicalHash_binding [OF assms]
proof
  assume "normal (JObj fs) = normal (JObj gs)"
  moreover have "distinct (map fst fs)" "distinct (map fst gs)" using assms(3,4) by simp_all
  ultimately show ?thesis using normal_obj_fields by blast
qed blast

lemma computeBodyAndQueryHash_binding:
  assumes "computeBodyAndQueryHash E r = Inr h" "computeBodyAndQueryHash E s = Inr h"
    and "wf_resource E r" "wf_resource E s"
  shows "normal (body_or_null (res_body r)) = normal (body_or_null (res_body s)) \<and>
         ebind (canonicalQuery E (res_query r)) (\<lambda>q. Inr (normal q)) =
           (ebind (canonicalQuery E (res_query s)) (\<lambda>q. Inr (normal q)) :: js_value result) \<or>
         (\<exists>c \<in> hashed_texts E r. \<exists>d \<in> hashed_texts E s. collides (rt_sha256 E) c d)"
proof -
  from assms(1,2) obtain p q where p: "canonicalQuery E (res_query r) = Inr p"
    and q: "canonicalQuery E (res_query s) = Inr q"
    by (auto simp: computeBodyAndQueryHash_def body_and_query_json_def err_simps)
  let ?f = "[(''body'', body_or_null (res_body r)), (''query'', p)]"
  let ?g = "[(''body'', body_or_null (res_body s)), (''query'', q)]"
  have f: "body_and_query_json E r = Inr (JObj ?f)" and g: "body_and_query_json E s = Inr (JObj ?g)"
    using p q by (simp_all add: body_and_query_json_def)
  have "wf_value (body_or_null b)" if "wf_value b" for b
    using that by (cases b) (simp_all add: body_or_null_def)
  then have "wf_value (JObj ?f)" "wf_value (JObj ?g)"
    using assms(3,4) p q by (simp_all add: wf_resource_def)
  moreover have "canonicalHash (rt_sha256 E) (JObj ?f) = Inr h" "canonicalHash (rt_sha256 E) (JObj ?g) = Inr h"
    using assms(1,2) f g by (simp_all add: computeBodyAndQueryHash_def)
  ultimately consider
      "\<forall>k. map_option normal (map_of ?f k) = map_option normal (map_of ?g k)"
    | c d where "canonicalize (JObj ?f) = Inr c" "canonicalize (JObj ?g) = Inr d" "collides (rt_sha256 E) c d"
    using canonicalHash_obj_binding by blast
  then show ?thesis
  proof cases
    case 1
    from 1 [THEN spec, of "''body''"] 1 [THEN spec, of "''query''"] p q show ?thesis by simp
  next
    case 2
    with f g have "c \<in> hashed_texts E r" "d \<in> hashed_texts E s"
      by (simp_all add: hashed_texts_def)
    with 2 show ?thesis by blast
  qed
qed

text \<open>Requests with one resource hash agree on origin, method, path, body and query.\<close>

lemma computeResourceHash_view:
  assumes "computeResourceHash E r = Inr h" "computeResourceHash E s = Inr h"
    and "wf_resource E r" "wf_resource E s"
  shows "resource_view E r = resource_view E s \<or>
         (\<exists>c \<in> hashed_texts E r. \<exists>d \<in> hashed_texts E s. collides (rt_sha256 E) c d)"
proof -
  from assms(1) obtain b m p so where r: "computeBodyAndQueryHash E r = Inr b"
    "normalizeMethod (res_method r) = Inr m" "validatePath (res_path r) = Inr p"
    "normalizeServerOrigin E (res_serverOrigin r) = Inr so"
    by (auto simp: computeResourceHash_def resource_json_def err_simps)
  from assms(2) obtain b' m' p' so' where s: "computeBodyAndQueryHash E s = Inr b'"
    "normalizeMethod (res_method s) = Inr m'" "validatePath (res_path s) = Inr p'"
    "normalizeServerOrigin E (res_serverOrigin s) = Inr so'"
    by (auto simp: computeResourceHash_def resource_json_def err_simps)
  let ?f = "[(''bodyAndQueryHash'', JStr b), (''method'', JStr m), (''path'', JStr p), (''serverOrigin'', JStr so)]"
  let ?g = "[(''bodyAndQueryHash'', JStr b'), (''method'', JStr m'), (''path'', JStr p'), (''serverOrigin'', JStr so')]"
  have f: "resource_json E r = Inr (JObj ?f)" and g: "resource_json E s = Inr (JObj ?g)"
    using r s by (simp_all add: resource_json_def)
  have "wf_value (JObj ?f)" "wf_value (JObj ?g)" by simp_all
  moreover have "canonicalHash (rt_sha256 E) (JObj ?f) = Inr h" "canonicalHash (rt_sha256 E) (JObj ?g) = Inr h"
    using assms(1,2) f g by (simp_all add: computeResourceHash_def)
  ultimately consider
      "\<forall>k. map_option normal (map_of ?f k) = map_option normal (map_of ?g k)"
    | c d where "canonicalize (JObj ?f) = Inr c" "canonicalize (JObj ?g) = Inr d" "collides (rt_sha256 E) c d"
    using canonicalHash_obj_binding by blast
  then show ?thesis
  proof cases
    case 1
    from 1 [THEN spec, of "''bodyAndQueryHash''"] 1 [THEN spec, of "''method''"]
      1 [THEN spec, of "''path''"] 1 [THEN spec, of "''serverOrigin''"]
    have eq: "b = b'" "m = m'" "p = p'" "so = so'" by simp_all
    with r s computeBodyAndQueryHash_binding [of E r b s] assms(3,4) show ?thesis
      by (auto simp: resource_view_def)
  next
    case 2
    with f g have "c \<in> hashed_texts E r" "d \<in> hashed_texts E s"
      by (simp_all add: hashed_texts_def)
    with 2 show ?thesis by blast
  qed
qed

subsection \<open>Typed queries\<close>

text \<open>The query of a \<open>ResourceRequest\<close> from typed code: pairs of strings.\<close>

definition typed_query :: "(string \<times> string) list \<Rightarrow> js_value" where
  "typed_query ps = JArr (map (\<lambda>(k, v). JArr [JStr k, JStr v]) ps)"

lemma mapE_total_map: "(\<And>x. x \<in> set xs \<Longrightarrow> f x = Inr (g x)) \<Longrightarrow> mapE f xs = Inr (map g xs)"
  by (induction xs) simp_all

lemma insort_map_inj:
  "(\<And>x. f' (g x) = f x) \<Longrightarrow> insort_key f' (g x) (map g xs) = map g (insort_key f x xs)"
  by (induction xs) auto

lemma sort_key_map: "(\<And>x. f' (g x) = f x) \<Longrightarrow> sort_key f' (map g xs) = map g (sort_key f xs)"
  by (induction xs) (auto simp: insort_map_inj)

lemma canonicalQuery_typed:
  "canonicalQuery E (typed_query ps) = Inr (typed_query (sort_key fst ps))"
proof -
  let ?j = "\<lambda>(k, v). (JStr k, JStr v)"
  have "mapE query_pair (map (\<lambda>(k, v). JArr [JStr k, JStr v]) ps) = Inr (map ?j ps)"
    by (induction ps) (auto simp: query_pair_def nth_or_undef_def)
  moreover have "sort_pairs E (map ?j ps) = map ?j (sort_key fst ps)"
    unfolding sort_pairs_def
    by (auto simp: list_all_iff intro!: sort_key_map)
  ultimately show ?thesis
    by (auto simp: canonicalQuery_def typed_query_def)
qed

lemma wf_typed_query: "wf_value (typed_query ps)"
  by (auto simp: typed_query_def list_all_iff)

lemma wf_resource_typed:
  "wf_value (res_body r) \<Longrightarrow> res_query r = JUndef \<or> res_query r = typed_query ps \<Longrightarrow> wf_resource E r"
  by (auto simp: wf_resource_def canonicalQuery_typed wf_typed_query) (auto simp: canonicalQuery_def)

end
