(* ===== verification/Invoice.thy ===== *)
theory Invoice
  imports Resource
begin

text \<open>
  \<open>packages/x402-xec-core/src/invoice.ts\<close>: creating an invoice for a request and hashing it. The
  lemmas show when creation succeeds, that an invoice hash binds every field of the invoice, and that
  an invoice is bound to the request it was created for.
\<close>

record create_invoice_input =
  cin_request :: resource_request
  cin_amountSats :: int
  cin_payTo :: string
  cin_nonce :: string
  cin_issuedAt :: int
  cin_expiresAt :: int

text \<open>\<open>invoiceSchema.parse\<close> on an object literal with the schema's keys: the fields are checked.\<close>

definition check_invoice :: "invoice \<Rightarrow> invoice result" where
  "check_invoice i = (if invoice_valid i then Inr i else Inl ZodError)"

definition createInvoice :: "runtime \<Rightarrow> create_invoice_input \<Rightarrow> invoice result" where
  "createInvoice E input =
     (if cin_amountSats input \<le> 0 then Inl (RangeError ''amountSats must be positive'')
      else ebind (computeResourceHash E (cin_request input)) (\<lambda>h.
        check_invoice
          \<lparr>inv_x402Version = X402_VERSION, inv_scheme = XEC_SCHEME, inv_network = XEC_MAINNET,
           inv_resourceHash = h, inv_amountSats = int_to_dec (cin_amountSats input),
           inv_payTo = cin_payTo input, inv_nonce = cin_nonce input,
           inv_issuedAt = cin_issuedAt input, inv_expiresAt = cin_expiresAt input\<rparr>))"

definition computeInvoiceHash :: "runtime \<Rightarrow> invoice \<Rightarrow> string result" where
  "computeInvoiceHash E i =
     ebind (check_invoice i) (\<lambda>j. canonicalHash (rt_sha256 E) (invoice_to_json j))"

lemma check_invoice_Inr [simp]: "check_invoice i = Inr j \<longleftrightarrow> invoice_valid i \<and> j = i"
  by (auto simp: check_invoice_def)

lemma invoice_to_json_finite: "\<exists>c. canonicalize (invoice_to_json i) = Inr c"
  using canonicalize_ok_iff [of "invoice_to_json i"] unfolding ok_iff by (simp add: invoice_to_json_def)

lemma createInvoice_Inr:
  "createInvoice E input = Inr i \<longleftrightarrow>
     0 < cin_amountSats input \<and> invoice_valid i \<and>
     computeResourceHash E (cin_request input) = Inr (inv_resourceHash i) \<and>
     inv_amountSats i = int_to_dec (cin_amountSats input) \<and> inv_payTo i = cin_payTo input \<and>
     inv_nonce i = cin_nonce input \<and> inv_issuedAt i = cin_issuedAt input \<and>
     inv_expiresAt i = cin_expiresAt input"
  by (cases i) (auto simp: createInvoice_def err_simps invoice_valid_def)

lemma computeInvoiceHash_Inr:
  "computeInvoiceHash E i = Inr h \<longleftrightarrow>
     invoice_valid i \<and> canonicalHash (rt_sha256 E) (invoice_to_json i) = Inr h"
  by (auto simp: computeInvoiceHash_def err_simps)

lemma computeInvoiceHash_total: "invoice_valid i \<Longrightarrow> \<exists>h. computeInvoiceHash E i = Inr h"
  using invoice_to_json_finite [of i] by (auto simp: computeInvoiceHash_def canonicalHash_def check_invoice_def)

lemma invoice_to_json_normal_inj:
  assumes "normal (invoice_to_json i) = normal (invoice_to_json j)"
  shows "i = j"
proof -
  have obj: "invoice_to_json m = JObj (fields_of (invoice_to_json m))"
    and keys: "distinct (map fst (fields_of (invoice_to_json m)))" for m
    by (simp_all add: invoice_to_json_def)
  have "map_option normal (map_of (fields_of (invoice_to_json i)) k) =
        map_option normal (map_of (fields_of (invoice_to_json j)) k)" for k
    by (rule normal_obj_fields [OF _ keys keys]) (simp only: obj [symmetric] assms)
  from this [of "''x402Version''"] this [of "''scheme''"] this [of "''network''"]
    this [of "''resourceHash''"] this [of "''amountSats''"] this [of "''payTo''"] this [of "''nonce''"]
    this [of "''issuedAt''"] this [of "''expiresAt''"]
  show ?thesis by (cases i; cases j) (simp add: invoice_to_json_def)
qed

text \<open>The canonical text of an invoice, over which the hash is taken.\<close>

definition invoice_text :: "invoice \<Rightarrow> string" where
  "invoice_text i = (case canonicalize (invoice_to_json i) of Inr c \<Rightarrow> c | Inl _ \<Rightarrow> [])"

lemma canonicalize_invoice: "canonicalize (invoice_to_json i) = Inr (invoice_text i)"
  using invoice_to_json_finite [of i] by (auto simp: invoice_text_def)

lemma computeInvoiceHash_text:
  "computeInvoiceHash E i = Inr h \<longleftrightarrow> invoice_valid i \<and> h = sha256Hex (rt_sha256 E) (invoice_text i)"
  by (auto simp: computeInvoiceHash_Inr canonicalHash_def canonicalize_invoice)

lemma invoice_text_inj:
  assumes "invoice_text i = invoice_text j" "invoice_valid i" "invoice_valid j"
  shows "i = j"
  using assms canonicalize_eq_iff [of "invoice_to_json i" _ "invoice_to_json j"]
  by (auto simp: canonicalize_invoice wf_invoice_json intro: invoice_to_json_normal_inj)

lemma invoice_hash_binds:
  assumes "computeInvoiceHash E i = Inr h" "computeInvoiceHash E j = Inr h"
  shows "i = j \<or> collides (rt_sha256 E) (invoice_text i) (invoice_text j)"
  using assms invoice_text_inj [of i j] by (auto simp: computeInvoiceHash_text collides_def)

text \<open>An invoice serves the request it was created for: its resource hash is the request's.\<close>

lemma createInvoice_same_resource:
  assumes "createInvoice E c = Inr i" "createInvoice E d = Inr j"
    and "inv_resourceHash i = inv_resourceHash j"
    and "wf_resource E (cin_request c)" "wf_resource E (cin_request d)"
  shows "resource_view E (cin_request c) = resource_view E (cin_request d) \<or>
    (\<exists>s \<in> hashed_texts E (cin_request c). \<exists>t \<in> hashed_texts E (cin_request d). collides (rt_sha256 E) s t)"
  using assms computeResourceHash_view [of E "cin_request c" "inv_resourceHash i" "cin_request d"]
  by (simp add: createInvoice_Inr)

end
