(* ===== verification/Invoice_Store.thy ===== *)
theory Invoice_Store
  imports Invoice
begin

text \<open>
  \<open>packages/x402-xec-core/src/invoice-store.ts\<close>: the server's authority over its invoices. The
  interface \<open>AuthoritativeInvoiceStore\<close> is the locale \<open>invoice_store\<close>, whose laws read the state as a
  map from invoice hashes to records (the abstract specification of a store). Inside it, any
  sequence of operations is shown to settle an invoice once, by one transaction that settles no other
  invoice. Stores are instances of it in \<open>Memory_Store\<close> and \<open>Sqlite_Store\<close>. The methods of a store
  run one at a time (a promise queue, or SQLite's write lock), so each is one step on the state.
\<close>

subsection \<open>Records and results\<close>

datatype invoice_state = ISSUED | VERIFYING | PAID

record invoice_record =
  rec_invoiceHash :: string
  rec_nonce :: string
  rec_resourceHash :: string
  rec_amountSats :: int
  rec_payTo :: string
  rec_network :: string
  rec_scheme :: string
  rec_issuedAt :: int
  rec_expiresAt :: int
  rec_state :: invoice_state
  rec_settledTxid :: "string option"
  rec_settledAt :: "int option"
  rec_derivationIndex :: "int option"

datatype commit_code = C_INVOICE_NOT_FOUND | C_CONFLICT | C_TXID_REUSED

datatype commit_result = Committed bool invoice_record | Refused commit_code string

record issue_params =
  ip_nonce :: string
  ip_resourceHash :: string
  ip_amountSats :: int
  ip_network :: "string option"
  ip_scheme :: "string option"
  ip_issuedAt :: int
  ip_expiresAt :: int
  ip_state :: "invoice_state option"

type_synonym allocator = "int \<Rightarrow> string result"
type_synonym issued = "invoice_record \<times> invoice"
type_synonym authority = "string \<Rightarrow> invoice_record option"

text \<open>\<open>x ?? d\<close>.\<close>

definition or_default :: "'a option \<Rightarrow> 'a \<Rightarrow> 'a" where
  "or_default x d = (case x of None \<Rightarrow> d | Some y \<Rightarrow> y)"

text \<open>The invoice that \<open>issueWithAllocation\<close> builds for an address, and the record it keeps of it.\<close>

definition allocated_invoice :: "issue_params \<Rightarrow> string \<Rightarrow> invoice" where
  "allocated_invoice p payTo =
     \<lparr>inv_x402Version = X402_VERSION, inv_scheme = or_default (ip_scheme p) XEC_SCHEME,
      inv_network = or_default (ip_network p) XEC_MAINNET, inv_resourceHash = ip_resourceHash p,
      inv_amountSats = int_to_dec (ip_amountSats p), inv_payTo = payTo, inv_nonce = ip_nonce p,
      inv_issuedAt = ip_issuedAt p, inv_expiresAt = ip_expiresAt p\<rparr>"

definition allocated_record :: "issue_params \<Rightarrow> string \<Rightarrow> string \<Rightarrow> int \<Rightarrow> invoice_record" where
  "allocated_record p invoiceHash payTo derivationIndex =
     \<lparr>rec_invoiceHash = invoiceHash, rec_nonce = ip_nonce p, rec_resourceHash = ip_resourceHash p,
      rec_amountSats = ip_amountSats p, rec_payTo = payTo,
      rec_network = or_default (ip_network p) XEC_MAINNET, rec_scheme = or_default (ip_scheme p) XEC_SCHEME,
      rec_issuedAt = ip_issuedAt p, rec_expiresAt = ip_expiresAt p,
      rec_state = or_default (ip_state p) ISSUED, rec_settledTxid = None, rec_settledAt = None,
      rec_derivationIndex = Some derivationIndex\<rparr>"

text \<open>The record after its payment.\<close>

definition pay_record :: "invoice_record \<Rightarrow> string \<Rightarrow> int \<Rightarrow> invoice_record" where
  "pay_record r txid paidAt =
     r\<lparr>rec_state := PAID, rec_settledTxid := Some txid, rec_settledAt := Some paidAt\<rparr>"

lemma pay_record_simps [simp]:
  "rec_invoiceHash (pay_record r t p) = rec_invoiceHash r" "rec_nonce (pay_record r t p) = rec_nonce r"
  "rec_resourceHash (pay_record r t p) = rec_resourceHash r"
  "rec_amountSats (pay_record r t p) = rec_amountSats r" "rec_payTo (pay_record r t p) = rec_payTo r"
  "rec_network (pay_record r t p) = rec_network r" "rec_scheme (pay_record r t p) = rec_scheme r"
  "rec_issuedAt (pay_record r t p) = rec_issuedAt r" "rec_expiresAt (pay_record r t p) = rec_expiresAt r"
  "rec_state (pay_record r t p) = PAID" "rec_settledTxid (pay_record r t p) = Some t"
  "rec_settledAt (pay_record r t p) = Some p"
  "rec_derivationIndex (pay_record r t p) = rec_derivationIndex r"
  by (simp_all add: pay_record_def)

lemma allocated_record_simps [simp]:
  "rec_invoiceHash (allocated_record p h a k) = h" "rec_nonce (allocated_record p h a k) = ip_nonce p"
  "rec_payTo (allocated_record p h a k) = a" "rec_settledTxid (allocated_record p h a k) = None"
  "rec_derivationIndex (allocated_record p h a k) = Some k"
  "rec_state (allocated_record p h a k) = or_default (ip_state p) ISSUED"
  by (simp_all add: allocated_record_def)

subsection \<open>The authority that a store keeps\<close>

definition settled_by :: "authority \<Rightarrow> string \<Rightarrow> string \<Rightarrow> bool" where
  "settled_by m h t \<longleftrightarrow> (\<exists>r. m h = Some r \<and> rec_settledTxid r = Some t)"

definition record_ok :: "invoice_record \<Rightarrow> bool" where
  "record_ok r \<longleftrightarrow> (rec_state r = PAID \<longleftrightarrow> rec_settledTxid r \<noteq> None) \<and>
     (\<forall>t. rec_settledTxid r = Some t \<longrightarrow> toLowerCase t = t)"

text \<open>Hashes name their records, nonces are used once, and a transaction settles one invoice.\<close>

definition authority_ok :: "authority \<Rightarrow> bool" where
  "authority_ok m \<longleftrightarrow>
     (\<forall>h r. m h = Some r \<longrightarrow> rec_invoiceHash r = h \<and> record_ok r) \<and>
     (\<forall>h k r s. m h = Some r \<and> m k = Some s \<and> rec_nonce r = rec_nonce s \<longrightarrow> h = k) \<and>
     (\<forall>h k t. settled_by m h t \<and> settled_by m k t \<longrightarrow> h = k)"

text \<open>A record as \<open>issue\<close> expects it: freshly issued, so neither paid nor settled.\<close>

definition fresh_record :: "invoice_record \<Rightarrow> bool" where
  "fresh_record r \<longleftrightarrow> rec_state r \<noteq> PAID \<and> rec_settledTxid r = None"

definition fresh_params :: "issue_params \<Rightarrow> bool" where
  "fresh_params p \<longleftrightarrow> ip_state p \<noteq> Some PAID"

definition unused_nonce :: "authority \<Rightarrow> string \<Rightarrow> bool" where
  "unused_nonce m n \<longleftrightarrow> (\<forall>h r. m h = Some r \<longrightarrow> rec_nonce r \<noteq> n)"

text \<open>What the operations may do to the authority.\<close>

definition issue_spec :: "authority \<Rightarrow> invoice_record \<Rightarrow> unit result \<Rightarrow> authority \<Rightarrow> bool" where
  "issue_spec m r res m' \<longleftrightarrow> (case res of
     Inl _ \<Rightarrow> m' = m
   | Inr _ \<Rightarrow> m (rec_invoiceHash r) = None \<and> unused_nonce m (rec_nonce r) \<and>
       (\<exists>k. m' = m(rec_invoiceHash r \<mapsto> r\<lparr>rec_derivationIndex := k\<rparr>)))"

definition alloc_spec ::
  "runtime \<Rightarrow> authority \<Rightarrow> issue_params \<Rightarrow> allocator \<Rightarrow> issued result \<Rightarrow> authority \<Rightarrow> bool" where
  "alloc_spec E m p allocator res m' \<longleftrightarrow> (case res of
     Inl _ \<Rightarrow> m' = m
   | Inr (r, i) \<Rightarrow>
       (\<exists>k h payTo. allocator k = Inr payTo \<and> i = allocated_invoice p payTo \<and>
          computeInvoiceHash E i = Inr h \<and> r = allocated_record p h payTo k \<and>
          m h = None \<and> unused_nonce m (ip_nonce p) \<and>
          (\<forall>g s. m g = Some s \<longrightarrow> rec_payTo s \<noteq> payTo \<and> rec_derivationIndex s \<noteq> Some k) \<and>
          m' = m(h \<mapsto> r)))"

definition commit_spec :: "authority \<Rightarrow> string \<Rightarrow> string \<Rightarrow> int \<Rightarrow> commit_result \<Rightarrow> authority \<Rightarrow> bool" where
  "commit_spec m h t p res m' \<longleftrightarrow> (case res of
     Committed True r \<Rightarrow> m h = Some r \<and> rec_settledTxid r = Some (toLowerCase t) \<and> m' = m
   | Committed False r \<Rightarrow>
       (\<exists>r0. m h = Some r0 \<and> rec_state r0 \<noteq> PAID \<and> (\<forall>k. \<not> settled_by m k (toLowerCase t)) \<and>
          r = pay_record r0 (toLowerCase t) p \<and> m' = m(h \<mapsto> r))
   | Refused C_INVOICE_NOT_FOUND _ \<Rightarrow> m h = None \<and> m' = m
   | Refused C_TXID_REUSED _ \<Rightarrow> (\<exists>k. k \<noteq> h \<and> settled_by m k (toLowerCase t)) \<and> m' = m
   | Refused C_CONFLICT _ \<Rightarrow> (\<exists>u. u \<noteq> toLowerCase t \<and> settled_by m h u) \<and> m' = m)"

lemma authority_okD:
  assumes "authority_ok m"
  shows "m h = Some r \<Longrightarrow> rec_invoiceHash r = h" "m h = Some r \<Longrightarrow> record_ok r"
    and "m h = Some r \<Longrightarrow> m k = Some s \<Longrightarrow> rec_nonce r = rec_nonce s \<Longrightarrow> h = k"
    and "settled_by m h t \<Longrightarrow> settled_by m k t \<Longrightarrow> h = k"
  using assms unfolding authority_ok_def by blast+

lemma settled_by_upd:
  "settled_by (m(h \<mapsto> r)) k t \<longleftrightarrow> (if k = h then rec_settledTxid r = Some t else settled_by m k t)"
  by (simp add: settled_by_def)

lemma authority_ok_insert:
  assumes "authority_ok m" "m (rec_invoiceHash r) = None" "unused_nonce m (rec_nonce r)"
    and "record_ok r" "rec_settledTxid r = None"
  shows "authority_ok (m(rec_invoiceHash r \<mapsto> r))"
  unfolding authority_ok_def settled_by_upd
proof (intro conjI allI impI)
  fix h k s t
  assume "(m(rec_invoiceHash r \<mapsto> r)) h = Some s \<and> (m(rec_invoiceHash r \<mapsto> r)) k = Some t \<and> rec_nonce s = rec_nonce t"
  then show "h = k"
    using assms(3) authority_okD(3) [OF assms(1), of h s k t] by (auto simp: unused_nonce_def split: if_splits)
qed (use assms authority_okD [OF assms(1)] in \<open>auto split: if_splits\<close>)

lemma authority_ok_pay:
  assumes "authority_ok m" "m h = Some r" "toLowerCase t = t" "\<forall>k. \<not> settled_by m k t"
  shows "authority_ok (m(h \<mapsto> pay_record r t p))"
  unfolding authority_ok_def settled_by_upd
proof (intro conjI allI impI)
  fix g k s u
  assume "(m(h \<mapsto> pay_record r t p)) g = Some s \<and> (m(h \<mapsto> pay_record r t p)) k = Some u \<and> rec_nonce s = rec_nonce u"
  then show "g = k"
    using assms(2) by (cases "g = h"; cases "k = h") (auto dest: authority_okD(3) [OF assms(1)])
next
  fix g k u
  assume "(if g = h then rec_settledTxid (pay_record r t p) = Some u else settled_by m g u) \<and>
          (if k = h then rec_settledTxid (pay_record r t p) = Some u else settled_by m k u)"
  then show "g = k"
    using assms(4) authority_okD(4) [OF assms(1), of g u k] by (auto split: if_splits)
qed (use assms authority_okD(1,2) [OF assms(1)] in \<open>auto simp: record_ok_def split: if_splits\<close>)

lemma issue_spec_ok:
  assumes "authority_ok m" "fresh_record r" "issue_spec m r res m'"
  shows "authority_ok m'"
proof (cases res)
  case (Inr u)
  with assms(3) obtain k where "m (rec_invoiceHash r) = None" "unused_nonce m (rec_nonce r)"
    "m' = m(rec_invoiceHash r \<mapsto> r\<lparr>rec_derivationIndex := k\<rparr>)" by (auto simp: issue_spec_def)
  with authority_ok_insert [OF assms(1), of "r\<lparr>rec_derivationIndex := k\<rparr>"] assms(2) show ?thesis
    by (simp add: fresh_record_def record_ok_def)
qed (use assms in \<open>simp add: issue_spec_def\<close>)

lemma alloc_spec_ok:
  assumes "authority_ok m" "fresh_params p" "alloc_spec E m p a res m'"
  shows "authority_ok m'"
proof (cases res)
  case (Inr ri)
  with assms(3) obtain k h payTo where "m h = None" "unused_nonce m (ip_nonce p)"
    "m' = m(h \<mapsto> allocated_record p h payTo k)" by (auto simp: alloc_spec_def)
  with authority_ok_insert [OF assms(1), of "allocated_record p h payTo k"] assms(2) show ?thesis
    by (cases "ip_state p") (simp_all add: fresh_params_def record_ok_def or_default_def)
qed (use assms in \<open>simp add: alloc_spec_def\<close>)

text \<open>The cases of a commit.\<close>

lemma commit_spec_cases:
  assumes "commit_spec m h t p res m'"
  obtains (again) r where "res = Committed True r" "m h = Some r" "rec_settledTxid r = Some (toLowerCase t)" "m' = m"
  | (paid) r where "res = Committed False (pay_record r (toLowerCase t) p)" "m h = Some r" "rec_state r \<noteq> PAID"
      "\<forall>k. \<not> settled_by m k (toLowerCase t)" "m' = m(h \<mapsto> pay_record r (toLowerCase t) p)"
  | (unknown) msg where "res = Refused C_INVOICE_NOT_FOUND msg" "m h = None" "m' = m"
  | (reused) msg k where "res = Refused C_TXID_REUSED msg" "k \<noteq> h" "settled_by m k (toLowerCase t)" "m' = m"
  | (conflict) msg u where "res = Refused C_CONFLICT msg" "u \<noteq> toLowerCase t" "settled_by m h u" "m' = m"
proof (cases res)
  case (Committed b r)
  show thesis
  proof (cases b)
    case True
    with assms Committed again show thesis by (simp add: commit_spec_def)
  next
    case False
    with assms Committed obtain r0 where "m h = Some r0" "rec_state r0 \<noteq> PAID"
      "\<forall>k. \<not> settled_by m k (toLowerCase t)" "r = pay_record r0 (toLowerCase t) p" "m' = m(h \<mapsto> r)"
      by (auto simp: commit_spec_def)
    with Committed False paid show thesis by simp
  qed
next
  case (Refused c msg)
  show thesis
  proof (cases c)
    case C_INVOICE_NOT_FOUND
    with assms Refused unknown show thesis by (simp add: commit_spec_def)
  next
    case C_CONFLICT
    with assms Refused obtain u where "u \<noteq> toLowerCase t" "settled_by m h u" "m' = m"
      by (auto simp: commit_spec_def)
    with C_CONFLICT Refused conflict show thesis by simp
  next
    case C_TXID_REUSED
    with assms Refused obtain k where "k \<noteq> h" "settled_by m k (toLowerCase t)" "m' = m"
      by (auto simp: commit_spec_def)
    with C_TXID_REUSED Refused reused show thesis by simp
  qed
qed

lemma commit_spec_ok:
  assumes "authority_ok m" "commit_spec m h t p res m'"
  shows "authority_ok m'"
  using assms(2)
proof (cases rule: commit_spec_cases)
  case (paid r)
  then show ?thesis using authority_ok_pay [OF assms(1), of h r "toLowerCase t"] by simp
qed (use assms(1) in simp_all)

text \<open>A payment stays as it is.\<close>

lemma settled_by_stays_issue:
  "issue_spec m r res m' \<Longrightarrow> settled_by m h t \<Longrightarrow> settled_by m' h t"
  by (auto simp: issue_spec_def settled_by_upd settled_by_def split: sum.splits)

lemma settled_by_stays_alloc:
  "alloc_spec E m p a res m' \<Longrightarrow> settled_by m h t \<Longrightarrow> settled_by m' h t"
  by (auto simp: alloc_spec_def settled_by_upd settled_by_def split: sum.splits)

lemma settled_by_PAID: "authority_ok m \<Longrightarrow> settled_by m h t \<Longrightarrow> \<exists>r. m h = Some r \<and> rec_state r = PAID"
  using authority_okD(2) by (fastforce simp: settled_by_def record_ok_def)

lemma settled_by_stays_commit:
  assumes "authority_ok m" "commit_spec m k u q res m'" "settled_by m h t"
  shows "settled_by m' h t"
  using assms(2)
proof (cases rule: commit_spec_cases)
  case (paid r)
  with settled_by_PAID [OF assms(1,3)] assms(3) show ?thesis by (auto simp: settled_by_upd)
qed (use assms(3) in simp_all)

lemma commit_settles:
  assumes "commit_spec m h t p (Committed b r) m'"
  shows "settled_by m' h (toLowerCase t)"
  using assms by (cases rule: commit_spec_cases) (auto simp: settled_by_def)

lemma commit_of_settled:
  assumes "authority_ok m" "commit_spec m h t p res m'" "settled_by m h (toLowerCase t)"
  shows "\<exists>r. res = Committed True r"
  using assms(2)
proof (cases rule: commit_spec_cases)
  case (paid r)
  with assms(3) show ?thesis by blast
next
  case (unknown msg)
  with assms(3) show ?thesis by (simp add: settled_by_def)
next
  case (reused msg k)
  with assms(3) authority_okD(4) [OF assms(1)] show ?thesis by blast
next
  case (conflict msg u)
  with assms(3) show ?thesis by (auto simp: settled_by_def)
qed simp

subsection \<open>The interface\<close>

datatype store_event =
    Issue invoice_record
  | Allocate issue_params allocator
  | Commit string string int

datatype store_reply = R_issue "unit result" | R_allocate "issued result" | R_commit "commit_result result"

fun fresh_event :: "store_event \<Rightarrow> bool" where
  "fresh_event (Issue r) \<longleftrightarrow> fresh_record r"
| "fresh_event (Allocate p a) \<longleftrightarrow> fresh_params p"
| "fresh_event (Commit h t p) \<longleftrightarrow> True"

text \<open>A sequence of operations on a store given by its operations, with what each replied.\<close>

fun store_step ::
  "('s \<Rightarrow> invoice_record \<Rightarrow> unit result \<times> 's) \<Rightarrow> ('s \<Rightarrow> issue_params \<Rightarrow> allocator \<Rightarrow> issued result \<times> 's) \<Rightarrow>
   ('s \<Rightarrow> string \<Rightarrow> string \<Rightarrow> int \<Rightarrow> commit_result result \<times> 's) \<Rightarrow> 's \<Rightarrow> store_event \<Rightarrow> store_reply \<times> 's" where
  "store_step issue alloc commit s (Issue r) = apfst R_issue (issue s r)"
| "store_step issue alloc commit s (Allocate p a) = apfst R_allocate (alloc s p a)"
| "store_step issue alloc commit s (Commit h t p) = apfst R_commit (commit s h t p)"

fun store_run ::
  "('s \<Rightarrow> invoice_record \<Rightarrow> unit result \<times> 's) \<Rightarrow> ('s \<Rightarrow> issue_params \<Rightarrow> allocator \<Rightarrow> issued result \<times> 's) \<Rightarrow>
   ('s \<Rightarrow> string \<Rightarrow> string \<Rightarrow> int \<Rightarrow> commit_result result \<times> 's) \<Rightarrow> 's \<Rightarrow> store_event list \<Rightarrow>
   (store_event \<times> store_reply) list \<times> 's" where
  "store_run issue alloc commit s [] = ([], s)"
| "store_run issue alloc commit s (e # es) =
     (let (rep, s') = store_step issue alloc commit s e;
          (log, s'') = store_run issue alloc commit s' es
      in ((e, rep) # log, s''))"

text \<open>A run that settled an invoice hash with a transaction, freshly or again.\<close>

definition settled_in :: "(store_event \<times> store_reply) list \<Rightarrow> string \<Rightarrow> string \<Rightarrow> bool" where
  "settled_in log h t \<longleftrightarrow>
     (\<exists>u p b r. (Commit h u p, R_commit (Inr (Committed b r))) \<in> set log \<and> toLowerCase u = t)"

locale invoice_store =
  fixes E :: runtime
    and lookup :: "'s \<Rightarrow> authority"
    and by_txid :: "'s \<Rightarrow> string \<Rightarrow> invoice_record option"
    and issue :: "'s \<Rightarrow> invoice_record \<Rightarrow> unit result \<times> 's"
    and alloc :: "'s \<Rightarrow> issue_params \<Rightarrow> allocator \<Rightarrow> issued result \<times> 's"
    and commit :: "'s \<Rightarrow> string \<Rightarrow> string \<Rightarrow> int \<Rightarrow> commit_result result \<times> 's"
    and invar :: "'s \<Rightarrow> bool"
  assumes invar_authority: "invar s \<Longrightarrow> authority_ok (lookup s)"
    and issue_invar: "invar s \<Longrightarrow> fresh_record r \<Longrightarrow> invar (snd (issue s r))"
    and issue_refines: "invar s \<Longrightarrow> fresh_record r \<Longrightarrow>
      issue_spec (lookup s) r (fst (issue s r)) (lookup (snd (issue s r)))"
    and alloc_invar: "invar s \<Longrightarrow> fresh_params p \<Longrightarrow> invar (snd (alloc s p a))"
    and alloc_refines: "invar s \<Longrightarrow> fresh_params p \<Longrightarrow>
      alloc_spec E (lookup s) p a (fst (alloc s p a)) (lookup (snd (alloc s p a)))"
    and commit_invar: "invar s \<Longrightarrow> invar (snd (commit s h t q))"
    and commit_refines: "invar s \<Longrightarrow>
      \<exists>res. fst (commit s h t q) = Inr res \<and> commit_spec (lookup s) h t q res (lookup (snd (commit s h t q)))"
    and by_txid_sound: "invar s \<Longrightarrow> by_txid s t = Some r \<Longrightarrow>
      lookup s (rec_invoiceHash r) = Some r \<and> rec_settledTxid r = Some (toLowerCase t)"
    and by_txid_complete: "invar s \<Longrightarrow> lookup s h = Some r \<Longrightarrow> h \<noteq> [] \<Longrightarrow>
      rec_settledTxid r = Some (toLowerCase t) \<Longrightarrow> by_txid s t = Some r"
begin

abbreviation step :: "'s \<Rightarrow> store_event \<Rightarrow> store_reply \<times> 's" where
  "step \<equiv> store_step issue alloc commit"

abbreviation run :: "'s \<Rightarrow> store_event list \<Rightarrow> (store_event \<times> store_reply) list \<times> 's" where
  "run \<equiv> store_run issue alloc commit"

lemma step_invar: "invar s \<Longrightarrow> fresh_event e \<Longrightarrow> invar (snd (step s e))"
  by (cases e) (simp_all add: issue_invar alloc_invar commit_invar)

lemma run_invar: "invar s \<Longrightarrow> list_all fresh_event es \<Longrightarrow> invar (snd (run s es))"
  by (induction es arbitrary: s) (auto simp: case_prod_beta step_invar)

lemma step_settled:
  assumes "invar s" "fresh_event e" "settled_by (lookup s) h t"
  shows "settled_by (lookup (snd (step s e))) h t"
proof (cases e)
  case (Issue r)
  with assms settled_by_stays_issue [OF issue_refines] show ?thesis by simp
next
  case (Allocate p a)
  with assms settled_by_stays_alloc [OF alloc_refines] show ?thesis by simp
next
  case (Commit k u q)
  obtain res where "commit_spec (lookup s) k u q res (lookup (snd (commit s k u q)))"
    using commit_refines [OF assms(1)] by blast
  from settled_by_stays_commit [OF invar_authority [OF assms(1)] this assms(3)] Commit show ?thesis by simp
qed

lemma run_settled:
  "invar s \<Longrightarrow> list_all fresh_event es \<Longrightarrow> settled_by (lookup s) h t \<Longrightarrow> settled_by (lookup (snd (run s es))) h t"
  by (induction es arbitrary: s) (auto simp: case_prod_beta step_invar step_settled)

text \<open>A commit that a run confirmed is visible in the state the run ends in.\<close>

lemma settled_in_final:
  assumes "invar s" "list_all fresh_event es" "settled_in (fst (run s es)) h t"
  shows "settled_by (lookup (snd (run s es))) h t"
  using assms
proof (induction es arbitrary: s)
  case Nil
  then show ?case by (simp add: settled_in_def)
next
  case (Cons e es)
  let ?s = "snd (step s e)"
  have invar: "invar ?s" and es: "list_all fresh_event es"
    using Cons.prems step_invar by auto
  have "fst (run s (e # es)) = (e, fst (step s e)) # fst (run ?s es)" by (simp add: case_prod_beta)
  with Cons.prems(3) obtain u p b r where
    "(Commit h u p, R_commit (Inr (Committed b r))) \<in> set ((e, fst (step s e)) # fst (run ?s es))"
    and t: "toLowerCase u = t" unfolding settled_in_def by metis
  then consider "(Commit h u p, R_commit (Inr (Committed b r))) \<in> set (fst (run ?s es))"
    | "e = Commit h u p" "fst (step s e) = R_commit (Inr (Committed b r))"
    by (simp only: list.set insert_iff prod.inject) metis
  then show ?case
  proof cases
    case 1
    with t have "settled_in (fst (run ?s es)) h t" by (auto simp: settled_in_def)
    with Cons.IH [OF invar es] show ?thesis by (simp add: case_prod_beta)
  next
    case 2
    then have res: "fst (commit s h u p) = Inr (Committed b r)" by (cases "commit s h u p") simp
    obtain res' where "fst (commit s h u p) = Inr res'"
      "commit_spec (lookup s) h u p res' (lookup (snd (commit s h u p)))"
      using commit_refines [OF Cons.prems(1)] by blast
    with res 2(1) t have "settled_by (lookup ?s) h t" using commit_settles by auto
    with run_settled [OF invar es] show ?thesis by (simp add: case_prod_beta)
  qed
qed

text \<open>In any sequence of operations, one transaction settles one invoice and one invoice is settled
  by one transaction.\<close>

lemma run_settles_once:
  assumes "invar s" "list_all fresh_event es"
    and "settled_in (fst (run s es)) h t" "settled_in (fst (run s es)) k u"
  shows "h = k \<longleftrightarrow> t = u"
proof -
  let ?m = "lookup (snd (run s es))"
  have "settled_by ?m h t" "settled_by ?m k u"
    using assms settled_in_final by blast+
  moreover have "authority_ok ?m" by (rule invar_authority [OF run_invar [OF assms(1,2)]])
  ultimately show ?thesis using authority_okD(4) by (auto simp: settled_by_def)
qed

text \<open>A fresh settlement is confirmed again, unchanged, by every later commit of the same pair.\<close>

lemma commit_again:
  assumes "invar s" "fst (commit s h t p) = Inr (Committed b r)" "list_all fresh_event es"
  shows "\<exists>r'. fst (commit (snd (run (snd (commit s h t p)) es)) h t q) = Inr (Committed True r')"
proof -
  let ?s = "snd (run (snd (commit s h t p)) es)"
  have s: "invar ?s" by (intro run_invar commit_invar assms)
  obtain res where "fst (commit s h t p) = Inr res"
    "commit_spec (lookup s) h t p res (lookup (snd (commit s h t p)))"
    using commit_refines [OF assms(1)] by blast
  with assms(2) have "settled_by (lookup (snd (commit s h t p))) h (toLowerCase t)"
    using commit_settles by simp
  from run_settled [OF commit_invar [OF assms(1)] assms(3) this]
  have settled: "settled_by (lookup ?s) h (toLowerCase t)" .
  from commit_refines [OF s] obtain res' where res': "fst (commit ?s h t q) = Inr res'"
    "commit_spec (lookup ?s) h t q res' (lookup (snd (commit ?s h t q)))" by blast
  from commit_of_settled [OF invar_authority [OF s] res'(2) settled] res'(1) show ?thesis by auto
qed

end

end
