(* ===== verification/Cashaddr.thy ===== *)
theory Cashaddr
  imports Js_Values
begin

text \<open>
  \<open>packages/x402-xec-core/src/cashaddr.ts\<close> and \<open>pay-to-allocator.ts\<close>: the strict address decoder, the
  locking script of an address, and the watch-only derivation of payment addresses. The codec
  \<open>ecashaddrjs\<close>, the key library \<open>@scure/bip32\<close> and the hash functions of \<open>node:crypto\<close> are
  parameters. The lemmas show that what the decoder accepts is the canonical encoding of what it
  returns, so that addresses with one locking script are equal, and what the allocator guarantees.
\<close>

subsection \<open>Decoding\<close>

text \<open>\<open>ca_decode\<close> and \<open>ca_encode\<close> are \<open>decodeCashAddress\<close> and \<open>encodeCashAddress\<close> of the codec:
  \<open>Inl\<close> of the message where they throw. The hash of the decoder is checked to be a string.\<close>

record codec_address =
  cd_prefix :: string
  cd_type :: string
  cd_hash :: js_value

record cashaddr_codec =
  ca_decode :: "string \<Rightarrow> string + codec_address"
  ca_encode :: "string \<Rightarrow> string \<Rightarrow> string \<Rightarrow> string result"

record decoded_address =
  dca_prefix :: string
  dca_type :: int
  dca_hash :: string

definition is_hash160 :: "string \<Rightarrow> bool" where
  "is_hash160 s \<longleftrightarrow> length s = 40 \<and> list_all is_lower_hex s"

definition check_codec_address :: "cashaddr_codec \<Rightarrow> string \<Rightarrow> codec_address \<Rightarrow> decoded_address result" where
  "check_codec_address L address d =
     (if cd_prefix d \<noteq> ''ecash'' then
        Inl (TypeError (''Decoded prefix must be '' @ quoted ''ecash'' @ '', got '' @ quoted (cd_prefix d)))
      else if cd_type d \<noteq> ''p2pkh'' \<and> cd_type d \<noteq> ''p2sh'' then
        Inl (TypeError (''Unsupported address type: '' @ cd_type d))
      else (case cd_hash d of
          JStr h \<Rightarrow>
            if \<not> is_hash160 h then Inl (TypeError ''Expected 20-byte canonical hash'')
            else ebind (ca_encode L ''ecash'' (cd_type d) h) (\<lambda>reencoded.
              if reencoded \<noteq> address then
                Inl (TypeError (''Canonical re-encoding mismatch: '' @ address @ '' vs '' @ reencoded))
              else Inr \<lparr>dca_prefix = ''ecash'', dca_type = (if cd_type d = ''p2pkh'' then 0 else 1), dca_hash = h\<rparr>)
        | _ \<Rightarrow> Inl (TypeError ''Expected 20-byte canonical hash'')))"

definition decodeCashAddress :: "cashaddr_codec \<Rightarrow> string \<Rightarrow> decoded_address result" where
  "decodeCashAddress L address =
     (if trim address = [] then Inl (TypeError ''Address must be a non-empty string'')
      else if address \<noteq> toLowerCase address then
        Inl (TypeError ''CashAddr addresses must be strictly lowercase (mixed case and uppercase are prohibited)'')
      else if \<not> startsWith address ''ecash:'' then
        Inl (TypeError (''Expected eCash mainnet prefix '' @ quoted ''ecash:''))
      else (case split_on CHR '':'' address of
          [p, body] \<Rightarrow>
            if p \<noteq> ''ecash'' then Inl (TypeError ''Invalid CashAddr prefix format'')
            else if length body \<noteq> 42 then
              Inl (TypeError (''Expected canonical CashAddr length of 42 body characters for standard 20-byte payload, got '' @
                nat_to_dec (length body)))
            else (case ca_decode L address of
                Inl m \<Rightarrow> Inl (TypeError (''Invalid CashAddr checksum or encoding: '' @ m))
              | Inr d \<Rightarrow> check_codec_address L address d)
        | _ \<Rightarrow> Inl (TypeError ''Invalid CashAddr prefix format'')))"

definition isValidCashAddress :: "cashaddr_codec \<Rightarrow> js_value \<Rightarrow> bool" where
  "isValidCashAddress L v = (case v of JStr s \<Rightarrow> ok (decodeCashAddress L s) | _ \<Rightarrow> False)"

definition cashAddressToOutputScriptHex :: "cashaddr_codec \<Rightarrow> string \<Rightarrow> string result" where
  "cashAddressToOutputScriptHex L address =
     ebind (decodeCashAddress L address) (\<lambda>d.
       if dca_type d = 0 then Inr (''76a914'' @ dca_hash d @ ''88ac'')
       else if dca_type d = 1 then Inr (''a914'' @ dca_hash d @ ''87'')
       else Inl (TypeError (''Unsupported address type: '' @ int_to_dec (dca_type d))))"

text \<open>The type name a decoded type code stands for.\<close>

definition type_name :: "int \<Rightarrow> string" where
  "type_name t = (if t = 0 then ''p2pkh'' else ''p2sh'')"

lemma check_codec_address_Inr:
  "check_codec_address L address c = Inr d \<Longrightarrow>
     ca_encode L ''ecash'' (type_name (dca_type d)) (dca_hash d) = Inr address \<and>
     is_hash160 (dca_hash d) \<and> (dca_type d = 0 \<or> dca_type d = 1) \<and> dca_prefix d = ''ecash''"
  by (auto simp: check_codec_address_def err_simps type_name_def split: if_splits js_value.splits)

lemma decodeCashAddress_Inr:
  assumes "decodeCashAddress L address = Inr d"
  shows "ca_encode L ''ecash'' (type_name (dca_type d)) (dca_hash d) = Inr address"
    and "is_hash160 (dca_hash d)" and "dca_type d = 0 \<or> dca_type d = 1" and "dca_prefix d = ''ecash''"
    and "toLowerCase address = address" and "startsWith address ''ecash:''" and "length address = 48"
proof -
  from assms obtain body c where p: "split_on CHR '':'' address = [''ecash'', body]" "length body = 42"
    "check_codec_address L address c = Inr d"
    and s: "toLowerCase address = address" "startsWith address ''ecash:''"
    by (auto simp: decodeCashAddress_def split: if_splits list.splits sum.splits)
  from join_split [of "CHR '':''" address] p(1) have "address = ''ecash:'' @ body" by simp
  with p(2) have "length address = 48" by simp
  with s check_codec_address_Inr [OF p(3)] show
    "ca_encode L ''ecash'' (type_name (dca_type d)) (dca_hash d) = Inr address"
    "is_hash160 (dca_hash d)" "dca_type d = 0 \<or> dca_type d = 1" "dca_prefix d = ''ecash''"
    "toLowerCase address = address" "startsWith address ''ecash:''" "length address = 48" by simp_all
qed

text \<open>An address is the canonical encoding of what it decodes to.\<close>

lemma decodeCashAddress_inj:
  "decodeCashAddress L a = Inr d \<Longrightarrow> decodeCashAddress L b = Inr d \<Longrightarrow> a = b"
  by (metis Inr_inject decodeCashAddress_Inr(1))

lemma script_hex_inj:
  assumes "is_hash160 g" "is_hash160 h"
  shows "''76a914'' @ g @ ''88ac'' \<noteq> ''a914'' @ h @ ''87''"
    and "''76a914'' @ g @ ''88ac'' = ''76a914'' @ h @ ''88ac'' \<longleftrightarrow> g = h"
    and "''a914'' @ g @ ''87'' = ''a914'' @ h @ ''87'' \<longleftrightarrow> g = h"
  by simp_all

lemma script_determines_address:
  assumes "cashAddressToOutputScriptHex L a = Inr s" "cashAddressToOutputScriptHex L b = Inr s"
  shows "a = b"
proof -
  from assms obtain c d where c: "decodeCashAddress L a = Inr c" and d: "decodeCashAddress L b = Inr d"
    by (auto simp: cashAddressToOutputScriptHex_def err_simps)
  note facts = decodeCashAddress_Inr [OF c] decodeCashAddress_Inr [OF d]
  have "dca_type c = dca_type d \<and> dca_hash c = dca_hash d"
    using assms c d facts(2,3,9,10) script_hex_inj [of "dca_hash c" "dca_hash d"]
    by (auto simp: cashAddressToOutputScriptHex_def)
  with facts(4,11) have "c = d" by simp
  with c d show ?thesis using decodeCashAddress_inj by blast
qed

text \<open>Scripts of addresses are lower-case hexadecimal.\<close>

lemma cashAddressToOutputScriptHex_lower:
  assumes "cashAddressToOutputScriptHex L a = Inr s"
  shows "list_all is_lower_hex s"
proof -
  from assms obtain d where d: "decodeCashAddress L a = Inr d"
    by (auto simp: cashAddressToOutputScriptHex_def err_simps)
  have "list_all is_lower_hex ''76a91488ac87''" by code_simp
  with assms d decodeCashAddress_Inr(2,3) [OF d] show ?thesis
    by (auto simp: cashAddressToOutputScriptHex_def is_hash160_def)
qed

lemma cashAddressToOutputScriptHex_total:
  "decodeCashAddress L a = Inr d \<Longrightarrow> \<exists>s. cashAddressToOutputScriptHex L a = Inr s"
  using decodeCashAddress_Inr(3) [of L a d] by (auto simp: cashAddressToOutputScriptHex_def)

subsection \<open>Watch-only allocation\<close>

text \<open>\<open>hd_parse\<close> is \<open>HDKey.fromExtendedKey\<close>, \<open>hd_private\<close> says whether the key holds a private key,
  \<open>hd_child\<close> is \<open>deriveChild(i).publicKey\<close>; byte strings are \<open>string\<close>s.\<close>

record 'k hd_library =
  hd_parse :: "string \<Rightarrow> string + 'k"
  hd_private :: "'k \<Rightarrow> bool"
  hd_child :: "'k \<Rightarrow> int \<Rightarrow> string option result"
  hd_sha256 :: "string \<Rightarrow> string"
  hd_ripemd160 :: "string \<Rightarrow> string"

definition newXpubPayToAllocator :: "'k hd_library \<Rightarrow> js_value \<Rightarrow> 'k result" where
  "newXpubPayToAllocator H xpub = (case xpub of
     JStr s \<Rightarrow>
       let trimmed = trim s in
       if trimmed = [] then Inl (TypeError ''Merchant xpub must be a non-empty string'')
       else if startsWith trimmed ''xprv'' \<or> startsWith trimmed ''tprv'' then
         Inl (TypeError ''Private extended key material (xprv/tprv) is strictly prohibited on the x402 server'')
       else if \<not> startsWith trimmed ''xpub'' \<and> \<not> startsWith trimmed ''tpub'' then
         Inl (TypeError (''Expected standard watch-only extended public key starting with '' @ quoted ''xpub'' @
             '' or '' @ quoted ''tpub''))
       else (case hd_parse H trimmed of
           Inl m \<Rightarrow> Inl (TypeError (''Invalid extended public key: '' @ m))
         | Inr k \<Rightarrow>
             if hd_private H k then
               Inl (TypeError ''Extended key contains private key material, which is strictly prohibited'')
             else Inr k)
   | _ \<Rightarrow> Inl (TypeError ''Merchant xpub must be a non-empty string''))"

definition HARDENED_OFFSET :: int where "HARDENED_OFFSET = 0x80000000"

definition deriveAddress :: "'k hd_library \<Rightarrow> cashaddr_codec \<Rightarrow> 'k \<Rightarrow> js_number \<Rightarrow> string result" where
  "deriveAddress H L k derivationIndex =
     (let bad = RangeError (''Invalid non-hardened derivation index: '' @ num_to_string derivationIndex @
                            ''. Must be an integer in [0, 2147483647].'') in
      case safe_nonneg derivationIndex of
        None \<Rightarrow> Inl bad
      | Some i \<Rightarrow>
          if i \<ge> HARDENED_OFFSET then Inl bad
          else ebind (hd_child H k i) (\<lambda>publicKey. case publicKey of
              None \<Rightarrow> Inl (PlainError (''Failed to derive public key for index '' @ num_to_string derivationIndex))
            | Some pk \<Rightarrow>
                ebind (ca_encode L ''ecash'' ''p2pkh'' (hd_ripemd160 H (hd_sha256 H pk))) (\<lambda>address.
                ebind (decodeCashAddress L address) (\<lambda>_. Inr address))))"

lemma newXpubPayToAllocator_watch_only:
  "newXpubPayToAllocator H xpub = Inr k \<Longrightarrow>
     \<not> hd_private H k \<and>
     (\<exists>s. xpub = JStr s \<and> (startsWith (trim s) ''xpub'' \<or> startsWith (trim s) ''tpub'') \<and> hd_parse H (trim s) = Inr k)"
  by (auto simp: newXpubPayToAllocator_def Let_def split: js_value.splits if_splits sum.splits)

lemma deriveAddress_Inr:
  "deriveAddress H L k n = Inr a \<Longrightarrow>
     (\<exists>i pk. safe_nonneg n = Some i \<and> 0 \<le> i \<and> i < 2 ^ 31 \<and> hd_child H k i = Inr (Some pk) \<and>
       ca_encode L ''ecash'' ''p2pkh'' (hd_ripemd160 H (hd_sha256 H pk)) = Inr a) \<and>
     isValidCashAddress L (JStr a)"
  using safe_nonneg_range [of n]
  by (auto simp: deriveAddress_def isValidCashAddress_def ok_iff HARDENED_OFFSET_def Let_def err_simps
      split: option.splits if_splits)

end
