(* ===== verification/Chronik.thy ===== *)
theory Chronik
  imports Schemas
begin

text \<open>
  \<open>packages/x402-xec-core/src/chronik.ts\<close>: transactions as the Chronik indexer reports them, and the
  inspection of a funding output. What the code checks of a transaction is a JavaScript value
  (\<open>ctx_outputs\<close> is \<open>None\<close> where \<open>outputs\<close> is not an array); the elements of \<open>outputs\<close>, which the
  code does not check, have the type of the interface. A provider is a parameter from transaction
  ids to an error or a transaction, \<open>None\<close> standing for a value that is not an object.
\<close>

record chronik_output =
  out_sats :: int
  out_outputScript :: string
  out_token :: js_value

record chronik_tx =
  ctx_txid :: js_value
  ctx_outputs :: "chronik_output list option"
  ctx_block :: js_value
  ctx_isFinal :: js_value
  ctx_timeFirstSeen :: js_value

type_synonym tx_provider = "string \<Rightarrow> chronik_tx option result"

record funding_outpoint =
  fo_txid :: string
  fo_outIdx :: int

datatype funding_inspection_failure =
    F_TRANSACTION_NOT_FOUND | F_OUTPUT_NOT_FOUND | F_OUTPUT_SCRIPT_MISMATCH | F_INSUFFICIENT_SATS
  | F_TOKEN_OUTPUT | F_TRANSACTION_NOT_FINAL

datatype funding_inspection = F_Ok chronik_tx chronik_output | F_Fail funding_inspection_failure

record inspect_input =
  fin_fundingOutpoint :: funding_outpoint
  fin_outputScript :: "string option"
  fin_amountSats :: int

text \<open>A safe integer that is not negative, out of an unchecked value.\<close>

definition safe_nonneg_value :: "js_value \<Rightarrow> int option" where
  "safe_nonneg_value v = (case v of JNum n \<Rightarrow> safe_nonneg n | _ \<Rightarrow> None)"

definition isValidChronikBlock :: "js_value \<Rightarrow> bool" where
  "isValidChronikBlock block \<longleftrightarrow>
     isRecord block \<and> safe_nonneg_value (prop_of block ''height'') \<noteq> None \<and>
     str_field is_hash block ''hash'' \<noteq> None \<and> safe_nonneg_value (prop_of block ''timestamp'') \<noteq> None"

text \<open>Whether a transaction is confirmed or final: \<open>None\<close> for a malformed block.\<close>

definition confirmed_block :: "chronik_tx \<Rightarrow> bool option" where
  "confirmed_block tx =
     (if ctx_block tx = JUndef then Some False
      else if isValidChronikBlock (ctx_block tx) then Some True else None)"

definition array_get :: "'a list \<Rightarrow> int \<Rightarrow> 'a option" where
  "array_get xs i = (if 0 \<le> i \<and> i < int (length xs) then Some (xs ! nat i) else None)"

definition check_funding :: "inspect_input \<Rightarrow> chronik_tx \<Rightarrow> funding_inspection result" where
  "check_funding input tx = (case ctx_outputs tx of
     None \<Rightarrow> Inl (TypeError ''Cannot read properties of undefined'')
   | Some outputs \<Rightarrow>
       (case array_get outputs (fo_outIdx (fin_fundingOutpoint input)) of
          None \<Rightarrow> Inr (F_Fail F_OUTPUT_NOT_FOUND)
        | Some out \<Rightarrow>
            if fin_outputScript input \<noteq> None \<and> fin_outputScript input \<noteq> Some (out_outputScript out) then
              Inr (F_Fail F_OUTPUT_SCRIPT_MISMATCH)
            else if out_sats out < fin_amountSats input then Inr (F_Fail F_INSUFFICIENT_SATS)
            else if out_token out \<noteq> JUndef then Inr (F_Fail F_TOKEN_OUTPUT)
            else (case confirmed_block tx of
                None \<Rightarrow> Inr (F_Fail F_TRANSACTION_NOT_FINAL)
              | Some validConfirmedBlock \<Rightarrow>
                  if \<not> validConfirmedBlock \<and> ctx_isFinal tx \<noteq> JBool True then
                    Inr (F_Fail F_TRANSACTION_NOT_FINAL)
                  else Inr (F_Ok tx out))))"

definition inspectFundingTransaction :: "tx_provider \<Rightarrow> inspect_input \<Rightarrow> funding_inspection result" where
  "inspectFundingTransaction provider input =
     (case provider (fo_txid (fin_fundingOutpoint input)) of
        Inl (TxNotFoundError _) \<Rightarrow> Inr (F_Fail F_TRANSACTION_NOT_FOUND)
      | Inl e \<Rightarrow> Inl e
      | Inr None \<Rightarrow> Inr (F_Fail F_TRANSACTION_NOT_FOUND)
      | Inr (Some tx) \<Rightarrow>
          if ctx_txid tx \<noteq> JStr (fo_txid (fin_fundingOutpoint input)) then
            Inr (F_Fail F_TRANSACTION_NOT_FOUND)
          else check_funding input tx)"

text \<open>What a transaction has to be for an output of it to fund a payment.\<close>

definition tx_settled :: "chronik_tx \<Rightarrow> bool" where
  "tx_settled tx \<longleftrightarrow> (ctx_block tx = JUndef \<or> isValidChronikBlock (ctx_block tx)) \<and>
     (ctx_block tx \<noteq> JUndef \<or> ctx_isFinal tx = JBool True)"

definition funds :: "inspect_input \<Rightarrow> chronik_tx \<Rightarrow> chronik_output \<Rightarrow> bool" where
  "funds input tx out \<longleftrightarrow>
     ctx_txid tx = JStr (fo_txid (fin_fundingOutpoint input)) \<and> tx_settled tx \<and>
     (\<exists>outputs. ctx_outputs tx = Some outputs \<and>
        array_get outputs (fo_outIdx (fin_fundingOutpoint input)) = Some out) \<and>
     (\<forall>script. fin_outputScript input = Some script \<longrightarrow> out_outputScript out = script) \<and>
     fin_amountSats input \<le> out_sats out \<and> out_token out = JUndef"

lemma confirmed_block_settled:
  "(\<exists>b. confirmed_block tx = Some b \<and> (b \<or> ctx_isFinal tx = JBool True)) \<longleftrightarrow> tx_settled tx"
  by (auto simp: confirmed_block_def tx_settled_def split: if_splits)

lemma check_funding_Ok:
  "check_funding input tx = Inr (F_Ok t out) \<longleftrightarrow>
     t = tx \<and> (ctx_txid tx = JStr (fo_txid (fin_fundingOutpoint input)) \<longrightarrow> funds input tx out) \<and>
     funds input (tx\<lparr>ctx_txid := JStr (fo_txid (fin_fundingOutpoint input))\<rparr>) out"
  by (cases tx) (auto simp: check_funding_def funds_def tx_settled_def confirmed_block_def
      split: option.splits if_splits)

lemma inspectFundingTransaction_Ok:
  "inspectFundingTransaction provider input = Inr (F_Ok tx out) \<longleftrightarrow>
     provider (fo_txid (fin_fundingOutpoint input)) = Inr (Some tx) \<and> funds input tx out"
proof -
  have "funds input tx out \<Longrightarrow> funds input (tx\<lparr>ctx_txid := JStr (fo_txid (fin_fundingOutpoint input))\<rparr>) out"
    by (cases tx) (auto simp: funds_def tx_settled_def)
  then show ?thesis
    by (auto simp: inspectFundingTransaction_def check_funding_Ok split: sum.splits js_error.splits option.splits if_splits)
      (auto simp: funds_def)
qed

end
