(* ===== verification/Settlement_Verifier.thy ===== *)
theory Settlement_Verifier
  imports Invoice_Store Cashaddr Chronik
begin

text \<open>
  \<open>packages/x402-xec-core/src/settlement-verifier.ts\<close>: whether a settlement proof unlocks an invoice.
  \<open>settlement_check\<close> is the code before the commit, in its phases; it reads one record of the store and
  asks the server's Chronik. \<open>settlement_commit\<close> is the rest. The record read and the commit are two
  calls on the store, so \<open>Settlement_System\<close> runs them apart. The lemmas characterise an unlock by
  the evidence for it (\<open>settlement_evidence\<close>), which does not follow the order of the checks.
\<close>

datatype settlement_code =
    S_MALFORMED_PROOF | S_INVOICE_NOT_FOUND | S_RESOURCE_MISMATCH | S_NETWORK_MISMATCH | S_VERSION_MISMATCH
  | S_INVOICE_EXPIRED | S_INVOICE_NOT_YET_VALID | S_INVALID_SERVER_TIME | S_TX_NOT_FOUND
  | S_TRANSACTION_NOT_FINAL | S_TRANSACTION_TIME_UNKNOWN | S_HISTORICAL_TRANSACTION | S_PAY_TO_MISMATCH
  | S_AMOUNT_MISMATCH | S_TOKEN_OUTPUT_DISALLOWED | S_OUTPUT_NOT_FOUND | S_TXID_CONFLICT | S_TXID_REUSED
  | S_CHRONIK_UNAVAILABLE | S_MALFORMED_CHRONIK_TX

datatype settlement_result =
    Unlocked invoice_record settlement_proof nat chronik_tx bool
  | Locked int settlement_code string

datatype chronik_target = GetTx tx_provider | TxMethod tx_provider | NoMethod

record settlement_env =
  se_runtime :: runtime
  se_codec :: cashaddr_codec
  se_target :: chronik_target
  se_proof_issues :: "js_value \<Rightarrow> string"

record settlement_options =
  so_proof :: js_value
  so_expectedResource :: "resource_request option"
  so_now :: js_value
  so_addressToScript :: "(string \<Rightarrow> string result) option"

type_synonym 'a checked = "settlement_result exit + 'a"

abbreviation reject :: "int \<Rightarrow> settlement_code \<Rightarrow> string \<Rightarrow> 'a checked" where
  "reject status c msg \<equiv> Inl (Early (Locked status c msg))"

definition TEMPORAL_FENCE_TOLERANCE_SECONDS :: int where
  "TEMPORAL_FENCE_TOLERANCE_SECONDS = 10"

subsection \<open>The checks\<close>

definition fetchChronikTx :: "chronik_target \<Rightarrow> tx_provider" where
  "fetchChronikTx target txid = (case target of
     GetTx f \<Rightarrow> f txid
   | TxMethod f \<Rightarrow> f txid
   | NoMethod \<Rightarrow> Inl (PlainError ''Supplied txProvider does not expose getTx or tx method''))"

text \<open>Steps 3 to 5: network, version, resource and time. The result is the server's time.\<close>

definition check_terms ::
  "settlement_env \<Rightarrow> settlement_options \<Rightarrow> settlement_proof \<Rightarrow> invoice_record \<Rightarrow> int checked" where
  "check_terms SE opt proof invoice =
     ebind (require_that (rec_network invoice = XEC_MAINNET \<and> prf_network proof = XEC_MAINNET)
       (Locked 400 S_NETWORK_MISMATCH (''Expected network '' @ XEC_MAINNET))) (\<lambda>_.
     ebind (require_that (prf_x402Version proof = X402_VERSION)
       (Locked 400 S_VERSION_MISMATCH (''Expected x402Version '' @ int_to_dec X402_VERSION))) (\<lambda>_.
     ebind (case so_expectedResource opt of
         None \<Rightarrow> Inr ()
       | Some resource \<Rightarrow> ebind (throwing (computeResourceHash (se_runtime SE) resource)) (\<lambda>expectedResourceHash.
           require_that (expectedResourceHash = rec_resourceHash invoice)
             (Locked 400 S_RESOURCE_MISMATCH ''Invoice was issued for a different resource''))) (\<lambda>_.
     case safe_nonneg_value (so_now opt) of
       None \<Rightarrow> reject 500 S_INVALID_SERVER_TIME ''Server clock returned an invalid Unix timestamp''
     | Some now \<Rightarrow>
         ebind (require_that (\<not> now < rec_issuedAt invoice)
           (Locked 400 S_INVOICE_NOT_YET_VALID ''Invoice is not yet valid'')) (\<lambda>_.
         let isIdempotentRetry = (rec_state invoice = PAID \<and> rec_settledTxid invoice = Some (prf_txid proof)) in
         ebind (require_that (\<not> (\<not> isIdempotentRetry \<and> rec_state invoice \<noteq> PAID \<and> now \<ge> rec_expiresAt invoice))
           (Locked 402 S_INVOICE_EXPIRED ''Invoice has expired'')) (\<lambda>_.
         ebind (require_that (\<not> (rec_state invoice = PAID \<and> rec_settledTxid invoice \<noteq> Some (prf_txid proof)))
           (Locked 409 S_TXID_CONFLICT (''Invoice '' @ prf_invoiceHash proof @
             '' has already been paid with a different transaction''))) (\<lambda>_. Inr now))))))"

text \<open>Steps 6 and 7: the transaction of Chronik, and its outputs.\<close>

definition load_tx :: "settlement_env \<Rightarrow> string \<Rightarrow> (chronik_tx \<times> chronik_output list) checked" where
  "load_tx SE txid =
     (case fetchChronikTx (se_target SE) txid of
        Inl (TxNotFoundError _) \<Rightarrow> reject 402 S_TX_NOT_FOUND (''Transaction '' @ txid @ '' was not found on chain'')
      | Inl (CodedError c m) \<Rightarrow>
          if c = ''TX_NOT_FOUND'' then
            reject 402 S_TX_NOT_FOUND (''Transaction '' @ txid @ '' was not found on chain'')
          else reject 502 S_CHRONIK_UNAVAILABLE (''Chronik query failed: '' @ m)
      | Inl e \<Rightarrow> reject 502 S_CHRONIK_UNAVAILABLE (''Chronik query failed: '' @ err_text e)
      | Inr None \<Rightarrow> reject 502 S_MALFORMED_CHRONIK_TX ''Chronik returned malformed transaction data''
      | Inr (Some tx) \<Rightarrow>
          (case (ctx_txid tx, ctx_outputs tx) of
             (JStr t, Some outputs) \<Rightarrow>
               if toLowerCase t \<noteq> toLowerCase txid then
                 reject 502 S_MALFORMED_CHRONIK_TX ''Chronik returned transaction with mismatched txid''
               else Inr (tx, outputs)
           | _ \<Rightarrow> reject 502 S_MALFORMED_CHRONIK_TX ''Chronik returned malformed transaction data''))"

text \<open>Step 8: finality. The result is whether there is a valid block, and \<open>timeFirstSeen\<close>.\<close>

definition check_finality :: "chronik_tx \<Rightarrow> (bool \<times> int) checked" where
  "check_finality tx =
     (case ctx_isFinal tx of
        JBool isFinal \<Rightarrow>
          (case confirmed_block tx of
             None \<Rightarrow> reject 502 S_MALFORMED_CHRONIK_TX ''Chronik returned malformed confirmed block structure''
           | Some validConfirmedBlock \<Rightarrow>
               (case safe_nonneg_value (ctx_timeFirstSeen tx) of
                  None \<Rightarrow> reject 502 S_MALFORMED_CHRONIK_TX ''Chronik returned malformed timeFirstSeen field''
                | Some timeFirstSeen \<Rightarrow>
                    if \<not> validConfirmedBlock \<and> \<not> isFinal then
                      reject 402 S_TRANSACTION_NOT_FINAL ''Transaction is neither confirmed nor Avalanche-final''
                    else Inr (validConfirmedBlock, timeFirstSeen)))
      | _ \<Rightarrow> reject 502 S_MALFORMED_CHRONIK_TX ''Chronik returned non-boolean isFinal field'')"

text \<open>Steps 8c and 8d: the time at which the transaction was observed, and the fence against the time of
  issue. The timestamp of a valid block is a safe integer.\<close>

definition block_timestamp :: "chronik_tx \<Rightarrow> int option" where
  "block_timestamp tx = safe_nonneg_value (prop_of (ctx_block tx) ''timestamp'')"

definition check_time :: "chronik_tx \<Rightarrow> invoice_record \<Rightarrow> bool \<Rightarrow> int \<Rightarrow> unit checked" where
  "check_time tx invoice validConfirmedBlock timeFirstSeen =
     (case (if timeFirstSeen > 0 then Some timeFirstSeen
            else if validConfirmedBlock then block_timestamp tx else None) of
        None \<Rightarrow> reject 502 S_TRANSACTION_TIME_UNKNOWN
          (''Transaction temporal evidence cannot be proven: '' @
           ''timeFirstSeen is 0 and no confirmed block is available'')
      | Some observedAt \<Rightarrow>
          require_that (\<not> observedAt < rec_issuedAt invoice - TEMPORAL_FENCE_TOLERANCE_SECONDS)
            (Locked 402 S_HISTORICAL_TRANSACTION
               (''Transaction temporal evidence ('' @ int_to_dec observedAt @
                '') is older than invoice issuance ('' @ int_to_dec (rec_issuedAt invoice) @
                '') beyond tolerance ('' @ int_to_dec TEMPORAL_FENCE_TOLERANCE_SECONDS @ ''s)'')))"

text \<open>Step 9: the locking script that the payment must have.\<close>

definition expected_script :: "settlement_env \<Rightarrow> settlement_options \<Rightarrow> string \<Rightarrow> string checked" where
  "expected_script SE opt payTo =
     (case decodeCashAddress (se_codec SE) payTo of
        Inl e \<Rightarrow> reject 500 S_PAY_TO_MISMATCH (''Invalid canonical CashAddr invoice payTo: '' @ err_text e)
      | Inr _ \<Rightarrow>
          (case (case so_addressToScript opt of
               Some f \<Rightarrow> f payTo
             | None \<Rightarrow> cashAddressToOutputScriptHex (se_codec SE) payTo) of
             Inl e \<Rightarrow> reject 500 S_PAY_TO_MISMATCH
               (''Failed to derive locking script for invoice payTo: '' @ err_text e)
           | Inr script \<Rightarrow> Inr (toLowerCase script)))"

text \<open>The loop over the outputs, with its four variables; a match leaves it.\<close>

record output_scan =
  sc_matchedOutputIndex :: "nat option"
  sc_hasScriptMatch :: bool
  sc_hasTokenOutput :: bool
  sc_wrongAmountSeen :: "int option"

fun scan_outputs :: "string \<Rightarrow> int \<Rightarrow> nat \<Rightarrow> chronik_output list \<Rightarrow> output_scan \<Rightarrow> output_scan" where
  "scan_outputs script amount idx [] sc = sc"
| "scan_outputs script amount idx (out # outs) sc =
     (if toLowerCase (out_outputScript out) = script then
        (let sc' = sc\<lparr>sc_hasScriptMatch := True\<rparr> in
         if out_token out \<noteq> JUndef then
           scan_outputs script amount (idx + 1) outs (sc'\<lparr>sc_hasTokenOutput := True\<rparr>)
         else if out_sats out = amount then sc'\<lparr>sc_matchedOutputIndex := Some idx\<rparr>
         else scan_outputs script amount (idx + 1) outs (sc'\<lparr>sc_wrongAmountSeen := Some (out_sats out)\<rparr>))
      else scan_outputs script amount (idx + 1) outs sc)"

definition find_output :: "string \<Rightarrow> int \<Rightarrow> chronik_output list \<Rightarrow> nat checked" where
  "find_output script amount outputs =
     (let sc = scan_outputs script amount 0 outputs
            \<lparr>sc_matchedOutputIndex = None, sc_hasScriptMatch = False, sc_hasTokenOutput = False,
             sc_wrongAmountSeen = None\<rparr> in
      if \<not> sc_hasScriptMatch sc then
        reject 402 S_PAY_TO_MISMATCH ''Transaction contains no output paying the required destination''
      else (case sc_matchedOutputIndex sc of
          Some i \<Rightarrow> Inr i
        | None \<Rightarrow>
            if sc_hasTokenOutput sc then
              reject 402 S_TOKEN_OUTPUT_DISALLOWED
                ''Matching output contains tokens and cannot be used for XEC settlement''
            else (case sc_wrongAmountSeen sc of
                Some n \<Rightarrow> reject 402 S_AMOUNT_MISMATCH
                  (''Output amount ('' @ int_to_dec n @ '' sats) does not match exact invoice requirement ('' @
                   int_to_dec amount @ '' sats)'')
              | None \<Rightarrow> reject 402 S_OUTPUT_NOT_FOUND
                  ''No valid payment output found satisfying invoice requirements'')))"

text \<open>What the checks leave to commit: the proof, the matched output, the transaction and the time.\<close>

type_synonym pending = "settlement_proof \<times> nat \<times> chronik_tx \<times> int"

definition settlement_check :: "settlement_env \<Rightarrow> settlement_options \<Rightarrow> authority \<Rightarrow> pending checked" where
  "settlement_check SE opt getByInvoiceHash =
     (case parse_proof (so_proof opt) of
        None \<Rightarrow> reject 400 S_MALFORMED_PROOF (se_proof_issues SE (so_proof opt))
      | Some proof \<Rightarrow>
          (case getByInvoiceHash (prf_invoiceHash proof) of
             None \<Rightarrow> reject 402 S_INVOICE_NOT_FOUND
               (''Invoice '' @ prf_invoiceHash proof @ '' was not issued by this server'')
           | Some invoice \<Rightarrow>
               ebind (check_terms SE opt proof invoice) (\<lambda>now.
               ebind (load_tx SE (prf_txid proof)) (\<lambda>(tx, outputs).
               ebind (check_finality tx) (\<lambda>(validConfirmedBlock, timeFirstSeen).
               ebind (check_time tx invoice validConfirmedBlock timeFirstSeen) (\<lambda>_.
               ebind (expected_script SE opt (rec_payTo invoice)) (\<lambda>script.
               ebind (find_output script (rec_amountSats invoice) outputs) (\<lambda>i.
                 Inr (proof, i, tx, now)))))))))"

subsection \<open>The commit\<close>

definition commit_outcome :: "pending \<Rightarrow> commit_result \<Rightarrow> settlement_result" where
  "commit_outcome = (\<lambda>(proof, i, tx, now) res. case res of
     Committed idempotent r \<Rightarrow> Unlocked r proof i tx idempotent
   | Refused C_CONFLICT m \<Rightarrow> Locked 409 S_TXID_CONFLICT m
   | Refused C_TXID_REUSED m \<Rightarrow> Locked 409 S_TXID_REUSED m
   | Refused C_INVOICE_NOT_FOUND m \<Rightarrow> Locked 400 S_INVOICE_NOT_FOUND m)"

definition settlement_commit ::
  "('s \<Rightarrow> string \<Rightarrow> string \<Rightarrow> int \<Rightarrow> commit_result result \<times> 's) \<Rightarrow> pending \<Rightarrow> 's \<Rightarrow> settlement_result result \<times> 's" where
  "settlement_commit commitPaid = (\<lambda>(proof, i, tx, now) s.
     let (res, s') = commitPaid s (prf_invoiceHash proof) (prf_txid proof) now in
     (ebind res (\<lambda>r. Inr (commit_outcome (proof, i, tx, now) r)), s'))"

definition verifySettlementProof ::
  "settlement_env \<Rightarrow> ('s \<Rightarrow> authority) \<Rightarrow> ('s \<Rightarrow> string \<Rightarrow> string \<Rightarrow> int \<Rightarrow> commit_result result \<times> 's) \<Rightarrow>
   settlement_options \<Rightarrow> 's \<Rightarrow> settlement_result result \<times> 's" where
  "verifySettlementProof SE getByInvoiceHash commitPaid opt s =
     (case settlement_check SE opt (getByInvoiceHash s) of
        Inl (Thrown e) \<Rightarrow> (Inl e, s)
      | Inl (Early r) \<Rightarrow> (Inr r, s)
      | Inr pend \<Rightarrow> settlement_commit commitPaid pend s)"

subsection \<open>The evidence\<close>

definition pays :: "string \<Rightarrow> int \<Rightarrow> chronik_output \<Rightarrow> bool" where
  "pays script amount out \<longleftrightarrow>
     toLowerCase (out_outputScript out) = script \<and> out_token out = JUndef \<and> out_sats out = amount"

text \<open>The time a transaction was first observed, as far as Chronik can tell.\<close>

definition observed_at :: "chronik_tx \<Rightarrow> int option" where
  "observed_at tx = (case safe_nonneg_value (ctx_timeFirstSeen tx) of
     None \<Rightarrow> None
   | Some t \<Rightarrow> if t > 0 then Some t else if isValidChronikBlock (ctx_block tx) then block_timestamp tx else None)"

definition script_of_invoice ::
  "cashaddr_codec \<Rightarrow> (string \<Rightarrow> string result) option \<Rightarrow> string \<Rightarrow> string \<Rightarrow> bool" where
  "script_of_invoice L converter payTo script \<longleftrightarrow>
     ok (decodeCashAddress L payTo) \<and>
     (\<exists>s. (case converter of Some f \<Rightarrow> f payTo | None \<Rightarrow> cashAddressToOutputScriptHex L payTo) = Inr s \<and>
          script = toLowerCase s)"

text \<open>The output of a transaction that pays a record.\<close>

definition pays_record ::
  "cashaddr_codec \<Rightarrow> (string \<Rightarrow> string result) option \<Rightarrow> invoice_record \<Rightarrow> chronik_tx \<Rightarrow> nat \<Rightarrow> bool" where
  "pays_record L converter r tx i \<longleftrightarrow>
     (\<exists>script outputs. script_of_invoice L converter (rec_payTo r) script \<and> ctx_outputs tx = Some outputs \<and>
        i < length outputs \<and> pays script (rec_amountSats r) (outputs ! i) \<and>
        (\<forall>j < i. \<not> pays script (rec_amountSats r) (outputs ! j)))"

definition settlement_evidence ::
  "settlement_env \<Rightarrow> settlement_options \<Rightarrow> invoice_record \<Rightarrow> settlement_proof \<Rightarrow> nat \<Rightarrow> chronik_tx \<Rightarrow> int \<Rightarrow> bool" where
  "settlement_evidence SE opt invoice proof i tx now \<longleftrightarrow>
     \<comment> \<open>the invoice is this server's, for this resource, and open at the server's time\<close>
     rec_network invoice = XEC_MAINNET \<and> safe_nonneg_value (so_now opt) = Some now \<and>
     (\<forall>resource. so_expectedResource opt = Some resource \<longrightarrow>
        computeResourceHash (se_runtime SE) resource = Inr (rec_resourceHash invoice)) \<and>
     rec_issuedAt invoice \<le> now \<and>
     (if rec_state invoice = PAID then rec_settledTxid invoice = Some (prf_txid proof)
      else now < rec_expiresAt invoice) \<and>
     \<comment> \<open>the transaction is the proof's, settled on chain, and not older than the invoice\<close>
     fetchChronikTx (se_target SE) (prf_txid proof) = Inr (Some tx) \<and>
     (\<exists>t. ctx_txid tx = JStr t \<and> toLowerCase t = prf_txid proof) \<and>
     (\<exists>b. ctx_isFinal tx = JBool b) \<and> tx_settled tx \<and>
     (\<exists>seen. observed_at tx = Some seen \<and> rec_issuedAt invoice - TEMPORAL_FENCE_TOLERANCE_SECONDS \<le> seen) \<and>
     \<comment> \<open>its first output that pays the invoice exactly is the matched one\<close>
     pays_record (se_codec SE) (so_addressToScript opt) invoice tx i"

lemma check_terms_Inr:
  "proof_valid proof \<Longrightarrow>
   check_terms SE opt proof invoice = Inr now \<longleftrightarrow>
     rec_network invoice = XEC_MAINNET \<and> safe_nonneg_value (so_now opt) = Some now \<and>
     (\<forall>resource. so_expectedResource opt = Some resource \<longrightarrow>
        computeResourceHash (se_runtime SE) resource = Inr (rec_resourceHash invoice)) \<and>
     rec_issuedAt invoice \<le> now \<and>
     (if rec_state invoice = PAID then rec_settledTxid invoice = Some (prf_txid proof)
      else now < rec_expiresAt invoice)"
  by (cases "so_expectedResource opt"; cases "safe_nonneg_value (so_now opt)")
     (auto simp: check_terms_def proof_valid_def err_simps Let_def)

lemma load_tx_Inr:
  "load_tx SE txid = Inr (tx, outputs) \<longleftrightarrow>
     fetchChronikTx (se_target SE) txid = Inr (Some tx) \<and> ctx_outputs tx = Some outputs \<and>
     (\<exists>t. ctx_txid tx = JStr t \<and> toLowerCase t = toLowerCase txid)"
  by (auto simp: load_tx_def split: sum.splits js_error.splits option.splits js_value.splits if_splits)

lemma check_finality_Inr:
  "check_finality tx = Inr (b, seen) \<longleftrightarrow>
     (\<exists>f. ctx_isFinal tx = JBool f) \<and> tx_settled tx \<and> b = (ctx_block tx \<noteq> JUndef) \<and>
     safe_nonneg_value (ctx_timeFirstSeen tx) = Some seen"
  by (auto simp: check_finality_def confirmed_block_def tx_settled_def
      split: js_value.splits option.splits if_splits)

lemma check_time_Inr:
  assumes "check_finality tx = Inr (b, seen)"
  shows "check_time tx invoice b seen = Inr u \<longleftrightarrow>
     (\<exists>t. observed_at tx = Some t \<and> rec_issuedAt invoice - TEMPORAL_FENCE_TOLERANCE_SECONDS \<le> t)"
proof -
  have "isValidChronikBlock JUndef = False" by (simp add: isValidChronikBlock_def)
  with assms have "b = isValidChronikBlock (ctx_block tx)"
    by (auto simp: check_finality_Inr tx_settled_def)
  with assms show ?thesis
    by (auto simp: check_time_def observed_at_def check_finality_Inr err_simps split: option.splits if_splits)
qed

lemma expected_script_Inr:
  "expected_script SE opt payTo = Inr script \<longleftrightarrow>
     script_of_invoice (se_codec SE) (so_addressToScript opt) payTo script"
  by (auto simp: expected_script_def script_of_invoice_def ok_iff split: sum.splits)

text \<open>The loop finds the first output that pays, if there is one.\<close>

lemma scan_outputs_matched:
  assumes "sc_matchedOutputIndex sc = None"
  shows "sc_matchedOutputIndex (scan_outputs script amount idx outs sc) = Some k \<longleftrightarrow>
    (\<exists>i < length outs. k = idx + i \<and> pays script amount (outs ! i) \<and> (\<forall>j < i. \<not> pays script amount (outs ! j)))"
    (is "?l = ?r")
  using assms
proof (induction outs arbitrary: idx sc)
  case Nil
  then show ?case by simp
next
  case (Cons out outs)
  show ?case
  proof (cases "pays script amount out")
    case True
    then have "sc_matchedOutputIndex (scan_outputs script amount idx (out # outs) sc) = Some idx"
      by (simp add: pays_def)
    with True show ?thesis by (auto simp: less_Suc_eq_0_disj)
  next
    case False
    then have "\<exists>sc'. scan_outputs script amount idx (out # outs) sc = scan_outputs script amount (Suc idx) outs sc' \<and>
        sc_matchedOutputIndex sc' = None"
      using Cons.prems
      by (cases "toLowerCase (out_outputScript out) = script"; cases "out_token out = JUndef")
         (auto simp: pays_def Let_def intro: exI [of _ sc] exI [of _ "sc\<lparr>sc_hasScriptMatch := True, sc_hasTokenOutput := True\<rparr>"]
             exI [of _ "sc\<lparr>sc_hasScriptMatch := True, sc_wrongAmountSeen := Some (out_sats out)\<rparr>"])
    then obtain sc' where "scan_outputs script amount idx (out # outs) sc = scan_outputs script amount (Suc idx) outs sc'"
      and "sc_matchedOutputIndex sc' = None" by blast
    with Cons.IH [of sc' "Suc idx"] False show ?thesis
      by (simp add: Ex_less_Suc2 All_less_Suc2)
  qed
qed

lemma scan_outputs_flag:
  "sc_hasScriptMatch sc \<or> sc_matchedOutputIndex sc = None \<Longrightarrow>
   sc_matchedOutputIndex (scan_outputs script amount idx outs sc) = Some k \<Longrightarrow>
   sc_hasScriptMatch (scan_outputs script amount idx outs sc)"
  by (induction script amount idx outs sc rule: scan_outputs.induct) (auto simp: Let_def split: if_splits)

lemma find_output_Inr:
  "find_output script amount outputs = Inr i \<longleftrightarrow>
     i < length outputs \<and> pays script amount (outputs ! i) \<and> (\<forall>j < i. \<not> pays script amount (outputs ! j))"
proof -
  let ?sc0 = "\<lparr>sc_matchedOutputIndex = None, sc_hasScriptMatch = False, sc_hasTokenOutput = False,
               sc_wrongAmountSeen = None\<rparr>"
  let ?sc = "scan_outputs script amount 0 outputs ?sc0"
  have "sc_matchedOutputIndex ?sc = Some i \<Longrightarrow> sc_hasScriptMatch ?sc"
    by (drule scan_outputs_flag [rotated]) simp_all
  then have "find_output script amount outputs = Inr i \<longleftrightarrow> sc_matchedOutputIndex ?sc = Some i"
    unfolding find_output_def Let_def by (cases "sc_matchedOutputIndex ?sc") (auto split: option.splits)
  also have "\<dots> \<longleftrightarrow> (\<exists>k < length outputs. i = 0 + k \<and> pays script amount (outputs ! k) \<and>
      (\<forall>j < k. \<not> pays script amount (outputs ! j)))"
    by (rule scan_outputs_matched) simp
  finally show ?thesis by auto
qed

text \<open>Nothing unlocks before the commit.\<close>

definition is_locked :: "settlement_result \<Rightarrow> bool" where
  "is_locked r = (case r of Locked _ _ _ \<Rightarrow> True | Unlocked _ _ _ _ _ \<Rightarrow> False)"

lemma is_locked_simps [simp]: "is_locked (Locked st c m)" "\<not> is_locked (Unlocked r p i tx b)"
  by (simp_all add: is_locked_def)

lemma require_that_early: "require_that b r = Inl (Early r') \<Longrightarrow> r' = r"
  by (simp add: require_that_def split: if_splits)

lemma throwing_early: "throwing m \<noteq> Inl (Early r)"
  by (cases m) simp_all

lemma check_terms_early: "check_terms SE opt proof invoice = Inl (Early r) \<Longrightarrow> is_locked r"
  by (auto simp: check_terms_def ebind_Inl_iff throwing_early Let_def dest!: require_that_early
      split: option.splits)

lemma load_tx_early: "load_tx SE txid = Inl (Early r) \<Longrightarrow> is_locked r"
  by (auto simp: load_tx_def split: sum.splits js_error.splits option.splits js_value.splits if_splits)

lemma check_finality_early: "check_finality tx = Inl (Early r) \<Longrightarrow> is_locked r"
  by (auto simp: check_finality_def split: option.splits js_value.splits if_splits)

lemma check_time_early: "check_time tx invoice b seen = Inl (Early r) \<Longrightarrow> is_locked r"
  by (auto simp: check_time_def dest!: require_that_early split: option.splits if_splits)

lemma expected_script_early: "expected_script SE opt payTo = Inl (Early r) \<Longrightarrow> is_locked r"
  by (auto simp: expected_script_def split: sum.splits)

lemma find_output_early: "find_output script amount outputs = Inl (Early r) \<Longrightarrow> is_locked r"
  by (auto simp: find_output_def Let_def split: option.splits if_splits)

lemmas checks_early = check_terms_early load_tx_early check_finality_early check_time_early
  expected_script_early find_output_early

lemma settlement_check_early: "settlement_check SE opt m = Inl (Early r) \<Longrightarrow> is_locked r"
  by (auto simp: settlement_check_def ebind_Inl_iff dest: checks_early split: option.splits)

lemma finality_and_time:
  "(\<exists>b seen. check_finality tx = Inr (b, seen) \<and> check_time tx invoice b seen = Inr ()) \<longleftrightarrow>
     (\<exists>f. ctx_isFinal tx = JBool f) \<and> tx_settled tx \<and>
     (\<exists>t. observed_at tx = Some t \<and> rec_issuedAt invoice - TEMPORAL_FENCE_TOLERANCE_SECONDS \<le> t)"
  (is "?l \<longleftrightarrow> ?r")
proof
  assume ?l
  then obtain b seen where "check_finality tx = Inr (b, seen)" "check_time tx invoice b seen = Inr ()" by blast
  with check_time_Inr [of tx b seen invoice "()"] show ?r by (auto simp: check_finality_Inr)
next
  assume r: ?r
  then obtain seen where "safe_nonneg_value (ctx_timeFirstSeen tx) = Some seen"
    by (auto simp: observed_at_def split: option.splits)
  with r have "check_finality tx = Inr (ctx_block tx \<noteq> JUndef, seen)" by (simp add: check_finality_Inr)
  with r check_time_Inr [OF this, of invoice "()"] show ?l by blast
qed

lemma settlement_check_Inr:
  "settlement_check SE opt m = Inr (proof, i, tx, now) \<longleftrightarrow>
     parse_proof (so_proof opt) = Some proof \<and>
     (\<exists>invoice. m (prf_invoiceHash proof) = Some invoice \<and> settlement_evidence SE opt invoice proof i tx now)"
proof (cases "parse_proof (so_proof opt)")
  case None
  then show ?thesis by (simp add: settlement_check_def)
next
  case (Some p)
  then have valid: "proof_valid p" by (rule parse_proof_valid)
  then have low: "toLowerCase (prf_txid p) = prf_txid p" by (simp add: proof_valid_def)
  show ?thesis
  proof (cases "m (prf_invoiceHash p)")
    case None
    with Some show ?thesis by (auto simp: settlement_check_def)
  next
    case (Some invoice)
    have "settlement_check SE opt m = Inr (proof, i, tx, now) \<longleftrightarrow> p = proof \<and>
      (\<exists>outputs b seen script. check_terms SE opt p invoice = Inr now \<and>
         load_tx SE (prf_txid p) = Inr (tx, outputs) \<and> check_finality tx = Inr (b, seen) \<and>
         check_time tx invoice b seen = Inr () \<and> expected_script SE opt (rec_payTo invoice) = Inr script \<and>
         find_output script (rec_amountSats invoice) outputs = Inr i)"
      using Some \<open>parse_proof (so_proof opt) = Some p\<close> by (auto simp: settlement_check_def ebind_Inr_iff)
    also have "\<dots> \<longleftrightarrow> p = proof \<and> check_terms SE opt p invoice = Inr now \<and>
      (\<exists>b seen. check_finality tx = Inr (b, seen) \<and> check_time tx invoice b seen = Inr ()) \<and>
      (\<exists>outputs script. load_tx SE (prf_txid p) = Inr (tx, outputs) \<and>
         expected_script SE opt (rec_payTo invoice) = Inr script \<and>
         find_output script (rec_amountSats invoice) outputs = Inr i)" by blast
    also have "\<dots> \<longleftrightarrow> p = proof \<and> settlement_evidence SE opt invoice p i tx now"
      unfolding finality_and_time check_terms_Inr [OF valid] load_tx_Inr expected_script_Inr find_output_Inr
        settlement_evidence_def pays_record_def low by blast
    finally show ?thesis using Some \<open>parse_proof (so_proof opt) = Some p\<close> by auto
  qed
qed

lemma commit_outcome_Unlocked:
  "commit_outcome (q, j, u, now) res = Unlocked r proof i tx idem \<longleftrightarrow>
     q = proof \<and> j = i \<and> u = tx \<and> res = Committed idem r"
  by (cases res) (auto simp: commit_outcome_def split: commit_code.splits)

text \<open>A proof unlocks exactly when the evidence is there and the store commits it.\<close>

lemma verifySettlementProof_Unlocked:
  "fst (verifySettlementProof SE get commitPaid opt s) = Inr (Unlocked r proof i tx idem) \<longleftrightarrow>
     parse_proof (so_proof opt) = Some proof \<and>
     (\<exists>invoice now. get s (prf_invoiceHash proof) = Some invoice \<and>
        settlement_evidence SE opt invoice proof i tx now \<and>
        fst (commitPaid s (prf_invoiceHash proof) (prf_txid proof) now) = Inr (Committed idem r))"
proof (cases "settlement_check SE opt (get s)")
  case (Inl e)
  then have no: "settlement_check SE opt (get s) \<noteq> Inr (proof, i, tx, now)" for now by simp
  have "fst (verifySettlementProof SE get commitPaid opt s) \<noteq> Inr (Unlocked r proof i tx idem)"
    using Inl by (cases e) (auto simp: verifySettlementProof_def dest: settlement_check_early)
  with no show ?thesis by (auto simp: settlement_check_Inr)
next
  case (Inr pend)
  obtain q j u now where pend: "pend = (q, j, u, now)" by (cases pend)
  have "fst (verifySettlementProof SE get commitPaid opt s) = Inr (Unlocked r proof i tx idem) \<longleftrightarrow>
      q = proof \<and> j = i \<and> u = tx \<and>
      fst (commitPaid s (prf_invoiceHash proof) (prf_txid proof) now) = Inr (Committed idem r)"
    by (auto simp: verifySettlementProof_def Inr pend settlement_commit_def commit_outcome_Unlocked case_prod_beta
        ebind_Inr_iff)
  moreover have "settlement_check SE opt (get s) = Inr (proof, i, tx, now') \<longleftrightarrow>
      q = proof \<and> j = i \<and> u = tx \<and> now = now'" for now'
    using Inr pend by auto
  ultimately show ?thesis using settlement_check_Inr by metis
qed

end
