(* ===== verification/Memory_Store.thy ===== *)
theory Memory_Store
  imports Invoice_Store
begin

text \<open>
  \<open>InMemoryAuthoritativeInvoiceStore\<close> of \<open>packages/x402-xec-core/src/invoice-store.ts\<close>: five maps and
  a counter. \<open>withLock\<close> queues the methods on a promise, so each runs alone. \<open>memory_invar\<close> ties the
  four indexes to the records; under it the store is an instance of \<open>invoice_store\<close>.
\<close>

record memory_store =
  ms_records :: "(string, invoice_record) jmap"
  ms_nonceToInvoice :: "(string, string) jmap"
  ms_txidToInvoice :: "(string, string) jmap"
  ms_payToToInvoice :: "(string, string) jmap"
  ms_indexToInvoice :: "(int, string) jmap"
  ms_nextDerivationIndex :: int

definition memory_empty :: memory_store where
  "memory_empty = \<lparr>ms_records = [], ms_nonceToInvoice = [], ms_txidToInvoice = [],
     ms_payToToInvoice = [], ms_indexToInvoice = [], ms_nextDerivationIndex = 0\<rparr>"

text \<open>A template literal prints an absent value as \<open>undefined\<close>.\<close>

definition show_opt :: "string option \<Rightarrow> string" where
  "show_opt x = (case x of None \<Rightarrow> ''undefined'' | Some s \<Rightarrow> s)"

abbreviation store_error :: "string \<Rightarrow> string \<Rightarrow> js_error + 'a" where
  "store_error c m \<equiv> Inl (CodedError c m)"

subsection \<open>The operations\<close>

text \<open>Registering the destination, with the two checks that an explicit index asks for.\<close>

definition memory_register_payTo :: "memory_store \<Rightarrow> invoice_record \<Rightarrow> memory_store result" where
  "memory_register_payTo s r =
     (let paid = s\<lparr>ms_payToToInvoice := jset (ms_payToToInvoice s) (rec_payTo r) (rec_invoiceHash r)\<rparr> in
      case rec_derivationIndex r of
        None \<Rightarrow> Inr paid
      | Some k \<Rightarrow>
          if jhas (ms_payToToInvoice s) (rec_payTo r) then
            store_error ''PAY_TO_ALREADY_USED'' (''Payment address '' @ rec_payTo r @
              '' has already been allocated to invoice '' @ show_opt (jget (ms_payToToInvoice s) (rec_payTo r)))
          else if jhas (ms_indexToInvoice s) k then
            store_error ''DERIVATION_INDEX_ALREADY_USED''
              (''Derivation index '' @ int_to_dec k @ '' has already been allocated'')
          else Inr (paid\<lparr>ms_indexToInvoice := jset (ms_indexToInvoice s) k (rec_invoiceHash r),
                         ms_nextDerivationIndex := max (ms_nextDerivationIndex s) (k + 1)\<rparr>))"

definition memory_issue :: "memory_store \<Rightarrow> invoice_record \<Rightarrow> unit result \<times> memory_store" where
  "memory_issue s r =
     (if jhas (ms_records s) (rec_invoiceHash r) then
        (store_error ''INVOICE_ALREADY_EXISTS'' (''Invoice '' @ rec_invoiceHash r @ '' has already been issued''), s)
      else if jhas (ms_nonceToInvoice s) (rec_nonce r) then
        (store_error ''NONCE_ALREADY_USED'' (''Nonce '' @ rec_nonce r @ '' has already been used by invoice '' @
           show_opt (jget (ms_nonceToInvoice s) (rec_nonce r))), s)
      else (case memory_register_payTo s r of
          Inl e \<Rightarrow> (Inl e, s)
        | Inr s' \<Rightarrow>
            (Inr (), s'\<lparr>ms_records := jset (ms_records s') (rec_invoiceHash r) r,
                        ms_nonceToInvoice := jset (ms_nonceToInvoice s') (rec_nonce r) (rec_invoiceHash r)\<rparr>)))"

definition memory_check_allocation ::
  "runtime \<Rightarrow> memory_store \<Rightarrow> issue_params \<Rightarrow> string \<Rightarrow> (string \<times> invoice) result" where
  "memory_check_allocation E s p payTo =
     (if jhas (ms_payToToInvoice s) payTo then
        store_error ''PAY_TO_ALREADY_USED'' (''Payment address '' @ payTo @
          '' has already been allocated to invoice '' @ show_opt (jget (ms_payToToInvoice s) payTo))
      else ebind (check_invoice (allocated_invoice p payTo)) (\<lambda>invoice.
        ebind (computeInvoiceHash E invoice) (\<lambda>invoiceHash.
          if jhas (ms_records s) invoiceHash then
            store_error ''INVOICE_ALREADY_EXISTS'' (''Invoice '' @ invoiceHash @ '' has already been issued'')
          else Inr (invoiceHash, invoice))))"

lemma memory_check_allocation_Inr [err_simps]:
  "memory_check_allocation E s p payTo = Inr (h, i) \<longleftrightarrow>
     jget (ms_payToToInvoice s) payTo = None \<and> i = allocated_invoice p payTo \<and>
     computeInvoiceHash E i = Inr h \<and> jget (ms_records s) h = None"
  by (auto simp: memory_check_allocation_def jhas_def ebind_Inr_iff computeInvoiceHash_Inr)

text \<open>The counter advances before anything can fail, and stays advanced.\<close>

definition memory_issueWithAllocation ::
  "runtime \<Rightarrow> memory_store \<Rightarrow> issue_params \<Rightarrow> allocator \<Rightarrow> issued result \<times> memory_store" where
  "memory_issueWithAllocation E s p allocator =
     (if jhas (ms_nonceToInvoice s) (ip_nonce p) then
        (store_error ''NONCE_ALREADY_USED'' (''Nonce '' @ ip_nonce p @ '' has already been used by invoice '' @
           show_opt (jget (ms_nonceToInvoice s) (ip_nonce p))), s)
      else (let derivationIndex = ms_nextDerivationIndex s;
                s' = s\<lparr>ms_nextDerivationIndex := derivationIndex + 1\<rparr> in
        case ebind (allocator derivationIndex) (\<lambda>payTo.
               ebind (memory_check_allocation E s' p payTo) (\<lambda>hi. Inr (payTo, hi))) of
          Inl e \<Rightarrow> (Inl e, s')
        | Inr (payTo, invoiceHash, invoice) \<Rightarrow>
            (let r = allocated_record p invoiceHash payTo derivationIndex in
             (Inr (r, invoice),
              s'\<lparr>ms_records := jset (ms_records s') invoiceHash r,
                 ms_nonceToInvoice := jset (ms_nonceToInvoice s') (rec_nonce r) invoiceHash,
                 ms_payToToInvoice := jset (ms_payToToInvoice s') payTo invoiceHash,
                 ms_indexToInvoice := jset (ms_indexToInvoice s') derivationIndex invoiceHash\<rparr>))))"

definition memory_getByInvoiceHash :: "memory_store \<Rightarrow> string \<Rightarrow> invoice_record option" where
  "memory_getByInvoiceHash s invoiceHash = jget (ms_records s) invoiceHash"

text \<open>The indexes hold invoice hashes; the code treats an empty one like an absent one.\<close>

definition memory_deref :: "memory_store \<Rightarrow> string option \<Rightarrow> invoice_record option" where
  "memory_deref s h = (case h of None \<Rightarrow> None | Some [] \<Rightarrow> None | Some k \<Rightarrow> jget (ms_records s) k)"

definition memory_getBySettledTxid :: "memory_store \<Rightarrow> string \<Rightarrow> invoice_record option" where
  "memory_getBySettledTxid s txid = memory_deref s (jget (ms_txidToInvoice s) (toLowerCase txid))"

definition memory_getByPayTo :: "memory_store \<Rightarrow> string \<Rightarrow> invoice_record option" where
  "memory_getByPayTo s payTo = memory_deref s (jget (ms_payToToInvoice s) payTo)"

definition memory_getNextDerivationIndex :: "memory_store \<Rightarrow> int" where
  "memory_getNextDerivationIndex s = ms_nextDerivationIndex s"

definition memory_commitPaid ::
  "memory_store \<Rightarrow> string \<Rightarrow> string \<Rightarrow> int \<Rightarrow> commit_result result \<times> memory_store" where
  "memory_commitPaid s invoiceHash txid paidAt =
     (let lowerTxid = toLowerCase txid in
      case jget (ms_records s) invoiceHash of
        None \<Rightarrow> (Inr (Refused C_INVOICE_NOT_FOUND (''Invoice '' @ invoiceHash @ '' was not issued by this server'')), s)
      | Some existing \<Rightarrow>
          let boundTo = jget (ms_txidToInvoice s) lowerTxid in
          if boundTo \<noteq> None \<and> boundTo \<noteq> Some invoiceHash then
            (Inr (Refused C_TXID_REUSED (''Transaction '' @ lowerTxid @
               '' has already been used to settle invoice '' @ show_opt boundTo)), s)
          else if rec_state existing = PAID then
            (if rec_settledTxid existing = Some lowerTxid then (Inr (Committed True existing), s)
             else (Inr (Refused C_CONFLICT (''Invoice '' @ invoiceHash @
               '' was already settled by transaction '' @ show_opt (rec_settledTxid existing))), s))
          else (let updated = pay_record existing lowerTxid paidAt in
            (Inr (Committed False updated),
             s\<lparr>ms_records := jset (ms_records s) invoiceHash updated,
               ms_txidToInvoice := jset (ms_txidToInvoice s) lowerTxid invoiceHash\<rparr>)))"

subsection \<open>The invariant\<close>

definition memory_authority :: "memory_store \<Rightarrow> authority" where
  "memory_authority s = jget (ms_records s)"

definition nonce_index_ok :: "authority \<Rightarrow> (string \<Rightarrow> string option) \<Rightarrow> bool" where
  "nonce_index_ok m f \<longleftrightarrow> (\<forall>n h. f n = Some h \<longleftrightarrow> (\<exists>r. m h = Some r \<and> rec_nonce r = n))"

definition txid_index_ok :: "authority \<Rightarrow> (string \<Rightarrow> string option) \<Rightarrow> bool" where
  "txid_index_ok m f \<longleftrightarrow> (\<forall>t h. f t = Some h \<longleftrightarrow> settled_by m h t)"

definition payTo_index_ok :: "authority \<Rightarrow> (string \<Rightarrow> string option) \<Rightarrow> bool" where
  "payTo_index_ok m f \<longleftrightarrow> (\<forall>h r. m h = Some r \<longrightarrow> f (rec_payTo r) \<noteq> None)"

definition derivation_index_ok :: "authority \<Rightarrow> (int \<Rightarrow> string option) \<Rightarrow> int \<Rightarrow> bool" where
  "derivation_index_ok m f next \<longleftrightarrow>
     (\<forall>k h. f k = Some h \<longleftrightarrow> (\<exists>r. m h = Some r \<and> rec_derivationIndex r = Some k)) \<and>
     (\<forall>k. f k \<noteq> None \<longrightarrow> k < next)"

definition memory_invar :: "memory_store \<Rightarrow> bool" where
  "memory_invar s \<longleftrightarrow>
     authority_ok (memory_authority s) \<and>
     nonce_index_ok (memory_authority s) (jget (ms_nonceToInvoice s)) \<and>
     txid_index_ok (memory_authority s) (jget (ms_txidToInvoice s)) \<and>
     payTo_index_ok (memory_authority s) (jget (ms_payToToInvoice s)) \<and>
     derivation_index_ok (memory_authority s) (jget (ms_indexToInvoice s)) (ms_nextDerivationIndex s)"

lemmas index_defs = nonce_index_ok_def txid_index_ok_def payTo_index_ok_def derivation_index_ok_def

lemma memory_invarD:
  assumes "memory_invar s"
  shows "authority_ok (memory_authority s)"
    and "nonce_index_ok (memory_authority s) (jget (ms_nonceToInvoice s))"
    and "txid_index_ok (memory_authority s) (jget (ms_txidToInvoice s))"
    and "payTo_index_ok (memory_authority s) (jget (ms_payToToInvoice s))"
    and "derivation_index_ok (memory_authority s) (jget (ms_indexToInvoice s)) (ms_nextDerivationIndex s)"
  using assms by (simp_all add: memory_invar_def)

lemma memory_invar_empty: "memory_invar memory_empty"
  by (simp add: memory_invar_def memory_empty_def memory_authority_def index_defs authority_ok_def settled_by_def)

lemma unused_nonce_index:
  "nonce_index_ok m f \<Longrightarrow> f n = None \<longleftrightarrow> unused_nonce m n"
  unfolding nonce_index_ok_def unused_nonce_def by (metis option.exhaust option.distinct(1))

lemma memory_authority_simps [simp]:
  "memory_authority (s\<lparr>ms_nonceToInvoice := a\<rparr>) = memory_authority s"
  "memory_authority (s\<lparr>ms_txidToInvoice := b\<rparr>) = memory_authority s"
  "memory_authority (s\<lparr>ms_payToToInvoice := c\<rparr>) = memory_authority s"
  "memory_authority (s\<lparr>ms_indexToInvoice := d\<rparr>) = memory_authority s"
  "memory_authority (s\<lparr>ms_nextDerivationIndex := e\<rparr>) = memory_authority s"
  "memory_authority (s\<lparr>ms_records := jset m h r\<rparr>) = (jget m)(h \<mapsto> r)"
  by (auto simp: memory_authority_def)

text \<open>The indexes follow when a record without payment is added under a new hash.\<close>

lemma nonce_index_insert:
  "nonce_index_ok m f \<Longrightarrow> m h = None \<Longrightarrow> f (rec_nonce r) = None \<Longrightarrow>
   nonce_index_ok (m(h \<mapsto> r)) (f(rec_nonce r \<mapsto> h))"
  unfolding nonce_index_ok_def by (auto, metis option.distinct(1))

lemma txid_index_insert:
  "txid_index_ok m f \<Longrightarrow> m h = None \<Longrightarrow> rec_settledTxid r = None \<Longrightarrow> txid_index_ok (m(h \<mapsto> r)) f"
  by (auto simp: txid_index_ok_def settled_by_def)

lemma payTo_index_insert:
  "payTo_index_ok m f \<Longrightarrow> payTo_index_ok (m(h \<mapsto> r)) (f(rec_payTo r \<mapsto> h))"
  by (auto simp: payTo_index_ok_def)

lemma derivation_index_insert:
  "derivation_index_ok m f next \<Longrightarrow> m h = None \<Longrightarrow> rec_derivationIndex r = Some k \<Longrightarrow> f k = None \<Longrightarrow>
   k < next' \<Longrightarrow> next \<le> next' \<Longrightarrow> derivation_index_ok (m(h \<mapsto> r)) (f(k \<mapsto> h)) next'"
  by (fastforce simp: derivation_index_ok_def)

lemma derivation_index_skip:
  "derivation_index_ok m f next \<Longrightarrow> m h = None \<Longrightarrow> rec_derivationIndex r = None \<Longrightarrow>
   derivation_index_ok (m(h \<mapsto> r)) f next"
  by (auto simp: derivation_index_ok_def)

lemma jget_jset_fun: "jget (jset m k v) = (jget m)(k \<mapsto> v)"
  by (rule ext) simp

subsection \<open>The operations refine the authority\<close>

lemma memory_issue_correct:
  assumes inv: "memory_invar s" and fresh: "fresh_record r"
  shows "memory_invar (snd (memory_issue s r)) \<and>
    issue_spec (memory_authority s) r (fst (memory_issue s r)) (memory_authority (snd (memory_issue s r)))"
proof (cases "fst (memory_issue s r)")
  case (Inl e)
  then have "snd (memory_issue s r) = s"
    by (auto simp: memory_issue_def split: sum.splits if_splits)
  with Inl inv show ?thesis by (simp add: issue_spec_def)
next
  case (Inr u)
  let ?m = "memory_authority s" and ?h = "rec_invoiceHash r"
  note ok = memory_invarD [OF inv]
  from Inr obtain s' where h: "jget (ms_records s) ?h = None"
    and n: "jget (ms_nonceToInvoice s) (rec_nonce r) = None"
    and s': "memory_register_payTo s r = Inr s'"
    and res: "snd (memory_issue s r) = s'\<lparr>ms_records := jset (ms_records s') ?h r,
        ms_nonceToInvoice := jset (ms_nonceToInvoice s') (rec_nonce r) ?h\<rparr>"
    by (auto simp: memory_issue_def jhas_def split: sum.splits if_splits)
  have m: "?m ?h = None" using h by (simp add: memory_authority_def)
  have unused: "unused_nonce ?m (rec_nonce r)" using n unused_nonce_index [OF ok(2)] by simp
  have same: "ms_records s' = ms_records s" "ms_nonceToInvoice s' = ms_nonceToInvoice s"
    "ms_txidToInvoice s' = ms_txidToInvoice s"
    "ms_payToToInvoice s' = jset (ms_payToToInvoice s) (rec_payTo r) ?h"
    using s' by (auto simp: memory_register_payTo_def Let_def split: option.splits if_splits)
  have auth: "memory_authority (snd (memory_issue s r)) = ?m(?h \<mapsto> r)"
    by (simp add: res same memory_authority_def jget_jset_fun)
  have "derivation_index_ok (?m(?h \<mapsto> r)) (jget (ms_indexToInvoice s')) (ms_nextDerivationIndex s')"
  proof (cases "rec_derivationIndex r")
    case None
    with s' derivation_index_skip [OF ok(5) m] show ?thesis
      by (auto simp: memory_register_payTo_def Let_def)
  next
    case (Some k)
    with s' have "jget (ms_indexToInvoice s) k = None"
      "s' = s\<lparr>ms_payToToInvoice := jset (ms_payToToInvoice s) (rec_payTo r) ?h,
             ms_indexToInvoice := jset (ms_indexToInvoice s) k ?h,
             ms_nextDerivationIndex := max (ms_nextDerivationIndex s) (k + 1)\<rparr>"
      by (auto simp: memory_register_payTo_def Let_def jhas_def split: if_splits)
    with derivation_index_insert [OF ok(5) m Some] show ?thesis by (simp add: jget_jset_fun)
  qed
  moreover have "authority_ok (?m(?h \<mapsto> r))"
    using authority_ok_insert [OF ok(1) m unused] fresh by (simp add: fresh_record_def record_ok_def)
  moreover have "nonce_index_ok (?m(?h \<mapsto> r)) ((jget (ms_nonceToInvoice s))(rec_nonce r \<mapsto> ?h))"
    using nonce_index_insert [OF ok(2) m n] .
  moreover have "txid_index_ok (?m(?h \<mapsto> r)) (jget (ms_txidToInvoice s))"
    using txid_index_insert [OF ok(3) m] fresh by (simp add: fresh_record_def)
  ultimately have "memory_invar (snd (memory_issue s r))"
    unfolding memory_invar_def auth
    using payTo_index_insert [OF ok(4), of ?h r] by (simp add: res same jget_jset_fun)
  moreover have "\<exists>k. ?m(?h \<mapsto> r) = ?m(?h \<mapsto> r\<lparr>rec_derivationIndex := k\<rparr>)"
    by (rule exI [of _ "rec_derivationIndex r"]) simp
  ultimately show ?thesis using m unused Inr auth by (simp add: issue_spec_def)
qed

lemma memory_issueWithAllocation_correct:
  assumes inv: "memory_invar s" and fresh: "fresh_params p"
  shows "memory_invar (snd (memory_issueWithAllocation E s p a)) \<and>
    alloc_spec E (memory_authority s) p a (fst (memory_issueWithAllocation E s p a))
      (memory_authority (snd (memory_issueWithAllocation E s p a)))"
proof (cases "fst (memory_issueWithAllocation E s p a)")
  case (Inl e)
  then have "snd (memory_issueWithAllocation E s p a) = s \<or>
    snd (memory_issueWithAllocation E s p a) = s\<lparr>ms_nextDerivationIndex := ms_nextDerivationIndex s + 1\<rparr>"
    by (auto simp: memory_issueWithAllocation_def Let_def split: sum.splits if_splits)
  moreover have "memory_invar (s\<lparr>ms_nextDerivationIndex := ms_nextDerivationIndex s + 1\<rparr>)"
    using inv by (fastforce simp: memory_invar_def derivation_index_ok_def)
  ultimately show ?thesis using Inl inv by (auto simp: alloc_spec_def)
next
  case (Inr ri)
  let ?m = "memory_authority s" and ?k = "ms_nextDerivationIndex s"
  note ok = memory_invarD [OF inv]
  let ?s = "s\<lparr>ms_nextDerivationIndex := ?k + 1\<rparr>"
  from Inr have n: "jget (ms_nonceToInvoice s) (ip_nonce p) = None"
    by (auto simp: memory_issueWithAllocation_def jhas_def split: if_splits)
  with Inr obtain payTo h i where found: "ebind (a ?k) (\<lambda>payTo.
      ebind (memory_check_allocation E ?s p payTo) (\<lambda>hi. Inr (payTo, hi))) = Inr (payTo, h, i)"
    by (auto simp: memory_issueWithAllocation_def Let_def jhas_def split: sum.splits)
  then have payTo: "a ?k = Inr payTo" "jget (ms_payToToInvoice s) payTo = None"
    and h: "computeInvoiceHash E (allocated_invoice p payTo) = Inr h" "jget (ms_records s) h = None"
    and i: "i = allocated_invoice p payTo" by (auto simp: err_simps)
  from found n have op: "memory_issueWithAllocation E s p a =
      (Inr (allocated_record p h payTo ?k, i),
       s\<lparr>ms_nextDerivationIndex := ?k + 1, ms_records := jset (ms_records s) h (allocated_record p h payTo ?k),
        ms_nonceToInvoice := jset (ms_nonceToInvoice s) (ip_nonce p) h,
        ms_payToToInvoice := jset (ms_payToToInvoice s) payTo h,
        ms_indexToInvoice := jset (ms_indexToInvoice s) ?k h\<rparr>)"
    unfolding memory_issueWithAllocation_def Let_def by (simp add: jhas_def)
  have ri: "ri = (allocated_record p h payTo ?k, allocated_invoice p payTo)" using Inr i by (simp add: op)
  note res = arg_cong [OF op, of snd]
  let ?r = "allocated_record p h payTo ?k"
  have m: "?m h = None" using h by (simp add: memory_authority_def)
  have unused: "unused_nonce ?m (ip_nonce p)" using n unused_nonce_index [OF ok(2)] by simp
  have auth: "memory_authority (snd (memory_issueWithAllocation E s p a)) = ?m(h \<mapsto> ?r)"
    by (simp add: res memory_authority_def jget_jset_fun)
  have k: "jget (ms_indexToInvoice s) ?k = None"
    using ok(5) unfolding derivation_index_ok_def by (metis less_irrefl)
  have "authority_ok (?m(h \<mapsto> ?r))"
    using authority_ok_insert [OF ok(1), of ?r] m unused fresh
    by (cases "ip_state p") (simp_all add: fresh_params_def record_ok_def or_default_def)
  moreover have "nonce_index_ok (?m(h \<mapsto> ?r)) ((jget (ms_nonceToInvoice s))(ip_nonce p \<mapsto> h))"
    using nonce_index_insert [OF ok(2) m, of ?r] n by simp
  moreover have "txid_index_ok (?m(h \<mapsto> ?r)) (jget (ms_txidToInvoice s))"
    using txid_index_insert [OF ok(3) m] by simp
  moreover have "payTo_index_ok (?m(h \<mapsto> ?r)) ((jget (ms_payToToInvoice s))(payTo \<mapsto> h))"
    using payTo_index_insert [OF ok(4), of h ?r] by simp
  moreover have "derivation_index_ok (?m(h \<mapsto> ?r)) ((jget (ms_indexToInvoice s))(?k \<mapsto> h)) (?k + 1)"
    by (rule derivation_index_insert [OF ok(5) m _ k]) simp_all
  ultimately have "memory_invar (snd (memory_issueWithAllocation E s p a))"
    unfolding memory_invar_def auth by (simp add: res jget_jset_fun)
  moreover have "rec_payTo r' \<noteq> payTo \<and> rec_derivationIndex r' \<noteq> Some ?k" if "?m g = Some r'" for g r'
  proof
    show "rec_payTo r' \<noteq> payTo"
      using that payTo(2) ok(4) unfolding payTo_index_ok_def by metis
    show "rec_derivationIndex r' \<noteq> Some ?k"
      using that k ok(5) unfolding derivation_index_ok_def by (metis option.distinct(1))
  qed
  ultimately show ?thesis unfolding alloc_spec_def auth Inr ri using m unused payTo(1) h(1) by auto
qed

lemma memory_commitPaid_correct:
  assumes inv: "memory_invar s"
  shows "memory_invar (snd (memory_commitPaid s h t p)) \<and>
    (\<exists>res. fst (memory_commitPaid s h t p) = Inr res \<and>
       commit_spec (memory_authority s) h t p res (memory_authority (snd (memory_commitPaid s h t p))))"
proof -
  let ?m = "memory_authority s" and ?t = "toLowerCase t"
  note ok = memory_invarD [OF inv]
  note op = memory_commitPaid_def [of s h t p] memory_authority_def [of s]
  have bound: "jget (ms_txidToInvoice s) u = Some k \<longleftrightarrow> settled_by ?m k u" for u k
    using ok(3) by (simp add: txid_index_ok_def)
  show ?thesis
  proof (cases "?m h")
    case None
    then show ?thesis using inv by (simp add: op commit_spec_def Let_def)
  next
    case (Some r)
    then have r: "jget (ms_records s) h = Some r" by (simp add: memory_authority_def)
    show ?thesis
    proof (cases "\<exists>k. k \<noteq> h \<and> settled_by ?m k ?t")
      case True
      then obtain k where k: "k \<noteq> h" "settled_by ?m k ?t" by blast
      then have "jget (ms_txidToInvoice s) ?t = Some k" using bound by simp
      then show ?thesis using k r inv by (auto simp: op(1) commit_spec_def Let_def)
    next
      case False
      then have free: "jget (ms_txidToInvoice s) ?t = None \<or> jget (ms_txidToInvoice s) ?t = Some h"
        using bound [of ?t] by (metis option.exhaust)
      show ?thesis
      proof (cases "rec_state r = PAID")
        case True
        then obtain u where "rec_settledTxid r = Some u"
          using authority_okD(2) [OF ok(1) Some] by (auto simp: record_ok_def)
        then show ?thesis
          using r Some inv True free by (auto simp: op(1) commit_spec_def Let_def settled_by_def)
      next
        case False': False
        have "\<not> settled_by ?m h ?t"
          using False' Some authority_okD(2) [OF ok(1) Some] by (auto simp: record_ok_def settled_by_def)
        with False have none: "\<forall>k. \<not> settled_by ?m k ?t" by metis
        let ?r = "pay_record r ?t p" and ?m' = "?m(h \<mapsto> pay_record r ?t p)"
        have op': "memory_commitPaid s h t p = (Inr (Committed False ?r),
            s\<lparr>ms_records := jset (ms_records s) h ?r, ms_txidToInvoice := jset (ms_txidToInvoice s) ?t h\<rparr>)"
          using r False' free by (auto simp: op(1) Let_def)
        have auth: "memory_authority (snd (memory_commitPaid s h t p)) = ?m'"
          by (simp add: op' memory_authority_def jget_jset_fun)
        have "authority_ok ?m'" using authority_ok_pay [OF ok(1) Some _ none] by simp
        moreover have "nonce_index_ok ?m' (jget (ms_nonceToInvoice s))"
          using ok(2) Some by (auto simp: nonce_index_ok_def)
        moreover have "txid_index_ok ?m' ((jget (ms_txidToInvoice s))(?t \<mapsto> h))"
          using bound none False' Some authority_okD(2) [OF ok(1) Some]
          by (auto simp: txid_index_ok_def settled_by_upd record_ok_def) (simp_all add: settled_by_def)
        moreover have "payTo_index_ok ?m' (jget (ms_payToToInvoice s))"
          using ok(4) Some by (auto simp: payTo_index_ok_def)
        moreover have "derivation_index_ok ?m' (jget (ms_indexToInvoice s)) (ms_nextDerivationIndex s)"
          using ok(5) Some by (auto simp: derivation_index_ok_def)
        ultimately have "memory_invar (snd (memory_commitPaid s h t p))"
          unfolding memory_invar_def auth by (simp add: op' jget_jset_fun)
        then show ?thesis using auth Some False' none by (simp add: op' commit_spec_def)
      qed
    qed
  qed
qed

interpretation memory: invoice_store E memory_getByInvoiceHash memory_getBySettledTxid memory_issue
  "memory_issueWithAllocation E" memory_commitPaid memory_invar for E
proof -
  have lookup: "memory_getByInvoiceHash s = memory_authority s" for s
    by (rule ext) (simp add: memory_getByInvoiceHash_def memory_authority_def)
  show "invoice_store E memory_getByInvoiceHash memory_getBySettledTxid memory_issue
      (memory_issueWithAllocation E) memory_commitPaid memory_invar"
  proof (unfold_locales, unfold lookup)
    fix s t r
    assume s: "memory_invar s" "memory_getBySettledTxid s t = Some r"
    then obtain h where "jget (ms_txidToInvoice s) (toLowerCase t) = Some h" "memory_authority s h = Some r"
      by (auto simp: memory_getBySettledTxid_def memory_deref_def memory_authority_def split: option.splits list.splits)
    with memory_invarD(1,3) [OF s(1)] authority_okD(1) show
      "memory_authority s (rec_invoiceHash r) = Some r \<and> rec_settledTxid r = Some (toLowerCase t)"
      by (auto simp: txid_index_ok_def settled_by_def)
  next
    fix s h r t
    assume s: "memory_invar s" "memory_authority s h = Some r" "h \<noteq> []" "rec_settledTxid r = Some (toLowerCase t)"
    then have "jget (ms_txidToInvoice s) (toLowerCase t) = Some h"
      using memory_invarD(3) by (auto simp: txid_index_ok_def settled_by_def)
    with s show "memory_getBySettledTxid s t = Some r"
      by (auto simp: memory_getBySettledTxid_def memory_deref_def memory_authority_def split: list.splits)
  qed (use memory_invarD(1) memory_issue_correct memory_issueWithAllocation_correct memory_commitPaid_correct in blast)+
qed

end
