(* ===== verification/Sqlite_Store.thy ===== *)
theory Sqlite_Store
  imports Memory_Store
begin

text \<open>
  \<open>packages/x402-xec-core/src/sqlite-invoice-store.ts\<close>: the store on SQLite. The table is the list of
  its rows; the \<open>UNIQUE\<close> constraints of its schema are checked by \<open>INSERT\<close> and \<open>UPDATE\<close> and fail with
  SQLite's message, which the code classifies by its text. A method runs in one \<open>BEGIN IMMEDIATE\<close>
  transaction, so a failure leaves the table as it was. Which of several violated columns SQLite
  names is not documented and is the parameter \<open>sq_report\<close>; so are the path resolution, the opening of
  a database and its \<open>PRAGMA database_list\<close>. The table is an instance of \<open>invoice_store\<close>.
\<close>

record invoice_row =
  row_invoice_hash :: string
  row_nonce :: string
  row_resource_hash :: string
  row_amount_sats :: string
  row_pay_to :: string
  row_network :: string
  row_scheme :: string
  row_issued_at :: int
  row_expires_at :: int
  row_state :: invoice_state
  row_settled_txid :: "string option"
  row_settled_at :: "int option"
  row_derivation_index :: int

type_synonym table = "invoice_row list"

record sqlite_engine =
  sq_report :: "string list \<Rightarrow> string"
  sq_resolve :: "string \<Rightarrow> string"
  sq_open :: "string \<Rightarrow> unit result"
  sq_database_list :: "string \<Rightarrow> (js_value \<times> js_value) list result"

subsection \<open>Statements\<close>

definition rowToRecord :: "invoice_row \<Rightarrow> invoice_record" where
  "rowToRecord row =
     \<lparr>rec_invoiceHash = row_invoice_hash row, rec_nonce = row_nonce row,
      rec_resourceHash = row_resource_hash row, rec_amountSats = BigInt_of (row_amount_sats row),
      rec_payTo = row_pay_to row, rec_network = row_network row, rec_scheme = row_scheme row,
      rec_issuedAt = row_issued_at row, rec_expiresAt = row_expires_at row, rec_state = row_state row,
      rec_settledTxid = row_settled_txid row, rec_settledAt = row_settled_at row,
      rec_derivationIndex = Some (row_derivation_index row)\<rparr>"

definition recordToRow :: "invoice_record \<Rightarrow> int \<Rightarrow> invoice_row" where
  "recordToRow r derivationIndex =
     \<lparr>row_invoice_hash = rec_invoiceHash r, row_nonce = rec_nonce r, row_resource_hash = rec_resourceHash r,
      row_amount_sats = int_to_dec (rec_amountSats r), row_pay_to = rec_payTo r,
      row_network = rec_network r, row_scheme = rec_scheme r, row_issued_at = rec_issuedAt r,
      row_expires_at = rec_expiresAt r, row_state = rec_state r, row_settled_txid = rec_settledTxid r,
      row_settled_at = rec_settledAt r, row_derivation_index = derivationIndex\<rparr>"

text \<open>The columns of a new row that another row has already, as the schema's constraints see them.\<close>

definition unique_violations :: "table \<Rightarrow> invoice_row \<Rightarrow> string list" where
  "unique_violations T row =
     (if list_ex (\<lambda>r. row_invoice_hash r = row_invoice_hash row) T then [''invoice_hash''] else []) @
     (if list_ex (\<lambda>r. row_nonce r = row_nonce row) T then [''nonce''] else []) @
     (if list_ex (\<lambda>r. row_pay_to r = row_pay_to row) T then [''pay_to''] else []) @
     (if list_ex (\<lambda>r. row_derivation_index r = row_derivation_index row) T then [''derivation_index''] else []) @
     (if row_settled_txid row \<noteq> None \<and> list_ex (\<lambda>r. row_settled_txid r = row_settled_txid row) T
      then [''settled_txid''] else [])"

definition unique_error :: "sqlite_engine \<Rightarrow> string list \<Rightarrow> js_error" where
  "unique_error Q cs = PlainError (''UNIQUE constraint failed: invoices.'' @ sq_report Q cs)"

definition sql_insert :: "sqlite_engine \<Rightarrow> table \<Rightarrow> invoice_row \<Rightarrow> table result" where
  "sql_insert Q T row =
     (if unique_violations T row = [] then Inr (T @ [row]) else Inl (unique_error Q (unique_violations T row)))"

definition select_hash :: "table \<Rightarrow> string \<Rightarrow> invoice_row option" where
  "select_hash T h = List.find (\<lambda>r. row_invoice_hash r = h) T"

definition select_txid :: "table \<Rightarrow> string \<Rightarrow> invoice_row option" where
  "select_txid T t = List.find (\<lambda>r. row_settled_txid r = Some t) T"

definition pay_row :: "string \<Rightarrow> int \<Rightarrow> invoice_row \<Rightarrow> invoice_row" where
  "pay_row t paidAt r = r\<lparr>row_state := PAID, row_settled_txid := Some t, row_settled_at := Some paidAt\<rparr>"

text \<open>\<open>UPDATE invoices SET state = 'PAID', settled_txid = ?, settled_at = ? WHERE invoice_hash = ?\<close>,
  under the unique index on \<open>settled_txid\<close>.\<close>

definition sql_update_paid :: "sqlite_engine \<Rightarrow> table \<Rightarrow> string \<Rightarrow> string \<Rightarrow> int \<Rightarrow> table result" where
  "sql_update_paid Q T h t paidAt =
     (if list_ex (\<lambda>r. row_invoice_hash r = h) T \<and>
         list_ex (\<lambda>r. row_invoice_hash r \<noteq> h \<and> row_settled_txid r = Some t) T
      then Inl (unique_error Q [''settled_txid''])
      else Inr (map (\<lambda>r. if row_invoice_hash r = h then pay_row t paidAt r else r) T))"

text \<open>\<open>SELECT COALESCE(MAX(derivation_index), -1) + 1\<close>.\<close>

definition sqlite_getNextDerivationIndex :: "table \<Rightarrow> int" where
  "sqlite_getNextDerivationIndex T =
     (case map row_derivation_index T of
        [] \<Rightarrow> -1
      | k # ks \<Rightarrow> fold max ks k) + 1"

subsection \<open>The operations\<close>

text \<open>The \<open>catch\<close> blocks, which differ in the details of their messages. The issues that a \<open>ZodError\<close>
  lists hold none of the phrases.\<close>

definition classify_unique :: "js_error \<Rightarrow> string \<Rightarrow> string \<Rightarrow> string \<Rightarrow> string \<Rightarrow> js_error" where
  "classify_unique err nonceMsg payToMsg indexMsg invoiceMsg =
     (if str_includes (err_text err) ''UNIQUE constraint failed'' then
        (if str_includes (err_text err) ''nonce'' then CodedError ''NONCE_ALREADY_USED'' nonceMsg
         else if str_includes (err_text err) ''pay_to'' then CodedError ''PAY_TO_ALREADY_USED'' payToMsg
         else if str_includes (err_text err) ''derivation_index'' then
           CodedError ''DERIVATION_INDEX_ALREADY_USED'' indexMsg
         else CodedError ''INVOICE_ALREADY_EXISTS'' (invoiceMsg @ err_text err))
      else err)"

text \<open>The transaction of \<open>issue\<close>, for a derivation index that was given or read before it began.\<close>

definition sqlite_issue_at :: "sqlite_engine \<Rightarrow> table \<Rightarrow> invoice_record \<Rightarrow> int \<Rightarrow> unit result \<times> table" where
  "sqlite_issue_at Q T r derivationIndex =
     (case sql_insert Q T (recordToRow r derivationIndex) of
        Inr T' \<Rightarrow> (Inr (), T')
      | Inl err \<Rightarrow>
          (Inl (classify_unique err
             (''Nonce '' @ rec_nonce r @ '' has already been used'')
             (''Payment address '' @ rec_payTo r @ '' has already been allocated'')
             (''Derivation index '' @ int_to_dec derivationIndex @ '' has already been allocated'')
             (''Invoice '' @ rec_invoiceHash r @ '' has already been issued: '')), T))"

definition sqlite_issue :: "sqlite_engine \<Rightarrow> table \<Rightarrow> invoice_record \<Rightarrow> unit result \<times> table" where
  "sqlite_issue Q T r =
     sqlite_issue_at Q T r (or_default (rec_derivationIndex r) (sqlite_getNextDerivationIndex T))"

definition sqlite_allocate ::
  "runtime \<Rightarrow> sqlite_engine \<Rightarrow> table \<Rightarrow> issue_params \<Rightarrow> allocator \<Rightarrow> (issued \<times> table) result" where
  "sqlite_allocate E Q T p allocator =
     (let derivationIndex = sqlite_getNextDerivationIndex T in
      ebind (allocator derivationIndex) (\<lambda>payTo.
      ebind (check_invoice (allocated_invoice p payTo)) (\<lambda>invoice.
      ebind (computeInvoiceHash E invoice) (\<lambda>invoiceHash.
        let r = allocated_record p invoiceHash payTo derivationIndex in
        ebind (sql_insert Q T (recordToRow r derivationIndex)) (\<lambda>T'. Inr ((r, invoice), T'))))))"

definition sqlite_issueWithAllocation ::
  "runtime \<Rightarrow> sqlite_engine \<Rightarrow> table \<Rightarrow> issue_params \<Rightarrow> allocator \<Rightarrow> issued result \<times> table" where
  "sqlite_issueWithAllocation E Q T p allocator =
     (case sqlite_allocate E Q T p allocator of
        Inr (res, T') \<Rightarrow> (Inr res, T')
      | Inl err \<Rightarrow>
          (Inl (classify_unique err (''Nonce '' @ ip_nonce p @ '' has already been used'')
             ''Payment address has already been allocated'' ''Derivation index has already been allocated''
             ''Invoice has already been issued: ''), T))"

definition sqlite_getByInvoiceHash :: "table \<Rightarrow> string \<Rightarrow> invoice_record option" where
  "sqlite_getByInvoiceHash T invoiceHash = map_option rowToRecord (select_hash T invoiceHash)"

definition sqlite_getBySettledTxid :: "table \<Rightarrow> string \<Rightarrow> invoice_record option" where
  "sqlite_getBySettledTxid T txid = map_option rowToRecord (select_txid T (toLowerCase txid))"

definition sqlite_getByPayTo :: "table \<Rightarrow> string \<Rightarrow> invoice_record option" where
  "sqlite_getByPayTo T payTo = map_option rowToRecord (List.find (\<lambda>r. row_pay_to r = payTo) T)"

definition sqlite_commitPaid ::
  "sqlite_engine \<Rightarrow> table \<Rightarrow> string \<Rightarrow> string \<Rightarrow> int \<Rightarrow> commit_result result \<times> table" where
  "sqlite_commitPaid Q T invoiceHash txid paidAt =
     (let lowerTxid = toLowerCase txid;
          reused = (case select_txid T lowerTxid of
              Some txRow \<Rightarrow> if row_invoice_hash txRow \<noteq> invoiceHash then Some (row_invoice_hash txRow) else None
            | None \<Rightarrow> None) in
      case reused of
        Some other \<Rightarrow> (Inr (Refused C_TXID_REUSED (''Transaction '' @ lowerTxid @
            '' has already been used to settle invoice '' @ other)), T)
      | None \<Rightarrow>
          (case select_hash T invoiceHash of
             None \<Rightarrow> (Inr (Refused C_INVOICE_NOT_FOUND
                 (''Invoice '' @ invoiceHash @ '' was not issued by this server'')), T)
           | Some row \<Rightarrow>
               let existing = rowToRecord row in
               if rec_state existing = PAID then
                 (if rec_settledTxid existing = Some lowerTxid then (Inr (Committed True existing), T)
                  else (Inr (Refused C_CONFLICT (''Invoice '' @ invoiceHash @
                    '' was already settled by transaction '' @ show_opt (rec_settledTxid existing))), T))
               else (case sql_update_paid Q T invoiceHash lowerTxid paidAt of
                   Inl err \<Rightarrow> (Inl err, T)
                 | Inr T' \<Rightarrow> (Inr (Committed False (pay_record existing lowerTxid paidAt)), T'))))"

subsection \<open>Opening a durable database\<close>

definition verify_main_file :: "sqlite_engine \<Rightarrow> string \<Rightarrow> string \<Rightarrow> (js_value \<times> js_value) list \<Rightarrow> string result" where
  "verify_main_file Q trimmed resolvedPath rows =
     (case List.find (\<lambda>(name, _). name = JStr ''main'') rows of
        Some (_, JStr file) \<Rightarrow>
          if trim file = [] then
            Inl (TypeError (''SQLite failed durability verification: '' @ quoted ''main'' @
              '' database file is empty or missing. Path: '' @ trimmed))
          else if sq_resolve Q file \<noteq> resolvedPath then
            Inl (TypeError (''SQLite opened file mismatch: expected '' @ quoted resolvedPath @ '', got '' @
              quoted (sq_resolve Q file)))
          else Inr resolvedPath
      | _ \<Rightarrow> Inl (TypeError (''SQLite failed durability verification: '' @ quoted ''main'' @
              '' database file is empty or missing. Path: '' @ trimmed)))"

definition newSqliteAuthoritativeInvoiceStore :: "sqlite_engine \<Rightarrow> js_value \<Rightarrow> string result" where
  "newSqliteAuthoritativeInvoiceStore Q databasePath = (case databasePath of
     JStr path \<Rightarrow>
       let trimmed = trim path; lower = toLowerCase trimmed; resolvedPath = sq_resolve Q trimmed in
       if trimmed = [] then
         Inl (TypeError ''SqliteAuthoritativeInvoiceStore requires a non-empty persistent filesystem path.'')
       else if startsWith lower ''file:'' \<or> lower = '':memory:'' \<or> str_includes lower '':memory:'' \<or>
               str_includes lower ''mode=memory'' \<or> str_includes lower ''vfs=memdb'' then
         Inl (TypeError (''Volatile or URI database path ('' @ trimmed @
           '') is prohibited for SqliteAuthoritativeInvoiceStore. Use InMemorySqliteAuthoritativeInvoiceStore'' @
           '' for testing or provide a standard filesystem path.''))
       else ebind (sq_open Q resolvedPath) (\<lambda>_.
         case ebind (sq_database_list Q resolvedPath) (verify_main_file Q trimmed resolvedPath) of
           Inr p \<Rightarrow> Inr p
         | Inl (TypeError m) \<Rightarrow> Inl (TypeError m)
         | Inl e \<Rightarrow> Inl (TypeError (''Failed positive SQLite durability verification for '' @
             quoted trimmed @ '': '' @ err_text e)))
   | _ \<Rightarrow> Inl (TypeError ''SqliteAuthoritativeInvoiceStore requires an explicit persistent filesystem path (string).''))"

lemma find_SomeD: "List.find P xs = Some x \<Longrightarrow> x \<in> set xs \<and> P x"
  by (induction xs) (auto split: if_splits)

lemma verify_main_file_Inr:
  "verify_main_file Q trimmed resolvedPath rows = Inr p \<Longrightarrow>
     p = resolvedPath \<and> (\<exists>f. (JStr ''main'', JStr f) \<in> set rows \<and> trim f \<noteq> [] \<and> sq_resolve Q f = p)"
  by (auto simp: verify_main_file_def dest!: find_SomeD split: option.splits prod.splits js_value.splits if_splits)

lemma newSqlite_durable:
  assumes "newSqliteAuthoritativeInvoiceStore Q v = Inr p"
  obtains path rows f where "v = JStr path" "trim path \<noteq> []" "p = sq_resolve Q (trim path)"
    "\<not> str_includes (toLowerCase (trim path)) '':memory:''" "\<not> startsWith (toLowerCase (trim path)) ''file:''"
    "sq_database_list Q p = Inr rows" "(JStr ''main'', JStr f) \<in> set rows"
    "trim f \<noteq> []" "sq_resolve Q f = p"
proof (cases v)
  case (JStr path)
  let ?p = "sq_resolve Q (trim path)"
  from assms JStr have path: "trim path \<noteq> []" "\<not> str_includes (toLowerCase (trim path)) '':memory:''"
    "\<not> startsWith (toLowerCase (trim path)) ''file:''"
    by (auto simp: newSqliteAuthoritativeInvoiceStore_def Let_def split: if_splits)
  from assms JStr have "ebind (sq_database_list Q ?p) (verify_main_file Q (trim path) ?p) = Inr p"
    by (auto simp: newSqliteAuthoritativeInvoiceStore_def Let_def ebind_Inr_iff
        split: if_splits sum.splits js_error.splits)
  then obtain rows where rows: "sq_database_list Q ?p = Inr rows" "verify_main_file Q (trim path) ?p rows = Inr p"
    by (auto simp: ebind_Inr_iff)
  from verify_main_file_Inr [OF rows(2)] rows(1) path JStr that show thesis by blast
qed (use assms in \<open>simp_all add: newSqliteAuthoritativeInvoiceStore_def\<close>)

subsection \<open>The table as an authority\<close>

definition sqlite_invar :: "table \<Rightarrow> bool" where
  "sqlite_invar T \<longleftrightarrow>
     distinct (map row_invoice_hash T) \<and> distinct (map row_nonce T) \<and> distinct (map row_pay_to T) \<and>
     distinct (map row_derivation_index T) \<and>
     (\<forall>r \<in> set T. record_ok (rowToRecord r)) \<and>
     (\<forall>r \<in> set T. \<forall>s \<in> set T. \<forall>t. row_settled_txid r = Some t \<and> row_settled_txid s = Some t \<longrightarrow> r = s)"

lemma rowToRecord_recordToRow [simp]: "rowToRecord (recordToRow r k) = r\<lparr>rec_derivationIndex := Some k\<rparr>"
  by (simp add: rowToRecord_def recordToRow_def)

lemma recordToRow_simps [simp]:
  "row_invoice_hash (recordToRow r k) = rec_invoiceHash r" "row_nonce (recordToRow r k) = rec_nonce r"
  "row_pay_to (recordToRow r k) = rec_payTo r" "row_derivation_index (recordToRow r k) = k"
  "row_settled_txid (recordToRow r k) = rec_settledTxid r"
  by (simp_all add: recordToRow_def)

lemma find_key_iff:
  "distinct (map f xs) \<Longrightarrow> List.find (\<lambda>x. f x = k) xs = Some y \<longleftrightarrow> y \<in> set xs \<and> f y = k"
  by (induction xs) auto

lemma select_hash_iff: "sqlite_invar T \<Longrightarrow> select_hash T h = Some r \<longleftrightarrow> r \<in> set T \<and> row_invoice_hash r = h"
  unfolding select_hash_def by (rule find_key_iff) (simp add: sqlite_invar_def)

lemma select_hash_None: "select_hash T h = None \<longleftrightarrow> (\<forall>r \<in> set T. row_invoice_hash r \<noteq> h)"
  by (auto simp: select_hash_def find_None_iff)

lemma lookup_iff:
  "sqlite_invar T \<Longrightarrow> sqlite_getByInvoiceHash T h = Some r \<longleftrightarrow>
     (\<exists>row \<in> set T. row_invoice_hash row = h \<and> r = rowToRecord row)"
  by (auto simp: sqlite_getByInvoiceHash_def select_hash_iff)

lemma rowToRecord_simps [simp]:
  "rec_invoiceHash (rowToRecord r) = row_invoice_hash r" "rec_nonce (rowToRecord r) = row_nonce r"
  "rec_payTo (rowToRecord r) = row_pay_to r" "rec_state (rowToRecord r) = row_state r"
  "rec_settledTxid (rowToRecord r) = row_settled_txid r"
  "rec_derivationIndex (rowToRecord r) = Some (row_derivation_index r)"
  by (simp_all add: rowToRecord_def)

lemma settled_by_iff:
  "sqlite_invar T \<Longrightarrow> settled_by (sqlite_getByInvoiceHash T) h t \<longleftrightarrow>
     (\<exists>row \<in> set T. row_invoice_hash row = h \<and> row_settled_txid row = Some t)"
  by (auto simp: settled_by_def lookup_iff)

lemma sqlite_authority_ok:
  assumes "sqlite_invar T"
  shows "authority_ok (sqlite_getByInvoiceHash T)"
  unfolding authority_ok_def settled_by_iff [OF assms] lookup_iff [OF assms]
proof (intro conjI allI impI)
  fix h k r s
  assume "(\<exists>row \<in> set T. row_invoice_hash row = h \<and> r = rowToRecord row) \<and>
    (\<exists>row \<in> set T. row_invoice_hash row = k \<and> s = rowToRecord row) \<and> rec_nonce r = rec_nonce s"
  then show "h = k"
    using assms by (auto simp: sqlite_invar_def distinct_map dest: inj_onD)
next
  fix h k t
  assume "(\<exists>row \<in> set T. row_invoice_hash row = h \<and> row_settled_txid row = Some t) \<and>
    (\<exists>row \<in> set T. row_invoice_hash row = k \<and> row_settled_txid row = Some t)"
  then show "h = k" using assms unfolding sqlite_invar_def by blast
qed (use assms in \<open>auto simp: sqlite_invar_def\<close>)

lemma unique_violations_empty:
  "unique_violations T row = [] \<longleftrightarrow>
     (\<forall>r \<in> set T. row_invoice_hash r \<noteq> row_invoice_hash row \<and> row_nonce r \<noteq> row_nonce row \<and>
        row_pay_to r \<noteq> row_pay_to row \<and> row_derivation_index r \<noteq> row_derivation_index row \<and>
        (row_settled_txid row \<noteq> None \<longrightarrow> row_settled_txid r \<noteq> row_settled_txid row))"
  by (auto simp: unique_violations_def list_ex_iff)

lemma find_append: "List.find P (xs @ ys) = (case List.find P xs of None \<Rightarrow> List.find P ys | Some x \<Rightarrow> Some x)"
  by (induction xs) simp_all

lemma sql_insert_correct:
  assumes inv: "sqlite_invar T" and ins: "sql_insert Q T row = Inr T'" and ok: "record_ok (rowToRecord row)"
  shows "sqlite_invar T'" and "sqlite_getByInvoiceHash T (row_invoice_hash row) = None"
    and "sqlite_getByInvoiceHash T' = (sqlite_getByInvoiceHash T)(row_invoice_hash row \<mapsto> rowToRecord row)"
    and "unused_nonce (sqlite_getByInvoiceHash T) (row_nonce row)"
    and "\<And>g s. sqlite_getByInvoiceHash T g = Some s \<Longrightarrow>
           rec_payTo s \<noteq> row_pay_to row \<and> rec_derivationIndex s \<noteq> Some (row_derivation_index row)"
proof -
  from ins have T': "T' = T @ [row]" and free: "unique_violations T row = []"
    by (auto simp: sql_insert_def split: if_splits)
  note free = free [unfolded unique_violations_empty]
  from inv free show "sqlite_invar T'"
    unfolding sqlite_invar_def T' using ok by (auto simp: image_iff)
  from free show none: "sqlite_getByInvoiceHash T (row_invoice_hash row) = None"
    by (simp add: sqlite_getByInvoiceHash_def select_hash_None)
  then have "select_hash T (row_invoice_hash row) = None" by (simp add: sqlite_getByInvoiceHash_def)
  then show "sqlite_getByInvoiceHash T' = (sqlite_getByInvoiceHash T)(row_invoice_hash row \<mapsto> rowToRecord row)"
    by (auto simp: sqlite_getByInvoiceHash_def T' select_hash_def find_append fun_eq_iff split: option.splits)
  from free show "unused_nonce (sqlite_getByInvoiceHash T) (row_nonce row)"
    by (auto simp: unused_nonce_def lookup_iff [OF inv])
  show "\<And>g s. sqlite_getByInvoiceHash T g = Some s \<Longrightarrow>
           rec_payTo s \<noteq> row_pay_to row \<and> rec_derivationIndex s \<noteq> Some (row_derivation_index row)"
    using free by (auto simp: lookup_iff [OF inv])
qed

lemma sqlite_issue_at_correct:
  assumes "sqlite_invar T" "fresh_record r"
  shows "sqlite_invar (snd (sqlite_issue_at Q T r k)) \<and>
    issue_spec (sqlite_getByInvoiceHash T) r (fst (sqlite_issue_at Q T r k))
      (sqlite_getByInvoiceHash (snd (sqlite_issue_at Q T r k)))"
proof (cases "sql_insert Q T (recordToRow r k)")
  case (Inl e)
  with assms show ?thesis by (simp add: sqlite_issue_at_def issue_spec_def)
next
  case (Inr T')
  have "record_ok (rowToRecord (recordToRow r k))"
    using assms(2) by (simp add: record_ok_def fresh_record_def)
  from sql_insert_correct(1-4) [OF assms(1) Inr this] show ?thesis
    using Inr by (auto simp: sqlite_issue_at_def issue_spec_def)
qed

lemma sqlite_issueWithAllocation_correct:
  assumes "sqlite_invar T" "fresh_params p"
  shows "sqlite_invar (snd (sqlite_issueWithAllocation E Q T p a)) \<and>
    alloc_spec E (sqlite_getByInvoiceHash T) p a (fst (sqlite_issueWithAllocation E Q T p a))
      (sqlite_getByInvoiceHash (snd (sqlite_issueWithAllocation E Q T p a)))"
proof (cases "sqlite_allocate E Q T p a")
  case (Inl e)
  with assms show ?thesis by (simp add: sqlite_issueWithAllocation_def alloc_spec_def)
next
  case (Inr res)
  let ?k = "sqlite_getNextDerivationIndex T"
  from Inr obtain payTo h T' where a: "a ?k = Inr payTo" "computeInvoiceHash E (allocated_invoice p payTo) = Inr h"
    and ins: "sql_insert Q T (recordToRow (allocated_record p h payTo ?k) ?k) = Inr T'"
    and res: "res = ((allocated_record p h payTo ?k, allocated_invoice p payTo), T')"
    by (auto simp: sqlite_allocate_def Let_def err_simps)
  let ?r = "allocated_record p h payTo ?k"
  have eq: "rowToRecord (recordToRow ?r ?k) = ?r" by (simp add: allocated_record_def)
  have ok: "record_ok (rowToRecord (recordToRow ?r ?k))"
    unfolding eq using assms(2)
    by (cases "ip_state p") (simp_all add: record_ok_def fresh_params_def or_default_def)
  have row: "row_invoice_hash (recordToRow ?r ?k) = h" "row_nonce (recordToRow ?r ?k) = ip_nonce p"
    "row_pay_to (recordToRow ?r ?k) = payTo" "row_derivation_index (recordToRow ?r ?k) = ?k"
    by (simp_all add: recordToRow_def)
  note facts = sql_insert_correct [OF assms(1) ins ok, unfolded row eq]
  have "fst (sqlite_issueWithAllocation E Q T p a) = Inr (?r, allocated_invoice p payTo)"
    "snd (sqlite_issueWithAllocation E Q T p a) = T'"
    using Inr res by (simp_all add: sqlite_issueWithAllocation_def)
  then show ?thesis using facts a by (auto simp: alloc_spec_def)
qed

lemma select_txid_iff:
  assumes "sqlite_invar T"
  shows "select_txid T t = Some r \<longleftrightarrow> r \<in> set T \<and> row_settled_txid r = Some t"
proof
  assume "select_txid T t = Some r"
  then show "r \<in> set T \<and> row_settled_txid r = Some t"
    by (auto simp: select_txid_def find_Some_iff)
next
  assume r: "r \<in> set T \<and> row_settled_txid r = Some t"
  then obtain s where "select_txid T t = Some s"
    by (cases "select_txid T t") (auto simp: select_txid_def find_None_iff)
  moreover from this have "s \<in> set T" "row_settled_txid s = Some t" by (auto simp: select_txid_def find_Some_iff)
  ultimately show "select_txid T t = Some r" using assms r unfolding sqlite_invar_def by blast
qed

lemma pay_row_simps [simp]:
  "row_invoice_hash (pay_row t p r) = row_invoice_hash r" "row_nonce (pay_row t p r) = row_nonce r"
  "row_pay_to (pay_row t p r) = row_pay_to r" "row_derivation_index (pay_row t p r) = row_derivation_index r"
  "row_settled_txid (pay_row t p r) = Some t" "row_state (pay_row t p r) = PAID" "rowToRecord (pay_row t p r) = pay_record (rowToRecord r) t p"
  by (simp_all add: pay_row_def rowToRecord_def pay_record_def)

lemma sql_update_correct:
  assumes inv: "sqlite_invar T" and row: "row \<in> set T" and free: "\<forall>r \<in> set T. row_settled_txid r \<noteq> Some t"
    and low: "toLowerCase t = t"
  obtains T' where "sql_update_paid Q T (row_invoice_hash row) t p = Inr T'" "sqlite_invar T'"
    "sqlite_getByInvoiceHash T' = (sqlite_getByInvoiceHash T)(row_invoice_hash row \<mapsto> pay_record (rowToRecord row) t p)"
proof
  let ?h = "row_invoice_hash row"
  let ?f = "\<lambda>r. if row_invoice_hash r = ?h then pay_row t p r else r"
  let ?T = "map ?f T"
  show "sql_update_paid Q T ?h t p = Inr ?T"
    using free by (auto simp: sql_update_paid_def list_ex_iff)
  have keys: "map row_invoice_hash ?T = map row_invoice_hash T" "map row_nonce ?T = map row_nonce T"
    "map row_pay_to ?T = map row_pay_to T" "map row_derivation_index ?T = map row_derivation_index T" by simp_all
  have same: "r = row" if "r \<in> set T" "row_invoice_hash r = ?h" for r
    using that row inv by (auto simp: sqlite_invar_def distinct_map dest: inj_onD)
  show inv': "sqlite_invar ?T"
    unfolding sqlite_invar_def keys
  proof (intro conjI ballI allI impI)
    fix r s u
    assume "r \<in> set ?T" "s \<in> set ?T" "row_settled_txid r = Some u \<and> row_settled_txid s = Some u"
    then show "r = s"
      using free inv unfolding sqlite_invar_def by (auto split: if_splits dest: same)
  qed (use inv low in \<open>auto simp: sqlite_invar_def record_ok_def split: if_splits\<close>)
  show "sqlite_getByInvoiceHash ?T = (sqlite_getByInvoiceHash T)(?h \<mapsto> pay_record (rowToRecord row) t p)"
  proof (rule ext)
    fix h
    show "sqlite_getByInvoiceHash ?T h =
          ((sqlite_getByInvoiceHash T)(?h \<mapsto> pay_record (rowToRecord row) t p)) h"
    proof (cases "h = ?h")
      case True
      have "pay_row t p row \<in> set ?T" using row by force
      then have "sqlite_getByInvoiceHash ?T ?h = Some (rowToRecord (pay_row t p row))"
        unfolding lookup_iff [OF inv'] by (rule bexI [rotated]) simp
      with True show ?thesis by simp
    next
      case False
      have "List.find (\<lambda>r. row_invoice_hash r = h) (map ?f xs) = List.find (\<lambda>r. row_invoice_hash r = h) xs" for xs
        using False by (induction xs) auto
      with False show ?thesis by (simp add: sqlite_getByInvoiceHash_def select_hash_def)
    qed
  qed
qed

lemma sqlite_commitPaid_correct:
  assumes inv: "sqlite_invar T"
  shows "sqlite_invar (snd (sqlite_commitPaid Q T h t p)) \<and>
    (\<exists>res. fst (sqlite_commitPaid Q T h t p) = Inr res \<and>
       commit_spec (sqlite_getByInvoiceHash T) h t p res (sqlite_getByInvoiceHash (snd (sqlite_commitPaid Q T h t p))))"
proof -
  let ?t = "toLowerCase t"
  note op = sqlite_commitPaid_def [of Q T h t p]
  consider (reused) s where "select_txid T ?t = Some s" "row_invoice_hash s \<noteq> h"
    | (own) "\<forall>s. select_txid T ?t = Some s \<longrightarrow> row_invoice_hash s = h" by auto
  then show ?thesis
  proof cases
    case reused
    then have "settled_by (sqlite_getByInvoiceHash T) (row_invoice_hash s) ?t"
      by (auto simp: settled_by_iff [OF inv] select_txid_iff [OF inv])
    with reused inv show ?thesis by (auto simp: op Let_def commit_spec_def)
  next
    case own
    then have none: "(case select_txid T ?t of Some txRow \<Rightarrow>
        if row_invoice_hash txRow \<noteq> h then Some (row_invoice_hash txRow) else None | None \<Rightarrow> None) = None"
      by (simp split: option.splits)
    show ?thesis
    proof (cases "select_hash T h")
      case None
      then show ?thesis
        using inv none by (simp add: op Let_def commit_spec_def sqlite_getByInvoiceHash_def)
    next
      case (Some row)
      then have row: "row \<in> set T" "row_invoice_hash row = h" by (auto simp: select_hash_iff [OF inv])
      have look: "sqlite_getByInvoiceHash T h = Some (rowToRecord row)"
        using Some by (simp add: sqlite_getByInvoiceHash_def)
      show ?thesis
      proof (cases "row_state row = PAID")
        case True
        then obtain u where "row_settled_txid row = Some u"
          using inv row by (auto simp: sqlite_invar_def record_ok_def)
        with True Some none inv look show ?thesis by (auto simp: op Let_def commit_spec_def settled_by_def)
      next
        case False
        have free: "\<forall>r \<in> set T. row_settled_txid r \<noteq> Some ?t"
        proof
          fix r assume r: "r \<in> set T"
          have unpaid: "row_settled_txid row = None"
            using False inv row by (auto simp: sqlite_invar_def record_ok_def)
          show "row_settled_txid r \<noteq> Some ?t"
          proof
            assume settled: "row_settled_txid r = Some ?t"
            with r own have "row_invoice_hash r = h" by (simp add: select_txid_iff [OF inv])
            with r Some have "r = row" using select_hash_iff [OF inv, of h r] by simp
            with settled unpaid show False by simp
          qed
        qed
        obtain T' where T': "sql_update_paid Q T h ?t p = Inr T'" "sqlite_invar T'"
          "sqlite_getByInvoiceHash T' = (sqlite_getByInvoiceHash T)(h \<mapsto> pay_record (rowToRecord row) ?t p)"
          using sql_update_correct [OF inv row(1) free, of Q p] row(2) by auto
        have "\<forall>k. \<not> settled_by (sqlite_getByInvoiceHash T) k ?t"
          using free by (auto simp: settled_by_iff [OF inv])
        with T' look False Some none show ?thesis by (simp add: op Let_def commit_spec_def)
      qed
    qed
  qed
qed

interpretation sqlite: invoice_store E sqlite_getByInvoiceHash sqlite_getBySettledTxid "sqlite_issue Q"
  "sqlite_issueWithAllocation E Q" "sqlite_commitPaid Q" sqlite_invar for E Q
proof unfold_locales
  fix T t r
  assume T: "sqlite_invar T" "sqlite_getBySettledTxid T t = Some r"
  then show "sqlite_getByInvoiceHash T (rec_invoiceHash r) = Some r \<and> rec_settledTxid r = Some (toLowerCase t)"
    by (auto simp: sqlite_getBySettledTxid_def select_txid_iff lookup_iff)
next
  fix T h r t
  assume "sqlite_invar T" "sqlite_getByInvoiceHash T h = Some r" "rec_settledTxid r = Some (toLowerCase t)"
  then obtain row where "row \<in> set T" "r = rowToRecord row" "row_settled_txid row = Some (toLowerCase t)"
    by (auto simp: lookup_iff)
  then show "sqlite_getBySettledTxid T t = Some r"
    using \<open>sqlite_invar T\<close> select_txid_iff [of T "toLowerCase t" row] by (simp add: sqlite_getBySettledTxid_def)
qed (use sqlite_authority_ok sqlite_issue_at_correct sqlite_issueWithAllocation_correct
      sqlite_commitPaid_correct in \<open>auto simp: sqlite_issue_def\<close>)

lemma sqlite_invar_empty [simp]: "sqlite_invar []"
  by (simp add: sqlite_invar_def)

end
