(* ===== verification/Settlement_System.thy ===== *)
theory Settlement_System
  imports Settlement_Verifier Memory_Store Sqlite_Store
begin

text \<open>
  A server that verifies settlement proofs concurrently: the record read of \<open>verifySettlementProof\<close>,
  the queries that follow it and the commit of different requests interleave, and invoices are issued
  in between. Every step may see another clock, chain and proof. The invariant of the interface
  \<open>invoice_store\<close> carries the safety of the whole: one transaction unlocks one invoice, whatever the
  interleaving, and what it unlocked it pays in full.
\<close>

text \<open>An unlock as the server reported it: the proof, the matched output and the transaction.\<close>

type_synonym unlock = "settlement_proof \<times> nat \<times> chronik_tx"

record 's server =
  srv_store :: 's
  srv_pending :: "pending list"
  srv_unlocked :: "unlock list"

inductive server_step ::
  "cashaddr_codec \<Rightarrow> (string \<Rightarrow> string result) option \<Rightarrow> ('s \<Rightarrow> authority) \<Rightarrow>
   ('s \<Rightarrow> invoice_record \<Rightarrow> unit result \<times> 's) \<Rightarrow> ('s \<Rightarrow> issue_params \<Rightarrow> allocator \<Rightarrow> issued result \<times> 's) \<Rightarrow>
   ('s \<Rightarrow> string \<Rightarrow> string \<Rightarrow> int \<Rightarrow> commit_result result \<times> 's) \<Rightarrow> 's server \<Rightarrow> 's server \<Rightarrow> bool"
  for L converter lookup issue alloc commit where
  issue_step: "fresh_record r \<Longrightarrow>
    server_step L converter lookup issue alloc commit s (s\<lparr>srv_store := snd (issue (srv_store s) r)\<rparr>)"
| allocate_step: "fresh_params p \<Longrightarrow>
    server_step L converter lookup issue alloc commit s (s\<lparr>srv_store := snd (alloc (srv_store s) p a)\<rparr>)"
| check_step:
    "settlement_check SE opt (lookup (srv_store s)) = Inr pend \<Longrightarrow> se_codec SE = L \<Longrightarrow>
     so_addressToScript opt = converter \<Longrightarrow>
     server_step L converter lookup issue alloc commit s (s\<lparr>srv_pending := pend # srv_pending s\<rparr>)"
| unlock_step:
    "pend \<in> set (srv_pending s) \<Longrightarrow>
     settlement_commit commit pend (srv_store s) = (Inr (Unlocked r pf i tx idem), store') \<Longrightarrow>
     server_step L converter lookup issue alloc commit s
       (s\<lparr>srv_store := store', srv_pending := remove1 pend (srv_pending s),
         srv_unlocked := (pf, i, tx) # srv_unlocked s\<rparr>)"
| refuse_step:
    "pend \<in> set (srv_pending s) \<Longrightarrow> settlement_commit commit pend (srv_store s) = (res, store') \<Longrightarrow>
     \<forall>r pf i tx idem. res \<noteq> Inr (Unlocked r pf i tx idem) \<Longrightarrow>
     server_step L converter lookup issue alloc commit s
       (s\<lparr>srv_store := store', srv_pending := remove1 pend (srv_pending s)\<rparr>)"

inductive_cases server_stepE: "server_step L converter lookup issue alloc commit s s'"

inductive server_reachable ::
  "cashaddr_codec \<Rightarrow> (string \<Rightarrow> string result) option \<Rightarrow> ('s \<Rightarrow> authority) \<Rightarrow>
   ('s \<Rightarrow> invoice_record \<Rightarrow> unit result \<times> 's) \<Rightarrow> ('s \<Rightarrow> issue_params \<Rightarrow> allocator \<Rightarrow> issued result \<times> 's) \<Rightarrow>
   ('s \<Rightarrow> string \<Rightarrow> string \<Rightarrow> int \<Rightarrow> commit_result result \<times> 's) \<Rightarrow> 's \<Rightarrow> 's server \<Rightarrow> bool"
  for L converter lookup issue alloc commit s0 where
  start: "server_reachable L converter lookup issue alloc commit s0
    \<lparr>srv_store = s0, srv_pending = [], srv_unlocked = []\<rparr>"
| step: "server_reachable L converter lookup issue alloc commit s0 s \<Longrightarrow>
    server_step L converter lookup issue alloc commit s s' \<Longrightarrow>
    server_reachable L converter lookup issue alloc commit s0 s'"

subsection \<open>What a record keeps\<close>

definition same_terms :: "invoice_record \<Rightarrow> invoice_record \<Rightarrow> bool" where
  "same_terms r s \<longleftrightarrow> rec_payTo r = rec_payTo s \<and> rec_amountSats r = rec_amountSats s"

definition terms_kept :: "authority \<Rightarrow> authority \<Rightarrow> bool" where
  "terms_kept m m' \<longleftrightarrow> (\<forall>h r. m h = Some r \<longrightarrow> (\<exists>s. m' h = Some s \<and> same_terms r s))"

lemma same_terms_refl [simp]: "same_terms r r"
  by (simp add: same_terms_def)

lemma pays_record_same: "same_terms r s \<Longrightarrow> pays_record L c r tx i \<longleftrightarrow> pays_record L c s tx i"
  by (simp add: pays_record_def same_terms_def)

lemma terms_kept_issue: "issue_spec m r res m' \<Longrightarrow> terms_kept m m'"
  by (auto simp: issue_spec_def terms_kept_def split: sum.splits)

lemma terms_kept_alloc: "alloc_spec E m p a res m' \<Longrightarrow> terms_kept m m'"
  by (auto simp: alloc_spec_def terms_kept_def split: sum.splits)

lemma terms_kept_commit:
  assumes "commit_spec m h t p res m'"
  shows "terms_kept m m'"
  using assms by (cases rule: commit_spec_cases) (auto simp: terms_kept_def same_terms_def)

text \<open>A pending commit pays the record it was checked against.\<close>

definition pending_ok ::
  "cashaddr_codec \<Rightarrow> (string \<Rightarrow> string result) option \<Rightarrow> authority \<Rightarrow> pending \<Rightarrow> bool" where
  "pending_ok L converter m pend \<longleftrightarrow> (case pend of (pf, i, tx, now) \<Rightarrow>
     proof_valid pf \<and> (\<exists>r. m (prf_invoiceHash pf) = Some r \<and> pays_record L converter r tx i))"

text \<open>An unlock is recorded, by its transaction, and paid in full.\<close>

definition unlock_ok ::
  "cashaddr_codec \<Rightarrow> (string \<Rightarrow> string result) option \<Rightarrow> authority \<Rightarrow> unlock \<Rightarrow> bool" where
  "unlock_ok L converter m u \<longleftrightarrow> (case u of (pf, i, tx) \<Rightarrow>
     \<exists>r. m (prf_invoiceHash pf) = Some r \<and> rec_state r = PAID \<and>
       rec_settledTxid r = Some (prf_txid pf) \<and> pays_record L converter r tx i)"

lemma pending_ok_kept: "terms_kept m m' \<Longrightarrow> pending_ok L c m pend \<Longrightarrow> pending_ok L c m' pend"
  unfolding pending_ok_def terms_kept_def by (auto split: prod.splits) (metis pays_record_same)

lemma unlock_ok_kept:
  assumes "terms_kept m m'" "authority_ok m'" "\<And>h t. settled_by m h t \<Longrightarrow> settled_by m' h t" "unlock_ok L c m u"
  shows "unlock_ok L c m' u"
proof -
  obtain pf i tx where u: "u = (pf, i, tx)" by (cases u)
  with assms(4) obtain r where r: "m (prf_invoiceHash pf) = Some r" "pays_record L c r tx i"
    "settled_by m (prf_invoiceHash pf) (prf_txid pf)"
    by (auto simp: unlock_ok_def settled_by_def)
  with assms(1) obtain s where s: "m' (prf_invoiceHash pf) = Some s" "same_terms r s"
    by (auto simp: terms_kept_def)
  from assms(3) [OF r(3)] s(1) authority_okD(2) [OF assms(2) s(1)] r(2) s(2) show ?thesis
    by (auto simp: unlock_ok_def u settled_by_def record_ok_def pays_record_same)
qed

context invoice_store
begin

abbreviation srv_step where
  "srv_step L c \<equiv> server_step L c lookup issue alloc commit"

definition server_invar :: "cashaddr_codec \<Rightarrow> (string \<Rightarrow> string result) option \<Rightarrow> 's server \<Rightarrow> bool" where
  "server_invar L c s \<longleftrightarrow> invar (srv_store s) \<and>
     list_all (pending_ok L c (lookup (srv_store s))) (srv_pending s) \<and>
     list_all (unlock_ok L c (lookup (srv_store s))) (srv_unlocked s)"

lemma server_invar_store:
  assumes "server_invar L c s" "invar s'" "terms_kept (lookup (srv_store s)) (lookup s')"
    and "\<And>h t. settled_by (lookup (srv_store s)) h t \<Longrightarrow> settled_by (lookup s') h t"
  shows "server_invar L c (s\<lparr>srv_store := s'\<rparr>)"
  using assms pending_ok_kept [OF assms(3)] unlock_ok_kept [OF assms(3) invar_authority [OF assms(2)] assms(4)]
  by (auto simp: server_invar_def list_all_iff)

lemma server_invar_issue:
  assumes "server_invar L c s" "fresh_record r"
  shows "server_invar L c (s\<lparr>srv_store := snd (issue (srv_store s) r)\<rparr>)"
proof -
  have s: "invar (srv_store s)" using assms(1) by (simp add: server_invar_def)
  note spec = issue_refines [OF s assms(2)]
  from server_invar_store [OF assms(1) issue_invar [OF s assms(2)] terms_kept_issue [OF spec]
      settled_by_stays_issue [OF spec]] show ?thesis .
qed

lemma server_invar_allocate:
  assumes "server_invar L c s" "fresh_params p"
  shows "server_invar L c (s\<lparr>srv_store := snd (alloc (srv_store s) p a)\<rparr>)"
proof -
  have s: "invar (srv_store s)" using assms(1) by (simp add: server_invar_def)
  note spec = alloc_refines [OF s assms(2)]
  from server_invar_store [OF assms(1) alloc_invar [OF s assms(2)] terms_kept_alloc [OF spec]
      settled_by_stays_alloc [OF spec]] show ?thesis .
qed

lemma server_invar_commit:
  assumes "server_invar L c s"
  shows "server_invar L c (s\<lparr>srv_store := snd (commit (srv_store s) h t now)\<rparr>)"
proof -
  have s: "invar (srv_store s)" using assms(1) by (simp add: server_invar_def)
  obtain res where spec: "commit_spec (lookup (srv_store s)) h t now res (lookup (snd (commit (srv_store s) h t now)))"
    using commit_refines [OF s] by blast
  from server_invar_store [OF assms(1) commit_invar [OF s] terms_kept_commit [OF spec]
      settled_by_stays_commit [OF invar_authority [OF s] spec]] show ?thesis .
qed

lemma settlement_commit_store:
  "snd (settlement_commit commit (pf, i, tx, now) s) = snd (commit s (prf_invoiceHash pf) (prf_txid pf) now)"
  by (simp add: settlement_commit_def case_prod_beta)

lemma settlement_commit_Unlocked:
  assumes "fst (settlement_commit commit (q, j, u, now) s) = Inr (Unlocked r pf i tx idem)"
  shows "q = pf" "j = i" "u = tx" "fst (commit s (prf_invoiceHash pf) (prf_txid pf) now) = Inr (Committed idem r)"
  using assms by (auto simp: settlement_commit_def case_prod_beta ebind_Inr_iff commit_outcome_Unlocked)

lemma unlock_ok_commit:
  assumes s: "server_invar L c s" and pend: "(pf, i, tx, now) \<in> set (srv_pending s)"
    and res: "fst (commit (srv_store s) (prf_invoiceHash pf) (prf_txid pf) now) = Inr (Committed idem r)"
  shows "unlock_ok L c (lookup (snd (commit (srv_store s) (prf_invoiceHash pf) (prf_txid pf) now))) (pf, i, tx)"
proof -
  let ?h = "prf_invoiceHash pf" and ?m = "lookup (srv_store s)"
  let ?m' = "lookup (snd (commit (srv_store s) ?h (prf_txid pf) now))"
  have inv: "invar (srv_store s)" using s by (simp add: server_invar_def)
  have ok: "pending_ok L c ?m (pf, i, tx, now)" using s pend by (auto simp: server_invar_def list_all_iff)
  obtain spec: "commit_spec ?m ?h (prf_txid pf) now (Committed idem r) ?m'"
    using commit_refines [OF inv, of ?h "prf_txid pf" now] res by auto
  have "toLowerCase (prf_txid pf) = prf_txid pf"
    using ok by (simp add: pending_ok_def proof_valid_def)
  with commit_settles [OF spec] have settled: "settled_by ?m' ?h (prf_txid pf)" by simp
  have "pending_ok L c ?m' (pf, i, tx, now)"
    by (rule pending_ok_kept [OF terms_kept_commit [OF spec] ok])
  then obtain r' where r': "?m' ?h = Some r'" "pays_record L c r' tx i" by (auto simp: pending_ok_def)
  moreover have "record_ok r'"
    using authority_okD(2) [OF invar_authority [OF commit_invar [OF inv]]] r'(1) by blast
  ultimately show ?thesis using settled by (auto simp: unlock_ok_def settled_by_def record_ok_def)
qed

lemma server_invar_step:
  assumes "srv_step L c s s'" "server_invar L c s"
  shows "server_invar L c s'"
  using assms
proof (cases rule: server_step.cases)
  case (issue_step r)
  with server_invar_issue [OF assms(2)] show ?thesis by simp
next
  case (allocate_step p a)
  with server_invar_allocate [OF assms(2)] show ?thesis by simp
next
  case (check_step SE opt pend)
  obtain pf i tx now where pend: "pend = (pf, i, tx, now)" by (cases pend)
  with check_step have "pending_ok L c (lookup (srv_store s)) pend"
    by (auto simp: settlement_check_Inr settlement_evidence_def pending_ok_def dest: parse_proof_valid)
  with assms(2) check_step(1) show ?thesis by (simp add: server_invar_def)
next
  case (unlock_step pend r pf i tx idem store')
  obtain q j u now where "pend = (q, j, u, now)" by (cases pend)
  with unlock_step(3) settlement_commit_Unlocked [of q j u now "srv_store s" r pf i tx idem]
  have pend: "pend = (pf, i, tx, now)"
    and res: "fst (commit (srv_store s) (prf_invoiceHash pf) (prf_txid pf) now) = Inr (Committed idem r)"
    by auto
  have store': "store' = snd (commit (srv_store s) (prf_invoiceHash pf) (prf_txid pf) now)"
    using unlock_step(3) settlement_commit_store [of pf i tx now "srv_store s"] pend by simp
  have "unlock_ok L c (lookup store') (pf, i, tx)"
    unfolding store' using unlock_ok_commit [OF assms(2) _ res, of i tx] unlock_step(2) pend by simp
  moreover have "server_invar L c (s\<lparr>srv_store := store'\<rparr>)"
    unfolding store' by (rule server_invar_commit [OF assms(2)])
  ultimately show ?thesis
    using unlock_step(1) set_remove1_subset [of pend "srv_pending s"] by (auto simp: server_invar_def list_all_iff)
next
  case (refuse_step pend res store')
  obtain pf i tx now where pend: "pend = (pf, i, tx, now)" by (cases pend)
  have store': "store' = snd (commit (srv_store s) (prf_invoiceHash pf) (prf_txid pf) now)"
    using refuse_step(3) settlement_commit_store [of pf i tx now "srv_store s"] pend by simp
  have "server_invar L c (s\<lparr>srv_store := store'\<rparr>)"
    unfolding store' by (rule server_invar_commit [OF assms(2)])
  then show ?thesis
    using refuse_step(1) set_remove1_subset [of pend "srv_pending s"] by (auto simp: server_invar_def list_all_iff)
qed

lemma server_invar_reachable:
  "server_reachable L c lookup issue alloc commit s0 s \<Longrightarrow> invar s0 \<Longrightarrow> server_invar L c s"
  by (induction rule: server_reachable.induct) (auto simp: server_invar_def dest: server_invar_step)

text \<open>Safety, under every interleaving: unlocks of one transaction are unlocks of one invoice, and every
  unlocked invoice is paid in full by the transaction that the store has for it.\<close>

lemma reachable_unlocks_once:
  assumes "server_reachable L c lookup issue alloc commit s0 s" "invar s0"
    and "(p, i, tx) \<in> set (srv_unlocked s)" "(q, j, ty) \<in> set (srv_unlocked s)"
  shows "prf_txid p = prf_txid q \<longleftrightarrow> prf_invoiceHash p = prf_invoiceHash q"
proof -
  have inv: "server_invar L c s" using server_invar_reachable assms(1,2) by blast
  then have auth: "authority_ok (lookup (srv_store s))" by (simp add: server_invar_def invar_authority)
  have "unlock_ok L c (lookup (srv_store s)) (p, i, tx)" "unlock_ok L c (lookup (srv_store s)) (q, j, ty)"
    using inv assms(3,4) by (auto simp: server_invar_def list_all_iff)
  then have "settled_by (lookup (srv_store s)) (prf_invoiceHash p) (prf_txid p)"
    "settled_by (lookup (srv_store s)) (prf_invoiceHash q) (prf_txid q)"
    by (auto simp: unlock_ok_def settled_by_def)
  then show ?thesis using authority_okD(4) [OF auth] by (auto simp: settled_by_def)
qed

lemma reachable_unlock_paid:
  assumes "server_reachable L c lookup issue alloc commit s0 s" "invar s0" "(p, i, tx) \<in> set (srv_unlocked s)"
  shows "\<exists>r. lookup (srv_store s) (prf_invoiceHash p) = Some r \<and> rec_state r = PAID \<and>
    rec_settledTxid r = Some (prf_txid p) \<and> pays_record L c r tx i"
  using server_invar_reachable [OF assms(1,2)] assms(3)
  by (auto simp: server_invar_def list_all_iff unlock_ok_def)

text \<open>An honest payment unlocks, and again on every retry.\<close>

lemma payment_unlocks:
  assumes inv: "invar s" and pf: "parse_proof (so_proof opt) = Some pf"
    and look: "lookup s (prf_invoiceHash pf) = Some invoice" and unpaid: "rec_state invoice \<noteq> PAID"
    and free: "\<forall>k. \<not> settled_by (lookup s) k (prf_txid pf)"
    and ev: "settlement_evidence SE opt invoice pf i tx now"
  shows "fst (verifySettlementProof SE lookup commit opt s) =
      Inr (Unlocked (pay_record invoice (prf_txid pf) now) pf i tx False) \<and>
    lookup (snd (verifySettlementProof SE lookup commit opt s)) =
      (lookup s)(prf_invoiceHash pf \<mapsto> pay_record invoice (prf_txid pf) now)"
proof -
  let ?h = "prf_invoiceHash pf" and ?t = "prf_txid pf"
  have low: "toLowerCase ?t = ?t" using parse_proof_valid [OF pf] by (simp add: proof_valid_def)
  obtain res where res: "fst (commit s ?h ?t now) = Inr res"
    "commit_spec (lookup s) ?h ?t now res (lookup (snd (commit s ?h ?t now)))"
    using commit_refines [OF inv] by blast
  have paid: "res = Committed False (pay_record invoice ?t now) \<and>
    lookup (snd (commit s ?h ?t now)) = (lookup s)(?h \<mapsto> pay_record invoice ?t now)"
    using res(2)
  proof (cases rule: commit_spec_cases)
    case (again r)
    with look unpaid authority_okD(2) [OF invar_authority [OF inv] look] show ?thesis by (simp add: record_ok_def)
  next
    case (conflict msg u)
    with look unpaid authority_okD(2) [OF invar_authority [OF inv] look] show ?thesis
      by (auto simp: record_ok_def settled_by_def)
  qed (use look free low in auto)
  from pf look ev have "settlement_check SE opt (lookup s) = Inr (pf, i, tx, now)"
    by (simp add: settlement_check_Inr)
  then have "verifySettlementProof SE lookup commit opt s = settlement_commit commit (pf, i, tx, now) s"
    by (simp add: verifySettlementProof_def)
  with res(1) paid show ?thesis
    by (simp add: settlement_commit_store settlement_commit_def commit_outcome_def split_beta)
qed

end

end
