(* ===== verification/Nonce_Store.thy ===== *)
theory Nonce_Store
  imports Prelude
begin

text \<open>
  \<open>packages/x402-xec-core/src/nonce-store.ts\<close>: the store of consumed nonces. The interface
  \<open>NonceStore\<close> is the locale \<open>nonce_store\<close>: an atomic \<open>consume\<close> over a state whose meaning is a map
  from nonces to expiries. Inside it, runs of \<open>consume\<close> under a clock that does not go back are shown
  to accept a nonce again only after its recorded expiry. \<open>InMemoryNonceStore\<close> is the interpretation.
\<close>

subsection \<open>The interface\<close>

text \<open>What is left of a map of expiries at a time: entries that expired are dropped.\<close>

definition unexpired :: "int \<Rightarrow> (string \<Rightarrow> int option) \<Rightarrow> string \<Rightarrow> int option" where
  "unexpired now m n = (case m n of None \<Rightarrow> None | Some e \<Rightarrow> if e \<le> now then None else Some e)"

lemma unexpired_Some [simp]: "unexpired now m n = Some e \<longleftrightarrow> m n = Some e \<and> now < e"
  by (auto simp: unexpired_def split: option.splits)

lemma unexpired_None: "unexpired now m n = None \<longleftrightarrow> (\<forall>e. m n = Some e \<longrightarrow> e \<le> now)"
  by (auto simp: unexpired_def split: option.splits)

text \<open>One call of \<open>consume\<close>: the nonce, the expiry to record and the time.\<close>

type_synonym consume_call = "string \<times> int \<times> int"

locale nonce_store =
  fixes consume :: "'s \<Rightarrow> string \<Rightarrow> int \<Rightarrow> int \<Rightarrow> bool \<times> 's"
    and expiries :: "'s \<Rightarrow> string \<Rightarrow> int option"
    and invar :: "'s \<Rightarrow> bool"
  assumes consume_invar: "invar s \<Longrightarrow> invar (snd (consume s n e now))"
    and consume_fst: "invar s \<Longrightarrow> fst (consume s n e now) \<longleftrightarrow> unexpired now (expiries s) n = None"
    and consume_expiries: "invar s \<Longrightarrow>
      expiries (snd (consume s n e now)) =
        (if unexpired now (expiries s) n = None then (unexpired now (expiries s)) (n \<mapsto> e)
         else unexpired now (expiries s))"
begin

fun run :: "'s \<Rightarrow> consume_call list \<Rightarrow> bool list" where
  "run s [] = []"
| "run s ((n, e, t) # cs) = fst (consume s n e t) # run (snd (consume s n e t)) cs"

lemma length_run [simp]: "length (run s cs) = length cs"
  by (induction s cs rule: run.induct) simp_all

text \<open>A nonce that is recorded stays refused until its expiry.\<close>

lemma refused_until_expiry:
  assumes "invar s" "expiries s n = Some e" "sorted (map (\<lambda>(_, _, t). t) cs)"
    and "j < length cs" "cs ! j = (n, e', t)" "t < e"
  shows "\<not> run s cs ! j"
  using assms
proof (induction cs arbitrary: s j)
  case Nil
  then show ?case by simp
next
  case (Cons c cs)
  obtain n0 e0 t0 where c: "c = (n0, e0, t0)" by (cases c)
  have "t0 < e"
    using Cons.prems(3-6) c by (cases j) (auto simp: in_set_conv_nth, metis nth_mem case_prod_conv le_less_trans)
  show ?case
  proof (cases j)
    case 0
    with Cons.prems c have "unexpired t (expiries s) n = Some e" by simp
    with 0 Cons.prems c show ?thesis by (auto simp: consume_fst)
  next
    case (Suc i)
    have "expiries (snd (consume s n0 e0 t0)) n = Some e"
      using Cons.prems(1,2) \<open>t0 < e\<close> by (auto simp: consume_expiries unexpired_None)
    with Suc Cons.prems c Cons.IH [of "snd (consume s n0 e0 t0)" i] show ?thesis
      by (simp add: consume_invar)
  qed
qed

lemma accepted_again_only_after_expiry:
  assumes "invar s" "sorted (map (\<lambda>(_, _, t). t) cs)"
    and "i < j" "j < length cs" "cs ! i = (n, e, t)" "cs ! j = (n, e', t')"
    and "run s cs ! i" "run s cs ! j"
  shows "e \<le> t'"
  using assms
proof (induction cs arbitrary: s i j)
  case Nil
  then show ?case by simp
next
  case (Cons c cs)
  obtain n0 e0 t0 where c: "c = (n0, e0, t0)" by (cases c)
  obtain j' where j: "j = Suc j'" using Cons.prems(3) by (cases j) auto
  let ?s = "snd (consume s n0 e0 t0)"
  have invar: "invar ?s" and sorted: "sorted (map (\<lambda>(_, _, t). t) cs)"
    using Cons.prems(1,2) c by (simp_all add: consume_invar)
  show ?case
  proof (cases i)
    case 0
    then have "expiries ?s n = Some e"
      using Cons.prems(1,5,7) c by (auto simp: consume_expiries consume_fst)
    from refused_until_expiry [OF invar this sorted, of j' e' t'] show ?thesis
      using Cons.prems(4,6,8) c j by (auto simp: not_less [symmetric])
  next
    case (Suc i')
    with j Cons.prems c Cons.IH [OF invar sorted, of i' j'] show ?thesis by simp
  qed
qed

end

subsection \<open>The in-memory store\<close>

type_synonym nonce_map = "(string, int) jmap"

definition nonce_empty :: nonce_map where
  "nonce_empty = []"

text \<open>The loop deletes the expired entries of the map it iterates.\<close>

definition purge_nonces :: "nonce_map \<Rightarrow> int \<Rightarrow> nonce_map" where
  "purge_nonces m now = filter (\<lambda>(_, expiry). \<not> expiry \<le> now) m"

definition consume_nonce :: "nonce_map \<Rightarrow> string \<Rightarrow> int \<Rightarrow> int \<Rightarrow> bool \<times> nonce_map" where
  "consume_nonce m nonce expiresAt now =
     (let live = purge_nonces m now in
      if jhas live nonce then (False, live) else (True, jset live nonce expiresAt))"

definition nonce_invar :: "nonce_map \<Rightarrow> bool" where
  "nonce_invar m \<longleftrightarrow> distinct (map fst m)"

lemma jget_purge_nonces: "nonce_invar m \<Longrightarrow> jget (purge_nonces m now) = unexpired now (jget m)"
  by (rule ext) (simp add: purge_nonces_def nonce_invar_def jget_filter unexpired_def split: option.splits)

lemma nonce_invar_empty [simp]: "nonce_invar nonce_empty"
  by (simp add: nonce_invar_def nonce_empty_def)

lemma nonce_invar_purge [simp]: "nonce_invar m \<Longrightarrow> nonce_invar (purge_nonces m now)"
  by (simp add: nonce_invar_def purge_nonces_def)

lemma nonce_invar_jset [simp]: "nonce_invar m \<Longrightarrow> nonce_invar (jset m n e)"
  by (simp add: nonce_invar_def)

interpretation memory_nonces: nonce_store consume_nonce map_of nonce_invar
proof unfold_locales
  fix m :: nonce_map and n e now
  assume m: "nonce_invar m"
  then show "nonce_invar (snd (consume_nonce m n e now))"
    by (simp add: consume_nonce_def Let_def)
  from m show "fst (consume_nonce m n e now) \<longleftrightarrow> unexpired now (map_of m) n = None"
    by (simp add: consume_nonce_def Let_def jhas_def jget_purge_nonces del: not_None_eq)
  from m show "map_of (snd (consume_nonce m n e now)) =
      (if unexpired now (map_of m) n = None then (unexpired now (map_of m)) (n \<mapsto> e)
       else unexpired now (map_of m))"
    by (auto simp: consume_nonce_def Let_def jhas_def jget_purge_nonces fun_eq_iff)
qed

text \<open>Runs of the in-memory store.\<close>

fun consume_nonces :: "nonce_map \<Rightarrow> consume_call list \<Rightarrow> bool list" where
  "consume_nonces m [] = []"
| "consume_nonces m ((n, e, t) # cs) =
     (let r = consume_nonce m n e t in fst r # consume_nonces (snd r) cs)"

lemma consume_nonces_run: "consume_nonces m cs = memory_nonces.run m cs"
  by (induction m cs rule: consume_nonces.induct) (simp_all add: Let_def)

end
