(* ===== verification/Authorization.thy ===== *)
theory Authorization
  imports Invoice Nonce_Store
begin

text \<open>
  \<open>packages/x402-xec-core/src/authorization.ts\<close>: what a payer signs, and the check of a signed
  authorization against its invoice. \<open>verifyAuthorization\<close> threads the state of a nonce store, given
  by its \<open>consume\<close> operation; the signature verifier is a parameter, which may throw. The
  lemmas characterise acceptance exactly and, inside the interface of the nonce store, show that one
  invoice is accepted once along any run under a clock that does not go back.
\<close>

datatype verification_failure_code =
    A_MALFORMED | A_NOT_YET_VALID | A_EXPIRED | A_RESOURCE_MISMATCH | A_AMOUNT_MISMATCH
  | A_PAY_TO_MISMATCH | A_NONCE_MISMATCH | A_INVOICE_MISMATCH | A_INVALID_SIGNATURE | A_NONCE_REUSED

datatype verification_result = A_Ok int | A_Fail verification_failure_code

definition unsignedAuthorization :: "authorization \<Rightarrow> unsigned_authorization" where
  "unsignedAuthorization a = unsigned_authorization.truncate a"

definition authorizationSigningMessage :: "authorization \<Rightarrow> string result" where
  "authorizationSigningMessage a = canonicalize (unsigned_to_json (unsignedAuthorization a))"

record verify_input =
  vin_invoice :: js_value
  vin_authorization :: js_value
  vin_request :: resource_request
  vin_now :: js_number

type_synonym signature_verifier = "string \<Rightarrow> string \<Rightarrow> string \<Rightarrow> bool result"

text \<open>The checks before the signature, in the order of the code.\<close>

definition check_authorization ::
  "runtime \<Rightarrow> invoice \<Rightarrow> authorization \<Rightarrow> resource_request \<Rightarrow> int \<Rightarrow> verification_failure_code option result" where
  "check_authorization E i a request now =
     (if now < inv_issuedAt i then Inr (Some A_NOT_YET_VALID)
      else if now \<ge> inv_expiresAt i then Inr (Some A_EXPIRED)
      else (case computeResourceHash E request of
          Inl _ \<Rightarrow> Inr (Some A_MALFORMED)
        | Inr requestHash \<Rightarrow>
            if requestHash \<noteq> inv_resourceHash i \<or> auth_resourceHash a \<noteq> inv_resourceHash i then
              Inr (Some A_RESOURCE_MISMATCH)
            else ebind (parseAmountSats (auth_amountSats a)) (\<lambda>m.
              ebind (parseAmountSats (inv_amountSats i)) (\<lambda>n.
              if m \<noteq> n then Inr (Some A_AMOUNT_MISMATCH)
              else if auth_payTo a \<noteq> inv_payTo i then Inr (Some A_PAY_TO_MISMATCH)
              else if auth_nonce a \<noteq> inv_nonce i then Inr (Some A_NONCE_MISMATCH)
              else ebind (computeInvoiceHash E i) (\<lambda>h.
                if auth_x402Version a \<noteq> inv_x402Version i \<or> auth_scheme a \<noteq> inv_scheme i \<or>
                   auth_network a \<noteq> inv_network i \<or> auth_invoiceHash a \<noteq> h
                then Inr (Some A_INVOICE_MISMATCH) else Inr None)))))"

definition verifyAuthorization ::
  "runtime \<Rightarrow> signature_verifier \<Rightarrow> ('s \<Rightarrow> string \<Rightarrow> int \<Rightarrow> int \<Rightarrow> bool \<times> 's) \<Rightarrow> verify_input \<Rightarrow> 's \<Rightarrow>
   verification_result result \<times> 's" where
  "verifyAuthorization E verify consume input s =
     (case (parse_invoice (vin_invoice input), parse_authorization (vin_authorization input),
            safe_nonneg (vin_now input)) of
       (Some i, Some a, Some now) \<Rightarrow>
         (case check_authorization E i a (vin_request input) now of
            Inl e \<Rightarrow> (Inl e, s)
          | Inr (Some failure) \<Rightarrow> (Inr (A_Fail failure), s)
          | Inr None \<Rightarrow>
              (case ebind (authorizationSigningMessage a) (\<lambda>m. verify (auth_payer a) m (auth_signature a)) of
                 Inl e \<Rightarrow> (Inl e, s)
               | Inr signatureValid \<Rightarrow>
                   if \<not> signatureValid then (Inr (A_Fail A_INVALID_SIGNATURE), s)
                   else (let (fresh, s') = consume s (inv_nonce i) (inv_expiresAt i) now in
                     if \<not> fresh then (Inr (A_Fail A_NONCE_REUSED), s')
                     else (ebind (parseAmountSats (inv_amountSats i)) (\<lambda>n. Inr (A_Ok n)), s'))))
     | _ \<Rightarrow> (Inr (A_Fail A_MALFORMED), s))"

subsection \<open>The signed message\<close>

lemma unsigned_valid_truncate [simp]:
  "unsigned_valid (unsigned_authorization.truncate a) \<longleftrightarrow> unsigned_valid a"
  by (simp add: unsigned_valid_def unsigned_authorization.truncate_def)

lemma unsigned_to_json_total: "\<exists>m. canonicalize (unsigned_to_json u) = Inr m"
  using canonicalize_ok_iff [of "unsigned_to_json u"] unfolding ok_iff
  by (simp add: unsigned_to_json_def unsigned_fields_def tx_ref_to_json_def)

lemma authorizationSigningMessage_total: "\<exists>m. authorizationSigningMessage a = Inr m"
  by (simp add: authorizationSigningMessage_def unsigned_to_json_total)

lemma unsigned_to_json_normal_inj:
  fixes u v :: unsigned_authorization
  assumes "normal (unsigned_to_json u) = normal (unsigned_to_json v)"
  shows "u = v"
proof -
  have keys: "distinct (map fst (unsigned_fields w))" for w :: unsigned_authorization
    by (simp add: unsigned_fields_def)
  have eq: "map_option normal (map_of (unsigned_fields u) k) =
            map_option normal (map_of (unsigned_fields v) k)" for k
    by (rule normal_obj_fields [OF _ keys keys]) (use assms in \<open>simp only: unsigned_to_json_def\<close>)
  have tx: "tx_ref_to_json s = tx_ref_to_json t \<longleftrightarrow> s = t"
    "normal (tx_ref_to_json s) = JObj [(''txid'', JStr (ref_txid s)), (''vout'', JNum (NInt (ref_vout s)))]"
    for s t by (cases s; cases t; auto simp: tx_ref_to_json_def)+
  from eq [of "''x402Version''"] eq [of "''scheme''"] eq [of "''network''"] eq [of "''invoiceHash''"]
    eq [of "''resourceHash''"] eq [of "''amountSats''"] eq [of "''payTo''"] eq [of "''nonce''"]
    eq [of "''payer''"] eq [of "''transaction''"]
  show ?thesis by (cases u; cases v) (simp add: unsigned_fields_def tx)
qed

text \<open>Two valid authorizations with one signing message differ in their signatures at most.\<close>

lemma signing_message_binds:
  assumes "authorization_valid a" "authorization_valid b"
    and "authorizationSigningMessage a = authorizationSigningMessage b"
  shows "unsignedAuthorization a = unsignedAuthorization b"
proof -
  let ?j = "\<lambda>a. unsigned_to_json (unsignedAuthorization a)"
  obtain m where m: "canonicalize (?j a) = Inr m" using unsigned_to_json_total by blast
  have "wf_value (?j a)" "wf_value (?j b)"
    using assms(1,2) by (auto intro!: wf_unsigned_json simp: authorization_valid_def unsignedAuthorization_def)
  with m assms(3) have "normal (?j a) = normal (?j b)"
    using canonicalize_eq_iff [of "?j a" m "?j b"] by (simp add: authorizationSigningMessage_def)
  then show ?thesis by (rule unsigned_to_json_normal_inj)
qed

subsection \<open>Acceptance\<close>

text \<open>What an authorization has to satisfy, as a specification: the invoice and the authorization are
  well formed and agree, the request is the invoice's, and the clock is in the invoice's window.\<close>

definition authorization_matches ::
  "runtime \<Rightarrow> invoice \<Rightarrow> authorization \<Rightarrow> resource_request \<Rightarrow> int \<Rightarrow> bool" where
  "authorization_matches E i a request now \<longleftrightarrow>
     inv_issuedAt i \<le> now \<and> now < inv_expiresAt i \<and>
     computeResourceHash E request = Inr (inv_resourceHash i) \<and>
     computeInvoiceHash E i = Inr (auth_invoiceHash a) \<and>
     auth_resourceHash a = inv_resourceHash i \<and> auth_amountSats a = inv_amountSats i \<and>
     auth_payTo a = inv_payTo i \<and> auth_nonce a = inv_nonce i"

lemma check_authorization_None:
  assumes "invoice_valid i" "authorization_valid a"
  shows "check_authorization E i a request now = Inr None \<longleftrightarrow> authorization_matches E i a request now"
proof -
  obtain h where h: "computeInvoiceHash E i = Inr h" using computeInvoiceHash_total [OF assms(1)] by blast
  have fields: "auth_x402Version a = inv_x402Version i" "auth_scheme a = inv_scheme i"
    "auth_network a = inv_network i" "is_amount (auth_amountSats a)" "is_amount (inv_amountSats i)"
    using assms by (simp_all add: invoice_valid_def authorization_valid_def unsigned_valid_def)
  have "parseAmountSats (auth_amountSats a) = parseAmountSats (inv_amountSats i) \<longleftrightarrow>
        auth_amountSats a = inv_amountSats i"
    using fields(4,5) parseAmountSats_inj [of "auth_amountSats a" _ "inv_amountSats i"]
    by (auto simp: parseAmountSats_def)
  with fields h show ?thesis
    by (auto simp: check_authorization_def authorization_matches_def parseAmountSats_def split: sum.splits)
qed

text \<open>\<open>verifyAuthorization\<close> accepts exactly the matching authorizations whose signature verifies over
  the canonical text and whose nonce the store accepts.\<close>

lemma verifyAuthorization_ok_iff:
  "fst (verifyAuthorization E verify consume input s) = Inr (A_Ok n) \<longleftrightarrow>
   (\<exists>i a now m. parse_invoice (vin_invoice input) = Some i \<and>
      parse_authorization (vin_authorization input) = Some a \<and> safe_nonneg (vin_now input) = Some now \<and>
      authorization_matches E i a (vin_request input) now \<and>
      authorizationSigningMessage a = Inr m \<and> verify (auth_payer a) m (auth_signature a) = Inr True \<and>
      fst (consume s (inv_nonce i) (inv_expiresAt i) now) \<and> parseAmountSats (inv_amountSats i) = Inr n)"
  (is "?l \<longleftrightarrow> ?r")
proof (cases "parse_invoice (vin_invoice input)"; cases "parse_authorization (vin_authorization input)";
    cases "safe_nonneg (vin_now input)")
  fix i a now
  assume p: "parse_invoice (vin_invoice input) = Some i" "parse_authorization (vin_authorization input) = Some a"
    "safe_nonneg (vin_now input) = Some now"
  obtain m where m: "authorizationSigningMessage a = Inr m" using authorizationSigningMessage_total by blast
  note c = check_authorization_None [OF parse_invoice_valid [OF p(1)] parse_authorization_valid [OF p(2)],
      of E "vin_request input" now, symmetric]
  show "?l \<longleftrightarrow> ?r"
    by (auto simp: verifyAuthorization_def p m c err_simps split: sum.splits option.splits prod.splits)
qed (simp_all add: verifyAuthorization_def)

text \<open>A call that does not reach the nonce store leaves it alone; otherwise it consumes the nonce.\<close>

lemma verifyAuthorization_state:
  "snd (verifyAuthorization E verify consume input s) = s \<or>
   (\<exists>i now. parse_invoice (vin_invoice input) = Some i \<and> safe_nonneg (vin_now input) = Some now \<and>
      now < inv_expiresAt i \<and>
      snd (verifyAuthorization E verify consume input s) = snd (consume s (inv_nonce i) (inv_expiresAt i) now))"
proof (cases "parse_invoice (vin_invoice input)"; cases "parse_authorization (vin_authorization input)";
    cases "safe_nonneg (vin_now input)")
  fix i a now
  assume p: "parse_invoice (vin_invoice input) = Some i" "parse_authorization (vin_authorization input) = Some a"
    "safe_nonneg (vin_now input) = Some now"
  note c = check_authorization_None [OF parse_invoice_valid [OF p(1)] parse_authorization_valid [OF p(2)],
      of E "vin_request input" now]
  show ?thesis
    by (auto simp: verifyAuthorization_def p c authorization_matches_def split: sum.splits option.splits prod.splits)
qed (simp_all add: verifyAuthorization_def)

lemma verifyAuthorization_accepted_state:
  assumes "fst (verifyAuthorization E verify consume input s) = Inr (A_Ok n)"
    and "parse_invoice (vin_invoice input) = Some i" "safe_nonneg (vin_now input) = Some now"
  shows "snd (verifyAuthorization E verify consume input s) = snd (consume s (inv_nonce i) (inv_expiresAt i) now)"
proof -
  from assms obtain a m where p: "parse_authorization (vin_authorization input) = Some a"
    "authorizationSigningMessage a = Inr m" "authorization_matches E i a (vin_request input) now"
    "verify (auth_payer a) m (auth_signature a) = Inr True" "fst (consume s (inv_nonce i) (inv_expiresAt i) now)"
    by (auto simp: verifyAuthorization_ok_iff)
  have "check_authorization E i a (vin_request input) now = Inr None"
    using check_authorization_None parse_invoice_valid parse_authorization_valid assms(2) p by blast
  then show ?thesis using p assms(2,3) by (simp add: verifyAuthorization_def case_prod_beta)
qed

subsection \<open>Single acceptance\<close>

text \<open>A server that checks a sequence of authorizations against one nonce store.\<close>

fun verify_all ::
  "runtime \<Rightarrow> signature_verifier \<Rightarrow> ('s \<Rightarrow> string \<Rightarrow> int \<Rightarrow> int \<Rightarrow> bool \<times> 's) \<Rightarrow> verify_input list \<Rightarrow> 's \<Rightarrow>
   verification_result result list" where
  "verify_all E verify consume [] s = []"
| "verify_all E verify consume (x # xs) s =
     (let (r, s') = verifyAuthorization E verify consume x s in r # verify_all E verify consume xs s')"

text \<open>The times at which well-formed inputs are checked; the others touch nothing.\<close>

definition input_times :: "verify_input list \<Rightarrow> int list" where
  "input_times xs = map (\<lambda>x. case safe_nonneg (vin_now x) of Some t \<Rightarrow> t | None \<Rightarrow> 0)
     (filter (\<lambda>x. safe_nonneg (vin_now x) \<noteq> None) xs)"

definition accepted :: "verification_result result \<Rightarrow> bool" where
  "accepted r = (case r of Inr (A_Ok _) \<Rightarrow> True | _ \<Rightarrow> False)"

lemma accepted_iff: "accepted r \<longleftrightarrow> (\<exists>n. r = Inr (A_Ok n))"
  by (auto simp: accepted_def split: sum.splits verification_result.splits)

lemma verify_all_nth:
  "j < length xs \<Longrightarrow>
   \<exists>s'. verify_all E verify consume xs s ! j = fst (verifyAuthorization E verify consume (xs ! j) s')"
proof (induction xs arbitrary: s j)
  case (Cons x xs)
  show ?case
  proof (cases j)
    case 0
    then show ?thesis by (auto split: prod.splits intro: exI [of _ s])
  next
    case (Suc k)
    with Cons show ?thesis by (auto split: prod.splits)
  qed
qed simp

context nonce_store
begin

lemma verify_invar: "invar s \<Longrightarrow> invar (snd (verifyAuthorization E verify consume input s))"
  using verifyAuthorization_state [of E verify consume input s] consume_invar by metis

lemma recorded_stays:
  assumes "invar s" "expiries s n = Some e"
    and "\<And>t. safe_nonneg (vin_now input) = Some t \<Longrightarrow> t < e"
  shows "expiries (snd (verifyAuthorization E verify consume input s)) n = Some e"
  using verifyAuthorization_state [of E verify consume input s]
proof
  assume "\<exists>i now. parse_invoice (vin_invoice input) = Some i \<and> safe_nonneg (vin_now input) = Some now \<and>
      now < inv_expiresAt i \<and>
      snd (verifyAuthorization E verify consume input s) = snd (consume s (inv_nonce i) (inv_expiresAt i) now)"
  then obtain i :: invoice and now where "safe_nonneg (vin_now input) = Some now"
    "snd (verifyAuthorization E verify consume input s) = snd (consume s (inv_nonce i) (inv_expiresAt i) now)"
    by blast
  with assms show ?thesis by (auto simp: consume_expiries unexpired_None)
qed (simp add: assms)

lemma accepted_records:
  assumes "invar s" "fst (verifyAuthorization E verify consume input s) = Inr (A_Ok n)"
    and "parse_invoice (vin_invoice input) = Some i"
  shows "expiries (snd (verifyAuthorization E verify consume input s)) (inv_nonce i) = Some (inv_expiresAt i)"
proof -
  from assms(2,3) obtain now where now: "safe_nonneg (vin_now input) = Some now"
    and fresh: "fst (consume s (inv_nonce i) (inv_expiresAt i) now)"
    by (auto simp: verifyAuthorization_ok_iff)
  have "snd (verifyAuthorization E verify consume input s) = snd (consume s (inv_nonce i) (inv_expiresAt i) now)"
    by (rule verifyAuthorization_accepted_state [OF assms(2,3) now])
  moreover have "unexpired now (expiries s) (inv_nonce i) = None"
    using fresh assms(1) by (simp add: consume_fst)
  ultimately show ?thesis using assms(1) by (simp add: consume_expiries)
qed

lemma not_accepted_while_recorded:
  assumes "invar s" "expiries s (inv_nonce i) = Some (inv_expiresAt i)"
    and "sorted (input_times xs)" "j < length xs" "parse_invoice (vin_invoice (xs ! j)) = Some i"
  shows "\<not> accepted (verify_all E verify consume xs s ! j)"
  using assms
proof (induction xs arbitrary: s j)
  case Nil
  then show ?case by simp
next
  case (Cons x xs)
  let ?s = "snd (verifyAuthorization E verify consume x s)"
  show ?case
  proof (cases j)
    case 0
    have "\<not> fst (consume s (inv_nonce i) (inv_expiresAt i) now)" if "now < inv_expiresAt i" for now
      using Cons.prems(1,2) that by (simp add: consume_fst unexpired_None)
    with 0 Cons.prems(5) show ?thesis
      by (auto simp: accepted_iff case_prod_beta verifyAuthorization_ok_iff authorization_matches_def)
  next
    case (Suc k)
    show ?thesis
    proof (cases "\<exists>t. safe_nonneg (vin_now x) = Some t \<and> inv_expiresAt i \<le> t")
      case True
      then obtain t where t: "safe_nonneg (vin_now x) = Some t" "inv_expiresAt i \<le> t" by blast
      have late: "inv_expiresAt i \<le> u" if "safe_nonneg (vin_now (xs ! k)) = Some u" for u
        using Cons.prems(3,4) t that Suc by (force simp: input_times_def)
      have "fst (verifyAuthorization E verify consume (xs ! k) s') \<noteq> Inr (A_Ok n)" for s' n
        using late Cons.prems(5) Suc
        by (force simp: verifyAuthorization_ok_iff authorization_matches_def)
      moreover obtain s' where "verify_all E verify consume xs ?s ! k =
          fst (verifyAuthorization E verify consume (xs ! k) s')"
        using verify_all_nth [of k xs E verify consume ?s] Cons.prems(4) Suc by auto
      ultimately show ?thesis
        using Suc by (simp add: accepted_iff case_prod_beta)
    next
      case False
      then have "expiries ?s (inv_nonce i) = Some (inv_expiresAt i)"
        using recorded_stays [OF Cons.prems(1,2), of x E verify] by force
      moreover have "sorted (input_times xs)"
        using Cons.prems(3) by (auto simp: input_times_def split: if_splits)
      ultimately show ?thesis
        using Cons.IH [of ?s k] Cons.prems(1,4,5) Suc verify_invar [of s E verify x] by (auto split: prod.splits)
    qed
  qed
qed

lemma accepted_once:
  assumes "invar s" "sorted (input_times xs)" "j < k" "k < length xs"
    and "parse_invoice (vin_invoice (xs ! j)) = Some i" "parse_invoice (vin_invoice (xs ! k)) = Some i"
    and "accepted (verify_all E verify consume xs s ! j)"
  shows "\<not> accepted (verify_all E verify consume xs s ! k)"
  using assms
proof (induction xs arbitrary: s j k)
  case Nil
  then show ?case by simp
next
  case (Cons x xs)
  let ?s = "snd (verifyAuthorization E verify consume x s)"
  obtain l where k: "k = Suc l" using Cons.prems(3) by (cases k) auto
  have sorted: "sorted (input_times xs)"
    using Cons.prems(2) by (auto simp: input_times_def split: if_splits)
  have invar: "invar ?s" by (rule verify_invar) fact
  show ?case
  proof (cases j)
    case 0
    with Cons.prems(5,7) obtain n where acc: "fst (verifyAuthorization E verify consume x s) = Inr (A_Ok n)"
      and x: "parse_invoice (vin_invoice x) = Some i"
      by (auto simp: accepted_iff case_prod_beta)
    from accepted_records [OF Cons.prems(1) acc x]
    have "expiries ?s (inv_nonce i) = Some (inv_expiresAt i)" .
    from not_accepted_while_recorded [OF invar this sorted, of l] Cons.prems(4,6) k show ?thesis
      by (simp add: case_prod_beta)
  next
    case (Suc j')
    with Cons.IH [OF invar sorted, of j' l] Cons.prems(3-7) k show ?thesis
      by (simp add: case_prod_beta)
  qed
qed

end

end
