(* ===== verification/Samples.thy ===== *)
theory Samples
  imports Settlement_System Authorization
begin

text \<open>
  Concrete values on which the witnesses of the properties evaluate: a runtime whose hash function
  is constant, a codec that knows two addresses, an invoice, its record, a payment on chain, and a
  server that has unlocked it.
\<close>

definition hex64 :: "char \<Rightarrow> string" where
  "hex64 c = replicate 64 c"

definition sample_url :: url where
  "sample_url = \<lparr>url_protocol = ''https:'', url_username = [], url_password = [], url_pathname = ''/'',
     url_search = [], url_hash = [], url_origin = ''https://shop.example''\<rparr>"

definition sample_runtime :: runtime where
  "sample_runtime = \<lparr>rt_sha256 = (\<lambda>s. hex64 CHR ''0''), rt_url = (\<lambda>s. Some sample_url), rt_sort = (\<lambda>ps. ps)\<rparr>"

definition sample_request :: resource_request where
  "sample_request = \<lparr>res_serverOrigin = ''https://shop.example'', res_method = ''get'', res_path = ''/report'',
     res_query = JUndef, res_body = JUndef\<rparr>"

definition sample_address :: string where
  "sample_address = ''ecash:q'' @ replicate 41 CHR ''q''"

definition sample_codec :: cashaddr_codec where
  "sample_codec = \<lparr>
     ca_decode = (\<lambda>a. if a = sample_address
        then Inr \<lparr>cd_prefix = ''ecash'', cd_type = ''p2pkh'', cd_hash = JStr (replicate 40 CHR ''0'')\<rparr>
        else Inl ''checksum''),
     ca_encode = (\<lambda>p t h. if h = replicate 40 CHR ''0'' then Inr sample_address else Inr [])\<rparr>"

definition sample_nonce :: string where
  "sample_nonce = replicate 24 CHR ''n''"

definition sample_invoice :: invoice where
  "sample_invoice = \<lparr>inv_x402Version = 1, inv_scheme = ''exact'', inv_network = ''xec:mainnet'',
     inv_resourceHash = hex64 CHR ''0'', inv_amountSats = ''546'', inv_payTo = sample_address,
     inv_nonce = sample_nonce, inv_issuedAt = 100, inv_expiresAt = 200\<rparr>"

definition sample_authorization :: authorization where
  "sample_authorization = \<lparr>auth_x402Version = 1, auth_scheme = ''exact'', auth_network = ''xec:mainnet'',
     auth_invoiceHash = hex64 CHR ''0'', auth_resourceHash = hex64 CHR ''0'', auth_amountSats = ''546'',
     auth_payTo = sample_address, auth_nonce = sample_nonce, auth_payer = sample_address,
     auth_transaction = \<lparr>ref_txid = hex64 CHR ''1'', ref_vout = 0\<rparr>, auth_signature = ''sig''\<rparr>"

definition sample_params :: issue_params where
  "sample_params = \<lparr>ip_nonce = sample_nonce, ip_resourceHash = hex64 CHR ''0'', ip_amountSats = 546,
     ip_network = None, ip_scheme = None, ip_issuedAt = 100, ip_expiresAt = 200, ip_state = None\<rparr>"

definition sample_allocator :: allocator where
  "sample_allocator = (\<lambda>k. Inr sample_address)"

definition sample_record :: invoice_record where
  "sample_record = allocated_record sample_params (hex64 CHR ''0'') sample_address 0"

definition sample_proof :: settlement_proof where
  "sample_proof = \<lparr>prf_x402Version = 1, prf_network = ''xec:mainnet'', prf_invoiceHash = hex64 CHR ''0'',
     prf_txid = hex64 CHR ''1''\<rparr>"

definition sample_script :: string where
  "sample_script = ''76a914'' @ replicate 40 CHR ''0'' @ ''88ac''"

definition sample_tx :: chronik_tx where
  "sample_tx = \<lparr>ctx_txid = JStr (hex64 CHR ''1''),
     ctx_outputs = Some [\<lparr>out_sats = 100, out_outputScript = ''6a'', out_token = JUndef\<rparr>,
                         \<lparr>out_sats = 546, out_outputScript = sample_script, out_token = JUndef\<rparr>],
     ctx_block = JUndef, ctx_isFinal = JBool True, ctx_timeFirstSeen = JNum (NInt 120)\<rparr>"

definition sample_env :: settlement_env where
  "sample_env = \<lparr>se_runtime = sample_runtime, se_codec = sample_codec,
     se_target = GetTx (\<lambda>t. Inr (Some sample_tx)), se_proof_issues = (\<lambda>v. ''issues'')\<rparr>"

definition sample_options :: settlement_options where
  "sample_options = \<lparr>so_proof = proof_to_json sample_proof, so_expectedResource = Some sample_request,
     so_now = JNum (NInt 150), so_addressToScript = None\<rparr>"

lemmas sample_defs = sample_url_def sample_runtime_def sample_request_def sample_address_def sample_codec_def
  sample_nonce_def sample_invoice_def sample_authorization_def sample_params_def sample_allocator_def
  sample_record_def sample_proof_def sample_script_def sample_tx_def sample_env_def sample_options_def hex64_def

subsection \<open>What the samples do\<close>

lemma sample_invoice_valid: "invoice_valid sample_invoice"
  by code_simp

lemma sample_authorization_valid: "authorization_valid sample_authorization"
  by code_simp

lemma sample_resource_hash: "computeResourceHash sample_runtime sample_request = Inr (hex64 CHR ''0'')"
  by code_simp

lemma sample_fresh: "fresh_record sample_record" "fresh_params sample_params"
  by code_simp+

lemma sample_allocation:
  "sqlite_issueWithAllocation sample_runtime Q [] sample_params sample_allocator =
     (Inr (sample_record, sample_invoice), [recordToRow sample_record 0])"
  by code_simp

text \<open>The sample authorization at time \<open>t\<close>, and a verifier that accepts every signature.\<close>

definition sample_input :: "int \<Rightarrow> verify_input" where
  "sample_input t = \<lparr>vin_invoice = invoice_to_json sample_invoice,
     vin_authorization = authorization_to_json sample_authorization, vin_request = sample_request, vin_now = NInt t\<rparr>"

definition all_sign :: signature_verifier where
  "all_sign = (\<lambda>p m s. Inr True)"

lemma sample_invoice_hash: "computeInvoiceHash sample_runtime sample_invoice = Inr (hex64 CHR ''0'')"
  by (simp add: computeInvoiceHash_text sample_invoice_valid sha256Hex_def sample_runtime_def)

lemma sample_matches:
  "100 \<le> t \<Longrightarrow> t < 200 \<Longrightarrow> authorization_matches sample_runtime sample_invoice sample_authorization sample_request t"
  using sample_resource_hash sample_invoice_hash
  by (simp add: authorization_matches_def sample_invoice_def sample_authorization_def)

lemma sample_parses:
  "parse_invoice (invoice_to_json sample_invoice) = Some sample_invoice"
  "parse_authorization (authorization_to_json sample_authorization) = Some sample_authorization"
  by (simp_all add: parse_invoice_to_json parse_authorization_to_json sample_invoice_valid sample_authorization_valid)

lemma sample_accepts:
  assumes "100 \<le> t" "t < 200"
  shows "verifyAuthorization sample_runtime all_sign consume (sample_input t) s =
    (let (fresh, s') = consume s sample_nonce 200 t in
     (Inr (if fresh then A_Ok 546 else A_Fail A_NONCE_REUSED), s'))"
proof -
  have "check_authorization sample_runtime sample_invoice sample_authorization sample_request t = Inr None"
    using check_authorization_None [OF sample_invoice_valid sample_authorization_valid] sample_matches [OF assms] by blast
  moreover obtain m where "authorizationSigningMessage sample_authorization = Inr m"
    using authorizationSigningMessage_total by blast
  moreover have "parseAmountSats (inv_amountSats sample_invoice) = Inr 546" by code_simp
  moreover have "inv_nonce sample_invoice = sample_nonce" "inv_expiresAt sample_invoice = 200" by (simp_all add: sample_invoice_def)
  moreover have "safe_nonneg (NInt t) = Some t" using assms by (simp add: safe_nonneg_def max_safe_integer_def)
  ultimately show ?thesis
    by (simp add: verifyAuthorization_def sample_input_def sample_parses all_sign_def split: prod.splits)
qed

end
