(* ===== verification/Core_Properties.thy ===== *)
theory Core_Properties
  imports Samples
begin

text \<open>
  The properties of the core package: canonical hashing, invoices and authorizations, the two invoice
  stores, the settlement verifier, and the server that runs them concurrently. Each property is
  followed by its witness, which applies it to the values of \<open>Samples\<close>.
\<close>

subsection \<open>A server that has unlocked a payment\<close>

definition sample_engine :: sqlite_engine where
  "sample_engine = \<lparr>sq_report = (\<lambda>cs. hd cs), sq_resolve = (\<lambda>p. p), sq_open = (\<lambda>p. Inr ()),
     sq_database_list = (\<lambda>p. Inr [(JStr ''main'', JStr p)])\<rparr>"

definition sample_pending :: pending where
  "sample_pending = (sample_proof, 1, sample_tx, 150)"

definition sample_paid_row :: invoice_row where
  "sample_paid_row = pay_row (hex64 CHR ''1'') 150 (recordToRow sample_record 0)"

abbreviation sqlite_server_reachable :: "table server \<Rightarrow> bool" where
  "sqlite_server_reachable \<equiv> server_reachable sample_codec None sqlite_getByInvoiceHash (sqlite_issue sample_engine)
     (sqlite_issueWithAllocation sample_runtime sample_engine) (sqlite_commitPaid sample_engine) []"

lemma sample_check: "settlement_check sample_env sample_options
    (sqlite_getByInvoiceHash [recordToRow sample_record 0]) = Inr sample_pending"
  by code_simp

lemma sample_commit: "settlement_commit (sqlite_commitPaid sample_engine) sample_pending [recordToRow sample_record 0] =
    (Inr (Unlocked (pay_record sample_record (hex64 CHR ''1'') 150) sample_proof 1 sample_tx False), [sample_paid_row])"
  by code_simp

lemma sample_reachable:
  "sqlite_server_reachable
     \<lparr>srv_store = [sample_paid_row], srv_pending = [], srv_unlocked = [(sample_proof, 1, sample_tx)]\<rparr>"
proof -
  let ?step = "server_step sample_codec None sqlite_getByInvoiceHash (sqlite_issue sample_engine)
     (sqlite_issueWithAllocation sample_runtime sample_engine) (sqlite_commitPaid sample_engine)"
  have "?step \<lparr>srv_store = [], srv_pending = [], srv_unlocked = []\<rparr>
      \<lparr>srv_store = [recordToRow sample_record 0], srv_pending = [], srv_unlocked = []\<rparr>"
    using allocate_step [OF sample_fresh(2), of sample_codec None sqlite_getByInvoiceHash "sqlite_issue sample_engine"
        "sqlite_issueWithAllocation sample_runtime sample_engine" "sqlite_commitPaid sample_engine"
        "\<lparr>srv_store = [], srv_pending = [], srv_unlocked = []\<rparr>" sample_allocator]
    by (simp add: sample_allocation)
  note 1 = server_reachable.step [OF server_reachable.start this]
  have "?step \<lparr>srv_store = [recordToRow sample_record 0], srv_pending = [], srv_unlocked = []\<rparr>
      \<lparr>srv_store = [recordToRow sample_record 0], srv_pending = [sample_pending], srv_unlocked = []\<rparr>"
    using check_step [of sample_env sample_options sqlite_getByInvoiceHash
        "\<lparr>srv_store = [recordToRow sample_record 0], srv_pending = [], srv_unlocked = []\<rparr>" sample_pending
        sample_codec None "sqlite_issue sample_engine" "sqlite_issueWithAllocation sample_runtime sample_engine"
        "sqlite_commitPaid sample_engine"] sample_check
    by (simp add: sample_env_def sample_options_def)
  note 2 = server_reachable.step [OF 1 this]
  have "?step \<lparr>srv_store = [recordToRow sample_record 0], srv_pending = [sample_pending], srv_unlocked = []\<rparr>
      \<lparr>srv_store = [sample_paid_row], srv_pending = [], srv_unlocked = [(sample_proof, 1, sample_tx)]\<rparr>"
    using unlock_step [of sample_pending
        "\<lparr>srv_store = [recordToRow sample_record 0], srv_pending = [sample_pending], srv_unlocked = []\<rparr>"
        "sqlite_commitPaid sample_engine" _ _ _ _ False "[sample_paid_row]" sample_codec None sqlite_getByInvoiceHash
        "sqlite_issue sample_engine" "sqlite_issueWithAllocation sample_runtime sample_engine"] sample_commit
    by simp
  from server_reachable.step [OF 2 this] show ?thesis .
qed

subsection \<open>Settlement\<close>

text \<open>C1: On the SQLite store, whatever the interleaving of concurrent verifications and issues, two
  unlocks name the same transaction exactly when they name the same invoice: no transaction unlocks
  two invoices and no invoice is unlocked by two transactions.\<close>

theorem sqlite_unlocks_once:
  assumes "server_reachable L c sqlite_getByInvoiceHash (sqlite_issue Q) (sqlite_issueWithAllocation E Q)
      (sqlite_commitPaid Q) [] s"
    and "(p, i, tx) \<in> set (srv_unlocked s)" "(q, j, ty) \<in> set (srv_unlocked s)"
  shows "prf_txid p = prf_txid q \<longleftrightarrow> prf_invoiceHash p = prf_invoiceHash q"
  by (rule sqlite.reachable_unlocks_once [OF assms(1) sqlite_invar_empty assms(2,3)])

theorem sqlite_unlocks_once_witness:
  "prf_txid sample_proof = prf_txid sample_proof \<longleftrightarrow> prf_invoiceHash sample_proof = prf_invoiceHash sample_proof"
  by (rule sqlite_unlocks_once [OF sample_reachable]) simp_all

text \<open>C6: On the SQLite store, every unlock that a server reported is of an invoice that the store has
  as paid by that transaction, and the matched output of the transaction is the first one that
  pays the invoice's address exactly the invoice's amount, without tokens.\<close>

theorem sqlite_unlock_is_paid:
  assumes "server_reachable L c sqlite_getByInvoiceHash (sqlite_issue Q) (sqlite_issueWithAllocation E Q)
      (sqlite_commitPaid Q) [] s"
    and "(p, i, tx) \<in> set (srv_unlocked s)"
  shows "\<exists>r. sqlite_getByInvoiceHash (srv_store s) (prf_invoiceHash p) = Some r \<and> rec_state r = PAID \<and>
    rec_settledTxid r = Some (prf_txid p) \<and> pays_record L c r tx i"
  by (rule sqlite.reachable_unlock_paid [OF assms(1) sqlite_invar_empty assms(2)])

theorem sqlite_unlock_is_paid_witness:
  "\<exists>r. sqlite_getByInvoiceHash [sample_paid_row] (prf_invoiceHash sample_proof) = Some r \<and> rec_state r = PAID \<and>
    rec_settledTxid r = Some (prf_txid sample_proof) \<and> pays_record sample_codec None r sample_tx 1"
  using sqlite_unlock_is_paid [OF sample_reachable, of sample_proof 1 sample_tx] by simp

text \<open>C13: \<open>verifySettlementProof\<close> unlocks exactly when the proof parses, the invoice it names was issued,
  the evidence holds (resource, time window, finality, temporal fence, exact payment to the invoice's
  address) and the store commits the payment.\<close>

theorem unlock_iff_evidence:
  "fst (verifySettlementProof SE get commitPaid opt s) = Inr (Unlocked r pf i tx idem) \<longleftrightarrow>
     parse_proof (so_proof opt) = Some pf \<and>
     (\<exists>invoice now. get s (prf_invoiceHash pf) = Some invoice \<and>
        settlement_evidence SE opt invoice pf i tx now \<and>
        fst (commitPaid s (prf_invoiceHash pf) (prf_txid pf) now) = Inr (Committed idem r))"
  by (rule verifySettlementProof_Unlocked)

text \<open>C26: An honest payment unlocks and is recorded: with the evidence for an unpaid invoice of the SQLite
  store and a transaction that settled nothing yet, verification succeeds, and afterwards the store has the
  invoice as paid by this transaction at this time, and every other invoice as before.\<close>

theorem sqlite_payment_unlocks:
  assumes "sqlite_invar T" "parse_proof (so_proof opt) = Some pf"
    and "sqlite_getByInvoiceHash T (prf_invoiceHash pf) = Some invoice" "rec_state invoice \<noteq> PAID"
    and "\<forall>k. \<not> settled_by (sqlite_getByInvoiceHash T) k (prf_txid pf)"
    and "settlement_evidence SE opt invoice pf i tx now"
  shows "fst (verifySettlementProof SE sqlite_getByInvoiceHash (sqlite_commitPaid Q) opt T) =
      Inr (Unlocked (pay_record invoice (prf_txid pf) now) pf i tx False) \<and>
    sqlite_getByInvoiceHash (snd (verifySettlementProof SE sqlite_getByInvoiceHash (sqlite_commitPaid Q) opt T)) =
      (sqlite_getByInvoiceHash T)(prf_invoiceHash pf \<mapsto> pay_record invoice (prf_txid pf) now)"
  by (rule sqlite.payment_unlocks [OF assms])

lemma sample_evidence:
  "settlement_evidence sample_env sample_options (rowToRecord (recordToRow sample_record 0)) sample_proof 1 sample_tx 150"
proof -
  have "parse_proof (so_proof sample_options) = Some sample_proof"
    "sqlite_getByInvoiceHash [recordToRow sample_record 0] (prf_invoiceHash sample_proof) =
       Some (rowToRecord (recordToRow sample_record 0))" by code_simp+
  with sample_check show ?thesis by (simp add: sample_pending_def settlement_check_Inr)
qed

theorem sqlite_payment_unlocks_witness:
  "fst (verifySettlementProof sample_env sqlite_getByInvoiceHash (sqlite_commitPaid sample_engine) sample_options
         [recordToRow sample_record 0]) =
       Inr (Unlocked (pay_record (rowToRecord (recordToRow sample_record 0)) (prf_txid sample_proof) 150)
         sample_proof 1 sample_tx False) \<and>
     sqlite_getByInvoiceHash (snd (verifySettlementProof sample_env sqlite_getByInvoiceHash
         (sqlite_commitPaid sample_engine) sample_options [recordToRow sample_record 0])) =
       (sqlite_getByInvoiceHash [recordToRow sample_record 0])(prf_invoiceHash sample_proof \<mapsto>
         pay_record (rowToRecord (recordToRow sample_record 0)) (prf_txid sample_proof) 150)"
proof (rule sqlite_payment_unlocks)
  show inv: "sqlite_invar [recordToRow sample_record 0]"
    by (simp add: sqlite_invar_def) (simp add: record_ok_def sample_record_def sample_params_def or_default_def)
  show "\<forall>k. \<not> settled_by (sqlite_getByInvoiceHash [recordToRow sample_record 0]) k (prf_txid sample_proof)"
    unfolding settled_by_iff [OF inv] by (simp add: sample_record_def)
  show "settlement_evidence sample_env sample_options (rowToRecord (recordToRow sample_record 0)) sample_proof 1
      sample_tx 150" by (rule sample_evidence)
qed (code_simp | simp add: sample_record_def sample_params_def or_default_def)+

subsection \<open>The invoice stores\<close>

text \<open>C29: In every sequence of operations on the in-memory store that issues no record which is already
  \<open>PAID\<close> or names a settling transaction (the hypothesis \<open>fresh_event\<close>), one transaction settles one invoice and one invoice is settled by one
  transaction, as far as the store confirmed payments. A record issued as \<open>PAID\<close> is not entered into the
  store's index of transactions, and its transaction can settle a second invoice.\<close>

theorem memory_settles_once:
  assumes "memory_invar s" "list_all fresh_event es"
    and "settled_in (fst (store_run memory_issue (memory_issueWithAllocation E) memory_commitPaid s es)) h t"
    and "settled_in (fst (store_run memory_issue (memory_issueWithAllocation E) memory_commitPaid s es)) k u"
  shows "h = k \<longleftrightarrow> t = u"
  by (rule memory.run_settles_once [OF assms])

definition sample_events :: "store_event list" where
  "sample_events = [Issue (sample_record\<lparr>rec_derivationIndex := None\<rparr>), Commit (hex64 CHR ''0'') (hex64 CHR ''A'') 150]"

theorem memory_settles_once_witness:
  "hex64 CHR ''0'' = hex64 CHR ''0'' \<longleftrightarrow> hex64 CHR ''a'' = hex64 CHR ''a''"
proof (rule memory_settles_once [OF memory_invar_empty, of sample_events sample_runtime])
  show "list_all fresh_event sample_events" by code_simp
  have "fst (memory_commitPaid (snd (memory_issue memory_empty (sample_record\<lparr>rec_derivationIndex := None\<rparr>)))
      (hex64 CHR ''0'') (hex64 CHR ''A'') 150) =
    Inr (Committed False (pay_record (sample_record\<lparr>rec_derivationIndex := None\<rparr>) (hex64 CHR ''a'') 150))"
    by code_simp
  then have "(Commit (hex64 CHR ''0'') (hex64 CHR ''A'') 150, R_commit (Inr (Committed False
      (pay_record (sample_record\<lparr>rec_derivationIndex := None\<rparr>) (hex64 CHR ''a'') 150))))
    \<in> set (fst (store_run memory_issue (memory_issueWithAllocation sample_runtime) memory_commitPaid memory_empty sample_events))"
    by (simp add: sample_events_def case_prod_beta)
  moreover have "toLowerCase (hex64 CHR ''A'') = hex64 CHR ''a''" by code_simp
  ultimately show "settled_in (fst (store_run memory_issue (memory_issueWithAllocation sample_runtime) memory_commitPaid
      memory_empty sample_events)) (hex64 CHR ''0'') (hex64 CHR ''a'')"
    unfolding settled_in_def by blast
  then show "settled_in (fst (store_run memory_issue (memory_issueWithAllocation sample_runtime) memory_commitPaid
      memory_empty sample_events)) (hex64 CHR ''0'') (hex64 CHR ''a'')" .
qed

text \<open>C30: A payment that the SQLite store has recorded is confirmed again, as a repetition, by every later
  commit of the same pair, whatever was issued and committed in between.\<close>

theorem sqlite_commit_idempotent:
  assumes "sqlite_invar T" "fst (sqlite_commitPaid Q T h t p) = Inr (Committed b r)" "list_all fresh_event es"
  shows "\<exists>r'. fst (sqlite_commitPaid Q (snd (store_run (sqlite_issue Q) (sqlite_issueWithAllocation E Q)
    (sqlite_commitPaid Q) (snd (sqlite_commitPaid Q T h t p)) es)) h t q) = Inr (Committed True r')"
  by (rule sqlite.commit_again [OF assms])

theorem sqlite_commit_idempotent_witness:
  "\<exists>r'. fst (sqlite_commitPaid sample_engine [sample_paid_row] (hex64 CHR ''0'') (hex64 CHR ''1'') 170) =
    Inr (Committed True r')"
proof -
  have paid: "sqlite_commitPaid sample_engine [recordToRow sample_record 0] (hex64 CHR ''0'') (hex64 CHR ''1'') 150 =
      (Inr (Committed False (pay_record (sample_record\<lparr>rec_derivationIndex := Some 0\<rparr>) (hex64 CHR ''1'') 150)), [sample_paid_row])"
    by code_simp
  have "sqlite_invar [recordToRow sample_record 0]"
    by (simp add: sqlite_invar_def) (simp add: record_ok_def sample_record_def sample_params_def or_default_def)
  from sqlite_commit_idempotent [OF this, of sample_engine "hex64 CHR ''0''" "hex64 CHR ''1''" 150 False _ "[]" sample_runtime 170]
  show ?thesis by (simp add: paid)
qed

text \<open>C31: An allocation on the SQLite store issues a new invoice for a new address and a new derivation index,
  and records it; a failed one changes nothing, not even the next index.\<close>

theorem sqlite_allocation_fresh:
  assumes "sqlite_invar T" "fresh_params p"
  shows "alloc_spec E (sqlite_getByInvoiceHash T) p allocator (fst (sqlite_issueWithAllocation E Q T p allocator))
    (sqlite_getByInvoiceHash (snd (sqlite_issueWithAllocation E Q T p allocator)))"
  by (rule sqlite.alloc_refines [OF assms])

theorem sqlite_allocation_fresh_witness:
  "alloc_spec sample_runtime (sqlite_getByInvoiceHash []) sample_params sample_allocator
    (Inr (sample_record, sample_invoice)) (sqlite_getByInvoiceHash [recordToRow sample_record 0])"
  using sqlite_allocation_fresh [OF sqlite_invar_empty sample_fresh(2), of sample_runtime sample_allocator sample_engine]
  by (simp add: sample_allocation)

end
