(* ===== verification/Binding_Properties.thy ===== *)
theory Binding_Properties
  imports Samples
begin

text \<open>
  The properties of what is hashed, signed and parsed: the canonical JSON text, the resource, invoice
  and signing texts, the schemas, the addresses, and the single acceptance of an authorization.
  A hash function may collide: the properties name the texts that collide when they do.
\<close>

subsection \<open>Authorizations\<close>

text \<open>C19: \<open>verifyAuthorization\<close> accepts exactly when invoice and authorization parse and agree on every
  field, the request hashes to the invoice's resource, the clock is in the window, the signature
  verifies over the canonical unsigned authorization and the nonce store takes the nonce.\<close>

theorem authorization_accepted_iff:
  "fst (verifyAuthorization E verify consume input s) = Inr (A_Ok n) \<longleftrightarrow>
   (\<exists>i a now m. parse_invoice (vin_invoice input) = Some i \<and>
      parse_authorization (vin_authorization input) = Some a \<and> safe_nonneg (vin_now input) = Some now \<and>
      authorization_matches E i a (vin_request input) now \<and>
      authorizationSigningMessage a = Inr m \<and> verify (auth_payer a) m (auth_signature a) = Inr True \<and>
      fst (consume s (inv_nonce i) (inv_expiresAt i) now) \<and> parseAmountSats (inv_amountSats i) = Inr n)"
  by (rule verifyAuthorization_ok_iff)

text \<open>C9: With the in-memory nonce store and a clock that does not go back (\<open>sorted (input_times xs)\<close>), one invoice is
  accepted at most once in any sequence of verifications, with any signatures, requests and authorizations.\<close>

theorem authorization_accepted_once:
  assumes "sorted (input_times xs)" "j < k" "k < length xs"
    and "parse_invoice (vin_invoice (xs ! j)) = Some i" "parse_invoice (vin_invoice (xs ! k)) = Some i"
    and "accepted (verify_all E verify consume_nonce xs nonce_empty ! j)"
  shows "\<not> accepted (verify_all E verify consume_nonce xs nonce_empty ! k)"
  by (rule memory_nonces.accepted_once [OF nonce_invar_empty assms])

theorem authorization_accepted_once_witness:
  "\<not> accepted (verify_all sample_runtime all_sign consume_nonce [sample_input 150, sample_input 160] nonce_empty ! 1)"
proof (rule authorization_accepted_once [of _ 0 1 sample_invoice])
  show "sorted (input_times [sample_input 150, sample_input 160])" by code_simp
  show "accepted (verify_all sample_runtime all_sign consume_nonce [sample_input 150, sample_input 160] nonce_empty ! 0)"
    by (simp add: sample_accepts accepted_iff consume_nonce_def Let_def nonce_empty_def purge_nonces_def jhas_def)
qed (simp_all add: sample_input_def parse_invoice_to_json sample_invoice_valid)



subsection \<open>Canonical hashing\<close>

text \<open>C35: Two well-formed JSON values have one canonical text exactly when they are equal up to the order
  of object fields and the sign of zero.\<close>

theorem canonical_text_binding:
  assumes "canonicalize v = Inr c" "wf_value v" "wf_value w"
  shows "canonicalize w = Inr c \<longleftrightarrow> normal w = normal v"
  by (rule canonicalize_eq_iff [OF assms])

theorem canonical_text_binding_witness:
  "canonicalize (JObj [(''b'', JNum NNegZero), (''a'', JNull)]) =
   canonicalize (JObj [(''a'', JNull), (''b'', JNum (NInt 0))])"
proof -
  let ?v = "JObj [(''a'', JNull), (''b'', JNum (NInt 0))]" and ?w = "JObj [(''b'', JNum NNegZero), (''a'', JNull)]"
  have "ok (canonicalize ?v)" by code_simp
  then obtain c where c: "canonicalize ?v = Inr c" by (auto simp: ok_def split: sum.splits)
  have "wf_value ?v" "wf_value ?w" "normal ?w = normal ?v" by code_simp+
  with canonical_text_binding [OF c, of ?w] show ?thesis unfolding c by blast
qed

text \<open>Exactly the JSON values without \<open>undefined\<close> and non-finite numbers are canonicalized; on every other
  value \<open>canonicalize\<close> throws.\<close>

lemma canonicalize_defined: "(\<exists>c. canonicalize v = Inr c) \<longleftrightarrow> is_json v"
  using canonicalize_ok_iff [of v] by (simp add: ok_def split: sum.splits)



text \<open>Query pairs are sorted by key only: the order of the values of one key is part of the resource.\<close>

lemma query_values_unsorted:
  "canonicalQuery E (JArr [JArr [JStr ''k'', JStr ''b''], JArr [JStr ''k'', JStr ''a'']]) =
     Inr (JArr [JArr [JStr ''k'', JStr ''b''], JArr [JStr ''k'', JStr ''a'']])"
  "canonicalQuery E (JArr [JArr [JStr ''k'', JStr ''a''], JArr [JStr ''k'', JStr ''b'']]) =
     Inr (JArr [JArr [JStr ''k'', JStr ''a''], JArr [JStr ''k'', JStr ''b'']])"
  by code_simp+

subsection \<open>Schemas and addresses\<close>

text \<open>A valid invoice is read back from its JSON form, and whatever parses is a valid invoice.\<close>

lemma invoice_roundtrip:
  "parse_invoice (invoice_to_json i) = Some i \<longleftrightarrow> invoice_valid i"
  using parse_invoice_to_json [of i] parse_invoice_valid [of "invoice_to_json i" i] by blast

text \<open>The same for authorizations, with their nested transaction reference.\<close>

lemma authorization_roundtrip:
  "parse_authorization (authorization_to_json a) = Some a \<longleftrightarrow> authorization_valid a"
  using parse_authorization_to_json [of a] parse_authorization_valid [of "authorization_to_json a" a] by blast

text \<open>A locking script determines the address it was made for, so a payment to the script of an
  allocated address is a payment to no other address.\<close>

lemma script_of_one_address:
  assumes "cashAddressToOutputScriptHex L a = Inr s" "cashAddressToOutputScriptHex L b = Inr s"
  shows "a = b"
  by (rule script_determines_address [OF assms])

text \<open>\<open>inspectFundingTransaction\<close> accepts an outpoint exactly when the provider knows the transaction and
  its output exists, is settled, carries no token, has the expected script and holds the amount.\<close>

lemma funding_inspection_iff:
  "inspectFundingTransaction provider input = Inr (F_Ok tx out) \<longleftrightarrow>
     provider (fo_txid (fin_fundingOutpoint input)) = Inr (Some tx) \<and> funds input tx out"
  by (rule inspectFundingTransaction_Ok)

end
