(* ===== verification/Ledger.thy ===== *)
theory Ledger
  imports Nonce_Store Schemas
begin

text \<open>
  \<open>packages/x402-xec-facilitator/src/ledger.ts\<close>: the facilitator's ledger of prepaid outpoints.
  \<open>transact\<close> runs one operation at a time; what the operation stages (nonces) reaches the ledger with
  \<open>commit\<close> only, except that \<open>consume\<close> drops expired nonces of the ledger at once. The invariant is the
  conservation of credit: what an outpoint was funded with is what is left plus what was debited.
\<close>

record funding_account =
  fa_txid :: string
  fa_outIdx :: int
  fa_payer :: string
  fa_fundingValueSats :: int
  fa_remainingBalanceSats :: int

record ledger_entry =
  le_txid :: string
  le_outIdx :: int
  le_payer :: string
  le_payTo :: string
  le_fundingValueSats :: int
  le_remainingBalanceSats :: int
  le_debitedSats :: int
  le_invoiceId :: string
  le_nonce :: string
  le_authorizationDigest :: string
  le_idempotencyKey :: string

text \<open>The response that is stored for a key: the body of a successful verification.\<close>

record verified_body =
  vb_invoiceId :: string
  vb_authorizationDigest :: string
  vb_debitedSats :: string
  vb_remainingBalanceSats :: string
  vb_txid :: string
  vb_outIdx :: int

record ledger =
  lg_accounts :: "(string, funding_account) jmap"
  lg_entries :: "ledger_entry list"
  lg_idempotency :: "(string, string \<times> verified_body) jmap"
  lg_nonces :: nonce_map

record ledger_tx =
  lt_ledger :: ledger
  lt_stagedNonces :: nonce_map

definition ledger_empty :: ledger where
  "ledger_empty = \<lparr>lg_accounts = [], lg_entries = [], lg_idempotency = [], lg_nonces = []\<rparr>"

subsection \<open>The operations\<close>

definition outpointKey :: "string \<Rightarrow> int \<Rightarrow> string" where
  "outpointKey txid outIdx = txid @ '':'' @ int_to_dec outIdx"

definition ledger_begin :: "ledger \<Rightarrow> ledger_tx" where
  "ledger_begin l = \<lparr>lt_ledger = l, lt_stagedNonces = []\<rparr>"

definition ledger_consume :: "ledger_tx \<Rightarrow> string \<Rightarrow> int \<Rightarrow> int \<Rightarrow> bool \<times> ledger_tx" where
  "ledger_consume tx nonce expiresAt now =
     (let live = purge_nonces (lg_nonces (lt_ledger tx)) now;
          tx' = tx\<lparr>lt_ledger := (lt_ledger tx)\<lparr>lg_nonces := live\<rparr>\<rparr> in
      if jhas live nonce \<or> jhas (lt_stagedNonces tx) nonce then (False, tx')
      else (True, tx'\<lparr>lt_stagedNonces := jset (lt_stagedNonces tx) nonce expiresAt\<rparr>))"

definition findIdempotent :: "ledger_tx \<Rightarrow> string \<Rightarrow> (string \<times> verified_body) option" where
  "findIdempotent tx key = jget (lg_idempotency (lt_ledger tx)) key"

definition getFundingAccount :: "ledger_tx \<Rightarrow> string \<Rightarrow> int \<Rightarrow> funding_account option" where
  "getFundingAccount tx txid outIdx = jget (lg_accounts (lt_ledger tx)) (outpointKey txid outIdx)"

definition ledger_commit ::
  "ledger_tx \<Rightarrow> funding_account \<Rightarrow> ledger_entry \<Rightarrow> string \<Rightarrow> string \<Rightarrow> verified_body \<Rightarrow> ledger" where
  "ledger_commit tx account entry idempotencyKey requestDigest response =
     (let l = lt_ledger tx in
      l\<lparr>lg_nonces := foldl (\<lambda>m (nonce, expiresAt). jset m nonce expiresAt) (lg_nonces l) (lt_stagedNonces tx),
        lg_accounts := jset (lg_accounts l) (outpointKey (fa_txid account) (fa_outIdx account)) account,
        lg_entries := lg_entries l @ [entry],
        lg_idempotency := jset (lg_idempotency l) idempotencyKey (requestDigest, response)\<rparr>)"

subsection \<open>Conservation of credit\<close>

definition entry_key :: "ledger_entry \<Rightarrow> string" where
  "entry_key e = outpointKey (le_txid e) (le_outIdx e)"

definition debited :: "ledger \<Rightarrow> string \<Rightarrow> int" where
  "debited l k = sum_list (map le_debitedSats (filter (\<lambda>e. entry_key e = k) (lg_entries l)))"

definition account_ok :: "ledger \<Rightarrow> string \<Rightarrow> funding_account \<Rightarrow> bool" where
  "account_ok l k a \<longleftrightarrow> k = outpointKey (fa_txid a) (fa_outIdx a) \<and> 0 \<le> fa_remainingBalanceSats a \<and>
     fa_fundingValueSats a = fa_remainingBalanceSats a + debited l k"

definition ledger_invar :: "ledger \<Rightarrow> bool" where
  "ledger_invar l \<longleftrightarrow> nonce_invar (lg_nonces l) \<and>
     (\<forall>e \<in> set (lg_entries l). 0 < le_debitedSats e) \<and>
     (\<forall>k a. jget (lg_accounts l) k = Some a \<longrightarrow> account_ok l k a) \<and>
     (\<forall>k. jget (lg_accounts l) k = None \<longrightarrow> debited l k = 0)"

lemma ledger_invar_empty: "ledger_invar ledger_empty"
  by (simp add: ledger_invar_def ledger_empty_def debited_def nonce_invar_def)

lemma debited_nonneg: "ledger_invar l \<Longrightarrow> 0 \<le> debited l k"
  unfolding debited_def ledger_invar_def by (intro sum_list_nonneg) force

text \<open>No outpoint is debited beyond its funding.\<close>

lemma debited_le_funding:
  assumes "ledger_invar l" "jget (lg_accounts l) k = Some a"
  shows "debited l k \<le> fa_fundingValueSats a" and "0 \<le> fa_remainingBalanceSats a"
  using assms by (auto simp: ledger_invar_def account_ok_def)

lemma ledger_consume_ledger [simp]:
  "lg_accounts (lt_ledger (snd (ledger_consume tx n e now))) = lg_accounts (lt_ledger tx)"
  "lg_entries (lt_ledger (snd (ledger_consume tx n e now))) = lg_entries (lt_ledger tx)"
  "lg_idempotency (lt_ledger (snd (ledger_consume tx n e now))) = lg_idempotency (lt_ledger tx)"
  "lg_nonces (lt_ledger (snd (ledger_consume tx n e now))) = purge_nonces (lg_nonces (lt_ledger tx)) now"
  by (simp_all add: ledger_consume_def Let_def)

lemma lt_ledger_begin [simp]: "lt_ledger (ledger_begin l) = l"
  by (simp add: ledger_begin_def)

lemma ledger_consume_begin:
  "ledger_consume (ledger_begin l) n e now =
     (let live = purge_nonces (lg_nonces l) now; l' = l\<lparr>lg_nonces := live\<rparr> in
      if jhas live n then (False, ledger_begin l') else (True, \<lparr>lt_ledger = l', lt_stagedNonces = [(n, e)]\<rparr>))"
  by (simp add: ledger_consume_def ledger_begin_def Let_def jhas_def jset_def)

lemma debited_same: "lg_entries l' = lg_entries l \<Longrightarrow> debited l' k = debited l k"
  by (simp add: debited_def)

lemma ledger_invar_same:
  assumes "ledger_invar l" "lg_accounts l' = lg_accounts l" "lg_entries l' = lg_entries l" "nonce_invar (lg_nonces l')"
  shows "ledger_invar l'"
  using assms debited_same [OF assms(3)] by (simp add: ledger_invar_def account_ok_def)

lemma nonce_invar_foldl: "nonce_invar m \<Longrightarrow> nonce_invar (foldl (\<lambda>m (n, e). jset m n e) m ns)"
  by (induction ns arbitrary: m) auto

text \<open>A commit that debits a positive amount from an account keeps the credit.\<close>

lemma ledger_invar_commit:
  assumes inv: "ledger_invar (lt_ledger tx)"
    and k: "k = outpointKey (fa_txid acc) (fa_outIdx acc)" "entry_key e = k"
    and old: "case jget (lg_accounts (lt_ledger tx)) k of
        None \<Rightarrow> fa_remainingBalanceSats acc + le_debitedSats e = fa_fundingValueSats acc
      | Some a \<Rightarrow> fa_fundingValueSats acc = fa_fundingValueSats a \<and>
          fa_remainingBalanceSats acc + le_debitedSats e = fa_remainingBalanceSats a"
    and pos: "0 < le_debitedSats e" "0 \<le> fa_remainingBalanceSats acc"
  shows "ledger_invar (ledger_commit tx acc e key digest response)"
proof -
  let ?l = "lt_ledger tx" and ?l' = "ledger_commit tx acc e key digest response"
  have debited: "debited ?l' j = debited ?l j + (if j = k then le_debitedSats e else 0)" for j
    using k(2) by (simp add: debited_def ledger_commit_def Let_def)
  have accounts: "jget (lg_accounts ?l') j = (if j = k then Some acc else jget (lg_accounts ?l) j)" for j
    by (simp add: ledger_commit_def Let_def k(1))
  have "fa_fundingValueSats acc = fa_remainingBalanceSats acc + debited ?l' k"
    using inv old by (auto simp: debited ledger_invar_def account_ok_def split: option.splits)
  then have "account_ok ?l' j a" if "jget (lg_accounts ?l') j = Some a" for j a
    using that inv k(1) pos(2) by (auto simp: accounts account_ok_def debited ledger_invar_def split: if_splits)
  moreover have "debited ?l' j = 0" if "jget (lg_accounts ?l') j = None" for j
    using that inv by (auto simp: accounts debited ledger_invar_def split: if_splits)
  moreover have "nonce_invar (lg_nonces ?l')"
    using inv by (simp add: ledger_commit_def Let_def nonce_invar_foldl ledger_invar_def)
  moreover have "\<forall>e \<in> set (lg_entries ?l'). 0 < le_debitedSats e"
    using inv pos(1) by (auto simp: ledger_commit_def Let_def ledger_invar_def)
  ultimately show ?thesis by (simp add: ledger_invar_def)
qed

end
