(* ===== verification/Facilitator.thy ===== *)
theory Facilitator
  imports Ledger Authorization Chronik
begin

text \<open>
  \<open>packages/x402-xec-facilitator/src/facilitator.ts\<close> and \<open>schemas.ts\<close>: verifying a request and
  debiting its invoice from the outpoint that the authorization names. \<open>facilitator_verify\<close> is
  \<open>Facilitator.verify\<close>, one transaction on the ledger. The lemmas give the cases of a request (a
  repetition, a refusal, a debit), that credit is conserved, that a stored response is repeated for
  good, and that under a clock that does not go back an invoice is debited once.
\<close>

datatype facilitator_failure =
    G_Verification verification_failure_code
  | G_FUNDING_NOT_FOUND | G_FUNDING_CHANGED | G_PAYER_MISMATCH | G_INSUFFICIENT_CREDIT | G_IDEMPOTENCY_CONFLICT

datatype verify_response = VerifyOk verified_body | VerifyFail facilitator_failure

type_synonym facilitator_result = "int \<times> verify_response"

abbreviation MALFORMED :: facilitator_failure where
  "MALFORMED \<equiv> G_Verification A_MALFORMED"

definition failure :: "facilitator_failure \<Rightarrow> int \<Rightarrow> facilitator_result" where
  "failure c status = (status, VerifyFail c)"

subsection \<open>The request schema\<close>

record verify_request =
  vr_invoice :: invoice
  vr_authorization :: authorization
  vr_resource :: resource_request
  vr_idempotencyKey :: string

text \<open>\<open>z.array(z.tuple([z.string(), z.string()])).optional()\<close> and \<open>z.json().optional()\<close>.\<close>

definition is_query_json :: "js_value \<Rightarrow> bool" where
  "is_query_json v \<longleftrightarrow> (case v of
     JUndef \<Rightarrow> True
   | JArr xs \<Rightarrow> list_all (\<lambda>x. case x of JArr [JStr _, JStr _] \<Rightarrow> True | _ \<Rightarrow> False) xs
   | _ \<Rightarrow> False)"

definition is_body_json :: "js_value \<Rightarrow> bool" where
  "is_body_json v \<longleftrightarrow> v = JUndef \<or> is_json v"

definition is_idempotency_key :: "string \<Rightarrow> bool" where
  "is_idempotency_key s \<longleftrightarrow> 1 \<le> length s \<and> length s \<le> 128 \<and>
     list_all (\<lambda>c. is_upper c \<or> is_lower c \<or> is_digit c \<or> c \<in> set ''._:-'') s"

text \<open>\<open>resourceRequestSchema\<close> followed by \<open>toResourceRequest\<close>.\<close>

definition parse_resource_request :: "js_value \<Rightarrow> resource_request option" where
  "parse_resource_request v = do {
     guard (isRecord v \<and> only_keys v [''serverOrigin'', ''method'', ''path'', ''query'', ''body'']);
     so \<leftarrow> str_field (\<lambda>s. True) v ''serverOrigin'';
     m \<leftarrow> str_field (\<lambda>s. True) v ''method'';
     p \<leftarrow> str_field (\<lambda>s. True) v ''path'';
     guard (is_query_json (prop_of v ''query'') \<and> is_body_json (prop_of v ''body''));
     Some \<lparr>res_serverOrigin = so, res_method = m, res_path = p, res_query = prop_of v ''query'',
           res_body = prop_of v ''body''\<rparr> }"

definition parse_verify_request :: "js_value \<Rightarrow> verify_request option" where
  "parse_verify_request v = do {
     guard (isRecord v \<and> only_keys v [''invoice'', ''authorization'', ''resource'', ''idempotencyKey'']);
     i \<leftarrow> parse_invoice (prop_of v ''invoice'');
     a \<leftarrow> parse_authorization (prop_of v ''authorization'');
     r \<leftarrow> parse_resource_request (prop_of v ''resource'');
     k \<leftarrow> str_field is_idempotency_key v ''idempotencyKey'';
     Some \<lparr>vr_invoice = i, vr_authorization = a, vr_resource = r, vr_idempotencyKey = k\<rparr> }"

subsection \<open>Debiting\<close>

text \<open>The output that funds the request, in the words of the facilitator.\<close>

definition funding_output ::
  "tx_provider \<Rightarrow> string \<Rightarrow> int \<Rightarrow> int \<Rightarrow> facilitator_result exit + chronik_output" where
  "funding_output provider txid vout amount =
     ebind (throwing (inspectFundingTransaction provider
       \<lparr>fin_fundingOutpoint = \<lparr>fo_txid = txid, fo_outIdx = vout\<rparr>, fin_outputScript = None,
        fin_amountSats = amount\<rparr>)) (\<lambda>inspection. case inspection of
         F_Ok _ out \<Rightarrow> Inr out
       | F_Fail c \<Rightarrow> Inl (Early (if c = F_INSUFFICIENT_SATS then failure G_INSUFFICIENT_CREDIT 402
                               else failure G_FUNDING_NOT_FOUND 402)))"

text \<open>The account after the debit: the existing one, which has to be the same funding and payer, or a
  new one.\<close>

definition charge_account ::
  "funding_account option \<Rightarrow> string \<Rightarrow> int \<Rightarrow> string \<Rightarrow> chronik_output \<Rightarrow> int \<Rightarrow>
   facilitator_result exit + funding_account" where
  "charge_account existing txid vout payer out amount =
     ebind (case existing of
         Some a \<Rightarrow>
           ebind (require_that (fa_fundingValueSats a = out_sats out) (failure G_FUNDING_CHANGED 409)) (\<lambda>_.
           ebind (require_that (fa_payer a = payer) (failure G_PAYER_MISMATCH 403)) (\<lambda>_. Inr a))
       | None \<Rightarrow> Inr \<lparr>fa_txid = txid, fa_outIdx = vout, fa_payer = payer,
                      fa_fundingValueSats = out_sats out, fa_remainingBalanceSats = out_sats out\<rparr>) (\<lambda>account.
     ebind (require_that (\<not> fa_remainingBalanceSats account < amount) (failure G_INSUFFICIENT_CREDIT 402)) (\<lambda>_.
       Inr (account\<lparr>fa_remainingBalanceSats := fa_remainingBalanceSats account - amount\<rparr>)))"

definition debit_body :: "verify_request \<Rightarrow> string \<Rightarrow> string \<Rightarrow> int \<Rightarrow> funding_account \<Rightarrow> verified_body" where
  "debit_body input invoiceId authorizationDigest amount account =
     \<lparr>vb_invoiceId = invoiceId, vb_authorizationDigest = authorizationDigest,
      vb_debitedSats = int_to_dec amount,
      vb_remainingBalanceSats = int_to_dec (fa_remainingBalanceSats account),
      vb_txid = ref_txid (auth_transaction (vr_authorization input)),
      vb_outIdx = ref_vout (auth_transaction (vr_authorization input))\<rparr>"

definition debit_entry :: "verify_request \<Rightarrow> string \<Rightarrow> string \<Rightarrow> int \<Rightarrow> funding_account \<Rightarrow> ledger_entry" where
  "debit_entry input invoiceId authorizationDigest amount account =
     \<lparr>le_txid = ref_txid (auth_transaction (vr_authorization input)),
      le_outIdx = ref_vout (auth_transaction (vr_authorization input)),
      le_payer = auth_payer (vr_authorization input), le_payTo = inv_payTo (vr_invoice input),
      le_fundingValueSats = fa_fundingValueSats account,
      le_remainingBalanceSats = fa_remainingBalanceSats account,
      le_debitedSats = amount, le_invoiceId = invoiceId, le_nonce = inv_nonce (vr_invoice input),
      le_authorizationDigest = authorizationDigest, le_idempotencyKey = vr_idempotencyKey input\<rparr>"

definition debit ::
  "tx_provider \<Rightarrow> verify_request \<Rightarrow> string \<Rightarrow> string \<Rightarrow> string \<Rightarrow> ledger_tx \<Rightarrow> facilitator_result result \<times> ledger" where
  "debit provider input invoiceId authorizationDigest requestDigest tx =
     (let txid = ref_txid (auth_transaction (vr_authorization input));
          vout = ref_vout (auth_transaction (vr_authorization input)) in
      case ebind (throwing (parseAmountSats (inv_amountSats (vr_invoice input)))) (\<lambda>amount.
           ebind (funding_output provider txid vout amount) (\<lambda>out.
           ebind (charge_account (getFundingAccount tx txid vout) txid vout
             (auth_payer (vr_authorization input)) out amount) (\<lambda>account.
             Inr (amount, account)))) of
        Inl e \<Rightarrow> (finish (Inl e), lt_ledger tx)
      | Inr (amount, account) \<Rightarrow>
          (let body = debit_body input invoiceId authorizationDigest amount account in
           (Inr (200, VerifyOk body),
            ledger_commit tx account (debit_entry input invoiceId authorizationDigest amount account)
              (vr_idempotencyKey input) requestDigest body)))"

subsection \<open>Verifying\<close>

text \<open>The three hashes of a request: of the authorization, of the invoice, and of both with the resource.\<close>

definition request_digests ::
  "runtime \<Rightarrow> verify_request \<Rightarrow> string \<Rightarrow> (string \<times> string \<times> string) result" where
  "request_digests E input resourceHash =
     ebind (canonicalHash (rt_sha256 E) (authorization_to_json (vr_authorization input))) (\<lambda>authorizationDigest.
     ebind (computeInvoiceHash E (vr_invoice input)) (\<lambda>invoiceId.
     ebind (canonicalHash (rt_sha256 E)
       (JObj [(''authorizationDigest'', JStr authorizationDigest), (''invoiceId'', JStr invoiceId),
              (''resourceHash'', JStr resourceHash)])) (\<lambda>requestDigest.
       Inr (authorizationDigest, invoiceId, requestDigest))))"

definition verify_transaction ::
  "runtime \<Rightarrow> tx_provider \<Rightarrow> signature_verifier \<Rightarrow> js_number \<Rightarrow> verify_request \<Rightarrow> string \<times> string \<times> string \<Rightarrow>
   ledger_tx \<Rightarrow> facilitator_result result \<times> ledger" where
  "verify_transaction E provider verify now input = (\<lambda>(authorizationDigest, invoiceId, requestDigest) tx.
     case findIdempotent tx (vr_idempotencyKey input) of
       Some (digest, response) \<Rightarrow>
         (Inr (if digest \<noteq> requestDigest then failure G_IDEMPOTENCY_CONFLICT 409 else (200, VerifyOk response)),
          lt_ledger tx)
     | None \<Rightarrow>
         (case verifyAuthorization E verify ledger_consume
                \<lparr>vin_invoice = invoice_to_json (vr_invoice input),
                 vin_authorization = authorization_to_json (vr_authorization input),
                 vin_request = vr_resource input, vin_now = now\<rparr> tx of
            (Inl e, tx') \<Rightarrow> (Inl e, lt_ledger tx')
          | (Inr (A_Fail c), tx') \<Rightarrow> (Inr (failure (G_Verification c) 400), lt_ledger tx')
          | (Inr (A_Ok _), tx') \<Rightarrow> debit provider input invoiceId authorizationDigest requestDigest tx'))"

definition facilitator_verify ::
  "runtime \<Rightarrow> tx_provider \<Rightarrow> signature_verifier \<Rightarrow> js_number \<Rightarrow> js_value \<Rightarrow> ledger \<Rightarrow>
   facilitator_result result \<times> ledger" where
  "facilitator_verify E provider verify now untrustedInput l =
     (case parse_verify_request untrustedInput of
        None \<Rightarrow> (Inr (failure MALFORMED 400), l)
      | Some input \<Rightarrow>
          (case computeResourceHash E (vr_resource input) of
             Inl _ \<Rightarrow> (Inr (failure MALFORMED 400), l)
           | Inr resourceHash \<Rightarrow>
               (case request_digests E input resourceHash of
                  Inl e \<Rightarrow> (Inl e, l)
                | Inr digests \<Rightarrow> verify_transaction E provider verify now input digests (ledger_begin l))))"

subsection \<open>The outcomes of a debit\<close>

text \<open>What is charged: the outpoint exists on chain with the value of the account, and holds the amount.\<close>

definition charges ::
  "tx_provider \<Rightarrow> funding_account option \<Rightarrow> string \<Rightarrow> int \<Rightarrow> string \<Rightarrow> int \<Rightarrow> funding_account \<Rightarrow> bool" where
  "charges provider existing txid vout payer amount acc \<longleftrightarrow>
     fa_payer acc = payer \<and> 0 \<le> fa_remainingBalanceSats acc \<and>
     (\<exists>tx out. provider txid = Inr (Some tx) \<and> out_sats out = fa_fundingValueSats acc \<and>
        funds \<lparr>fin_fundingOutpoint = \<lparr>fo_txid = txid, fo_outIdx = vout\<rparr>, fin_outputScript = None,
               fin_amountSats = amount\<rparr> tx out) \<and>
     (case existing of
        None \<Rightarrow> fa_txid acc = txid \<and> fa_outIdx acc = vout \<and>
          fa_remainingBalanceSats acc + amount = fa_fundingValueSats acc
      | Some a \<Rightarrow> acc = a\<lparr>fa_remainingBalanceSats := fa_remainingBalanceSats a - amount\<rparr>)"

lemma funding_output_Inr:
  "funding_output provider txid vout amount = Inr out \<longleftrightarrow>
     (\<exists>tx. provider txid = Inr (Some tx) \<and>
        funds \<lparr>fin_fundingOutpoint = \<lparr>fo_txid = txid, fo_outIdx = vout\<rparr>, fin_outputScript = None,
               fin_amountSats = amount\<rparr> tx out)"
  by (auto simp: funding_output_def err_simps inspectFundingTransaction_Ok split: funding_inspection.splits)
     (metis funding_inspection.distinct(1) funding_inspection.exhaust inspectFundingTransaction_Ok
        inspect_input.select_convs(1) funding_outpoint.select_convs(1))

lemma charge_account_Inr:
  "charge_account existing txid vout payer out amount = Inr acc \<longleftrightarrow>
     fa_payer acc = payer \<and> 0 \<le> fa_remainingBalanceSats acc \<and> fa_fundingValueSats acc = out_sats out \<and>
     (case existing of
        None \<Rightarrow> fa_txid acc = txid \<and> fa_outIdx acc = vout \<and>
          fa_remainingBalanceSats acc + amount = fa_fundingValueSats acc
      | Some a \<Rightarrow> acc = a\<lparr>fa_remainingBalanceSats := fa_remainingBalanceSats a - amount\<rparr>)"
proof (cases existing)
  case None
  then show ?thesis by (cases acc) (auto simp: charge_account_def err_simps)
next
  case (Some a)
  then show ?thesis by (auto simp: charge_account_def err_simps)
qed

lemma charges_iff:
  "(\<exists>out. funding_output provider txid vout amount = Inr out \<and>
     charge_account existing txid vout payer out amount = Inr acc) \<longleftrightarrow>
   charges provider existing txid vout payer amount acc"
  unfolding funding_output_Inr charge_account_Inr charges_def by metis

definition is_refusal :: "facilitator_result result \<Rightarrow> bool" where
  "is_refusal r \<longleftrightarrow> (\<forall>status b. r \<noteq> Inr (status, VerifyOk b))"

lemma funding_output_early:
  assumes "funding_output provider txid vout amount = Inl (Early r)"
  shows "is_refusal (Inr r)"
proof -
  let ?in = "\<lparr>fin_fundingOutpoint = \<lparr>fo_txid = txid, fo_outIdx = vout\<rparr>, fin_outputScript = None,
        fin_amountSats = amount\<rparr>"
  show ?thesis
  proof (cases "inspectFundingTransaction provider ?in")
    case (Inr x)
    with assms show ?thesis
      by (cases x) (auto simp: funding_output_def failure_def is_refusal_def split: if_splits)
  qed (use assms in \<open>simp add: funding_output_def\<close>)
qed

lemma charge_account_early: "charge_account existing txid vout payer out amount = Inl (Early r) \<Longrightarrow> is_refusal (Inr r)"
  by (auto simp: charge_account_def ebind_Inl_iff require_that_def failure_def is_refusal_def
      split: option.splits if_splits)

lemma debit_cases:
  obtains (refused) "is_refusal (fst (debit provider input ii ad rd tx))"
      "snd (debit provider input ii ad rd tx) = lt_ledger tx"
  | (charged) amount acc where "parseAmountSats (inv_amountSats (vr_invoice input)) = Inr amount"
      "charges provider
         (getFundingAccount tx (ref_txid (auth_transaction (vr_authorization input)))
            (ref_vout (auth_transaction (vr_authorization input))))
         (ref_txid (auth_transaction (vr_authorization input)))
         (ref_vout (auth_transaction (vr_authorization input))) (auth_payer (vr_authorization input)) amount acc"
      "debit provider input ii ad rd tx = (Inr (200, VerifyOk (debit_body input ii ad amount acc)),
         ledger_commit tx acc (debit_entry input ii ad amount acc) (vr_idempotencyKey input) rd
           (debit_body input ii ad amount acc))"
proof -
  let ?txid = "ref_txid (auth_transaction (vr_authorization input))"
  let ?vout = "ref_vout (auth_transaction (vr_authorization input))"
  let ?payer = "auth_payer (vr_authorization input)"
  let ?chain = "ebind (throwing (parseAmountSats (inv_amountSats (vr_invoice input)))) (\<lambda>amount.
           ebind (funding_output provider ?txid ?vout amount) (\<lambda>out.
           ebind (charge_account (getFundingAccount tx ?txid ?vout) ?txid ?vout ?payer out amount) (\<lambda>account.
             Inr (amount, account)))) :: facilitator_result exit + int \<times> funding_account"
  show thesis
  proof (cases ?chain)
    case (Inl e)
    then have "debit provider input ii ad rd tx = (finish (Inl e), lt_ledger tx)"
      by (simp add: debit_def Let_def)
    moreover have "is_refusal (finish (Inl e))"
    proof (cases e)
      case (Early r)
      with Inl show ?thesis
        by (auto simp: ebind_Inl_iff throwing_def split: sum.splits dest: funding_output_early charge_account_early)
    qed (simp add: is_refusal_def)
    ultimately show thesis using refused by simp
  next
    case (Inr res)
    then obtain amount acc where res: "res = (amount, acc)"
      and amount: "parseAmountSats (inv_amountSats (vr_invoice input)) = Inr amount"
      and "\<exists>out. funding_output provider ?txid ?vout amount = Inr out \<and>
         charge_account (getFundingAccount tx ?txid ?vout) ?txid ?vout ?payer out amount = Inr acc"
      by (auto simp: err_simps)
    then have "charges provider (getFundingAccount tx ?txid ?vout) ?txid ?vout ?payer amount acc"
      using charges_iff by metis
    moreover have "debit provider input ii ad rd tx = (Inr (200, VerifyOk (debit_body input ii ad amount acc)),
         ledger_commit tx acc (debit_entry input ii ad amount acc) (vr_idempotencyKey input) rd
           (debit_body input ii ad amount acc))"
      using Inr res by (simp add: debit_def Let_def)
    ultimately show thesis using charged amount by blast
  qed
qed

subsection \<open>The outcomes of a request\<close>

text \<open>What a refused request can leave: the ledger, up to nonces that had expired.\<close>

definition purged :: "ledger \<Rightarrow> int \<Rightarrow> ledger" where
  "purged l now = l\<lparr>lg_nonces := purge_nonces (lg_nonces l) now\<rparr>"

definition unless_purged :: "js_number \<Rightarrow> ledger \<Rightarrow> ledger \<Rightarrow> bool" where
  "unless_purged now l l' \<longleftrightarrow> l' = l \<or> (\<exists>t. safe_nonneg now = Some t \<and> l' = purged l t)"

text \<open>A debit: the invoice is open at the time, its nonce unused, and the outpoint pays its amount.\<close>

definition debited_as ::
  "tx_provider \<Rightarrow> verify_request \<Rightarrow> int \<Rightarrow> string \<times> string \<times> string \<Rightarrow> ledger \<Rightarrow> verified_body \<Rightarrow> ledger \<Rightarrow> bool" where
  "debited_as provider input now = (\<lambda>(ad, ii, rd) l body l'.
     \<exists>amount acc. let i = vr_invoice input; a = vr_authorization input;
          txid = ref_txid (auth_transaction a); vout = ref_vout (auth_transaction a) in
        parseAmountSats (inv_amountSats i) = Inr amount \<and>
        unexpired now (jget (lg_nonces l)) (inv_nonce i) = None \<and>
        inv_issuedAt i \<le> now \<and> now < inv_expiresAt i \<and>
        jget (lg_idempotency l) (vr_idempotencyKey input) = None \<and>
        charges provider (jget (lg_accounts l) (outpointKey txid vout)) txid vout (auth_payer a) amount acc \<and>
        body = debit_body input ii ad amount acc \<and>
        l' = ledger_commit \<lparr>lt_ledger = purged l now, lt_stagedNonces = [(inv_nonce i, inv_expiresAt i)]\<rparr>
               acc (debit_entry input ii ad amount acc) (vr_idempotencyKey input) rd body)"

lemma parse_verify_request_valid:
  "parse_verify_request v = Some r \<Longrightarrow> invoice_valid (vr_invoice r) \<and> authorization_valid (vr_authorization r)"
  by (auto simp: parse_verify_request_def bind_eq_Some_conv dest: parse_invoice_valid parse_authorization_valid)

definition vin_of :: "verify_request \<Rightarrow> js_number \<Rightarrow> verify_input" where
  "vin_of input now = \<lparr>vin_invoice = invoice_to_json (vr_invoice input),
     vin_authorization = authorization_to_json (vr_authorization input),
     vin_request = vr_resource input, vin_now = now\<rparr>"

text \<open>Where \<open>verifyAuthorization\<close> leaves a fresh transaction.\<close>

lemma verifyAuthorization_ledger:
  assumes inv: "nonce_invar (lg_nonces l)"
    and valid: "invoice_valid (vr_invoice input)" "authorization_valid (vr_authorization input)"
  obtains (fails) r where "fst (verifyAuthorization E verify ledger_consume (vin_of input now) (ledger_begin l)) = r"
      "\<forall>n. r \<noteq> Inr (A_Ok n)"
      "unless_purged now l (lt_ledger (snd (verifyAuthorization E verify ledger_consume (vin_of input now) (ledger_begin l))))"
  | (passes) n t where "verifyAuthorization E verify ledger_consume (vin_of input now) (ledger_begin l) =
       (Inr (A_Ok n), \<lparr>lt_ledger = purged l t, lt_stagedNonces = [(inv_nonce (vr_invoice input), inv_expiresAt (vr_invoice input))]\<rparr>)"
      "safe_nonneg now = Some t" "unexpired t (jget (lg_nonces l)) (inv_nonce (vr_invoice input)) = None"
      "inv_issuedAt (vr_invoice input) \<le> t" "t < inv_expiresAt (vr_invoice input)"
proof -
  let ?v = "verifyAuthorization E verify ledger_consume (vin_of input now) (ledger_begin l)"
  let ?i = "vr_invoice input"
  have parsed: "parse_invoice (vin_invoice (vin_of input now)) = Some ?i"
    "parse_authorization (vin_authorization (vin_of input now)) = Some (vr_authorization input)"
    using valid by (simp_all add: vin_of_def parse_invoice_to_json parse_authorization_to_json)
  show thesis
  proof (cases "\<exists>n. fst ?v = Inr (A_Ok n)")
    case True
    then obtain n where n: "fst ?v = Inr (A_Ok n)" by blast
    with parsed obtain t where t: "safe_nonneg now = Some t" "inv_issuedAt ?i \<le> t" "t < inv_expiresAt ?i"
      and fresh: "fst (ledger_consume (ledger_begin l) (inv_nonce ?i) (inv_expiresAt ?i) t)"
      by (auto simp: verifyAuthorization_ok_iff authorization_matches_def vin_of_def)
    have unused: "unexpired t (jget (lg_nonces l)) (inv_nonce ?i) = None"
      using fresh by (simp add: ledger_consume_begin Let_def jhas_def jget_purge_nonces [OF inv]
          del: not_None_eq unexpired_Some split: if_splits)
    have "snd ?v = snd (ledger_consume (ledger_begin l) (inv_nonce ?i) (inv_expiresAt ?i) t)"
      using verifyAuthorization_accepted_state [OF n parsed(1)] t(1) by (simp add: vin_of_def)
    also have "\<dots> = \<lparr>lt_ledger = purged l t, lt_stagedNonces = [(inv_nonce ?i, inv_expiresAt ?i)]\<rparr>"
      using fresh by (auto simp: ledger_consume_begin Let_def purged_def split: if_splits)
    finally show thesis using passes [of n t] n t unused by (simp add: prod_eq_iff)
  next
    case False
    have "unless_purged now l (lt_ledger (snd ?v))"
      using verifyAuthorization_state [of E verify ledger_consume "vin_of input now" "ledger_begin l"]
      by (auto simp: ledger_consume_begin Let_def purged_def unless_purged_def vin_of_def)
    with False show thesis using fails [of "fst ?v"] by auto
  qed
qed

lemma verify_transaction_cases:
  assumes inv: "nonce_invar (lg_nonces l)"
    and valid: "invoice_valid (vr_invoice input)" "authorization_valid (vr_authorization input)"
  obtains (repeated) digest body where "jget (lg_idempotency l) (vr_idempotencyKey input) = Some (digest, body)"
      "verify_transaction E provider verify now input ds (ledger_begin l) =
         (Inr (if digest \<noteq> snd (snd ds) then failure G_IDEMPOTENCY_CONFLICT 409 else (200, VerifyOk body)), l)"
  | (refused) "is_refusal (fst (verify_transaction E provider verify now input ds (ledger_begin l)))"
      "unless_purged now l (snd (verify_transaction E provider verify now input ds (ledger_begin l)))"
  | (debited) t body l' where "safe_nonneg now = Some t" "debited_as provider input t ds l body l'"
      "verify_transaction E provider verify now input ds (ledger_begin l) = (Inr (200, VerifyOk body), l')"
proof -
  obtain ad ii rd where ds: "ds = (ad, ii, rd)" by (cases ds)
  have idem: "findIdempotent (ledger_begin l) k = jget (lg_idempotency l) k" for k
    by (simp add: findIdempotent_def ledger_begin_def)
  show thesis
  proof (cases "jget (lg_idempotency l) (vr_idempotencyKey input)")
    case (Some db)
    obtain digest body where "db = (digest, body)" by (cases db)
    with Some show thesis
      using repeated [of digest body] by (simp add: verify_transaction_def ds idem)
  next
    case None
    let ?v = "verifyAuthorization E verify ledger_consume (vin_of input now) (ledger_begin l)"
    have vt: "verify_transaction E provider verify now input ds (ledger_begin l) =
        (case ?v of (Inl e, tx') \<Rightarrow> (Inl e, lt_ledger tx')
          | (Inr (A_Fail c), tx') \<Rightarrow> (Inr (failure (G_Verification c) 400), lt_ledger tx')
          | (Inr (A_Ok _), tx') \<Rightarrow> debit provider input ii ad rd tx')"
      using None by (simp add: verify_transaction_def ds idem vin_of_def)
    from inv valid show thesis
    proof (cases rule: verifyAuthorization_ledger [where E = E and verify = verify and now = now])
      case (fails r)
      have "is_refusal (fst (verify_transaction E provider verify now input ds (ledger_begin l))) \<and>
          snd (verify_transaction E provider verify now input ds (ledger_begin l)) = lt_ledger (snd ?v)"
        using fails(1,2) unfolding vt
        by (cases ?v; cases r) (auto simp: is_refusal_def failure_def split: verification_result.splits)
      with fails(3) show thesis using refused by simp
    next
      case (passes n t)
      let ?tx = "\<lparr>lt_ledger = purged l t, lt_stagedNonces = [(inv_nonce (vr_invoice input), inv_expiresAt (vr_invoice input))]\<rparr>"
      have acc: "getFundingAccount ?tx txid vout = jget (lg_accounts l) (outpointKey txid vout)" for txid vout
        by (simp add: getFundingAccount_def purged_def)
      have vt': "verify_transaction E provider verify now input ds (ledger_begin l) = debit provider input ii ad rd ?tx"
        by (simp add: vt passes(1))
      show thesis
      proof (cases rule: debit_cases [of provider input ii ad rd ?tx])
        case refused': refused
        then show thesis using refused passes(2) by (auto simp: vt' unless_purged_def)
      next
        case (charged amount acc)
        then have "debited_as provider input t ds l (debit_body input ii ad amount acc)
            (snd (debit provider input ii ad rd ?tx))"
          using passes None by (auto simp: debited_as_def ds Let_def acc)
        with charged(3) passes(2) show thesis using debited by (simp add: vt')
      qed
    qed
  qed
qed

lemma facilitator_cases:
  assumes inv: "ledger_invar l"
  obtains (refused) "is_refusal (fst (facilitator_verify E provider verify now v l))"
      "unless_purged now l (snd (facilitator_verify E provider verify now v l))"
  | (repeated) input rh ad ii rd body where "parse_verify_request v = Some input"
      "computeResourceHash E (vr_resource input) = Inr rh" "request_digests E input rh = Inr (ad, ii, rd)"
      "jget (lg_idempotency l) (vr_idempotencyKey input) = Some (rd, body)"
      "facilitator_verify E provider verify now v l = (Inr (200, VerifyOk body), l)"
  | (debited) input rh ds t body l' where "parse_verify_request v = Some input"
      "computeResourceHash E (vr_resource input) = Inr rh" "request_digests E input rh = Inr ds"
      "safe_nonneg now = Some t" "debited_as provider input t ds l body l'"
      "facilitator_verify E provider verify now v l = (Inr (200, VerifyOk body), l')"
proof (cases "parse_verify_request v")
  case None
  then show thesis using refused by (simp add: facilitator_verify_def failure_def is_refusal_def unless_purged_def)
next
  case (Some input)
  note input = this
  show thesis
  proof (cases "computeResourceHash E (vr_resource input)")
    case (Inl e)
    with input show thesis using refused by (simp add: facilitator_verify_def failure_def is_refusal_def unless_purged_def)
  next
    case (Inr rh)
    note rh = this
    show thesis
    proof (cases "request_digests E input rh")
      case (Inl e)
      with input rh show thesis using refused by (simp add: facilitator_verify_def is_refusal_def unless_purged_def)
    next
      case (Inr ds)
      with input rh have op: "facilitator_verify E provider verify now v l =
          verify_transaction E provider verify now input ds (ledger_begin l)"
        by (simp add: facilitator_verify_def)
      have nonces: "nonce_invar (lg_nonces l)" using inv by (simp add: ledger_invar_def)
      have valid: "invoice_valid (vr_invoice input)" "authorization_valid (vr_authorization input)"
        using parse_verify_request_valid [OF input] by simp_all
      show thesis
      proof (rule verify_transaction_cases [OF nonces valid, of E provider verify now ds])
        fix digest body
        assume r: "jget (lg_idempotency l) (vr_idempotencyKey input) = Some (digest, body)"
          "verify_transaction E provider verify now input ds (ledger_begin l) =
             (Inr (if digest \<noteq> snd (snd ds) then failure G_IDEMPOTENCY_CONFLICT 409 else (200, VerifyOk body)), l)"
        obtain ad ii rd where ds: "ds = (ad, ii, rd)" by (cases ds)
        show thesis
        proof (cases "digest = rd")
          case True
          with r ds that(2) [OF input rh, of ad ii rd body] Inr op show thesis by simp
        next
          case False
          with r ds that(1) op show thesis by (simp add: failure_def is_refusal_def unless_purged_def)
        qed
      next
        assume "is_refusal (fst (verify_transaction E provider verify now input ds (ledger_begin l)))"
          "unless_purged now l (snd (verify_transaction E provider verify now input ds (ledger_begin l)))"
        with that(1) op show thesis by simp
      next
        fix t body l'
        assume "safe_nonneg now = Some t" "debited_as provider input t ds l body l'"
          "verify_transaction E provider verify now input ds (ledger_begin l) = (Inr (200, VerifyOk body), l')"
        with that(3) [OF input rh Inr, of t body l'] op show thesis by simp
      qed
    qed
  qed
qed

lemmas ledger_commit_simps = ledger_commit_def Let_def purged_def

lemma ledger_invar_purged: "ledger_invar l \<Longrightarrow> ledger_invar (purged l t)"
  by (rule ledger_invar_same) (simp_all add: purged_def ledger_invar_def)

lemma debited_as_invar:
  assumes "ledger_invar l" "debited_as provider input t ds l body l'"
  shows "ledger_invar l'"
proof -
  obtain ad ii rd where ds: "ds = (ad, ii, rd)" by (cases ds)
  let ?i = "vr_invoice input" and ?a = "auth_transaction (vr_authorization input)"
  let ?k = "outpointKey (ref_txid ?a) (ref_vout ?a)"
  from assms(2) obtain amount acc where amount: "parseAmountSats (inv_amountSats ?i) = Inr amount"
    and ch: "charges provider (jget (lg_accounts l) ?k) (ref_txid ?a) (ref_vout ?a)
        (auth_payer (vr_authorization input)) amount acc"
    and l': "l' = ledger_commit \<lparr>lt_ledger = purged l t, lt_stagedNonces = [(inv_nonce ?i, inv_expiresAt ?i)]\<rparr>
               acc (debit_entry input ii ad amount acc) (vr_idempotencyKey input) rd body"
    by (auto simp: debited_as_def ds Let_def)
  have key: "?k = outpointKey (fa_txid acc) (fa_outIdx acc)"
    using ch assms(1) by (auto simp: charges_def ledger_invar_def account_ok_def split: option.splits)
  show ?thesis
    unfolding l'
  proof (rule ledger_invar_commit [OF _ key])
    show "case jget (lg_accounts (lt_ledger \<lparr>lt_ledger = purged l t, lt_stagedNonces = [(inv_nonce ?i, inv_expiresAt ?i)]\<rparr>)) ?k of
        None \<Rightarrow> fa_remainingBalanceSats acc + le_debitedSats (debit_entry input ii ad amount acc) = fa_fundingValueSats acc
      | Some a \<Rightarrow> fa_fundingValueSats acc = fa_fundingValueSats a \<and>
          fa_remainingBalanceSats acc + le_debitedSats (debit_entry input ii ad amount acc) = fa_remainingBalanceSats a"
      using ch by (auto simp: charges_def purged_def debit_entry_def split: option.splits)
    show "0 < le_debitedSats (debit_entry input ii ad amount acc)"
      using parseAmountSats_pos [OF amount] by (simp add: debit_entry_def)
    show "0 \<le> fa_remainingBalanceSats acc" using ch by (simp add: charges_def)
    show "entry_key (debit_entry input ii ad amount acc) = ?k" by (simp add: entry_key_def debit_entry_def)
  qed (simp add: ledger_invar_purged assms(1))
qed

lemma facilitator_invar:
  assumes "ledger_invar l"
  shows "ledger_invar (snd (facilitator_verify E provider verify now v l))"
  using assms by (cases rule: facilitator_cases [where E = E and provider = provider and verify = verify and now = now and v = v])
    (use assms in \<open>auto simp: ledger_invar_purged unless_purged_def intro: debited_as_invar\<close>)

text \<open>A refused request changes no account, no entry and no stored response, and uses up no nonce.\<close>

lemma facilitator_refusal:
  assumes "ledger_invar l" "is_refusal (fst (facilitator_verify E provider verify now v l))"
  shows "unless_purged now l (snd (facilitator_verify E provider verify now v l))"
  using assms(1) by (cases rule: facilitator_cases [where E = E and provider = provider and verify = verify and now = now and v = v])
    (use assms(2) in \<open>auto simp: is_refusal_def\<close>)

lemma debited_as_idempotency:
  "debited_as provider input t (ad, ii, rd) l body l' \<Longrightarrow>
     jget (lg_idempotency l) (vr_idempotencyKey input) = None \<and>
     jget (lg_idempotency l') = (jget (lg_idempotency l)) (vr_idempotencyKey input \<mapsto> (rd, body))"
  by (auto simp: debited_as_def ledger_commit_simps fun_eq_iff)

text \<open>A stored response is never replaced.\<close>

lemma facilitator_keeps_responses:
  assumes "ledger_invar l" "jget (lg_idempotency l) k = Some x"
  shows "jget (lg_idempotency (snd (facilitator_verify E provider verify now v l))) k = Some x"
  using assms(1)
proof (cases rule: facilitator_cases [where E = E and provider = provider and verify = verify and now = now and v = v])
  case refused
  with assms(2) show ?thesis by (auto simp: unless_purged_def purged_def)
next
  case (debited input rh ds t body l')
  obtain ad ii rd where "ds = (ad, ii, rd)" by (cases ds)
  with debited debited_as_idempotency assms(2) show ?thesis by fastforce
qed (use assms(2) in simp)

text \<open>What was answered with success is answered again, without another debit.\<close>

lemma facilitator_repeats:
  assumes "ledger_invar l" "fst (facilitator_verify E provider verify now v l) = Inr (200, VerifyOk body)"
    and "ledger_invar m"
    and keep: "\<And>k x. jget (lg_idempotency (snd (facilitator_verify E provider verify now v l))) k = Some x \<Longrightarrow>
           jget (lg_idempotency m) k = Some x"
  shows "facilitator_verify E provider' verify' now' v m = (Inr (200, VerifyOk body), m)"
proof -
  have "\<exists>input rh ad ii rd. parse_verify_request v = Some input \<and>
      computeResourceHash E (vr_resource input) = Inr rh \<and> request_digests E input rh = Inr (ad, ii, rd) \<and>
      jget (lg_idempotency (snd (facilitator_verify E provider verify now v l))) (vr_idempotencyKey input) = Some (rd, body)"
    using assms(1)
  proof (cases rule: facilitator_cases [where E = E and provider = provider and verify = verify and now = now and v = v])
    case refused
    with assms(2) show ?thesis by (simp add: is_refusal_def)
  next
    case (repeated input rh ad ii rd b)
    with assms(2) show ?thesis by auto
  next
    case (debited input rh ds t b l')
    obtain ad ii rd where ds: "ds = (ad, ii, rd)" by (cases ds)
    with debited debited_as_idempotency [of provider input t ad ii rd l b l'] assms(2) show ?thesis by auto
  qed
  then obtain input rh ad ii rd where f: "parse_verify_request v = Some input"
    "computeResourceHash E (vr_resource input) = Inr rh" "request_digests E input rh = Inr (ad, ii, rd)"
    and "jget (lg_idempotency m) (vr_idempotencyKey input) = Some (rd, body)" using keep by blast
  then show ?thesis
    by (simp add: facilitator_verify_def verify_transaction_def findIdempotent_def)
qed

subsection \<open>Sequences of requests\<close>

text \<open>A ledger that the facilitator can reach, with the latest time it has seen and the invoices it has
  debited. The clock may stand still or fail, but it does not go back; the chain, the signature
  verifier and the requests are arbitrary.\<close>

inductive facilitator_reachable :: "runtime \<Rightarrow> ledger \<Rightarrow> int \<Rightarrow> invoice list \<Rightarrow> bool" for E where
  fresh_ledger: "facilitator_reachable E ledger_empty 0 []"
| request: "facilitator_reachable E l t is \<Longrightarrow> (\<forall>u. safe_nonneg now = Some u \<longrightarrow> t \<le> u) \<Longrightarrow>
    facilitator_verify E provider verify now v l = (res, l') \<Longrightarrow>
    facilitator_reachable E l' (case safe_nonneg now of Some u \<Rightarrow> u | None \<Rightarrow> t)
      (if lg_entries l' = lg_entries l then is
       else is @ [vr_invoice (the (parse_verify_request v))])"

definition entry_for :: "runtime \<Rightarrow> invoice \<Rightarrow> ledger_entry \<Rightarrow> bool" where
  "entry_for E i e \<longleftrightarrow> computeInvoiceHash E i = Inr (le_invoiceId e) \<and> le_nonce e = inv_nonce i \<and>
     le_payTo e = inv_payTo i \<and> parseAmountSats (inv_amountSats i) = Inr (le_debitedSats e)"

definition nonce_held :: "ledger \<Rightarrow> int \<Rightarrow> invoice \<Rightarrow> bool" where
  "nonce_held l t i \<longleftrightarrow> inv_expiresAt i \<le> t \<or> jget (lg_nonces l) (inv_nonce i) = Some (inv_expiresAt i)"

lemma jget_purged: "nonce_invar (lg_nonces l) \<Longrightarrow> jget (lg_nonces (purged l u)) = unexpired u (jget (lg_nonces l))"
  by (simp add: purged_def jget_purge_nonces)

lemma nonce_held_purged:
  assumes "ledger_invar l" "unless_purged now l l'" "\<forall>w. safe_nonneg now = Some w \<longrightarrow> t \<le> w" "nonce_held l t i"
  shows "nonce_held l' (case safe_nonneg now of Some w \<Rightarrow> w | None \<Rightarrow> t) i"
  using assms jget_purged [of l]
  by (auto simp: nonce_held_def unless_purged_def ledger_invar_def split: option.splits)

lemma debited_as_nonces:
  assumes "ledger_invar l" "debited_as provider input w ds l body l'"
  shows "jget (lg_nonces l') =
    (unexpired w (jget (lg_nonces l))) (inv_nonce (vr_invoice input) \<mapsto> inv_expiresAt (vr_invoice input))"
  using assms jget_purged [of l w]
  by (auto simp: debited_as_def ledger_commit_def Let_def ledger_invar_def fun_eq_iff split: prod.splits)

lemma debited_as_entry:
  assumes "debited_as provider input w (ad, ii, rd) l body l'" "request_digests E input rh = Inr (ad, ii, rd)"
  obtains e where "lg_entries l' = lg_entries l @ [e]" "entry_for E (vr_invoice input) e"
proof -
  from assms(1) obtain amount acc where amount: "parseAmountSats (inv_amountSats (vr_invoice input)) = Inr amount"
    and l': "lg_entries l' = lg_entries l @ [debit_entry input ii ad amount acc]"
    by (auto simp: debited_as_def ledger_commit_simps)
  moreover have "computeInvoiceHash E (vr_invoice input) = Inr ii"
    using assms(2) by (auto simp: request_digests_def err_simps)
  ultimately have "entry_for E (vr_invoice input) (debit_entry input ii ad amount acc)"
    by (simp add: entry_for_def debit_entry_def)
  with l' that show thesis by blast
qed

text \<open>The invariant of the reachable ledgers: the invoices debited are distinct, each has its entry, and
  the nonce of each is held until the invoice expires.\<close>

lemma reachable_ledger:
  assumes "facilitator_reachable E l t is"
  shows "ledger_invar l \<and> distinct is \<and> list_all2 (entry_for E) is (lg_entries l) \<and> list_all (nonce_held l t) is"
  using assms
proof (induction rule: facilitator_reachable.induct)
  case fresh_ledger
  show ?case using ledger_invar_empty by (simp add: ledger_empty_def)
next
  case (request l t "is" now provider verify v res l')
  then have inv: "ledger_invar l" and dist: "distinct is" and ents: "list_all2 (entry_for E) is (lg_entries l)"
    and held: "list_all (nonce_held l t) is" by simp_all
  have l': "l' = snd (facilitator_verify E provider verify now v l)" using request.hyps(3) by simp
  have inv': "ledger_invar l'" unfolding l' by (rule facilitator_invar) fact
  have same: ?case if "unless_purged now l l'"
  proof -
    have "lg_entries l' = lg_entries l" using that by (auto simp: unless_purged_def purged_def)
    moreover have "list_all (nonce_held l' (case safe_nonneg now of Some w \<Rightarrow> w | None \<Rightarrow> t)) is"
      using held nonce_held_purged [OF inv that request.hyps(2)] by (auto simp: list_all_iff)
    ultimately show ?thesis using inv' dist ents by simp
  qed
  from inv show ?case
  proof (cases rule: facilitator_cases [where E = E and provider = provider and verify = verify and now = now and v = v])
    case refused
    with same l' show ?thesis by simp
  next
    case (repeated input rh ad ii rd body)
    then have "l' = l" using l' by simp
    with same show ?thesis by (simp add: unless_purged_def)
  next
    case (debited input rh ds w body l'')
    let ?i = "vr_invoice input"
    obtain ad ii rd where ds: "ds = (ad, ii, rd)" by (cases ds)
    have d: "debited_as provider input w (ad, ii, rd) l body l'" using debited l' ds by simp
    have w: "safe_nonneg now = Some w" "t \<le> w" using debited(4) request.hyps(2) by auto
    obtain e where e: "lg_entries l' = lg_entries l @ [e]" "entry_for E ?i e"
      using debited_as_entry [OF d] debited(3) ds by blast
    have now: "unexpired w (jget (lg_nonces l)) (inv_nonce ?i) = None" "w < inv_expiresAt ?i"
      using d by (auto simp: debited_as_def Let_def)
    have new: "?i \<notin> set is"
    proof
      assume "?i \<in> set is"
      with held have "nonce_held l t ?i" by (simp add: list_all_iff)
      with now w show False by (auto simp: nonce_held_def unexpired_None)
    qed
    note nonces = debited_as_nonces [OF inv d]
    have "nonce_held l' w ?i" by (simp add: nonce_held_def nonces)
    moreover have "nonce_held l' w i" if "nonce_held l t i" for i
      using that w(2) now(1) by (auto simp: nonce_held_def nonces unexpired_None)
    ultimately have "list_all (nonce_held l' w) (is @ [?i])" using held by (auto simp: list_all_iff)
    moreover have "list_all2 (entry_for E) (is @ [?i]) (lg_entries l')"
      using ents e by (simp add: list_all2_appendI)
    ultimately show ?thesis using inv' dist new e(1) w(1) debited(1) by simp
  qed
qed

subsection \<open>Funding on chain\<close>

text \<open>A ledger that the facilitator can reach where the answers of its providers are in \<open>chain\<close>, which says what
  transactions the network has shown for an id. The requests, the verifier and the clock are arbitrary; the
  clock may go back.\<close>

inductive facilitator_run :: "runtime \<Rightarrow> (string \<Rightarrow> chronik_tx \<Rightarrow> bool) \<Rightarrow> ledger \<Rightarrow> bool" for E chain where
  new_ledger: "facilitator_run E chain ledger_empty"
| any_request: "facilitator_run E chain l \<Longrightarrow>
    (\<forall>txid tx. provider txid = Inr (Some tx) \<longrightarrow> chain txid tx) \<Longrightarrow>
    facilitator_verify E provider verify now v l = (res, l') \<Longrightarrow> facilitator_run E chain l'"

text \<open>The account is of an output that the chain has: settled, without a token, of the recorded value.\<close>

definition on_chain :: "(string \<Rightarrow> chronik_tx \<Rightarrow> bool) \<Rightarrow> funding_account \<Rightarrow> bool" where
  "on_chain chain a \<longleftrightarrow> (\<exists>tx outs out. chain (fa_txid a) tx \<and> ctx_txid tx = JStr (fa_txid a) \<and> tx_settled tx \<and>
     ctx_outputs tx = Some outs \<and> array_get outs (fa_outIdx a) = Some out \<and> out_token out = JUndef \<and>
     out_sats out = fa_fundingValueSats a)"

lemma charges_on_chain:
  assumes "charges provider existing txid vout payer amount acc"
    and "\<forall>txid tx. provider txid = Inr (Some tx) \<longrightarrow> chain txid tx"
    and "\<forall>a. existing = Some a \<longrightarrow> on_chain chain a"
  shows "on_chain chain acc"
proof (cases existing)
  case None
  then show ?thesis using assms(1,2) by (auto simp: charges_def on_chain_def funds_def)
next
  case (Some a)
  then show ?thesis using assms(1,3) by (simp add: charges_def on_chain_def)
qed

lemma run_ledger:
  assumes "facilitator_run E chain l"
  shows "ledger_invar l \<and> (\<forall>k a. jget (lg_accounts l) k = Some a \<longrightarrow> on_chain chain a)"
  using assms
proof induction
  case new_ledger
  show ?case using ledger_invar_empty by (simp add: ledger_empty_def)
next
  case (any_request l provider verify now v res l')
  have l': "l' = snd (facilitator_verify E provider verify now v l)" using any_request.hyps by simp
  have inv: "ledger_invar l" using any_request.IH by simp
  then have "\<forall>k a. jget (lg_accounts l') k = Some a \<longrightarrow> on_chain chain a"
  proof (cases rule: facilitator_cases [where E = E and provider = provider and verify = verify and now = now and v = v])
    case refused
    then show ?thesis using any_request.IH by (auto simp: l' unless_purged_def purged_def)
  next
    case (debited input rh ds t body m)
    obtain ad ii rd where ds: "ds = (ad, ii, rd)" by (cases ds)
    from debited(5) obtain acc amount k where acc: "charges provider (jget (lg_accounts l) k)
          (ref_txid (auth_transaction (vr_authorization input))) (ref_vout (auth_transaction (vr_authorization input)))
          (auth_payer (vr_authorization input)) amount acc"
      and m: "lg_accounts m = jset (lg_accounts l) (outpointKey (fa_txid acc) (fa_outIdx acc)) acc"
      by (auto simp: debited_as_def ds ledger_commit_simps)
    have "on_chain chain acc" using charges_on_chain [OF acc any_request.hyps(2)] any_request.IH by blast
    then show ?thesis using any_request.IH debited(6) m by (auto simp: l')
  qed (use any_request.IH in \<open>simp add: l'\<close>)
  with facilitator_invar [OF inv] show ?case by (simp add: l')
qed

end
