(* ===== verification/Facilitator_Properties.thy ===== *)
theory Facilitator_Properties
  imports Facilitator Samples
begin

text \<open>
  The properties of the facilitator and its ledger, for any chain, any signature verifier and any
  sequence of requests, and a run of two requests on which the witnesses evaluate.
\<close>

subsection \<open>A ledger that has debited an invoice\<close>

definition sample_provider :: tx_provider where
  "sample_provider = (\<lambda>txid. Inr (Some (sample_tx
     \<lparr>ctx_outputs := Some [\<lparr>out_sats = 1000, out_outputScript = sample_script, out_token = JUndef\<rparr>]\<rparr>)))"

definition sample_verify_json :: js_value where
  "sample_verify_json = JObj [(''invoice'', invoice_to_json sample_invoice),
     (''authorization'', authorization_to_json sample_authorization),
     (''resource'', JObj [(''serverOrigin'', JStr ''https://shop.example''), (''method'', JStr ''get''),
        (''path'', JStr ''/report'')]),
     (''idempotencyKey'', JStr ''key-1'')]"

definition sample_body :: verified_body where
  "sample_body = \<lparr>vb_invoiceId = hex64 CHR ''0'', vb_authorizationDigest = hex64 CHR ''0'', vb_debitedSats = ''546'',
     vb_remainingBalanceSats = ''454'', vb_txid = hex64 CHR ''1'', vb_outIdx = 0\<rparr>"

definition sample_verify_request :: verify_request where
  "sample_verify_request = \<lparr>vr_invoice = sample_invoice, vr_authorization = sample_authorization,
     vr_resource = sample_request, vr_idempotencyKey = ''key-1''\<rparr>"

lemma sample_request_parses: "parse_verify_request sample_verify_json = Some sample_verify_request"
proof -
  have "is_idempotency_key ''key-1''" by code_simp
  then show ?thesis
    by (simp add: parse_verify_request_def sample_verify_json_def sample_verify_request_def sample_parses str_field_def
        parse_resource_request_def is_query_json_def is_body_json_def sample_request_def prop_of_def only_keys_def)
qed

definition sample_ledger :: ledger where
  "sample_ledger = snd (debit sample_provider sample_verify_request (hex64 CHR ''0'') (hex64 CHR ''0'') (hex64 CHR ''0'')
     (snd (ledger_consume (ledger_begin ledger_empty) sample_nonce 200 150)))"

text \<open>With the constant hash function every digest is the same.\<close>

lemma sample_digests:
  "request_digests sample_runtime sample_verify_request (hex64 CHR ''0'') =
     Inr (hex64 CHR ''0'', hex64 CHR ''0'', hex64 CHR ''0'')"
proof -
  have hash: "canonicalHash (rt_sha256 sample_runtime) v = Inr (hex64 CHR ''0'')" if "is_json v" for v
    using canonicalize_ok_iff [of v] that
    by (auto simp: canonicalHash_def sample_runtime_def sha256Hex_def ok_def split: sum.splits)
  have "is_json (authorization_to_json sample_authorization)" by code_simp
  then show ?thesis using sample_invoice_hash
    by (simp add: request_digests_def hash sample_verify_request_def)
qed

lemma sample_verified:
  "facilitator_verify sample_runtime sample_provider all_sign (NInt 150) sample_verify_json ledger_empty =
     (Inr (200, VerifyOk sample_body), sample_ledger)"
proof -
  have "fst (ledger_consume (ledger_begin ledger_empty) sample_nonce 200 150)" by code_simp
  then obtain tx where c: "ledger_consume (ledger_begin ledger_empty) sample_nonce 200 150 = (True, tx)" by (metis prod.collapse)
  then have "verifyAuthorization sample_runtime all_sign ledger_consume
      \<lparr>vin_invoice = invoice_to_json sample_invoice, vin_authorization = authorization_to_json sample_authorization,
       vin_request = sample_request, vin_now = NInt 150\<rparr> (ledger_begin ledger_empty) = (Inr (A_Ok 546), tx)"
    using sample_accepts [of 150 ledger_consume "ledger_begin ledger_empty"] by (simp add: sample_input_def)
  then have eq: "facilitator_verify sample_runtime sample_provider all_sign (NInt 150) sample_verify_json ledger_empty =
      debit sample_provider sample_verify_request (hex64 CHR ''0'') (hex64 CHR ''0'') (hex64 CHR ''0'') tx"
    using sample_digests
    by (simp add: facilitator_verify_def sample_request_parses verify_transaction_def sample_verify_request_def
        sample_resource_hash findIdempotent_def ledger_empty_def ledger_begin_def)
  have "fst (debit sample_provider sample_verify_request (hex64 CHR ''0'') (hex64 CHR ''0'') (hex64 CHR ''0'')
      (snd (ledger_consume (ledger_begin ledger_empty) sample_nonce 200 150))) = Inr (200, VerifyOk sample_body)"
    by code_simp
  then show ?thesis by (simp add: sample_ledger_def eq c prod_eq_iff)
qed

lemma sample_account:
  "jget (lg_accounts sample_ledger) (outpointKey (hex64 CHR ''1'') 0) =
    Some \<lparr>fa_txid = hex64 CHR ''1'', fa_outIdx = 0, fa_payer = sample_address, fa_fundingValueSats = 1000,
          fa_remainingBalanceSats = 454\<rparr>" "length (lg_entries sample_ledger) = 1"
  by code_simp+

lemma sample_ledger_reachable: "facilitator_reachable sample_runtime sample_ledger 150 [sample_invoice]"
proof -
  have "lg_entries sample_ledger \<noteq> lg_entries ledger_empty"
    using sample_account(2) by (auto simp: ledger_empty_def)
  with request [OF fresh_ledger _ sample_verified] show ?thesis
    by (simp add: safe_nonneg_def max_safe_integer_def sample_request_parses sample_verify_request_def)
qed

subsection \<open>Debits\<close>

text \<open>C3: Under a clock that does not go back, every entry of the ledger debits an invoice of its own, for
  that invoice's hash, nonce, address and amount: no invoice is debited twice.\<close>

theorem invoices_debited_once:
  assumes "facilitator_reachable E l t is"
  shows "distinct is \<and> list_all2 (entry_for E) is (lg_entries l)"
  using reachable_ledger [OF assms] by simp

theorem invoices_debited_once_witness: "distinct [sample_invoice]"
  using invoices_debited_once [OF sample_ledger_reachable] by simp

text \<open>C10: Credit is conserved, for any requests, signature verifier and clock, even one that goes back: the account
  of an outpoint is of an output that the chain has, which is settled and without a token; its value there is
  the debits of the outpoint and the remaining balance together; the balance is never negative, and every
  debit is positive.\<close>

theorem funding_conserved:
  assumes "facilitator_run E chain l" "jget (lg_accounts l) k = Some a"
  shows "\<exists>tx outs out. chain (fa_txid a) tx \<and> ctx_txid tx = JStr (fa_txid a) \<and> tx_settled tx \<and>
    ctx_outputs tx = Some outs \<and> array_get outs (fa_outIdx a) = Some out \<and> out_token out = JUndef \<and>
    k = outpointKey (fa_txid a) (fa_outIdx a) \<and>
    debited l k + fa_remainingBalanceSats a = out_sats out \<and> 0 \<le> fa_remainingBalanceSats a \<and>
    list_all (\<lambda>e. 0 < le_debitedSats e) (lg_entries l)"
proof -
  have "ledger_invar l" "on_chain chain a" using run_ledger [OF assms(1)] assms(2) by auto
  then show ?thesis using assms(2) by (auto simp: on_chain_def ledger_invar_def account_ok_def list_all_iff)
qed

theorem funding_conserved_witness:
  "debited sample_ledger (outpointKey (hex64 CHR ''1'') 0) + 454 = 1000"
proof -
  have "facilitator_run sample_runtime (\<lambda>txid tx. sample_provider txid = Inr (Some tx)) sample_ledger"
    by (rule any_request [OF new_ledger _ sample_verified]) simp
  from funding_conserved [OF this sample_account(1)] show ?thesis
    by (auto simp: sample_provider_def array_get_def)
qed

text \<open>C28: A request that is refused, or that throws, leaves accounts, entries and stored responses as they
  were; at most the expired nonces are purged.\<close>

theorem refusal_keeps_ledger:
  assumes "ledger_invar l" "is_refusal (fst (facilitator_verify E provider verify now v l))"
  shows "unless_purged now l (snd (facilitator_verify E provider verify now v l))"
  by (rule facilitator_refusal [OF assms])

theorem refusal_keeps_ledger_witness:
  "unless_purged (NInt 210) sample_ledger
    (snd (facilitator_verify sample_runtime sample_provider (\<lambda>p m s. Inr False) (NInt 210) JNull sample_ledger))"
proof (rule refusal_keeps_ledger)
  show "ledger_invar sample_ledger" using reachable_ledger [OF sample_ledger_reachable] by simp
  show "is_refusal (fst (facilitator_verify sample_runtime sample_provider (\<lambda>p m s. Inr False) (NInt 210) JNull sample_ledger))"
    by (simp add: facilitator_verify_def parse_verify_request_def is_refusal_def failure_def guard_def)
qed

text \<open>C27: A verified request is answered again with the stored body, without a second debit, after any
  further request, whatever has become of the chain, the signatures and the clock.\<close>

theorem verified_request_repeats:
  assumes "ledger_invar l" "facilitator_verify E provider verify now v l = (Inr (200, VerifyOk body), l1)"
    and "facilitator_verify E provider2 verify2 now2 w l1 = (res, l2)"
  shows "facilitator_verify E provider3 verify3 now3 v l2 = (Inr (200, VerifyOk body), l2)"
proof (rule facilitator_repeats [OF assms(1)])
  have l1: "ledger_invar l1" using facilitator_invar [OF assms(1), of E provider verify now v] assms(2) by simp
  then show "ledger_invar l2" using facilitator_invar [OF l1, of E provider2 verify2 now2 w] assms(3) by simp
  show "jget (lg_idempotency l2) k = Some x"
    if "jget (lg_idempotency (snd (facilitator_verify E provider verify now v l))) k = Some x" for k x
    using facilitator_keeps_responses [OF l1, of k x E provider2 verify2 now2 w] that assms(2,3) by simp
qed (simp add: assms(2))

theorem verified_request_repeats_witness:
  "facilitator_verify sample_runtime (\<lambda>t. Inr None) (\<lambda>p m s. Inr False) (NInt 500) sample_verify_json sample_ledger =
     (Inr (200, VerifyOk sample_body), sample_ledger)"
proof (rule verified_request_repeats [OF ledger_invar_empty sample_verified])
  show "facilitator_verify sample_runtime sample_provider all_sign (NInt 160) JNull sample_ledger =
    (Inr (failure MALFORMED 400), sample_ledger)"
    by (simp add: facilitator_verify_def parse_verify_request_def guard_def)
qed

end
