(* ===== verification/Replay_Cache.thy ===== *)
theory Replay_Cache
  imports Nonce_Store
begin

text \<open>
  \<open>packages/x402-xec-agent-bridge/src/replay-cache.ts\<close> and \<open>errors.ts\<close>: the cache that keeps an
  invoice from being authorized twice. The interface \<open>X402ReplayCache\<close> is the locale \<open>replay_cache\<close>: a
  set of invoices and nonces in flight and the expiries of the committed ones. Inside it, any
  interleaving of reservations, commits and rollbacks commits an invoice once before its expiry.
  \<open>InMemoryAuthorizationReplayCache\<close> is the interpretation.
\<close>

definition bridge_error :: "string \<Rightarrow> string \<Rightarrow> js_error" where
  "bridge_error c m = CodedError c (''[X402AgentBridge] '' @ c @ '': '' @ m)"

subsection \<open>The in-memory cache\<close>

record cache_entry =
  ce_invoiceHash :: string
  ce_nonce :: string
  ce_expiresAt :: int

record replay_cache =
  rc_inFlightInvoices :: "string set"
  rc_inFlightNonces :: "string set"
  rc_committedInvoices :: "(string, cache_entry) jmap"
  rc_committedNonces :: "(string, cache_entry) jmap"

definition cache_empty :: replay_cache where
  "cache_empty = \<lparr>rc_inFlightInvoices = {}, rc_inFlightNonces = {}, rc_committedInvoices = [],
     rc_committedNonces = []\<rparr>"

definition live_entries :: "(string, cache_entry) jmap \<Rightarrow> int \<Rightarrow> (string, cache_entry) jmap" where
  "live_entries m now = filter (\<lambda>(_, e). \<not> ce_expiresAt e \<le> now) m"

definition cache_prune :: "replay_cache \<Rightarrow> int \<Rightarrow> nat \<times> replay_cache" where
  "cache_prune s now =
     (length (rc_committedInvoices s) - length (live_entries (rc_committedInvoices s) now),
      s\<lparr>rc_committedInvoices := live_entries (rc_committedInvoices s) now,
        rc_committedNonces := live_entries (rc_committedNonces s) now\<rparr>)"

definition cache_reserve :: "replay_cache \<Rightarrow> string \<Rightarrow> string \<Rightarrow> int \<Rightarrow> int \<Rightarrow> unit result \<times> replay_cache" where
  "cache_reserve s0 invoiceHash nonce expiresAt now =
     (let s = snd (cache_prune s0 now) in
      if invoiceHash \<in> rc_inFlightInvoices s then
        (Inl (bridge_error ''CONCURRENT_CONFLICT''
          (''Concurrent authorization attempt detected for invoiceHash '' @ invoiceHash)), s)
      else if nonce \<in> rc_inFlightNonces s then
        (Inl (bridge_error ''CONCURRENT_CONFLICT''
          (''Concurrent authorization attempt detected for nonce '' @ nonce)), s)
      else if (case jget (rc_committedInvoices s) invoiceHash of Some e \<Rightarrow> ce_expiresAt e > now | None \<Rightarrow> False) then
        (Inl (bridge_error ''DUPLICATE_INVOICE''
          (''Invoice '' @ invoiceHash @ '' has already been processed and authorized'')), s)
      else if (case jget (rc_committedNonces s) nonce of Some e \<Rightarrow> ce_expiresAt e > now | None \<Rightarrow> False) then
        (Inl (bridge_error ''NONCE_REUSE''
          (''Nonce '' @ nonce @ '' has already been used in a previous authorization'')), s)
      else (Inr (), s\<lparr>rc_inFlightInvoices := insert invoiceHash (rc_inFlightInvoices s),
                     rc_inFlightNonces := insert nonce (rc_inFlightNonces s)\<rparr>))"

definition cache_rollback :: "replay_cache \<Rightarrow> string \<Rightarrow> string \<Rightarrow> replay_cache" where
  "cache_rollback s invoiceHash nonce =
     s\<lparr>rc_inFlightInvoices := rc_inFlightInvoices s - {invoiceHash},
       rc_inFlightNonces := rc_inFlightNonces s - {nonce}\<rparr>"

definition cache_commit :: "replay_cache \<Rightarrow> string \<Rightarrow> string \<Rightarrow> int \<Rightarrow> replay_cache" where
  "cache_commit s invoiceHash nonce expiresAt =
     (let e = \<lparr>ce_invoiceHash = invoiceHash, ce_nonce = nonce, ce_expiresAt = expiresAt\<rparr>;
          s' = cache_rollback s invoiceHash nonce in
      s'\<lparr>rc_committedInvoices := jset (rc_committedInvoices s') invoiceHash e,
         rc_committedNonces := jset (rc_committedNonces s') nonce e\<rparr>)"

definition hasSeenInvoice :: "replay_cache \<Rightarrow> string \<Rightarrow> bool" where
  "hasSeenInvoice s invoiceHash \<longleftrightarrow> jhas (rc_committedInvoices s) invoiceHash \<or> invoiceHash \<in> rc_inFlightInvoices s"

definition hasSeenNonce :: "replay_cache \<Rightarrow> string \<Rightarrow> bool" where
  "hasSeenNonce s nonce \<longleftrightarrow> jhas (rc_committedNonces s) nonce \<or> nonce \<in> rc_inFlightNonces s"

definition isInFlight :: "replay_cache \<Rightarrow> string \<Rightarrow> string \<Rightarrow> bool" where
  "isInFlight s invoiceHash nonce \<longleftrightarrow> invoiceHash \<in> rc_inFlightInvoices s \<or> nonce \<in> rc_inFlightNonces s"

subsection \<open>The interface\<close>

text \<open>\<open>flying\<close> and \<open>spent\<close> are the invoices in flight and the expiries of the committed invoices. Nonces
  only add refusals, so the contract says what a successful reservation implies.\<close>

locale replay_cache =
  fixes reserve :: "'s \<Rightarrow> string \<Rightarrow> string \<Rightarrow> int \<Rightarrow> int \<Rightarrow> unit result \<times> 's"
    and commit :: "'s \<Rightarrow> string \<Rightarrow> string \<Rightarrow> int \<Rightarrow> 's"
    and rollback :: "'s \<Rightarrow> string \<Rightarrow> string \<Rightarrow> 's"
    and flying :: "'s \<Rightarrow> string set"
    and spent :: "'s \<Rightarrow> string \<Rightarrow> int option"
    and invar :: "'s \<Rightarrow> bool"
  assumes reserve_invar: "invar s \<Longrightarrow> invar (snd (reserve s h n e now))"
    and commit_invar: "invar s \<Longrightarrow> invar (commit s h n e)"
    and rollback_invar: "invar s \<Longrightarrow> invar (rollback s h n)"
    and reserve_granted: "invar s \<Longrightarrow> fst (reserve s h n e now) = Inr () \<Longrightarrow>
      h \<notin> flying s \<and> unexpired now (spent s) h = None \<and> flying (snd (reserve s h n e now)) = insert h (flying s)"
    and reserve_refused: "invar s \<Longrightarrow> fst (reserve s h n e now) = Inl err \<Longrightarrow>
      flying (snd (reserve s h n e now)) = flying s"
    and reserve_spent: "invar s \<Longrightarrow> spent (snd (reserve s h n e now)) = unexpired now (spent s)"
    and commit_effect: "invar s \<Longrightarrow> flying (commit s h n e) = flying s - {h} \<and> spent (commit s h n e) = (spent s)(h \<mapsto> e)"
    and rollback_effect: "invar s \<Longrightarrow> flying (rollback s h n) = flying s - {h} \<and> spent (rollback s h n) = spent s"
    and rollback_again: "rollback (rollback s h n) h n = rollback s h n"

text \<open>Sessions of authorizations: each reserves, and later commits or rolls back what it reserved. The
  state holds the cache, the sessions in flight (invoice, nonce, expiry), the latest time and the
  invoices that were committed, with their expiries.\<close>

record 's sessions =
  ss_cache :: 's
  ss_open :: "(string \<times> string \<times> int) list"
  ss_time :: int
  ss_done :: "(string \<times> int) list"

inductive session_step ::
  "('s \<Rightarrow> string \<Rightarrow> string \<Rightarrow> int \<Rightarrow> int \<Rightarrow> unit result \<times> 's) \<Rightarrow> ('s \<Rightarrow> string \<Rightarrow> string \<Rightarrow> int \<Rightarrow> 's) \<Rightarrow>
   ('s \<Rightarrow> string \<Rightarrow> string \<Rightarrow> 's) \<Rightarrow> 's sessions \<Rightarrow> 's sessions \<Rightarrow> bool"
  for reserve commit rollback where
  granted: "reserve (ss_cache s) h n e now = (Inr (), c) \<Longrightarrow> ss_time s \<le> now \<Longrightarrow> now < e \<Longrightarrow>
    session_step reserve commit rollback s
      (s\<lparr>ss_cache := c, ss_open := (h, n, e) # ss_open s, ss_time := now\<rparr>)"
| refused: "reserve (ss_cache s) h n e now = (Inl err, c) \<Longrightarrow> ss_time s \<le> now \<Longrightarrow>
    session_step reserve commit rollback s (s\<lparr>ss_cache := c, ss_time := now\<rparr>)"
| committed: "(h, n, e) \<in> set (ss_open s) \<Longrightarrow>
    session_step reserve commit rollback s
      (s\<lparr>ss_cache := commit (ss_cache s) h n e, ss_open := remove1 (h, n, e) (ss_open s),
        ss_done := (h, e) # ss_done s\<rparr>)"
| rolled_back: "(h, n, e) \<in> set (ss_open s) \<Longrightarrow>
    session_step reserve commit rollback s
      (s\<lparr>ss_cache := rollback (ss_cache s) h n, ss_open := remove1 (h, n, e) (ss_open s)\<rparr>)"

inductive_cases session_stepE: "session_step reserve commit rollback s s'"

inductive sessions_reachable ::
  "('s \<Rightarrow> string \<Rightarrow> string \<Rightarrow> int \<Rightarrow> int \<Rightarrow> unit result \<times> 's) \<Rightarrow> ('s \<Rightarrow> string \<Rightarrow> string \<Rightarrow> int \<Rightarrow> 's) \<Rightarrow>
   ('s \<Rightarrow> string \<Rightarrow> string \<Rightarrow> 's) \<Rightarrow> 's \<Rightarrow> 's sessions \<Rightarrow> bool"
  for reserve commit rollback s0 where
  sessions_start: "sessions_reachable reserve commit rollback s0
    \<lparr>ss_cache = s0, ss_open = [], ss_time = 0, ss_done = []\<rparr>"
| sessions_next: "sessions_reachable reserve commit rollback s0 s \<Longrightarrow> session_step reserve commit rollback s s' \<Longrightarrow>
    sessions_reachable reserve commit rollback s0 s'"

context replay_cache
begin

text \<open>An invoice in flight is open in one session; a committed one is spent until it expires; and when a
  session is open for an invoice, the earlier commits of it had expired before this expiry.\<close>

definition sessions_ok :: "'s sessions \<Rightarrow> bool" where
  "sessions_ok s \<longleftrightarrow> invar (ss_cache s) \<and> distinct (map fst (ss_open s)) \<and>
     flying (ss_cache s) = fst ` set (ss_open s) \<and>
     (\<forall>h e. (h, e) \<in> set (ss_done s) \<longrightarrow>
        e \<le> ss_time s \<or> spent (ss_cache s) h = Some e \<and> h \<notin> flying (ss_cache s)) \<and>
     (\<forall>h n e e'. (h, n, e) \<in> set (ss_open s) \<longrightarrow> (h, e') \<in> set (ss_done s) \<longrightarrow> e' < e) \<and>
     distinct (ss_done s)"

lemma sessions_okD:
  assumes "sessions_ok s"
  shows "invar (ss_cache s)" and "distinct (map fst (ss_open s))" and "flying (ss_cache s) = fst ` set (ss_open s)"
    and "(h, e) \<in> set (ss_done s) \<Longrightarrow> e \<le> ss_time s \<or> spent (ss_cache s) h = Some e \<and> h \<notin> flying (ss_cache s)"
    and "(h, n, e) \<in> set (ss_open s) \<Longrightarrow> (h, e') \<in> set (ss_done s) \<Longrightarrow> e' < e"
    and "distinct (ss_done s)"
  using assms unfolding sessions_ok_def by blast+

lemma sessions_okI:
  assumes "invar (ss_cache s)" "distinct (map fst (ss_open s))" "flying (ss_cache s) = fst ` set (ss_open s)"
    and "\<And>h e. (h, e) \<in> set (ss_done s) \<Longrightarrow>
           e \<le> ss_time s \<or> spent (ss_cache s) h = Some e \<and> h \<notin> flying (ss_cache s)"
    and "\<And>h n e e'. (h, n, e) \<in> set (ss_open s) \<Longrightarrow> (h, e') \<in> set (ss_done s) \<Longrightarrow> e' < e"
    and "distinct (ss_done s)"
  shows "sessions_ok s"
  using assms unfolding sessions_ok_def by blast

lemma sessions_ok_granted:
  assumes ok: "sessions_ok s" and r: "reserve (ss_cache s) h n e now = (Inr (), c)" "ss_time s \<le> now" "now < e"
  shows "sessions_ok (s\<lparr>ss_cache := c, ss_open := (h, n, e) # ss_open s, ss_time := now\<rparr>)"
proof -
  note d = sessions_okD [OF ok]
  have c: "c = snd (reserve (ss_cache s) h n e now)" "fst (reserve (ss_cache s) h n e now) = Inr ()"
    using r(1) by simp_all
  have g: "h \<notin> flying (ss_cache s)" "unexpired now (spent (ss_cache s)) h = None"
    "flying c = insert h (flying (ss_cache s))" "spent c = unexpired now (spent (ss_cache s))" "invar c"
    using reserve_granted [OF d(1) c(2)] reserve_spent [OF d(1), of h n e now]
      reserve_invar [OF d(1), of h n e now] by (simp_all add: c(1))
  have done_old: "e' \<le> now" if "(h, e') \<in> set (ss_done s)" for e'
    using d(4) [OF that] g(2) r(2) by (auto simp: unexpired_None)
  have live: "e' \<le> now \<or> spent c k = Some e' \<and> k \<notin> flying c" if "(k, e') \<in> set (ss_done s)" for k e'
  proof (cases "k = h")
    case True
    with that done_old show ?thesis by simp
  next
    case False
    with d(4) [OF that] r(2) g(3,4) show ?thesis by (cases "e' \<le> now") simp_all
  qed
  let ?s = "s\<lparr>ss_cache := c, ss_open := (h, n, e) # ss_open s, ss_time := now\<rparr>"
  show "sessions_ok ?s"
  proof (rule sessions_okI)
    fix k m e1 e'
    assume "(k, m, e1) \<in> set (ss_open ?s)"
      "(k, e') \<in> set (ss_done ?s)"
    then show "e' < e1" using d(5) [of k m e1 e'] done_old [of e'] r(3) by auto
  next
    fix k e'
    assume "(k, e') \<in> set (ss_done ?s)"
    then show "e' \<le> ss_time ?s \<or> spent (ss_cache ?s) k = Some e' \<and> k \<notin> flying (ss_cache ?s)"
      using live [of k e'] by auto
  qed (use d(2,3,6) g in simp_all)
qed

lemma sessions_ok_refused:
  assumes ok: "sessions_ok s" and r: "reserve (ss_cache s) h n e now = (Inl err, c)" "ss_time s \<le> now"
  shows "sessions_ok (s\<lparr>ss_cache := c, ss_time := now\<rparr>)"
proof -
  note d = sessions_okD [OF ok]
  have c: "c = snd (reserve (ss_cache s) h n e now)" "fst (reserve (ss_cache s) h n e now) = Inl err"
    using r(1) by simp_all
  have g: "flying c = flying (ss_cache s)" "spent c = unexpired now (spent (ss_cache s))" "invar c"
    using reserve_refused [OF d(1) c(2)] reserve_spent [OF d(1), of h n e now]
      reserve_invar [OF d(1), of h n e now] by (simp_all add: c(1))
  have live: "e' \<le> now \<or> spent c k = Some e' \<and> k \<notin> flying c" if "(k, e') \<in> set (ss_done s)" for k e'
    using d(4) [OF that] r(2) g(1,2) by auto
  let ?s = "s\<lparr>ss_cache := c, ss_time := now\<rparr>"
  show "sessions_ok ?s"
  proof (rule sessions_okI)
    fix k m e1 e'
    assume "(k, m, e1) \<in> set (ss_open ?s)"
      "(k, e') \<in> set (ss_done ?s)"
    then show "e' < e1" using d(5) [of k m e1 e'] by simp
  next
    fix k e'
    assume "(k, e') \<in> set (ss_done ?s)"
    then show "e' \<le> ss_time ?s \<or> spent (ss_cache ?s) k = Some e' \<and> k \<notin> flying (ss_cache ?s)"
      using live [of k e'] by auto
  qed (use d(2,3,6) g in simp_all)
qed

lemma open_unique:
  assumes "sessions_ok s" "(h, n, e) \<in> set (ss_open s)"
  shows "fst ` set (remove1 (h, n, e) (ss_open s)) = fst ` set (ss_open s) - {h}"
    and "distinct (map fst (remove1 (h, n, e) (ss_open s)))"
proof -
  have d: "distinct (ss_open s)" "inj_on fst (set (ss_open s))"
    using sessions_okD(2) [OF assms(1)] by (simp_all add: distinct_map)
  then have eq: "set (remove1 (h, n, e) (ss_open s)) = set (ss_open s) - {(h, n, e)}"
    by (simp add: set_remove1_eq)
  have "fst ` (set (ss_open s) - {(h, n, e)}) = fst ` set (ss_open s) - fst ` {(h, n, e)}"
    by (rule inj_on_image_set_diff [OF d(2)]) (use assms(2) in auto)
  with eq show "fst ` set (remove1 (h, n, e) (ss_open s)) = fst ` set (ss_open s) - {h}" by simp
  from d eq show "distinct (map fst (remove1 (h, n, e) (ss_open s)))"
    by (simp add: distinct_map inj_on_diff)
qed

lemma sessions_ok_rolled_back:
  assumes ok: "sessions_ok s" and mem: "(h, n, e) \<in> set (ss_open s)"
  shows "sessions_ok (s\<lparr>ss_cache := rollback (ss_cache s) h n, ss_open := remove1 (h, n, e) (ss_open s)\<rparr>)"
proof -
  note d = sessions_okD [OF ok]
  note g = rollback_effect [OF d(1), of h n] rollback_invar [OF d(1), of h n] open_unique [OF ok mem]
  have live: "e' \<le> ss_time s \<or> spent (rollback (ss_cache s) h n) k = Some e' \<and> k \<notin> flying (rollback (ss_cache s) h n)"
    if "(k, e') \<in> set (ss_done s)" for k e'
    using d(4) [OF that] g(1) by auto
  let ?s = "s\<lparr>ss_cache := rollback (ss_cache s) h n, ss_open := remove1 (h, n, e) (ss_open s)\<rparr>"
  show "sessions_ok ?s"
  proof (rule sessions_okI)
    fix k m e1 e'
    assume "(k, m, e1) \<in> set (ss_open ?s)"
      "(k, e') \<in> set (ss_done ?s)"
    then show "e' < e1"
      using d(5) [of k m e1 e'] set_remove1_subset [of "(h, n, e)" "ss_open s"] by auto
  next
    fix k e'
    assume "(k, e') \<in> set (ss_done ?s)"
    then show "e' \<le> ss_time ?s \<or> spent (ss_cache ?s) k = Some e' \<and> k \<notin> flying (ss_cache ?s)"
      using live [of k e'] by auto
  qed (use d(3,6) g in simp_all)
qed

lemma sessions_ok_committed:
  assumes ok: "sessions_ok s" and mem: "(h, n, e) \<in> set (ss_open s)"
  shows "sessions_ok (s\<lparr>ss_cache := commit (ss_cache s) h n e, ss_open := remove1 (h, n, e) (ss_open s),
    ss_done := (h, e) # ss_done s\<rparr>)"
proof -
  note d = sessions_okD [OF ok]
  note g = commit_effect [OF d(1), of h n e] commit_invar [OF d(1), of h n e] open_unique [OF ok mem]
  have sub: "set (remove1 (h, n, e) (ss_open s)) \<subseteq> set (ss_open s)" by (rule set_remove1_subset)
  have flying: "h \<in> flying (ss_cache s)" using d(3) mem by force
  have new: "(h, e) \<notin> set (ss_done s)" using d(5) [OF mem, of e] by blast
  have live: "e' \<le> ss_time s \<or> spent (commit (ss_cache s) h n e) k = Some e' \<and> k \<notin> flying (commit (ss_cache s) h n e)"
    if "(k, e') \<in> set (ss_done s)" for k e'
    using d(4) [OF that] flying g(1) by auto
  let ?s = "s\<lparr>ss_cache := commit (ss_cache s) h n e, ss_open := remove1 (h, n, e) (ss_open s),
    ss_done := (h, e) # ss_done s\<rparr>"
  show "sessions_ok ?s"
  proof (rule sessions_okI)
    fix k m e1 e'
    assume "(k, m, e1) \<in> set (ss_open ?s)" and old: "(k, e') \<in> set (ss_done ?s)"
    then have mem': "(k, m, e1) \<in> set (remove1 (h, n, e) (ss_open s))" by simp
    then have "k \<noteq> h" using g(3) by force
    with old have "(k, e') \<in> set (ss_done s)" by simp
    with mem' sub show "e' < e1" using d(5) [of k m e1 e'] by blast
  next
    fix k e'
    assume "(k, e') \<in> set (ss_done ?s)"
    then consider "k = h" "e' = e" | "(k, e') \<in> set (ss_done s)" by auto
    then show "e' \<le> ss_time ?s \<or> spent (ss_cache ?s) k = Some e' \<and> k \<notin> flying (ss_cache ?s)"
    proof cases
      case 1
      with g(1) show ?thesis by simp
    next
      case 2
      from live [OF this] show ?thesis by simp
    qed
  qed (use d(3,6) g new in simp_all)
qed

lemma sessions_ok_reachable:
  assumes "sessions_reachable reserve commit rollback s0 s" "invar s0" "flying s0 = {}"
  shows "sessions_ok s"
  using assms(1)
proof (induction rule: sessions_reachable.induct)
  case sessions_start
  show ?case using assms(2,3) by (simp add: sessions_ok_def)
next
  case (sessions_next s s')
  from sessions_next.hyps(2) sessions_next.IH show ?case
    by (cases rule: session_step.cases)
       (simp_all add: sessions_ok_granted sessions_ok_refused sessions_ok_committed sessions_ok_rolled_back)
qed

text \<open>Whatever the interleaving, no invoice is committed twice for one expiry.\<close>

lemma committed_once:
  assumes "sessions_reachable reserve commit rollback s0 s" "invar s0" "flying s0 = {}"
  shows "distinct (ss_done s)"
  using sessions_ok_reachable [OF assms] by (simp add: sessions_ok_def)

end

subsection \<open>The in-memory cache implements the interface\<close>

definition cache_spent :: "replay_cache \<Rightarrow> string \<Rightarrow> int option" where
  "cache_spent s h = map_option ce_expiresAt (jget (rc_committedInvoices s) h)"

definition cache_invar :: "replay_cache \<Rightarrow> bool" where
  "cache_invar s \<longleftrightarrow> distinct (map fst (rc_committedInvoices s)) \<and> distinct (map fst (rc_committedNonces s))"

lemma cache_invar_empty [simp]: "cache_invar cache_empty"
  by (simp add: cache_invar_def cache_empty_def)

lemma cache_prune_spent: "cache_invar s \<Longrightarrow> cache_spent (snd (cache_prune s now)) = unexpired now (cache_spent s)"
  by (rule ext) (auto simp: cache_spent_def cache_prune_def live_entries_def cache_invar_def jget_filter
      unexpired_def split: option.splits)

lemma cache_reserve_cases:
  "(fst (cache_reserve s h n e now) = Inr () \<and> h \<notin> rc_inFlightInvoices s \<and> n \<notin> rc_inFlightNonces s \<and>
     snd (cache_reserve s h n e now) = (snd (cache_prune s now))
       \<lparr>rc_inFlightInvoices := insert h (rc_inFlightInvoices s), rc_inFlightNonces := insert n (rc_inFlightNonces s)\<rparr> \<and>
     (\<forall>x. jget (rc_committedInvoices (snd (cache_prune s now))) h = Some x \<longrightarrow> ce_expiresAt x \<le> now)) \<or>
   ((\<exists>err. fst (cache_reserve s h n e now) = Inl err) \<and> snd (cache_reserve s h n e now) = snd (cache_prune s now))"
  by (auto simp: cache_reserve_def Let_def cache_prune_def split: option.splits)

interpretation memory_cache: replay_cache cache_reserve cache_commit cache_rollback rc_inFlightInvoices
  cache_spent cache_invar
proof unfold_locales
  fix s h n e now err
  assume s: "cache_invar s"
  have pruned: "cache_invar (snd (cache_prune s now))"
    using s by (simp add: cache_invar_def cache_prune_def live_entries_def)
  have same: "rc_inFlightInvoices (snd (cache_prune s now)) = rc_inFlightInvoices s"
    by (simp add: cache_prune_def)
  show "cache_invar (snd (cache_reserve s h n e now))"
    using cache_reserve_cases [of s h n e now] pruned by (auto simp: cache_invar_def)
  show "cache_spent (snd (cache_reserve s h n e now)) = unexpired now (cache_spent s)"
    using cache_reserve_cases [of s h n e now] cache_prune_spent [OF s, of now] by (auto simp: cache_spent_def fun_eq_iff)
  show "fst (cache_reserve s h n e now) = Inl err \<Longrightarrow>
      rc_inFlightInvoices (snd (cache_reserve s h n e now)) = rc_inFlightInvoices s"
    using cache_reserve_cases [of s h n e now] same by auto
  assume "fst (cache_reserve s h n e now) = Inr ()"
  with cache_reserve_cases [of s h n e now] have g: "h \<notin> rc_inFlightInvoices s"
    "snd (cache_reserve s h n e now) = (snd (cache_prune s now))
       \<lparr>rc_inFlightInvoices := insert h (rc_inFlightInvoices s), rc_inFlightNonces := insert n (rc_inFlightNonces s)\<rparr>"
    "\<forall>x. jget (rc_committedInvoices (snd (cache_prune s now))) h = Some x \<longrightarrow> ce_expiresAt x \<le> now" by auto
  have "unexpired now (cache_spent s) h = None"
  proof (rule ccontr)
    assume "unexpired now (cache_spent s) h \<noteq> None"
    then obtain u where "unexpired now (cache_spent s) h = Some u" by auto
    then have "cache_spent (snd (cache_prune s now)) h = Some u" "now < u"
      by (simp_all add: cache_prune_spent [OF s])
    with g(3) show False by (auto simp: cache_spent_def)
  qed
  with g show "h \<notin> rc_inFlightInvoices s \<and> unexpired now (cache_spent s) h = None \<and>
      rc_inFlightInvoices (snd (cache_reserve s h n e now)) = insert h (rc_inFlightInvoices s)" by simp
next
  fix s h n e
  assume s: "cache_invar s"
  then show "cache_invar (cache_commit s h n e)"
    by (simp add: cache_invar_def cache_commit_def cache_rollback_def Let_def)
  show "rc_inFlightInvoices (cache_commit s h n e) = rc_inFlightInvoices s - {h} \<and>
      cache_spent (cache_commit s h n e) = (cache_spent s)(h \<mapsto> e)"
    by (auto simp: cache_commit_def cache_rollback_def Let_def cache_spent_def fun_eq_iff)
next
  fix s h n
  show "cache_rollback (cache_rollback s h n) h n = cache_rollback s h n" by (simp add: cache_rollback_def)
  assume "cache_invar s"
  then show "cache_invar (cache_rollback s h n)" by (simp add: cache_invar_def cache_rollback_def)
  show "rc_inFlightInvoices (cache_rollback s h n) = rc_inFlightInvoices s - {h} \<and>
      cache_spent (cache_rollback s h n) = cache_spent s"
    by (auto simp: cache_rollback_def cache_spent_def fun_eq_iff)
qed

end
