(* ===== verification/Approval_Context.thy ===== *)
theory Approval_Context
  imports Invoice
begin

text \<open>
  \<open>packages/x402-xec-core/src/approval-context.ts\<close>: the validation of an HTTP 402 payload before an
  agent acts on it. The text of the first zod issue is a parameter. The lemmas characterise the
  accepted payloads and the context that the approval is bound to.
\<close>

record approval_context =
  ctx_x402Version :: int
  ctx_scheme :: string
  ctx_network :: string
  ctx_invoiceHash :: string
  ctx_resourceHash :: string
  ctx_amountSats :: string
  ctx_payTo :: string
  ctx_nonce :: string
  ctx_issuedAt :: int
  ctx_expiresAt :: int

definition context_valid :: "approval_context \<Rightarrow> bool" where
  "context_valid c \<longleftrightarrow>
     ctx_x402Version c = X402_VERSION \<and> ctx_scheme c = XEC_SCHEME \<and> ctx_network c = XEC_MAINNET \<and>
     is_hash (ctx_invoiceHash c) \<and> is_hash (ctx_resourceHash c) \<and> is_amount (ctx_amountSats c) \<and>
     is_address (ctx_payTo c) \<and> is_nonce (ctx_nonce c) \<and> is_timestamp (ctx_issuedAt c) \<and>
     is_timestamp (ctx_expiresAt c) \<and> ctx_issuedAt c < ctx_expiresAt c"

text \<open>\<open>Number.isFinite\<close> and \<open>Number.isInteger\<close> follow from \<open>Number.isSafeInteger\<close>.\<close>

definition validateEpochClock :: "js_value \<Rightarrow> int result" where
  "validateEpochClock now = (case now of
     JNum n \<Rightarrow> (case safe_nonneg n of
         Some t \<Rightarrow> Inr t
       | None \<Rightarrow> Inl (RangeError ''Clock must return a non-negative safe integer timestamp''))
   | _ \<Rightarrow> Inl (RangeError ''Clock must return a non-negative safe integer timestamp''))"

definition createX402ApprovalContext ::
  "runtime \<Rightarrow> invoice \<Rightarrow> resource_request + string \<Rightarrow> approval_context result" where
  "createX402ApprovalContext E i resourceOrHash =
     ebind (case resourceOrHash of Inr h \<Rightarrow> Inr h | Inl r \<Rightarrow> computeResourceHash E r) (\<lambda>resourceHash.
     if resourceHash \<noteq> inv_resourceHash i then
       Inl (PlainError ''Invoice resourceHash does not match calculated resourceHash'')
     else ebind (computeInvoiceHash E i) (\<lambda>invoiceHash.
       let c = \<lparr>ctx_x402Version = inv_x402Version i, ctx_scheme = inv_scheme i, ctx_network = inv_network i,
                ctx_invoiceHash = invoiceHash, ctx_resourceHash = resourceHash,
                ctx_amountSats = inv_amountSats i, ctx_payTo = inv_payTo i, ctx_nonce = inv_nonce i,
                ctx_issuedAt = inv_issuedAt i, ctx_expiresAt = inv_expiresAt i\<rparr> in
       if context_valid c then Inr c else Inl ZodError))"

definition parseResourceMetadata :: "js_value \<Rightarrow> resource_request result" where
  "parseResourceMetadata v =
     (if \<not> isRecord v then Inl (PlainError ''Invalid x402 resource metadata'')
      else (case (prop_of v ''serverOrigin'', prop_of v ''method'', prop_of v ''path'') of
          (JStr so, JStr m, JStr p) \<Rightarrow>
            Inr \<lparr>res_serverOrigin = so, res_method = m, res_path = p, res_query = prop_of v ''query'',
                 res_body = prop_of v ''body''\<rparr>
        | _ \<Rightarrow> Inl (PlainError ''Invalid x402 resource metadata: required fields missing'')))"

type_synonym validated_402 = "invoice \<times> resource_request \<times> approval_context"

text \<open>The part of \<open>validatePaymentRequired\<close> up to the invoice, which is read and dated.\<close>

definition required_invoice :: "(js_value \<Rightarrow> string option) \<Rightarrow> int \<Rightarrow> js_value \<Rightarrow> invoice result" where
  "required_invoice firstIssue now input =
     (if \<not> isRecord input then Inl (PlainError ''Invalid x402 payment required response: expected an object'')
      else if prop_of input ''x402Version'' \<noteq> JNum (NInt X402_VERSION) then
        ebind (String_of (prop_of input ''x402Version'')) (\<lambda>got.
          Inl (PlainError (''Unsupported x402 version: expected '' @ int_to_dec X402_VERSION @ '', got '' @ got)))
      else (case parse_invoice (prop_of input ''invoice'') of
          None \<Rightarrow> Inl (PlainError (''Invalid x402 invoice: '' @
            (case firstIssue (prop_of input ''invoice'') of Some m \<Rightarrow> m | None \<Rightarrow> ''malformed'')))
        | Some i \<Rightarrow>
            if inv_network i \<noteq> XEC_MAINNET then Inl (PlainError (''Unsupported x402 network: '' @ inv_network i))
            else if inv_scheme i \<noteq> XEC_SCHEME then
              Inl (PlainError (''Unsupported x402 invoice scheme: '' @ inv_scheme i))
            else if now < inv_issuedAt i then Inl (PlainError ''x402 invoice is not yet valid'')
            else if now \<ge> inv_expiresAt i then Inl (PlainError ''x402 invoice has expired'')
            else Inr i))"

definition validatePaymentRequired ::
  "runtime \<Rightarrow> (js_value \<Rightarrow> string option) \<Rightarrow> js_value \<Rightarrow> resource_request option \<Rightarrow> js_value \<Rightarrow> validated_402 result" where
  "validatePaymentRequired E firstIssue clock expectedResource input =
     ebind (validateEpochClock clock) (\<lambda>now.
     ebind (required_invoice firstIssue now input) (\<lambda>i.
     ebind (computeInvoiceHash E i) (\<lambda>calculatedInvoiceHash.
     if (\<exists>s. prop_of input ''invoiceId'' = JStr s) \<and> prop_of input ''invoiceId'' \<noteq> JStr calculatedInvoiceHash then
       Inl (PlainError ''Invoice hash mismatch against invoiceId'')
     else ebind (parseResourceMetadata (prop_of input ''resource'')) (\<lambda>resource.
     ebind (computeResourceHash E resource) (\<lambda>calculatedResourceHash.
     if calculatedResourceHash \<noteq> inv_resourceHash i then
       Inl (PlainError ''Resource hash mismatch against invoice.resourceHash'')
     else ebind (case expectedResource of
         None \<Rightarrow> Inr ()
       | Some r \<Rightarrow> ebind (computeResourceHash E r) (\<lambda>expectedHash.
           if calculatedResourceHash \<noteq> expectedHash then
             Inl (PlainError ''Resource does not match expected resource'')
           else Inr ())) (\<lambda>_.
       ebind (createX402ApprovalContext E i (Inr calculatedResourceHash)) (\<lambda>c. Inr (i, resource, c))))))))"

subsection \<open>What is accepted\<close>

text \<open>The context that stands for an invoice.\<close>

definition context_of :: "invoice \<Rightarrow> string \<Rightarrow> approval_context" where
  "context_of i h =
     \<lparr>ctx_x402Version = inv_x402Version i, ctx_scheme = inv_scheme i, ctx_network = inv_network i,
      ctx_invoiceHash = h, ctx_resourceHash = inv_resourceHash i, ctx_amountSats = inv_amountSats i,
      ctx_payTo = inv_payTo i, ctx_nonce = inv_nonce i, ctx_issuedAt = inv_issuedAt i,
      ctx_expiresAt = inv_expiresAt i\<rparr>"

lemma context_of_valid: "invoice_valid i \<Longrightarrow> context_valid (context_of i h) \<longleftrightarrow> is_hash h"
  by (auto simp: context_valid_def context_of_def invoice_valid_def)

lemma validateEpochClock_Inr:
  "validateEpochClock now = Inr t \<longleftrightarrow> (\<exists>n. now = JNum n \<and> safe_nonneg n = Some t)"
  by (auto simp: validateEpochClock_def split: js_value.splits option.splits)

lemma required_invoice_Inr:
  "required_invoice firstIssue now input = Inr i \<longleftrightarrow>
     isRecord input \<and> prop_of input ''x402Version'' = JNum (NInt X402_VERSION) \<and>
     parse_invoice (prop_of input ''invoice'') = Some i \<and> inv_issuedAt i \<le> now \<and> now < inv_expiresAt i"
  by (auto simp: required_invoice_def ebind_Inr_iff invoice_valid_def split: option.splits dest: parse_invoice_valid)

lemma createX402ApprovalContext_Inr:
  assumes "invoice_valid i"
  shows "createX402ApprovalContext E i (Inr h) = Inr c \<longleftrightarrow>
     h = inv_resourceHash i \<and> (\<exists>ih. computeInvoiceHash E i = Inr ih \<and> is_hash ih \<and> c = context_of i ih)"
  using context_of_valid [OF assms]
  by (auto simp: createX402ApprovalContext_def ebind_Inr_iff Let_def context_of_def)

lemma validatePaymentRequired_Inr:
  "validatePaymentRequired E firstIssue clock expected input = Inr (i, r, c) \<longleftrightarrow>
     (\<exists>now h. validateEpochClock clock = Inr now \<and> isRecord input \<and>
        prop_of input ''x402Version'' = JNum (NInt X402_VERSION) \<and>
        parse_invoice (prop_of input ''invoice'') = Some i \<and>
        inv_issuedAt i \<le> now \<and> now < inv_expiresAt i \<and>
        computeInvoiceHash E i = Inr h \<and> is_hash h \<and> c = context_of i h \<and>
        (\<forall>s. prop_of input ''invoiceId'' = JStr s \<longrightarrow> s = h) \<and>
        parseResourceMetadata (prop_of input ''resource'') = Inr r \<and>
        computeResourceHash E r = Inr (inv_resourceHash i) \<and>
        (\<forall>x. expected = Some x \<longrightarrow> computeResourceHash E x = Inr (inv_resourceHash i)))"
  (is "?l \<longleftrightarrow> ?r")
proof
  assume ?l
  then obtain now h where now: "validateEpochClock clock = Inr now" and i: "required_invoice firstIssue now input = Inr i"
    and h: "computeInvoiceHash E i = Inr h" "\<not> ((\<exists>s. prop_of input ''invoiceId'' = JStr s) \<and> prop_of input ''invoiceId'' \<noteq> JStr h)"
    and r: "parseResourceMetadata (prop_of input ''resource'') = Inr r"
      "computeResourceHash E r = Inr (inv_resourceHash i)"
    and x: "\<forall>x. expected = Some x \<longrightarrow> computeResourceHash E x = Inr (inv_resourceHash i)"
    and c: "createX402ApprovalContext E i (Inr (inv_resourceHash i)) = Inr c"
    by (auto simp: validatePaymentRequired_def ebind_Inr_iff split: if_splits option.splits)
  from i have valid: "invoice_valid i" by (auto simp: required_invoice_Inr dest: parse_invoice_valid)
  from c h(1) have "is_hash h" "c = context_of i h" by (auto simp: createX402ApprovalContext_Inr [OF valid])
  with now i h r x show ?r by (auto simp: required_invoice_Inr)
next
  assume ?r
  then obtain now h where f: "validateEpochClock clock = Inr now" "required_invoice firstIssue now input = Inr i"
    "computeInvoiceHash E i = Inr h" "is_hash h" "c = context_of i h"
    "\<forall>s. prop_of input ''invoiceId'' = JStr s \<longrightarrow> s = h"
    "parseResourceMetadata (prop_of input ''resource'') = Inr r"
    "computeResourceHash E r = Inr (inv_resourceHash i)"
    "\<forall>x. expected = Some x \<longrightarrow> computeResourceHash E x = Inr (inv_resourceHash i)"
    by (auto simp: required_invoice_Inr)
  then have "invoice_valid i" by (auto simp: required_invoice_Inr dest: parse_invoice_valid)
  from createX402ApprovalContext_Inr [OF this, of E "inv_resourceHash i" c] f
  have "createX402ApprovalContext E i (Inr (inv_resourceHash i)) = Inr c" by blast
  with f show ?l by (cases expected) (auto simp: validatePaymentRequired_def)
qed

end
