(* ===== verification/Bridge.thy ===== *)
theory Bridge
  imports Replay_Cache Approval_Context
begin

text \<open>
  \<open>packages/x402-xec-agent-bridge/src/bridge.ts\<close>: the authorization of a payment by policy and human.
  \<open>authorizePayment\<close> validates the 402 payload, reserves the invoice, asks the policy evaluator and
  the wallet, and commits or rolls back the reservation. The schemas of \<open>@xolosarmy/tonalli-core\<close>,
  the evaluator, the wallet transport and the random values are parameters; the two readings of the
  clock are inputs. The lemmas show what an approval guarantees, and which code an error gets.
\<close>

record agent_intent =
  ai_contractVersion :: string
  ai_kind :: string
  ai_intentId :: string
  ai_nonce :: string
  ai_agentId :: string
  ai_agentRole :: string
  ai_network :: string
  ai_fromAddress :: string
  ai_toAddress :: string
  ai_amountSats :: string
  ai_reason :: string
  ai_memo :: "string option"
  ai_createdAt :: int
  ai_expiresAt :: int

record policy_decision =
  pd_intentId :: string
  pd_decisionId :: string
  pd_decision :: string
  pd_expiresAt :: int

record wallet_request =
  wr_contractVersion :: string
  wr_kind :: string
  wr_purpose :: string
  wr_requestId :: string
  wr_intent :: agent_intent
  wr_policyDecision :: policy_decision
  wr_x402 :: approval_context
  wr_requestedAt :: int
  wr_expiresAt :: int

record human_approval =
  ha_contractVersion :: string
  ha_requestId :: string
  ha_intentId :: string
  ha_decisionId :: string
  ha_recordedAt :: int
  ha_status :: string
  ha_approver :: "string option"

record agent_config =
  ac_agentId :: string
  ac_agentRole :: string
  ac_fromAddress :: string
  ac_reason :: "string option"
  ac_memo :: "string option"
  ac_intentTtlSeconds :: "int option"

record bridge_config =
  bc_killSwitch :: "bool option"
  bc_dailyLimitSats :: "int option"

record bridge_env =
  be_runtime :: runtime
  be_firstIssue :: "js_value \<Rightarrow> string option"
  be_parseAgentIntent :: "agent_intent \<Rightarrow> agent_intent result"
  be_policyEvaluator :: "agent_intent \<Rightarrow> js_value result"
  be_parsePolicyDecision :: "js_value \<Rightarrow> policy_decision result"
  be_parseWalletRequest :: "wallet_request \<Rightarrow> wallet_request result"
  be_dispatch :: "wallet_request \<Rightarrow> js_value result"
  be_parseHumanApproval :: "js_value \<Rightarrow> human_approval result"
  be_randomIntentId :: string
  be_randomRequestId :: string
  be_randomNonce :: string

record bridge_request =
  br_paymentRequired :: js_value
  br_expectedResource :: "resource_request option"
  br_agentConfig :: agent_config

datatype bridge_status = Approved | Rejected

text \<open>The result; a policy rejection leaves the two wallet fields \<open>undefined\<close>.\<close>

record bridge_result =
  bs_status :: bridge_status
  bs_humanApproval :: "human_approval option"
  bs_walletRequest :: "wallet_request option"
  bs_agentIntent :: agent_intent
  bs_policyDecision :: policy_decision
  bs_context :: approval_context
  bs_invoice :: invoice
  bs_resource :: resource_request

abbreviation bridge_fail :: "string \<Rightarrow> string \<Rightarrow> js_error + 'a" where
  "bridge_fail c m \<equiv> Inl (bridge_error c m)"

text \<open>A call whose exception is wrapped.\<close>

definition wrapping :: "string \<Rightarrow> string \<Rightarrow> 'a result \<Rightarrow> 'a result" where
  "wrapping c prefix m = (case m of Inl e \<Rightarrow> bridge_fail c (prefix @ err_text e) | Inr x \<Rightarrow> Inr x)"

lemma wrapping_Inr [err_simps]: "wrapping c p m = Inr x \<longleftrightarrow> m = Inr x"
  by (cases m) (simp_all add: wrapping_def)

text \<open>\<open>if (!b) throw new X402AgentBridgeError(c, m)\<close>.\<close>

definition demand :: "bool \<Rightarrow> string \<Rightarrow> string \<Rightarrow> unit result" where
  "demand b c m = (if b then Inr () else bridge_fail c m)"

lemma demand_Inr [err_simps]: "demand b c m = Inr u \<longleftrightarrow> b"
  by (simp add: demand_def)

subsection \<open>Before the reservation\<close>

text \<open>\<open>BigInt(config.dailyLimitSats ?? 0)\<close>.\<close>

definition or_zero :: "int option \<Rightarrow> int" where
  "or_zero x = (case x of None \<Rightarrow> 0 | Some n \<Rightarrow> n)"

definition validateClockValue :: "js_value \<Rightarrow> int result" where
  "validateClockValue now = (case now of
     JNum n \<Rightarrow> (case safe_nonneg n of
         Some t \<Rightarrow> Inr t
       | None \<Rightarrow> bridge_fail ''INVALID_CLOCK'' (''Clock provider returned invalid timestamp: '' @ num_to_string n @
           ''. Safe non-negative integer required.''))
   | v \<Rightarrow> ebind (String_of v) (\<lambda>s. bridge_fail ''INVALID_CLOCK''
       (''Clock provider returned invalid timestamp: '' @ s @ ''. Safe non-negative integer required.'')))"

text \<open>The code of an error of \<open>validatePaymentRequired\<close> is chosen by what its message contains.\<close>

definition classify_402 :: "string \<Rightarrow> string" where
  "classify_402 message =
     (if str_includes message ''Invalid x402 payment required'' \<or> str_includes message ''Invalid x402 resource metadata''
      then ''MALFORMED_PAYMENT_REQUIRED''
      else if str_includes message ''Unsupported x402 version'' then ''UNSUPPORTED_VERSION''
      else if str_includes message ''Unsupported x402 network'' then ''UNSUPPORTED_NETWORK''
      else if str_includes message ''Unsupported x402 invoice scheme'' then ''UNSUPPORTED_SCHEME''
      else if str_includes message ''Resource hash mismatch'' \<or>
              str_includes message ''Resource does not match expected resource'' then ''RESOURCE_MISMATCH''
      else if str_includes message ''Invoice hash mismatch'' then ''INVOICE_HASH_MISMATCH''
      else if str_includes message ''x402 invoice is not yet valid'' then ''INVOICE_NOT_YET_VALID''
      else if str_includes message ''x402 invoice has expired'' then ''INVOICE_EXPIRED''
      else ''MALFORMED_PAYMENT_REQUIRED'')"

definition bridge_prepare ::
  "bridge_env \<Rightarrow> bridge_config \<Rightarrow> bridge_request \<Rightarrow> js_value \<Rightarrow> (int \<times> validated_402) result" where
  "bridge_prepare B cfg req clock =
     (let dailyLimitSats = or_zero (bc_dailyLimitSats cfg) in
      ebind (validateClockValue clock) (\<lambda>nowSec.
      ebind (demand (bc_killSwitch cfg = Some False) ''KILL_SWITCH_ACTIVE''
        ''Agentic kill switch is active (default). Outbound x402 payment authorization is blocked.'') (\<lambda>_.
      ebind (demand (\<not> dailyLimitSats \<le> 0) ''INSUFFICIENT_FUNDS_LIMIT''
        (''Configured daily monetary limit is '' @ int_to_dec dailyLimitSats @
         '' sats (default 0). All spend blocked.'')) (\<lambda>_.
      case validatePaymentRequired (be_runtime B) (be_firstIssue B) (JNum (NInt nowSec)) (br_expectedResource req)
             (br_paymentRequired req) of
        Inl e \<Rightarrow> bridge_fail (classify_402 (err_text e)) (err_text e)
      | Inr v \<Rightarrow> Inr (nowSec, v)))))"

subsection \<open>Under the reservation\<close>

text \<open>Step 6: the intent and its binding to the context.\<close>

definition build_intent ::
  "bridge_env \<Rightarrow> bridge_config \<Rightarrow> agent_config \<Rightarrow> int \<Rightarrow> approval_context \<Rightarrow> agent_intent result" where
  "build_intent B cfg agent nowSec c =
     (let intentExpiresAt = min (ctx_expiresAt c)
            (nowSec + (case ac_intentTtlSeconds agent of Some t \<Rightarrow> t | None \<Rightarrow> 300)) in
      ebind (demand (\<not> intentExpiresAt \<le> nowSec) ''INVOICE_EXPIRED''
        ''Invoice expires at or before intent creation timestamp'') (\<lambda>_.
      ebind (wrapping ''MALFORMED_PAYMENT_REQUIRED'' ''Failed to construct bound AgentIntentV1: ''
        (be_parseAgentIntent B
          \<lparr>ai_contractVersion = ''1.0'', ai_kind = ''agent_intent'', ai_intentId = ''intent:'' @ be_randomIntentId B,
           ai_nonce = be_randomNonce B, ai_agentId = ac_agentId agent, ai_agentRole = ac_agentRole agent,
           ai_network = ctx_network c, ai_fromAddress = ac_fromAddress agent, ai_toAddress = ctx_payTo c,
           ai_amountSats = ctx_amountSats c,
           ai_reason = (case ac_reason agent of Some r \<Rightarrow> r
             | None \<Rightarrow> ''x402 payment authorization for invoice '' @ ctx_invoiceHash c),
           ai_memo = ac_memo agent, ai_createdAt = nowSec, ai_expiresAt = intentExpiresAt\<rparr>)) (\<lambda>intent.
      ebind (demand (ctx_amountSats c = ai_amountSats intent) ''INVARIANT_BINDING_MISMATCH''
        (''amountSats mismatch: context ('' @ ctx_amountSats c @ '') !== intent ('' @ ai_amountSats intent @ '')'')) (\<lambda>_.
      ebind (demand (ctx_payTo c = ai_toAddress intent) ''INVARIANT_BINDING_MISMATCH''
        (''payTo mismatch: context ('' @ ctx_payTo c @ '') !== intent ('' @ ai_toAddress intent @ '')'')) (\<lambda>_.
      ebind (demand (ctx_network c = ai_network intent) ''INVARIANT_BINDING_MISMATCH''
        (''network mismatch: context ('' @ ctx_network c @ '') !== intent ('' @ ai_network intent @ '')'')) (\<lambda>_.
      ebind (demand (\<not> BigInt_of (ai_amountSats intent) > or_zero (bc_dailyLimitSats cfg)) ''INSUFFICIENT_FUNDS_LIMIT''
        (''Requested amount ('' @ ai_amountSats intent @ '' sats) exceeds agent monetary limit ('' @
         int_to_dec (or_zero (bc_dailyLimitSats cfg)) @ '' sats)'')) (\<lambda>_.
        Inr intent)))))))"

text \<open>Step 7: the decision of the policy.\<close>

definition ask_policy :: "bridge_env \<Rightarrow> agent_intent \<Rightarrow> policy_decision result" where
  "ask_policy B intent =
     ebind (wrapping ''POLICY_DECISION_INVALID'' ''CAE policy evaluator invocation failed: ''
       (be_policyEvaluator B intent)) (\<lambda>raw.
     ebind (wrapping ''POLICY_DECISION_INVALID'' ''Policy decision failed schema validation: ''
       (be_parsePolicyDecision B raw)) (\<lambda>d.
     ebind (demand (pd_intentId d = ai_intentId intent) ''POLICY_DECISION_INVALID''
       (''Policy decision intentId ('' @ pd_intentId d @ '') does not match intent ('' @ ai_intentId intent @ '')''))
       (\<lambda>_. Inr d)))"

text \<open>Step 8: the request to the wallet.\<close>

definition build_wallet_request ::
  "bridge_env \<Rightarrow> js_value \<Rightarrow> approval_context \<Rightarrow> agent_intent \<Rightarrow> policy_decision \<Rightarrow> wallet_request result" where
  "build_wallet_request B clock c intent d =
     ebind (demand (pd_decision d = ''needs_human_approval'') ''POLICY_DECISION_INVALID''
       (''Unsupported policy decision: '' @ pd_decision d @ ''. Phase C1 requires needs_human_approval.'')) (\<lambda>_.
     ebind (validateClockValue clock) (\<lambda>requestedAt.
     ebind (demand (\<not> (requestedAt \<ge> ctx_expiresAt c \<or> requestedAt \<ge> ai_expiresAt intent \<or> requestedAt \<ge> pd_expiresAt d))
       ''INVOICE_EXPIRED_DURING_AUTHORIZATION''
       ''Invoice, intent, or policy decision expired before wallet request dispatch'') (\<lambda>_.
       wrapping ''INVARIANT_BINDING_MISMATCH'' ''Failed to construct valid WalletApprovalRequestV1: ''
         (be_parseWalletRequest B
           \<lparr>wr_contractVersion = ''1.0'', wr_kind = ''wallet_approval_request'', wr_purpose = ''xec_payment'',
            wr_requestId = ''wallet-request:'' @ be_randomRequestId B, wr_intent = intent, wr_policyDecision = d,
            wr_x402 = c, wr_requestedAt = requestedAt,
            wr_expiresAt = min (ai_expiresAt intent) (min (pd_expiresAt d) (ctx_expiresAt c))\<rparr>))))"

text \<open>Steps 9 and 10: the answer of the human.\<close>

definition ask_wallet ::
  "bridge_env \<Rightarrow> agent_intent \<Rightarrow> policy_decision \<Rightarrow> wallet_request \<Rightarrow> human_approval result" where
  "ask_wallet B intent d w =
     ebind (wrapping ''WALLET_TRANSPORT_ERROR'' ''Wallet approval transport dispatch failed: '' (be_dispatch B w)) (\<lambda>raw.
     ebind (wrapping ''MALFORMED_HUMAN_APPROVAL'' ''Wallet response failed HumanApprovalV1 schema validation: ''
       (be_parseHumanApproval B raw)) (\<lambda>h.
     ebind (demand (ha_contractVersion h = ''1.0'') ''MALFORMED_HUMAN_APPROVAL''
       (''Invalid contractVersion on HumanApprovalV1: '' @ ha_contractVersion h)) (\<lambda>_.
     ebind (demand (ha_requestId h = wr_requestId w) ''INVARIANT_BINDING_MISMATCH''
       (''Human approval requestId ('' @ ha_requestId h @ '') does not match outbound request ('' @ wr_requestId w @ '')'')) (\<lambda>_.
     ebind (demand (ha_intentId h = ai_intentId intent) ''INVARIANT_BINDING_MISMATCH''
       (''Human approval intentId ('' @ ha_intentId h @ '') does not match outbound intent ('' @ ai_intentId intent @ '')'')) (\<lambda>_.
     ebind (demand (ha_decisionId h = pd_decisionId d) ''INVARIANT_BINDING_MISMATCH''
       (''Human approval decisionId ('' @ ha_decisionId h @ '') does not match policy decision ('' @ pd_decisionId d @ '')'')) (\<lambda>_.
     ebind (demand (\<not> (ha_recordedAt h \<ge> ai_expiresAt intent \<or> ha_recordedAt h \<ge> pd_expiresAt d)) ''HUMAN_APPROVAL_EXPIRED''
       (''Human approval recordedAt ('' @ int_to_dec (ha_recordedAt h) @ '') is outside validity window'')) (\<lambda>_.
       Inr h)))))))"

text \<open>How a session ends, and what it does to its reservation.\<close>

datatype session_end =
    Conclude bridge_result
  | Expired js_error
  | Failed js_error

definition bridge_session ::
  "bridge_env \<Rightarrow> bridge_config \<Rightarrow> bridge_request \<Rightarrow> int \<Rightarrow> js_value \<Rightarrow> validated_402 \<Rightarrow> session_end" where
  "bridge_session B cfg req nowSec clock2 = (\<lambda>(i, resource, c).
     case ebind (build_intent B cfg (br_agentConfig req) nowSec c) (\<lambda>intent.
          ebind (ask_policy B intent) (\<lambda>d. Inr (intent, d))) of
       Inl e \<Rightarrow> Failed e
     | Inr (intent, d) \<Rightarrow>
         if pd_decision d = ''rejected'' then
           Conclude \<lparr>bs_status = Rejected, bs_humanApproval = None, bs_walletRequest = None,
             bs_agentIntent = intent, bs_policyDecision = d, bs_context = c, bs_invoice = i, bs_resource = resource\<rparr>
         else (case ebind (build_wallet_request B clock2 c intent d) (\<lambda>w.
                    ebind (ask_wallet B intent d w) (\<lambda>h. Inr (w, h))) of
             Inl e \<Rightarrow> Failed e
           | Inr (w, h) \<Rightarrow>
               let result = (\<lambda>status. \<lparr>bs_status = status, bs_humanApproval = Some h, bs_walletRequest = Some w,
                     bs_agentIntent = intent, bs_policyDecision = d, bs_context = c, bs_invoice = i,
                     bs_resource = resource\<rparr>) in
               if ha_status h = ''approved'' then
                 (if ha_approver h = None \<or> ha_approver h = Some [] then
                    Failed (bridge_error ''MALFORMED_HUMAN_APPROVAL'' ''Approved HumanApprovalV1 requires an approver identifier'')
                  else Conclude (result Approved))
               else if ha_status h = ''rejected'' then Conclude (result Rejected)
               else if ha_status h = ''expired'' then
                 Expired (bridge_error ''HUMAN_APPROVAL_EXPIRED'' ''Wallet human approval status is expired'')
               else Failed (bridge_error ''MALFORMED_HUMAN_APPROVAL'' (''Unknown human approval status: '' @ ha_status h))))"

text \<open>An expired approval rolls back twice: once by itself, once in the \<open>catch\<close>.\<close>

definition bridge_finish ::
  "('s \<Rightarrow> string \<Rightarrow> string \<Rightarrow> int \<Rightarrow> 's) \<Rightarrow> ('s \<Rightarrow> string \<Rightarrow> string \<Rightarrow> 's) \<Rightarrow> approval_context \<Rightarrow> session_end \<Rightarrow> 's \<Rightarrow>
   bridge_result result \<times> 's" where
  "bridge_finish commit rollback c end s = (case end of
     Conclude r \<Rightarrow>
       (Inr r, if bs_status r = Approved then commit s (ctx_invoiceHash c) (ctx_nonce c) (ctx_expiresAt c)
               else rollback s (ctx_invoiceHash c) (ctx_nonce c))
   | Expired e \<Rightarrow> (Inl e, rollback (rollback s (ctx_invoiceHash c) (ctx_nonce c)) (ctx_invoiceHash c) (ctx_nonce c))
   | Failed e \<Rightarrow> (Inl e, rollback s (ctx_invoiceHash c) (ctx_nonce c)))"

definition authorizePayment ::
  "bridge_env \<Rightarrow> bridge_config \<Rightarrow> ('s \<Rightarrow> string \<Rightarrow> string \<Rightarrow> int \<Rightarrow> int \<Rightarrow> unit result \<times> 's) \<Rightarrow>
   ('s \<Rightarrow> string \<Rightarrow> string \<Rightarrow> int \<Rightarrow> 's) \<Rightarrow> ('s \<Rightarrow> string \<Rightarrow> string \<Rightarrow> 's) \<Rightarrow> bridge_request \<Rightarrow> js_value \<Rightarrow> js_value \<Rightarrow> 's \<Rightarrow>
   bridge_result result \<times> 's" where
  "authorizePayment B cfg reserve commit rollback req clock1 clock2 s =
     (case bridge_prepare B cfg req clock1 of
        Inl e \<Rightarrow> (Inl e, s)
      | Inr (nowSec, i, resource, c) \<Rightarrow>
          (case reserve s (ctx_invoiceHash c) (ctx_nonce c) (ctx_expiresAt c) nowSec of
             (Inl e, s') \<Rightarrow> (Inl e, s')
           | (Inr _, s') \<Rightarrow>
               bridge_finish commit rollback c (bridge_session B cfg req nowSec clock2 (i, resource, c)) s'))"

subsection \<open>What an approval guarantees\<close>

text \<open>The intent carries the terms of the context and is within the limit.\<close>

definition intent_bound :: "bridge_config \<Rightarrow> approval_context \<Rightarrow> agent_intent \<Rightarrow> bool" where
  "intent_bound cfg c a \<longleftrightarrow>
     ai_amountSats a = ctx_amountSats c \<and> ai_toAddress a = ctx_payTo c \<and> ai_network a = ctx_network c \<and>
     BigInt_of (ai_amountSats a) \<le> or_zero (bc_dailyLimitSats cfg)"

text \<open>The policy asked for a human, and the human approved this request, intent and decision in time.\<close>

definition human_approved :: "agent_intent \<Rightarrow> policy_decision \<Rightarrow> wallet_request \<Rightarrow> human_approval \<Rightarrow> bool" where
  "human_approved a d w h \<longleftrightarrow>
     pd_decision d = ''needs_human_approval'' \<and> pd_intentId d = ai_intentId a \<and>
     ha_contractVersion h = ''1.0'' \<and> ha_status h = ''approved'' \<and>
     (\<exists>who. ha_approver h = Some who \<and> who \<noteq> []) \<and> ha_requestId h = wr_requestId w \<and>
     ha_intentId h = ai_intentId a \<and> ha_decisionId h = pd_decisionId d \<and>
     ha_recordedAt h < ai_expiresAt a \<and> ha_recordedAt h < pd_expiresAt d"

definition approval_result :: "bridge_config \<Rightarrow> invoice \<Rightarrow> resource_request \<Rightarrow> approval_context \<Rightarrow> bridge_result \<Rightarrow> bool" where
  "approval_result cfg i resource c r \<longleftrightarrow>
     bs_context r = c \<and> bs_invoice r = i \<and> bs_resource r = resource \<and> intent_bound cfg c (bs_agentIntent r) \<and>
     (bs_status r = Approved \<longrightarrow>
        (\<exists>w h. bs_walletRequest r = Some w \<and> bs_humanApproval r = Some h \<and>
           human_approved (bs_agentIntent r) (bs_policyDecision r) w h))"

lemma build_intent_Inr: "build_intent B cfg agent nowSec c = Inr a \<Longrightarrow> intent_bound cfg c a"
  by (auto simp: build_intent_def intent_bound_def Let_def ebind_Inr_iff err_simps)

lemma ask_policy_Inr: "ask_policy B a = Inr d \<Longrightarrow> pd_intentId d = ai_intentId a"
  by (auto simp: ask_policy_def ebind_Inr_iff err_simps)

lemma build_wallet_request_Inr:
  "build_wallet_request B clock c a d = Inr w \<Longrightarrow> pd_decision d = ''needs_human_approval''"
  by (auto simp: build_wallet_request_def ebind_Inr_iff err_simps)

lemma ask_wallet_Inr:
  assumes "ask_wallet B a d w = Inr h"
  shows "ha_contractVersion h = ''1.0''" "ha_requestId h = wr_requestId w" "ha_intentId h = ai_intentId a"
    "ha_decisionId h = pd_decisionId d" "ha_recordedAt h < ai_expiresAt a" "ha_recordedAt h < pd_expiresAt d"
  using assms by (auto simp: ask_wallet_def ebind_Inr_iff err_simps)

lemma bridge_session_Conclude:
  assumes "bridge_session B cfg req nowSec clock2 (i, resource, c) = Conclude r"
  shows "approval_result cfg i resource c r"
proof -
  from assms obtain a d where ad: "build_intent B cfg (br_agentConfig req) nowSec c = Inr a" "ask_policy B a = Inr d"
    by (auto simp: bridge_session_def ebind_Inr_iff split: sum.splits)
  note facts = build_intent_Inr [OF ad(1)] ask_policy_Inr [OF ad(2)]
  show ?thesis
  proof (cases "ebind (build_wallet_request B clock2 c a d) (\<lambda>w. ebind (ask_wallet B a d w) (\<lambda>h. Inr (w, h)))")
    case (Inl e)
    with assms ad facts show ?thesis
      by (auto simp: bridge_session_def approval_result_def split: if_splits)
  next
    case (Inr wh)
    then obtain w h where wh: "wh = (w, h)" "build_wallet_request B clock2 c a d = Inr w" "ask_wallet B a d w = Inr h"
      by (auto simp: ebind_Inr_iff)
    from assms ad facts Inr wh(1) show ?thesis
      using ask_wallet_Inr [OF wh(3)] build_wallet_request_Inr [OF wh(2)]
      by (auto simp: bridge_session_def approval_result_def human_approved_def Let_def split: if_splits option.splits)
  qed
qed

lemma map_error_Inr: "(case m of Inl e \<Rightarrow> Inl (f e) | Inr v \<Rightarrow> Inr (g v)) = Inr x \<longleftrightarrow> (\<exists>v. m = Inr v \<and> x = g v)"
  by (cases m) auto

lemma bridge_prepare_Inr:
  "bridge_prepare B cfg req clock = Inr (nowSec, v) \<longleftrightarrow>
     validateClockValue clock = Inr nowSec \<and> bc_killSwitch cfg = Some False \<and> 0 < or_zero (bc_dailyLimitSats cfg) \<and>
     validatePaymentRequired (be_runtime B) (be_firstIssue B) (JNum (NInt nowSec)) (br_expectedResource req)
       (br_paymentRequired req) = Inr v"
  unfolding bridge_prepare_def Let_def ebind_Inr_iff map_error_Inr demand_Inr by (cases v) auto

lemma authorizePayment_Inr:
  assumes "authorizePayment B cfg reserve commit rollback req clock1 clock2 s = (Inr r, s')"
  obtains nowSec i resource c t where
    "bridge_prepare B cfg req clock1 = Inr (nowSec, i, resource, c)"
    "reserve s (ctx_invoiceHash c) (ctx_nonce c) (ctx_expiresAt c) nowSec = (Inr (), t)"
    "approval_result cfg i resource c r"
    "s' = (if bs_status r = Approved then commit t (ctx_invoiceHash c) (ctx_nonce c) (ctx_expiresAt c)
           else rollback t (ctx_invoiceHash c) (ctx_nonce c))"
  using assms
  by (auto simp: authorizePayment_def bridge_finish_def split: sum.splits prod.splits session_end.splits
      dest: bridge_session_Conclude)

end
