(* ===== verification/Agent_System.thy ===== *)
theory Agent_System
  imports Bridge
begin

text \<open>
  The concurrent use of one bridge: any number of calls of \<open>authorizePayment\<close> share the replay cache and
  wait for their policy and wallet while others start and end. \<open>agent_step\<close> interleaves the two
  synchronous parts of a call, before and after it waits. Nothing forces \<open>call_ends\<close> of a waiting call to happen: a
  call whose policy or wallet never answers, which the code does not bound in time, waits in all states that
  follow. A call begins only at a time that is not before the last one (\<open>ag_time\<close>), an assumption on the clock.
  Every run is a run of the cache's sessions, from which the lemmas derive that no invoice is approved
  twice; and exactly the invoices and nonces of the waiting calls are reserved.
\<close>

type_synonym waiting_call = "bridge_env \<times> bridge_config \<times> bridge_request \<times> int \<times> validated_402"

record 's agent =
  ag_cache :: 's
  ag_waiting :: "waiting_call list"
  ag_time :: int
  ag_approved :: "bridge_result list"

inductive agent_step ::
  "runtime \<Rightarrow> ('s \<Rightarrow> string \<Rightarrow> string \<Rightarrow> int \<Rightarrow> int \<Rightarrow> unit result \<times> 's) \<Rightarrow> ('s \<Rightarrow> string \<Rightarrow> string \<Rightarrow> int \<Rightarrow> 's) \<Rightarrow>
   ('s \<Rightarrow> string \<Rightarrow> string \<Rightarrow> 's) \<Rightarrow> 's agent \<Rightarrow> 's agent \<Rightarrow> bool"
  for E reserve commit rollback where
  call_begins: "be_runtime B = E \<Longrightarrow> bridge_prepare B cfg req clock = Inr (nowSec, i, resource, c) \<Longrightarrow> ag_time a \<le> nowSec \<Longrightarrow>
    reserve (ag_cache a) (ctx_invoiceHash c) (ctx_nonce c) (ctx_expiresAt c) nowSec = (Inr (), k) \<Longrightarrow>
    agent_step E reserve commit rollback a
      (a\<lparr>ag_cache := k, ag_waiting := (B, cfg, req, nowSec, i, resource, c) # ag_waiting a, ag_time := nowSec\<rparr>)"
| call_refused: "be_runtime B = E \<Longrightarrow> bridge_prepare B cfg req clock = Inr (nowSec, i, resource, c) \<Longrightarrow> ag_time a \<le> nowSec \<Longrightarrow>
    reserve (ag_cache a) (ctx_invoiceHash c) (ctx_nonce c) (ctx_expiresAt c) nowSec = (Inl e, k) \<Longrightarrow>
    agent_step E reserve commit rollback a (a\<lparr>ag_cache := k, ag_time := nowSec\<rparr>)"
| call_ends: "ag_waiting a = ws @ (B, cfg, req, nowSec, i, resource, c) # vs \<Longrightarrow>
    bridge_finish commit rollback c (bridge_session B cfg req nowSec clock2 (i, resource, c)) (ag_cache a) = (res, k) \<Longrightarrow>
    agent_step E reserve commit rollback a
      (a\<lparr>ag_cache := k, ag_waiting := ws @ vs,
         ag_approved := (case res of Inr r \<Rightarrow> if bs_status r = Approved then r # ag_approved a else ag_approved a
                                   | Inl e \<Rightarrow> ag_approved a)\<rparr>)"

inductive agent_reachable ::
  "runtime \<Rightarrow> ('s \<Rightarrow> string \<Rightarrow> string \<Rightarrow> int \<Rightarrow> int \<Rightarrow> unit result \<times> 's) \<Rightarrow> ('s \<Rightarrow> string \<Rightarrow> string \<Rightarrow> int \<Rightarrow> 's) \<Rightarrow>
   ('s \<Rightarrow> string \<Rightarrow> string \<Rightarrow> 's) \<Rightarrow> 's \<Rightarrow> 's agent \<Rightarrow> bool"
  for E reserve commit rollback s0 where
  agent_start: "agent_reachable E reserve commit rollback s0
    \<lparr>ag_cache = s0, ag_waiting = [], ag_time = 0, ag_approved = []\<rparr>"
| agent_next: "agent_reachable E reserve commit rollback s0 a \<Longrightarrow> agent_step E reserve commit rollback a a' \<Longrightarrow>
    agent_reachable E reserve commit rollback s0 a'"

subsection \<open>A run of the bridge is a run of the cache's sessions\<close>

definition call_session :: "waiting_call \<Rightarrow> string \<times> string \<times> int" where
  "call_session = (\<lambda>(B, cfg, req, nowSec, i, resource, c). (ctx_invoiceHash c, ctx_nonce c, ctx_expiresAt c))"

definition approved_as :: "bridge_result \<Rightarrow> string \<times> int" where
  "approved_as r = (ctx_invoiceHash (bs_context r), ctx_expiresAt (bs_context r))"

definition agent_sessions :: "'s agent \<Rightarrow> 's sessions" where
  "agent_sessions a = \<lparr>ss_cache = ag_cache a, ss_open = map call_session (ag_waiting a), ss_time = ag_time a,
     ss_done = map approved_as (ag_approved a)\<rparr>"

text \<open>The context of a call stands for its invoice.\<close>

definition call_ok :: "runtime \<Rightarrow> waiting_call \<Rightarrow> bool" where
  "call_ok E = (\<lambda>(B, cfg, req, nowSec, i, resource, c).
     nowSec < ctx_expiresAt c \<and> invoice_valid i \<and> (\<exists>h. computeInvoiceHash E i = Inr h \<and> c = context_of i h))"

definition approval_ok :: "runtime \<Rightarrow> bridge_result \<Rightarrow> bool" where
  "approval_ok E r \<longleftrightarrow> invoice_valid (bs_invoice r) \<and>
     (\<exists>h. computeInvoiceHash E (bs_invoice r) = Inr h \<and> bs_context r = context_of (bs_invoice r) h)"

lemma prepared_call_ok:
  assumes "bridge_prepare B cfg req clock = Inr (nowSec, i, resource, c)" "be_runtime B = E"
  shows "call_ok E (B, cfg, req, nowSec, i, resource, c)"
proof -
  from assms obtain now h where n: "validateEpochClock (JNum (NInt nowSec)) = Inr now" "now < inv_expiresAt i"
    and p: "parse_invoice (prop_of (br_paymentRequired req) ''invoice'') = Some i"
    and h: "computeInvoiceHash E i = Inr h" "c = context_of i h"
    by (auto simp: bridge_prepare_Inr validatePaymentRequired_Inr)
  from n(1) have "now = nowSec" by (auto simp: validateEpochClock_Inr safe_nonneg_def split: if_splits)
  with n p h parse_invoice_valid [OF p] show ?thesis by (auto simp: call_ok_def context_of_def)
qed

lemma finished_call:
  assumes "bridge_finish commit rollback c (bridge_session B cfg req nowSec clock2 (i, resource, c)) s = (res, k)"
  obtains (approves) r where "res = Inr r" "bs_status r = Approved" "bs_context r = c" "bs_invoice r = i"
      "k = commit s (ctx_invoiceHash c) (ctx_nonce c) (ctx_expiresAt c)"
  | (gives_up) "\<forall>r. res = Inr r \<longrightarrow> bs_status r \<noteq> Approved"
      "k = rollback s (ctx_invoiceHash c) (ctx_nonce c) \<or>
       k = rollback (rollback s (ctx_invoiceHash c) (ctx_nonce c)) (ctx_invoiceHash c) (ctx_nonce c)"
proof (cases "bridge_session B cfg req nowSec clock2 (i, resource, c)")
  case (Conclude r)
  with assms bridge_session_Conclude [OF Conclude] that show thesis
    by (cases "bs_status r = Approved") (auto simp: bridge_finish_def approval_result_def)
qed (use assms that in \<open>auto simp: bridge_finish_def\<close>)

context replay_cache
begin

lemma sessions_reachable_ok:
  assumes "sessions_reachable reserve commit rollback s0 s" "invar s0" "flying s0 = {}"
    "ss_open s = xs @ (h, n, e) # ys"
  shows "remove1 (h, n, e) (ss_open s) = xs @ ys"
proof -
  have "distinct (map fst (ss_open s))" using sessions_ok_reachable [OF assms(1-3)] by (rule sessions_okD)
  then have "(h, n, e) \<notin> set xs" using assms(4) by force
  then show ?thesis using assms(4) by (simp add: remove1_append)
qed

lemma agent_simulates:
  assumes "agent_reachable E reserve commit rollback s0 a" "invar s0" "flying s0 = {}"
  shows "sessions_reachable reserve commit rollback s0 (agent_sessions a) \<and>
    (\<forall>w \<in> set (ag_waiting a). call_ok E w) \<and> (\<forall>r \<in> set (ag_approved a). approval_ok E r)"
  using assms(1)
proof (induction rule: agent_reachable.induct)
  case agent_start
  show ?case using sessions_reachable.sessions_start [of reserve commit rollback s0] by (simp add: agent_sessions_def)
next
  case (agent_next a a')
  then have reach: "sessions_reachable reserve commit rollback s0 (agent_sessions a)" by simp
  note next_step = sessions_next [OF reach]
  from agent_next.hyps(2) show ?case
  proof (cases rule: agent_step.cases)
    case (call_begins B cfg req clock nowSec i resource c k)
    have ok: "call_ok E (B, cfg, req, nowSec, i, resource, c)" by (rule prepared_call_ok) (fact call_begins)+
    have "session_step reserve commit rollback (agent_sessions a) (agent_sessions a')"
      using granted [of reserve "agent_sessions a" _ _ _ nowSec k] call_begins ok
      by (simp add: agent_sessions_def call_session_def call_ok_def)
    from next_step [OF this] show ?thesis using agent_next.IH ok call_begins(1) by simp
  next
    case (call_refused B cfg req clock nowSec i resource c e k)
    have "session_step reserve commit rollback (agent_sessions a) (agent_sessions a')"
      using refused [of reserve "agent_sessions a" _ _ _ nowSec e k] call_refused by (simp add: agent_sessions_def)
    from next_step [OF this] show ?thesis using agent_next.IH call_refused(1) by simp
  next
    case (call_ends ws B cfg req nowSec i resource c vs clock2 res k)
    let ?h = "ctx_invoiceHash c" and ?n = "ctx_nonce c" and ?e = "ctx_expiresAt c"
    have split: "ss_open (agent_sessions a) = map call_session ws @ (?h, ?n, ?e) # map call_session vs"
      using call_ends by (simp add: agent_sessions_def call_session_def)
    note rest = sessions_reachable_ok [OF reach assms(2,3) split]
    have opened: "(?h, ?n, ?e) \<in> set (ss_open (agent_sessions a))" using split by simp
    have ok: "call_ok E (B, cfg, req, nowSec, i, resource, c)" using agent_next.IH call_ends(2) by simp
    from call_ends(3) show ?thesis
    proof (cases rule: finished_call)
      case (approves r)
      have "session_step reserve commit rollback (agent_sessions a) (agent_sessions a')"
        using committed [OF opened, of reserve commit rollback] approves call_ends(1) rest
        by (simp add: agent_sessions_def approved_as_def)
      from next_step [OF this] show ?thesis using agent_next.IH ok call_ends(1,2) approves
        by (auto simp: call_ok_def approval_ok_def)
    next
      case gives_up
      have "session_step reserve commit rollback (agent_sessions a) (agent_sessions a')"
        using rolled_back [OF opened, of reserve commit rollback] gives_up call_ends(1) rest
        by (auto simp: agent_sessions_def rollback_again split: sum.splits)
      from next_step [OF this] show ?thesis using agent_next.IH call_ends(1,2) gives_up by (auto split: sum.splits)
    qed
  qed
qed

text \<open>Two approvals of one invoice hash exhibit a collision of the hash function.\<close>

lemma approved_once:
  assumes "agent_reachable E reserve commit rollback s0 a" "invar s0" "flying s0 = {}"
    and "m < length (ag_approved a)" "n < length (ag_approved a)" "m \<noteq> n"
    and "ctx_invoiceHash (bs_context (ag_approved a ! m)) = ctx_invoiceHash (bs_context (ag_approved a ! n))"
  shows "collides (rt_sha256 E) (invoice_text (bs_invoice (ag_approved a ! m)))
    (invoice_text (bs_invoice (ag_approved a ! n)))"
proof -
  let ?r = "ag_approved a ! m" and ?q = "ag_approved a ! n"
  note sim = agent_simulates [OF assms(1-3)]
  then have "distinct (ss_done (agent_sessions a))" using assms(2,3) by (blast intro: committed_once)
  then have "distinct (map approved_as (ag_approved a))" by (simp add: agent_sessions_def)
  with assms(4-6) have "approved_as ?r \<noteq> approved_as ?q" by (auto simp: distinct_conv_nth)
  with assms(7) have later: "ctx_expiresAt (bs_context ?r) \<noteq> ctx_expiresAt (bs_context ?q)" by (simp add: approved_as_def)
  from sim assms(4,5) have "approval_ok E ?r" "approval_ok E ?q" by simp_all
  then obtain h k where hk: "invoice_valid (bs_invoice ?r)" "invoice_valid (bs_invoice ?q)"
    "computeInvoiceHash E (bs_invoice ?r) = Inr h" "bs_context ?r = context_of (bs_invoice ?r) h"
    "computeInvoiceHash E (bs_invoice ?q) = Inr k" "bs_context ?q = context_of (bs_invoice ?q) k"
    by (auto simp: approval_ok_def)
  with assms(7) have "h = k" by (simp add: context_of_def)
  with hk later invoice_hash_binds [of E "bs_invoice ?r" h "bs_invoice ?q"]
  show ?thesis by (auto simp: context_of_def)
qed

end

subsection \<open>What is reserved\<close>

text \<open>In the in-memory cache, exactly the invoices and the nonces of the waiting calls are in flight, each for one call.\<close>

definition call_invoice :: "waiting_call \<Rightarrow> string" where
  "call_invoice = (\<lambda>(B, cfg, req, nowSec, i, resource, c). ctx_invoiceHash c)"

definition call_nonce :: "waiting_call \<Rightarrow> string" where
  "call_nonce = (\<lambda>(B, cfg, req, nowSec, i, resource, c). ctx_nonce c)"

lemma invoices_in_flight:
  assumes "agent_reachable E cache_reserve cache_commit cache_rollback cache_empty a"
  shows "distinct (map call_invoice (ag_waiting a)) \<and>
    rc_inFlightInvoices (ag_cache a) = set (map call_invoice (ag_waiting a))"
proof -
  have "sessions_reachable cache_reserve cache_commit cache_rollback cache_empty (agent_sessions a)"
    by (rule conjunct1 [OF memory_cache.agent_simulates [OF assms cache_invar_empty]]) (simp add: cache_empty_def)
  then have ok: "memory_cache.sessions_ok (agent_sessions a)"
    by (rule memory_cache.sessions_ok_reachable [OF _ cache_invar_empty]) (simp add: cache_empty_def)
  have "fst \<circ> call_session = call_invoice" by (auto simp: call_session_def call_invoice_def)
  then show ?thesis
    using memory_cache.sessions_okD(2,3) [OF ok] by (simp add: agent_sessions_def image_comp)
qed

lemma nonces_in_flight:
  assumes "agent_reachable E cache_reserve cache_commit cache_rollback cache_empty a"
  shows "distinct (map call_nonce (ag_waiting a)) \<and> rc_inFlightNonces (ag_cache a) = set (map call_nonce (ag_waiting a))"
  using assms
proof (induction rule: agent_reachable.induct)
  case agent_start
  show ?case by (simp add: cache_empty_def)
next
  case (agent_next a a')
  from agent_next.hyps(2) show ?case
  proof (cases rule: agent_step.cases)
    case (call_begins B cfg req clock nowSec i resource c k)
    then show ?thesis
      using agent_next.IH cache_reserve_cases [of "ag_cache a" "ctx_invoiceHash c" "ctx_nonce c" "ctx_expiresAt c" nowSec]
      by (auto simp: call_nonce_def call_session_def)
  next
    case (call_refused B cfg req clock nowSec i resource c e k)
    then show ?thesis
      using agent_next.IH cache_reserve_cases [of "ag_cache a" "ctx_invoiceHash c" "ctx_nonce c" "ctx_expiresAt c" nowSec]
      by (auto simp: cache_prune_def)
  next
    case (call_ends ws B cfg req nowSec i resource c vs clock2 res k)
    have "rc_inFlightNonces k = rc_inFlightNonces (ag_cache a) - {ctx_nonce c}"
      using call_ends(3) by (cases rule: finished_call) (auto simp: cache_commit_def cache_rollback_def Let_def)
    with agent_next.IH call_ends(1,2) show ?thesis by (auto simp: call_nonce_def call_session_def)
  qed
qed

text \<open>The end of a call releases its own reservation only.\<close>

lemma finish_releases:
  "rc_inFlightInvoices (snd (bridge_finish cache_commit cache_rollback c
     (bridge_session B cfg req t clock (i, resource, c)) s)) = rc_inFlightInvoices s - {ctx_invoiceHash c} \<and>
   rc_inFlightNonces (snd (bridge_finish cache_commit cache_rollback c
     (bridge_session B cfg req t clock (i, resource, c)) s)) = rc_inFlightNonces s - {ctx_nonce c}"
proof -
  obtain res k where f: "bridge_finish cache_commit cache_rollback c (bridge_session B cfg req t clock (i, resource, c)) s = (res, k)"
    by fastforce
  then show ?thesis
    by (cases rule: finished_call) (auto simp: f cache_commit_def cache_rollback_def Let_def)
qed

end
