(* ===== verification/Agent_Properties.thy ===== *)
theory Agent_Properties
  imports Agent_System Samples
begin

text \<open>
  The properties of the agent bridge: which 402 payloads it accepts, what an approval guarantees, that a
  call leaves nothing reserved, and that concurrent calls approve an invoice once. The witnesses
  evaluate one approved call.
\<close>

subsection \<open>Approved calls\<close>

text \<open>The call for the sample invoice, and one for a later invoice that the constant hash function does not
  tell from it. Policy and wallet answer with expiries near the invoice's.\<close>

definition later_invoice :: invoice where
  "later_invoice = sample_invoice\<lparr>inv_issuedAt := 250, inv_expiresAt := 350\<rparr>"

definition sample_402 :: "invoice \<Rightarrow> js_value" where
  "sample_402 i = JObj [(''x402Version'', JNum (NInt 1)), (''invoice'', invoice_to_json i),
     (''resource'', JObj [(''serverOrigin'', JStr ''https://shop.example''), (''method'', JStr ''get''),
        (''path'', JStr ''/report'')])]"

definition sample_decision :: "invoice \<Rightarrow> policy_decision" where
  "sample_decision i = \<lparr>pd_intentId = ''intent:1'', pd_decisionId = ''decision:1'',
     pd_decision = ''needs_human_approval'', pd_expiresAt = inv_expiresAt i - 10\<rparr>"

definition sample_approval :: "invoice \<Rightarrow> human_approval" where
  "sample_approval i = \<lparr>ha_contractVersion = ''1.0'', ha_requestId = ''wallet-request:1'', ha_intentId = ''intent:1'',
     ha_decisionId = ''decision:1'', ha_recordedAt = inv_expiresAt i - 30, ha_status = ''approved'',
     ha_approver = Some ''alice''\<rparr>"

definition sample_bridge :: "invoice \<Rightarrow> bridge_env" where
  "sample_bridge i = \<lparr>be_runtime = sample_runtime, be_firstIssue = (\<lambda>v. None), be_parseAgentIntent = Inr,
     be_policyEvaluator = (\<lambda>a. Inr JNull), be_parsePolicyDecision = (\<lambda>v. Inr (sample_decision i)),
     be_parseWalletRequest = Inr, be_dispatch = (\<lambda>w. Inr JNull), be_parseHumanApproval = (\<lambda>v. Inr (sample_approval i)),
     be_randomIntentId = ''1'', be_randomRequestId = ''1'', be_randomNonce = ''n''\<rparr>"

definition sample_config :: bridge_config where
  "sample_config = \<lparr>bc_killSwitch = Some False, bc_dailyLimitSats = Some 1000\<rparr>"

definition sample_call :: "invoice \<Rightarrow> bridge_request" where
  "sample_call i = \<lparr>br_paymentRequired = sample_402 i, br_expectedResource = Some sample_request,
     br_agentConfig = \<lparr>ac_agentId = ''a'', ac_agentRole = ''buyer'', ac_fromAddress = sample_address, ac_reason = None,
       ac_memo = None, ac_intentTtlSeconds = None\<rparr>\<rparr>"

definition sample_context :: "invoice \<Rightarrow> approval_context" where
  "sample_context i = context_of i (hex64 CHR ''0'')"

lemma sample_402_valid:
  assumes "invoice_valid i" "inv_resourceHash i = hex64 CHR ''0''" "0 \<le> now" "now \<le> 1000"
    "inv_issuedAt i \<le> now" "now < inv_expiresAt i"
  shows "validatePaymentRequired sample_runtime (\<lambda>v. None) (JNum (NInt now)) (Some sample_request) (sample_402 i) =
     Inr (i, sample_request, sample_context i)"
proof -
  have "parseResourceMetadata (prop_of (sample_402 i) ''resource'') = Inr sample_request"
    by (simp add: parseResourceMetadata_def prop_of_def sample_402_def sample_request_def)
  moreover have "is_hash (hex64 CHR ''0'')" by code_simp
  moreover have "computeInvoiceHash sample_runtime i = Inr (hex64 CHR ''0'')"
    using assms(1) by (simp add: computeInvoiceHash_text sha256Hex_def sample_runtime_def)
  ultimately show ?thesis using assms
    unfolding validatePaymentRequired_Inr
    by (simp add: sample_402_def prop_of_def parse_invoice_to_json validateEpochClock_def safe_nonneg_def
        max_safe_integer_def sample_resource_hash sample_context_def X402_VERSION_def)
qed

lemma sample_prepared:
  assumes "invoice_valid i" "inv_resourceHash i = hex64 CHR ''0''" "0 \<le> now" "now \<le> 1000"
    "inv_issuedAt i \<le> now" "now < inv_expiresAt i"
  shows "bridge_prepare (sample_bridge i) sample_config (sample_call i) (JNum (NInt now)) =
     Inr (now, i, sample_request, sample_context i)"
  unfolding bridge_prepare_Inr using sample_402_valid [OF assms] assms
  by (simp add: validateClockValue_def safe_nonneg_def max_safe_integer_def sample_config_def or_zero_def sample_call_def
      sample_bridge_def)

definition sample_approved :: "invoice \<Rightarrow> int \<Rightarrow> bridge_result" where
  "sample_approved i t = (case bridge_session (sample_bridge i) sample_config (sample_call i) t (JNum (NInt t))
     (i, sample_request, sample_context i) of Conclude r \<Rightarrow> r)"

lemma sample_concludes:
  assumes "case bridge_session (sample_bridge i) sample_config (sample_call i) t (JNum (NInt t))
     (i, sample_request, sample_context i) of Conclude r \<Rightarrow> bs_status r = Approved | _ \<Rightarrow> False"
  shows "bridge_session (sample_bridge i) sample_config (sample_call i) t (JNum (NInt t))
     (i, sample_request, sample_context i) = Conclude (sample_approved i t)"
    and "bs_status (sample_approved i t) = Approved"
  using assms by (auto simp: sample_approved_def split: session_end.splits)

lemma sample_sessions:
  "case bridge_session (sample_bridge sample_invoice) sample_config (sample_call sample_invoice) 150 (JNum (NInt 150))
     (sample_invoice, sample_request, sample_context sample_invoice) of Conclude r \<Rightarrow> bs_status r = Approved | _ \<Rightarrow> False"
  "case bridge_session (sample_bridge later_invoice) sample_config (sample_call later_invoice) 300 (JNum (NInt 300))
     (later_invoice, sample_request, sample_context later_invoice) of Conclude r \<Rightarrow> bs_status r = Approved | _ \<Rightarrow> False"
  by code_simp+

lemmas sample_session = sample_concludes [OF sample_sessions(1)] sample_concludes [OF sample_sessions(2)]

lemma sample_prepares:
  "bridge_prepare (sample_bridge sample_invoice) sample_config (sample_call sample_invoice) (JNum (NInt 150)) =
     Inr (150, sample_invoice, sample_request, sample_context sample_invoice)"
  "bridge_prepare (sample_bridge later_invoice) sample_config (sample_call later_invoice) (JNum (NInt 300)) =
     Inr (300, later_invoice, sample_request, sample_context later_invoice)"
proof -
  have "invoice_valid later_invoice" by code_simp
  then show "bridge_prepare (sample_bridge later_invoice) sample_config (sample_call later_invoice) (JNum (NInt 300)) =
     Inr (300, later_invoice, sample_request, sample_context later_invoice)"
    by (intro sample_prepared) (simp_all add: later_invoice_def sample_invoice_def)
  show "bridge_prepare (sample_bridge sample_invoice) sample_config (sample_call sample_invoice) (JNum (NInt 150)) =
     Inr (150, sample_invoice, sample_request, sample_context sample_invoice)"
    using sample_invoice_valid by (intro sample_prepared) (simp_all add: sample_invoice_def)
qed

abbreviation memory_authorize where
  "memory_authorize B cfg \<equiv> authorizePayment B cfg cache_reserve cache_commit cache_rollback"

text \<open>The cache after the first reservation, after its commit, and after the second reservation.\<close>

definition sample_cache1 :: replay_cache where
  "sample_cache1 = snd (cache_reserve cache_empty (hex64 CHR ''0'') sample_nonce 200 150)"

definition sample_cache2 :: replay_cache where
  "sample_cache2 = cache_commit sample_cache1 (hex64 CHR ''0'') sample_nonce 200"

definition sample_cache3 :: replay_cache where
  "sample_cache3 = snd (cache_reserve sample_cache2 (hex64 CHR ''0'') sample_nonce 350 300)"

lemma sample_context_fields:
  "ctx_invoiceHash (sample_context i) = hex64 CHR ''0''"
  "ctx_nonce (sample_context sample_invoice) = sample_nonce" "ctx_nonce (sample_context later_invoice) = sample_nonce"
  "ctx_expiresAt (sample_context sample_invoice) = 200" "ctx_expiresAt (sample_context later_invoice) = 350"
  by (simp_all add: sample_context_def context_of_def sample_invoice_def later_invoice_def)

lemma sample_reserves:
  "cache_reserve cache_empty (hex64 CHR ''0'') sample_nonce 200 150 = (Inr (), sample_cache1)"
  "cache_reserve sample_cache2 (hex64 CHR ''0'') sample_nonce 350 300 = (Inr (), sample_cache3)"
proof -
  have "fst (cache_reserve cache_empty (hex64 CHR ''0'') sample_nonce 200 150) = Inr ()"
    "fst (cache_reserve sample_cache2 (hex64 CHR ''0'') sample_nonce 350 300) = Inr ()" by code_simp+
  then show "cache_reserve cache_empty (hex64 CHR ''0'') sample_nonce 200 150 = (Inr (), sample_cache1)"
    "cache_reserve sample_cache2 (hex64 CHR ''0'') sample_nonce 350 300 = (Inr (), sample_cache3)"
    by (simp_all add: sample_cache1_def sample_cache3_def prod_eq_iff)
qed

lemma sample_authorized:
  "memory_authorize (sample_bridge sample_invoice) sample_config (sample_call sample_invoice) (JNum (NInt 150))
     (JNum (NInt 150)) cache_empty = (Inr (sample_approved sample_invoice 150), sample_cache2)"
  by (simp add: authorizePayment_def sample_prepares sample_reserves sample_session bridge_finish_def
      sample_context_fields sample_cache2_def)

text \<open>Releasing the reservation.\<close>

lemma bridge_finish_flights:
  "rc_inFlightInvoices (snd (bridge_finish cache_commit cache_rollback c x s)) = rc_inFlightInvoices s - {ctx_invoiceHash c}"
  "rc_inFlightNonces (snd (bridge_finish cache_commit cache_rollback c x s)) = rc_inFlightNonces s - {ctx_nonce c}"
  by (cases x; auto simp: bridge_finish_def cache_commit_def cache_rollback_def Let_def)+

subsection \<open>One call\<close>

text \<open>C11: An approved authorization was made with the kill switch off and a positive limit, for a 402 payload
  that validates; its intent has the payload's amount, address and network and is within the limit;
  the policy asked for a human, and the human approved this request, intent and decision in time.\<close>

theorem approval_is_bound:
  assumes "authorizePayment B cfg reserve commit rollback req clock1 clock2 s = (Inr r, s')" "bs_status r = Approved"
  shows "bc_killSwitch cfg = Some False \<and> 0 < or_zero (bc_dailyLimitSats cfg) \<and>
    (\<exists>now. validateClockValue clock1 = Inr now \<and>
       validatePaymentRequired (be_runtime B) (be_firstIssue B) (JNum (NInt now)) (br_expectedResource req)
         (br_paymentRequired req) = Inr (bs_invoice r, bs_resource r, bs_context r)) \<and>
    intent_bound cfg (bs_context r) (bs_agentIntent r) \<and>
    (\<exists>w h. bs_walletRequest r = Some w \<and> bs_humanApproval r = Some h \<and>
       human_approved (bs_agentIntent r) (bs_policyDecision r) w h)"
  by (rule authorizePayment_Inr [OF assms(1)])
    (use assms(2) in \<open>simp add: bridge_prepare_Inr approval_result_def; blast\<close>)

theorem approval_is_bound_witness:
  "intent_bound sample_config (bs_context (sample_approved sample_invoice 150))
      (bs_agentIntent (sample_approved sample_invoice 150)) \<and>
   (\<exists>w h. human_approved (bs_agentIntent (sample_approved sample_invoice 150))
      (bs_policyDecision (sample_approved sample_invoice 150)) w h)"
  using approval_is_bound [OF sample_authorized sample_session(2)] by blast

text \<open>C25: Whatever a call of \<open>authorizePayment\<close> ends with, it leaves no reservation behind: the invoices and
  nonces in flight are those from before the call.\<close>

theorem reservation_released:
  fixes s :: replay_cache
  shows "rc_inFlightInvoices (snd (memory_authorize B cfg req clock1 clock2 s)) = rc_inFlightInvoices s \<and>
    rc_inFlightNonces (snd (memory_authorize B cfg req clock1 clock2 s)) = rc_inFlightNonces s"
proof (cases "bridge_prepare B cfg req clock1")
  case (Inl e)
  then show ?thesis by (simp add: authorizePayment_def)
next
  case (Inr v)
  then obtain now i resource c where v: "bridge_prepare B cfg req clock1 = Inr (now, i, resource, c)" by (cases v) auto
  let ?r = "cache_reserve s (ctx_invoiceHash c) (ctx_nonce c) (ctx_expiresAt c) now"
  obtain res t where r: "?r = (res, t)" by (cases ?r)
  have same: "rc_inFlightInvoices (snd (cache_prune s now)) = rc_inFlightInvoices s"
    "rc_inFlightNonces (snd (cache_prune s now)) = rc_inFlightNonces s" by (simp_all add: cache_prune_def)
  show ?thesis
    using cache_reserve_cases [of s "ctx_invoiceHash c" "ctx_nonce c" "ctx_expiresAt c" now] v r same
    by (auto simp: authorizePayment_def bridge_finish_flights)
qed

text \<open>C32: \<open>validatePaymentRequired\<close> accepts exactly the 402 payloads with the supported version, a valid invoice
  in its time window whose hash is the payload's \<open>invoiceId\<close> if there is one, and a resource that hashes
  to the invoice's resource and is the expected one; the context carries the invoice's own terms.\<close>

theorem payment_required_iff:
  "validatePaymentRequired E firstIssue clock expected input = Inr (i, r, c) \<longleftrightarrow>
     (\<exists>now h. validateEpochClock clock = Inr now \<and> isRecord input \<and>
        prop_of input ''x402Version'' = JNum (NInt X402_VERSION) \<and>
        parse_invoice (prop_of input ''invoice'') = Some i \<and>
        inv_issuedAt i \<le> now \<and> now < inv_expiresAt i \<and>
        computeInvoiceHash E i = Inr h \<and> is_hash h \<and> c = context_of i h \<and>
        prop_of input ''invoiceId'' \<notin> JStr ` {s. s \<noteq> h} \<and>
        parseResourceMetadata (prop_of input ''resource'') = Inr r \<and>
        computeResourceHash E r = Inr (inv_resourceHash i) \<and>
        (expected = None \<or> computeResourceHash E (the expected) = Inr (inv_resourceHash i)))"
  unfolding validatePaymentRequired_Inr by (cases expected) auto

subsection \<open>Concurrent calls\<close>

text \<open>C2: Any number of concurrent calls on one bridge with its in-memory replay cache, interleaved in any way, where no
  call begins at an earlier time than one before it (the condition on \<open>ag_time\<close> in \<open>agent_step\<close>), approve an invoice at
  most once: two approvals with one invoice hash exhibit a collision. If the clock goes back, an approval that
  was pruned as expired can be given again.\<close>

theorem bridge_approves_once:
  assumes "agent_reachable E cache_reserve cache_commit cache_rollback cache_empty a"
    and "m < length (ag_approved a)" "n < length (ag_approved a)" "m \<noteq> n"
    and "ctx_invoiceHash (bs_context (ag_approved a ! m)) = ctx_invoiceHash (bs_context (ag_approved a ! n))"
  shows "collides (rt_sha256 E) (invoice_text (bs_invoice (ag_approved a ! m)))
    (invoice_text (bs_invoice (ag_approved a ! n)))"
  by (rule memory_cache.approved_once [OF assms(1) cache_invar_empty _ assms(2-5)]) (simp add: cache_empty_def)

lemma sample_agent_reachable:
  "agent_reachable sample_runtime cache_reserve cache_commit cache_rollback cache_empty
     \<lparr>ag_cache = cache_commit sample_cache3 (hex64 CHR ''0'') sample_nonce 350, ag_waiting = [], ag_time = 300,
      ag_approved = [sample_approved later_invoice 300, sample_approved sample_invoice 150]\<rparr>"
proof -
  let ?step = "agent_step sample_runtime cache_reserve cache_commit cache_rollback"
  let ?w = "\<lambda>i t. (sample_bridge i, sample_config, sample_call i, t, i, sample_request, sample_context i)"
  let ?a = "\<lambda>k ws t rs. \<lparr>ag_cache = k, ag_waiting = ws, ag_time = t, ag_approved = rs\<rparr>"
  let ?r = "sample_approved sample_invoice 150" and ?q = "sample_approved later_invoice 300"
  have rt: "be_runtime (sample_bridge i) = sample_runtime" for i by (simp add: sample_bridge_def)
  have ends: "bridge_finish cache_commit cache_rollback (sample_context sample_invoice)
      (bridge_session (sample_bridge sample_invoice) sample_config (sample_call sample_invoice) 150 (JNum (NInt 150))
        (sample_invoice, sample_request, sample_context sample_invoice)) sample_cache1 = (Inr ?r, sample_cache2)"
    "bridge_finish cache_commit cache_rollback (sample_context later_invoice)
      (bridge_session (sample_bridge later_invoice) sample_config (sample_call later_invoice) 300 (JNum (NInt 300))
        (later_invoice, sample_request, sample_context later_invoice)) sample_cache3 =
      (Inr ?q, cache_commit sample_cache3 (hex64 CHR ''0'') sample_nonce 350)"
    by (simp_all add: bridge_finish_def sample_session sample_context_fields sample_cache2_def)
  have 1: "?step (?a cache_empty [] 0 []) (?a sample_cache1 [?w sample_invoice 150] 150 [])"
    using call_begins [OF rt sample_prepares(1), of "?a cache_empty [] 0 []"] sample_reserves(1)
    by (simp add: sample_context_fields)
  have 2: "?step (?a sample_cache1 [?w sample_invoice 150] 150 []) (?a sample_cache2 [] 150 [?r])"
    using call_ends [where a = "?a sample_cache1 [?w sample_invoice 150] 150 []" and ws = "[]" and vs = "[]" and B = "sample_bridge sample_invoice"
      and cfg = sample_config and req = "sample_call sample_invoice" and nowSec = 150 and i = sample_invoice and resource = sample_request
      and c = "sample_context sample_invoice" and ?clock2.0 = "JNum (NInt 150)" and res = "Inr ?r" and k = "sample_cache2"
      and commit = cache_commit and rollback = cache_rollback and E = sample_runtime and reserve = cache_reserve] ends(1)
    by (simp add: sample_session)
  have 3: "?step (?a sample_cache2 [] 150 [?r]) (?a sample_cache3 [?w later_invoice 300] 300 [?r])"
    using call_begins [OF rt sample_prepares(2), of "?a sample_cache2 [] 150 [?r]"] sample_reserves(2)
    by (simp add: sample_context_fields)
  have 4: "?step (?a sample_cache3 [?w later_invoice 300] 300 [?r])
      (?a (cache_commit sample_cache3 (hex64 CHR ''0'') sample_nonce 350) [] 300 [?q, ?r])"
    using call_ends [where a = "?a sample_cache3 [?w later_invoice 300] 300 [?r]" and ws = "[]" and vs = "[]" and B = "sample_bridge later_invoice"
      and cfg = sample_config and req = "sample_call later_invoice" and nowSec = 300 and i = later_invoice and resource = sample_request
      and c = "sample_context later_invoice" and ?clock2.0 = "JNum (NInt 300)" and res = "Inr ?q" and k = "cache_commit sample_cache3 (hex64 CHR ''0'') sample_nonce 350"
      and commit = cache_commit and rollback = cache_rollback and E = sample_runtime and reserve = cache_reserve] ends(2)
    by (simp add: sample_session)
  show ?thesis by (rule agent_next [OF agent_next [OF agent_next [OF agent_next [OF agent_start 1] 2] 3] 4])
qed

theorem bridge_approves_once_witness:
  "collides (rt_sha256 sample_runtime) (invoice_text later_invoice) (invoice_text sample_invoice)"
proof -
  have r: "bs_invoice (sample_approved sample_invoice 150) = sample_invoice"
    "bs_context (sample_approved sample_invoice 150) = sample_context sample_invoice"
    using bridge_session_Conclude [OF sample_session(1)] by (simp_all add: approval_result_def)
  have q: "bs_invoice (sample_approved later_invoice 300) = later_invoice"
    "bs_context (sample_approved later_invoice 300) = sample_context later_invoice"
    using bridge_session_Conclude [OF sample_session(3)] by (simp_all add: approval_result_def)
  from bridge_approves_once [OF sample_agent_reachable, of 0 1] show ?thesis
    by (simp add: r q sample_context_fields)
qed

subsection \<open>Reservations of concurrent calls\<close>




end
