(* ===== verification/Payment_Policy.thy ===== *)
theory Payment_Policy
  imports Schemas
begin

text \<open>
  \<open>packages/x402-xec-payments/src/payment-policy.ts\<close>: the limits that a payment plan has to keep before
  a live payment is approved and broadcast. What the TypeScript types leave open (\<open>SatoshiLimit\<close>) or a
  caller can pass unchecked is a JavaScript value. The lemmas characterise the plans that pass.

  The theory begins with \<open>traced\<close>, the outcome of a handler together with what it has asked of the
  outside, in order: \<open>ask\<close> is one such call. Every outside party is asked at most once per handler, so
  that its answer is a function of what it was asked.
\<close>

subsection \<open>Handlers with a trace\<close>

type_synonym ('e, 'a) traced = "'e list \<times> 'a result"

definition tpure :: "'a result \<Rightarrow> ('e, 'a) traced" where
  "tpure m = ([], m)"

definition ask :: "'e \<Rightarrow> 'a result \<Rightarrow> ('e, 'a) traced" where
  "ask e m = ([e], m)"

definition tbind :: "('e, 'a) traced \<Rightarrow> ('a \<Rightarrow> ('e, 'b) traced) \<Rightarrow> ('e, 'b) traced" where
  "tbind m f = (case snd m of Inl e \<Rightarrow> (fst m, Inl e) | Inr x \<Rightarrow> (fst m @ fst (f x), snd (f x)))"

lemma tbind_simps [simp]:
  "tbind (tpure (Inl e)) f = ([], Inl e)"
  "tbind (tpure (Inr x)) f = f x"
  "tbind (ask ev (Inl e)) f = ([ev], Inl e)"
  "tbind (ask ev (Inr x)) f = (ev # fst (f x), snd (f x))"
  "fst (tpure m) = []" "snd (tpure m) = m" "fst (ask ev m) = [ev]" "snd (ask ev m) = m"
  by (simp_all add: tbind_def tpure_def ask_def)

lemma snd_tbind: "snd (tbind m f) = ebind (snd m) (\<lambda>x. snd (f x))"
  by (simp add: tbind_def ebind_def split: sum.split)

lemma snd_tbind_Inr: "snd (tbind m f) = Inr y \<longleftrightarrow> (\<exists>x. snd m = Inr x \<and> snd (f x) = Inr y)"
  by (simp add: snd_tbind ebind_Inr_iff)

lemma fst_tbind:
  "e \<in> set (fst (tbind m f)) \<longleftrightarrow> e \<in> set (fst m) \<or> (\<exists>x. snd m = Inr x \<and> e \<in> set (fst (f x)))"
  by (cases "snd m") (auto simp: tbind_def)

text \<open>Reading a property of any value throws on \<open>undefined\<close> and \<open>null\<close>.\<close>

definition get_prop :: "js_value \<Rightarrow> string \<Rightarrow> js_value result" where
  "get_prop v k =
     (if v = JUndef \<or> v = JNull then Inl (TypeError ''Cannot read properties of undefined'') else Inr (prop_of v k))"

subsection \<open>Plans, policies and decisions\<close>

record payment_policy =
  pol_maxPaymentSats :: js_value
  pol_allowedNetworks :: "js_value list"
  pol_allowedSchemes :: "js_value list"
  pol_allowedPayToAddresses :: "string list option"
  pol_requireFinality :: "bool option"
  pol_requireManualApproval :: bool
  pol_expiresAtSkewSeconds :: "js_number option"
  pol_maxFeeSats :: "js_value option"

record payment_plan =
  plan_network :: string
  plan_scheme :: string
  plan_amountSats :: string
  plan_payTo :: string
  plan_expiresAt :: js_number
  plan_feeSats :: "string option"
  plan_transactionTxid :: "string option"
  plan_requiresManualApproval :: bool
  plan_finality :: "bool option"

record policy_context =
  pc_dryRun :: bool
  pc_allowBroadcast :: bool
  pc_now :: js_number

definition PaymentPolicyError :: "string \<Rightarrow> js_error" where
  "PaymentPolicyError m = CodedError ''PAYMENT_POLICY_REJECTED'' m"

definition PaymentApprovalError :: "string option \<Rightarrow> js_error" where
  "PaymentApprovalError reason = CodedError ''PAYMENT_APPROVAL_REJECTED''
     (case reason of None \<Rightarrow> ''Payment approval was rejected'' | Some m \<Rightarrow> m)"

text \<open>A decision is checked where it is used; the provider that disables approval gives this one.\<close>

definition disabled_approval :: "payment_plan \<Rightarrow> js_value result" where
  "disabled_approval plan =
     Inr (JObj [(''approved'', JBool False), (''reason'', JStr ''Payment approval is disabled'')])"

text \<open>\<open>TestOnlyApprovalProvider\<close>: the plans it has seen, and its configured decision.\<close>

definition test_approval :: "js_value \<Rightarrow> payment_plan list \<Rightarrow> payment_plan \<Rightarrow> js_value result \<times> payment_plan list" where
  "test_approval decision plans plan = (Inr decision, plans @ [plan])"

subsection \<open>Evaluation\<close>

text \<open>A \<open>bigint\<close>, a safe integer or a canonical decimal numeral.\<close>

definition limit_of :: "js_value \<Rightarrow> int option" where
  "limit_of input = (case input of
     JBigInt i \<Rightarrow> Some i
   | JNum n \<Rightarrow> num_int n
   | JStr s \<Rightarrow> if is_canonical_dec s then Some (BigInt_of s) else None
   | _ \<Rightarrow> None)"

definition readLimit :: "js_value \<Rightarrow> string \<Rightarrow> int result" where
  "readLimit input field = (case limit_of input of
     None \<Rightarrow> Inl (TypeError (field @ '' must be a non-negative integer''))
   | Some value \<Rightarrow>
       if value < 0 then Inl (RangeError (field @ '' must be non-negative'')) else Inr value)"

definition readCanonicalSats :: "string \<Rightarrow> string \<Rightarrow> int result" where
  "readCanonicalSats input field =
     (if \<not> is_canonical_dec input then Inl (TypeError (field @ '' must be a canonical non-negative integer''))
      else Inr (BigInt_of input))"

definition readSkew :: "js_number \<Rightarrow> int result" where
  "readSkew value = (case safe_nonneg value of
     None \<Rightarrow> Inl (RangeError ''expiresAtSkewSeconds must be a non-negative safe integer'')
   | Some s \<Rightarrow> Inr s)"

definition demand_policy :: "bool \<Rightarrow> string \<Rightarrow> unit result" where
  "demand_policy b m = (if b then Inr () else Inl (PaymentPolicyError m))"

definition check_fee :: "payment_policy \<Rightarrow> payment_plan \<Rightarrow> unit result" where
  "check_fee policy plan = (case (plan_feeSats plan, pol_maxFeeSats policy) of
     (Some feeSats, Some maxFeeSats) \<Rightarrow>
       ebind (readCanonicalSats feeSats ''payment fee'') (\<lambda>fee.
       ebind (readLimit maxFeeSats ''maxFeeSats'') (\<lambda>maximumFee.
         demand_policy (fee \<le> maximumFee)
           (''payment fee '' @ feeSats @ '' exceeds maxFeeSats '' @ int_to_dec maximumFee)))
   | _ \<Rightarrow> Inr ())"

text \<open>A sum of two safe integers that is not safe may be rounded, but stays above every safe integer,
  so the comparison with the expiry is that of the integers.\<close>

definition check_expiry :: "payment_policy \<Rightarrow> payment_plan \<Rightarrow> policy_context \<Rightarrow> unit result" where
  "check_expiry policy plan context =
     ebind (readSkew (case pol_expiresAtSkewSeconds policy of None \<Rightarrow> NInt 0 | Some s \<Rightarrow> s)) (\<lambda>skew.
       (case safe_nonneg (pc_now context) of
          None \<Rightarrow> Inl (RangeError ''now must be a non-negative epoch second'')
        | Some now \<Rightarrow>
            demand_policy
              (case safe_nonneg (plan_expiresAt plan) of None \<Rightarrow> False | Some t \<Rightarrow> now + skew < t)
              ''x402-XEC invoice has expired''))"

definition evaluatePaymentPolicy :: "payment_policy \<Rightarrow> payment_plan \<Rightarrow> policy_context \<Rightarrow> unit result" where
  "evaluatePaymentPolicy policy plan context =
     ebind (readLimit (pol_maxPaymentSats policy) ''maxPaymentSats'') (\<lambda>maximum.
     ebind (readCanonicalSats (plan_amountSats plan) ''payment amount'') (\<lambda>amount.
     ebind (demand_policy (amount \<le> maximum)
       (''payment amount '' @ plan_amountSats plan @ '' exceeds maxPaymentSats '' @ int_to_dec maximum)) (\<lambda>_.
     ebind (demand_policy (JStr (plan_network plan) \<in> set (pol_allowedNetworks policy))
       (''unsupported payment network: '' @ plan_network plan)) (\<lambda>_.
     ebind (demand_policy (JStr (plan_scheme plan) \<in> set (pol_allowedSchemes policy))
       (''unsupported payment scheme: '' @ plan_scheme plan)) (\<lambda>_.
     ebind (demand_policy
         (case pol_allowedPayToAddresses policy of None \<Rightarrow> True | Some as \<Rightarrow> plan_payTo plan \<in> set as)
       (''payment destination is not allowlisted: '' @ plan_payTo plan)) (\<lambda>_.
     ebind (check_fee policy plan) (\<lambda>_.
     ebind (demand_policy (pol_requireFinality policy \<noteq> Some True \<or> plan_finality plan = Some True)
       ''payment policy requires finalized funding inputs'') (\<lambda>_.
     ebind (check_expiry policy plan context) (\<lambda>_.
       demand_policy (pc_dryRun context \<or> pc_allowBroadcast context)
         ''live payment broadcast requires allowBroadcast: true'')))))))))"

subsection \<open>The plans that pass\<close>

lemma readLimit_Inr [err_simps]: "readLimit v f = Inr m \<longleftrightarrow> limit_of v = Some m \<and> 0 \<le> m"
  by (auto simp: readLimit_def split: option.splits)

lemma readCanonicalSats_Inr [err_simps]:
  "readCanonicalSats s f = Inr m \<longleftrightarrow> is_canonical_dec s \<and> m = BigInt_of s"
  by (auto simp: readCanonicalSats_def)

lemma readSkew_Inr [err_simps]: "readSkew n = Inr s \<longleftrightarrow> safe_nonneg n = Some s"
  by (auto simp: readSkew_def split: option.splits)

lemma demand_policy_Inr [err_simps]: "demand_policy b m = Inr u \<longleftrightarrow> b"
  by (simp add: demand_policy_def)

text \<open>What a policy asks of a plan.\<close>

definition fee_allowed :: "payment_policy \<Rightarrow> payment_plan \<Rightarrow> bool" where
  "fee_allowed policy plan = (case (plan_feeSats plan, pol_maxFeeSats policy) of
     (Some fee, Some v) \<Rightarrow> is_canonical_dec fee \<and>
       (case limit_of v of None \<Rightarrow> False | Some m \<Rightarrow> 0 \<le> m \<and> BigInt_of fee \<le> m)
   | _ \<Rightarrow> True)"

definition skew_of :: "payment_policy \<Rightarrow> int option" where
  "skew_of policy = (case pol_expiresAtSkewSeconds policy of None \<Rightarrow> Some 0 | Some s \<Rightarrow> safe_nonneg s)"

definition plan_allowed :: "payment_policy \<Rightarrow> payment_plan \<Rightarrow> policy_context \<Rightarrow> bool" where
  "plan_allowed policy plan context \<longleftrightarrow>
     (case limit_of (pol_maxPaymentSats policy) of None \<Rightarrow> False
      | Some m \<Rightarrow> is_canonical_dec (plan_amountSats plan) \<and> BigInt_of (plan_amountSats plan) \<le> m) \<and>
     JStr (plan_network plan) \<in> set (pol_allowedNetworks policy) \<and>
     JStr (plan_scheme plan) \<in> set (pol_allowedSchemes policy) \<and>
     (\<forall>as. pol_allowedPayToAddresses policy = Some as \<longrightarrow> plan_payTo plan \<in> set as) \<and>
     fee_allowed policy plan \<and>
     (pol_requireFinality policy = Some True \<longrightarrow> plan_finality plan = Some True) \<and>
     (\<exists>skew now t. skew_of policy = Some skew \<and> safe_nonneg (pc_now context) = Some now \<and>
        safe_nonneg (plan_expiresAt plan) = Some t \<and> now + skew < t) \<and>
     (pc_dryRun context \<or> pc_allowBroadcast context)"

lemma canonical_dec_nonneg: "is_canonical_dec s \<Longrightarrow> 0 \<le> BigInt_of s"
proof -
  assume s: "is_canonical_dec s"
  have "\<not> startsWith s ''-''"
  proof
    assume "startsWith s ''-''"
    then obtain t where "s = CHR ''-'' # t" by (auto simp: startsWith_iff)
    with s show False by (simp add: is_canonical_dec_def is_positive_dec_def in_range_def)
  qed
  then show ?thesis by (simp add: BigInt_of_def)
qed

lemma check_fee_Inr: "check_fee policy plan = Inr u \<longleftrightarrow> fee_allowed policy plan"
  by (auto simp: check_fee_def fee_allowed_def err_simps split: option.splits)

lemma check_expiry_Inr:
  "check_expiry policy plan context = Inr u \<longleftrightarrow>
     (\<exists>skew now t. skew_of policy = Some skew \<and> safe_nonneg (pc_now context) = Some now \<and>
        safe_nonneg (plan_expiresAt plan) = Some t \<and> now + skew < t)"
  by (auto simp: check_expiry_def skew_of_def err_simps max_safe_integer_def split: option.splits)

lemma evaluatePaymentPolicy_Inr:
  "evaluatePaymentPolicy policy plan context = Inr u \<longleftrightarrow> plan_allowed policy plan context"
proof -
  have "0 \<le> m" if "is_canonical_dec s" "BigInt_of s \<le> m" for s m
    using canonical_dec_nonneg [OF that(1)] that(2) by simp
  then show ?thesis
    by (auto simp: evaluatePaymentPolicy_def plan_allowed_def err_simps check_fee_Inr check_expiry_Inr
        split: option.splits)
qed

lemma disabled_rejects: "\<exists>d. disabled_approval plan = Inr d \<and> prop_of d ''approved'' = JBool False"
  by (simp add: disabled_approval_def prop_of_def)

end
