(* ===== verification/Transactions.thy ===== *)
theory Transactions
  imports Schemas
begin

text \<open>
  \<open>packages/x402-xec-transactions/src/index.ts\<close>: the selection of inputs and the construction of the
  funding transaction. \<open>ecash-lib\<close> is not under \<open>src/\<close>: reading an address (\<open>fromCashAddress\<close>) and
  building and signing (\<open>TxBuilder.sign\<close>, with the real or the dummy signing engine) are fields of
  \<open>ecash_lib\<close>. A \<open>Script\<close> is the hexadecimal text of its bytes; a signatory is a value of type
  \<open>'k\<close>. What \<open>TxBuilder.sign\<close> promises is the predicate \<open>builder_pays\<close>, a hypothesis of the lemmas
  that need it. The lemmas show which inputs are selected and that the transaction pays the invoice.
\<close>

definition DEFAULT_FEE_PER_KB :: int where "DEFAULT_FEE_PER_KB = 1000"
definition DEFAULT_DUST_SATS :: int where "DEFAULT_DUST_SATS = 546"

record funding_utxo =
  utxo_txid :: string
  utxo_outIdx :: js_number
  utxo_sats :: string
  utxo_outputScript :: string
  utxo_token :: js_value

record funding_tx_output =
  fto_outIdx :: int
  fto_amountSats :: string
  fto_outputScript :: string

record 'k build_request =
  br_invoice :: js_value
  br_utxos :: "funding_utxo list"
  br_changeAddress :: string
  br_signatoryForUtxo :: "funding_utxo \<Rightarrow> 'k result"
  br_feePerKb :: "string option"
  br_dustSats :: "string option"

record build_result =
  bt_rawTx :: string
  bt_txid :: string
  bt_selectedInputs :: "funding_utxo list"
  bt_outpoint_txid :: string
  bt_outpoint_outIdx :: int
  bt_fundingOutput :: funding_tx_output
  bt_feeSats :: string
  bt_changeSats :: string

definition InsufficientFundsError :: js_error where
  "InsufficientFundsError = CodedError ''INSUFFICIENT_FUNDS''
     ''Insufficient funds to pay the invoice amount and transaction fee''"

record validated_utxo =
  vu_source :: funding_utxo
  vu_sats :: int
  vu_outputScript :: string

text \<open>The parts of \<open>ecash-lib\<close>: a transaction as far as the code reads it, an input with its signatory,
  the prefix and the script of an address (\<open>None\<close> where it throws).\<close>

record lib_tx =
  lt_txid :: string
  lt_hex :: string
  lt_outputs :: "(int \<times> string) list"

type_synonym 'k tx_input = "funding_utxo \<times> int \<times> string \<times> 'k"

record 'k ecash_lib =
  el_address :: "string \<Rightarrow> (string \<times> string) option"
  el_sign :: "bool \<Rightarrow> 'k tx_input list \<Rightarrow> int \<times> string \<Rightarrow> string \<Rightarrow> int \<Rightarrow> int \<Rightarrow> lib_tx result"

subsection \<open>Construction\<close>

definition parsePositiveAmount :: "string \<Rightarrow> string \<Rightarrow> int result" where
  "parsePositiveAmount value field =
     (if \<not> is_positive_dec value then Inl (TypeError (field @ '' must be a canonical positive integer string''))
      else Inr (BigInt_of value))"

definition addressScript :: "'k ecash_lib \<Rightarrow> string \<Rightarrow> string \<Rightarrow> string result" where
  "addressScript L value field = (case el_address L value of
     None \<Rightarrow> Inl (TypeError (field @ '' must be a valid eCash cash address''))
   | Some (prefix, script) \<Rightarrow>
       if prefix \<noteq> ''ecash'' then Inl (TypeError (field @ '' must use the ecash mainnet prefix'')) else Inr script)"

text \<open>\<open>^(?:[0-9a-f]{2})+$\<close>.\<close>

definition is_script_hex :: "string \<Rightarrow> bool" where
  "is_script_hex s \<longleftrightarrow> s \<noteq> [] \<and> even (length s) \<and> list_all is_lower_hex s"

definition validateUtxo :: "funding_utxo \<Rightarrow> validated_utxo result" where
  "validateUtxo u =
     (if \<not> is_hash (utxo_txid u) then
        Inl (TypeError ''Funding UTXO txid must be 64 lowercase hex characters'')
      else if safe_nonneg (utxo_outIdx u) = None then
        Inl (TypeError ''Funding UTXO outIdx must be a non-negative safe integer'')
      else if utxo_token u \<noteq> JUndef then
        Inl (TypeError ''Token-bearing UTXOs cannot fund XEC transactions'')
      else if \<not> is_script_hex (utxo_outputScript u) then
        Inl (TypeError ''Funding UTXO outputScript must be non-empty lowercase hex'')
      else ebind (parsePositiveAmount (utxo_sats u) ''Funding UTXO sats'') (\<lambda>sats.
        Inr \<lparr>vu_source = u, vu_sats = sats, vu_outputScript = utxo_outputScript u\<rparr>))"

record 'k tx_terms =
  tt_pay :: "int \<times> string"
  tt_changeScript :: string
  tt_feePerKb :: int
  tt_dustSats :: int
  tt_signatory :: "funding_utxo \<Rightarrow> 'k result"

text \<open>\<open>dummy\<close> tells whether the \<open>EccDummy\<close> engine signs.\<close>

definition buildTx :: "'k ecash_lib \<Rightarrow> bool \<Rightarrow> 'k tx_terms \<Rightarrow> validated_utxo list \<Rightarrow> lib_tx result" where
  "buildTx L dummy T utxos =
     ebind (mapE (\<lambda>u. ebind (tt_signatory T (vu_source u)) (\<lambda>k.
              Inr (vu_source u, vu_sats u, vu_outputScript u, k))) utxos) (\<lambda>inputs.
       el_sign L dummy inputs (tt_pay T) (tt_changeScript T) (tt_feePerKb T) (tt_dustSats T))"

definition isInsufficientInputError :: "js_error \<Rightarrow> bool" where
  "isInsufficientInputError e \<longleftrightarrow> startsWith (err_text e) ''Insufficient input sats''"

text \<open>The loop over prefixes: \<open>try_prefixes L T utxos count fuel\<close> tries the lengths \<open>count\<close>, \<open>count + 1\<close>,
  and so on; \<open>fuel\<close> is the number of lengths left.\<close>

fun try_prefixes :: "'k ecash_lib \<Rightarrow> 'k tx_terms \<Rightarrow> validated_utxo list \<Rightarrow> nat \<Rightarrow> nat \<Rightarrow> validated_utxo list option result" where
  "try_prefixes L T utxos count 0 = Inr None"
| "try_prefixes L T utxos count (Suc fuel) =
     (let candidates = take count utxos in
      case buildTx L True T candidates of
        Inr _ \<Rightarrow> Inr (Some candidates)
      | Inl e \<Rightarrow> if isInsufficientInputError e then try_prefixes L T utxos (Suc count) fuel else Inl e)"

definition select_inputs :: "'k ecash_lib \<Rightarrow> 'k tx_terms \<Rightarrow> validated_utxo list \<Rightarrow> validated_utxo list result" where
  "select_inputs L T utxos =
     ebind (try_prefixes L T utxos 1 (length utxos)) (\<lambda>selected.
       (case selected of None \<Rightarrow> Inl InsufficientFundsError | Some us \<Rightarrow> Inr us))"

text \<open>The result record, out of the signed transaction.\<close>

definition describe_tx :: "validated_utxo list \<Rightarrow> lib_tx \<Rightarrow> build_result result" where
  "describe_tx selected tx = (case lt_outputs tx of
     [] \<Rightarrow> Inl (PlainError ''Funding transaction has no payment output'')
   | (sats, script) # others \<Rightarrow>
       let inputSats = sum_list (map vu_sats selected);
           outputSats = sum_list (map fst (lt_outputs tx));
           changeSats = (case others of [] \<Rightarrow> 0 | (c, _) # _ \<Rightarrow> c) in
       Inr \<lparr>bt_rawTx = lt_hex tx, bt_txid = lt_txid tx, bt_selectedInputs = map vu_source selected,
            bt_outpoint_txid = lt_txid tx, bt_outpoint_outIdx = 0,
            bt_fundingOutput = \<lparr>fto_outIdx = 0, fto_amountSats = int_to_dec sats, fto_outputScript = script\<rparr>,
            bt_feeSats = int_to_dec (inputSats - outputSats), bt_changeSats = int_to_dec changeSats\<rparr>)"

text \<open>The checks of the request and the terms of the transaction.\<close>

definition build_terms :: "'k ecash_lib \<Rightarrow> 'k build_request \<Rightarrow> ('k tx_terms \<times> validated_utxo list) result" where
  "build_terms L r =
     ebind (case parse_invoice (br_invoice r) of None \<Rightarrow> Inl ZodError | Some i \<Rightarrow> Inr i) (\<lambda>i.
     ebind (parseAmountSats (inv_amountSats i)) (\<lambda>amount.
     ebind (parsePositiveAmount
       (case br_feePerKb r of None \<Rightarrow> int_to_dec DEFAULT_FEE_PER_KB | Some f \<Rightarrow> f) ''feePerKb'') (\<lambda>fee.
     ebind (parsePositiveAmount
       (case br_dustSats r of None \<Rightarrow> int_to_dec DEFAULT_DUST_SATS | Some d \<Rightarrow> d) ''dustSats'') (\<lambda>dust.
     ebind (addressScript L (inv_payTo i) ''invoice.payTo'') (\<lambda>paymentScript.
     ebind (addressScript L (br_changeAddress r) ''changeAddress'') (\<lambda>changeScript.
     ebind (mapE validateUtxo (br_utxos r)) (\<lambda>utxos.
       Inr (\<lparr>tt_pay = (amount, paymentScript), tt_changeScript = changeScript, tt_feePerKb = fee,
             tt_dustSats = dust, tt_signatory = br_signatoryForUtxo r\<rparr>, utxos))))))))"

definition buildFundingTx :: "'k ecash_lib \<Rightarrow> 'k build_request \<Rightarrow> build_result result" where
  "buildFundingTx L r =
     ebind (build_terms L r) (\<lambda>(T, utxos).
     ebind (select_inputs L T utxos) (\<lambda>selected.
     ebind (buildTx L False T selected) (\<lambda>tx.
       describe_tx selected tx)))"

subsection \<open>The selection is the shortest prefix that suffices\<close>

definition insufficient :: "'k ecash_lib \<Rightarrow> 'k tx_terms \<Rightarrow> validated_utxo list \<Rightarrow> bool" where
  "insufficient L T us = (case buildTx L True T us of Inl e \<Rightarrow> isInsufficientInputError e | Inr _ \<Rightarrow> False)"

lemma try_prefixes_Some:
  "try_prefixes L T utxos k fuel = Inr (Some us) \<longleftrightarrow>
     (\<exists>n. k \<le> n \<and> n < k + fuel \<and> us = take n utxos \<and> ok (buildTx L True T us) \<and>
          (\<forall>m. k \<le> m \<and> m < n \<longrightarrow> insufficient L T (take m utxos)))"
proof (induction fuel arbitrary: k)
  case (Suc fuel)
  let ?R = "\<lambda>k n. us = take n utxos \<and> ok (buildTx L True T us) \<and>
    (\<forall>m. k \<le> m \<and> m < n \<longrightarrow> insufficient L T (take m utxos))"
  have step: "(\<exists>n. k \<le> n \<and> n < k + Suc fuel \<and> ?R k n) \<longleftrightarrow>
      us = take k utxos \<and> ok (buildTx L True T us) \<or>
      insufficient L T (take k utxos) \<and> (\<exists>n. Suc k \<le> n \<and> n < Suc k + fuel \<and> ?R (Suc k) n)"
    (is "?A \<longleftrightarrow> ?B \<or> ?C")
  proof (intro iffI; (elim disjE)?)
    assume ?A
    then obtain n where n: "k \<le> n" "n < k + Suc fuel" "?R k n" by blast
    show "?B \<or> ?C"
    proof (cases "n = k")
      case False
      with n have "Suc k \<le> n" "n < Suc k + fuel" "insufficient L T (take k utxos)" "?R (Suc k) n" by auto
      then show ?thesis by blast
    qed (use n(3) in blast)
  next
    assume ?B
    then show ?A by (intro exI [of _ k]) auto
  next
    assume ?C
    then obtain n where n: "Suc k \<le> n" "n < Suc k + fuel" "?R (Suc k) n" "insufficient L T (take k utxos)" by blast
    then have "insufficient L T (take m utxos)" if "k \<le> m" "m < n" for m
      using that by (cases "m = k") auto
    with n show ?A by (intro exI [of _ n]) auto
  qed
  show ?case
  proof (cases "buildTx L True T (take k utxos)")
    case (Inl e)
    then have "insufficient L T (take k utxos) \<longleftrightarrow> isInsufficientInputError e" by (simp add: insufficient_def)
    with Inl show ?thesis unfolding step by (auto simp: Let_def Suc.IH)
  next
    case (Inr tx)
    then have "\<not> insufficient L T (take k utxos)" by (simp add: insufficient_def)
    with Inr show ?thesis unfolding step by (auto simp: Let_def)
  qed
qed simp

lemma try_prefixes_None:
  "try_prefixes L T utxos k fuel = Inr None \<longleftrightarrow> (\<forall>m \<in> {k..<k + fuel}. insufficient L T (take m utxos))"
proof (induction fuel arbitrary: k)
  case (Suc fuel)
  have "{k..<k + Suc fuel} = insert k {Suc k..<Suc k + fuel}" by auto
  with Suc show ?case by (auto simp: Let_def insufficient_def split: sum.splits)
qed simp

lemma select_inputs_Inr:
  "select_inputs L T utxos = Inr us \<longleftrightarrow>
     (\<exists>n. 0 < n \<and> n \<le> length utxos \<and> us = take n utxos \<and> ok (buildTx L True T us) \<and>
          (\<forall>m. 0 < m \<and> m < n \<longrightarrow> insufficient L T (take m utxos)))"
proof -
  have "select_inputs L T utxos = Inr us \<longleftrightarrow> try_prefixes L T utxos 1 (length utxos) = Inr (Some us)"
    by (auto simp: select_inputs_def err_simps split: option.splits)
  then show ?thesis unfolding try_prefixes_Some by (simp add: Suc_le_eq less_Suc_eq_le)
qed

lemma select_inputs_fails:
  "(\<forall>m. 0 < m \<and> m \<le> length utxos \<longrightarrow> insufficient L T (take m utxos)) \<Longrightarrow>
   select_inputs L T utxos = Inl InsufficientFundsError"
proof -
  assume "\<forall>m. 0 < m \<and> m \<le> length utxos \<longrightarrow> insufficient L T (take m utxos)"
  then have "try_prefixes L T utxos 1 (length utxos) = Inr None"
    unfolding try_prefixes_None by (auto simp: Suc_le_eq less_Suc_eq_le)
  then show ?thesis by (simp add: select_inputs_def)
qed

subsection \<open>What the transaction pays\<close>

text \<open>
  The documented behaviour of \<open>TxBuilder.sign\<close>: the outputs are the fixed one and, unless the rest is
  below the dust threshold, one that takes the rest to the change script; they do not exceed the inputs.
\<close>

definition builder_pays :: "'k ecash_lib \<Rightarrow> bool" where
  "builder_pays L \<longleftrightarrow> (\<forall>dummy inputs pay change fee dust tx.
     el_sign L dummy inputs pay change fee dust = Inr tx \<longrightarrow>
     (\<exists>rest. lt_outputs tx = pay # rest \<and> (rest = [] \<or> (\<exists>c \<ge> dust. rest = [(c, change)])) \<and>
        fst pay + sum_list (map fst rest) \<le> sum_list (map (\<lambda>(_, sats, _). sats) inputs)))"

lemma validateUtxo_Inr [err_simps]:
  "validateUtxo u = Inr v \<longleftrightarrow>
     is_hash (utxo_txid u) \<and> safe_nonneg (utxo_outIdx u) \<noteq> None \<and> utxo_token u = JUndef \<and>
     is_script_hex (utxo_outputScript u) \<and> is_positive_dec (utxo_sats u) \<and>
     v = \<lparr>vu_source = u, vu_sats = BigInt_of (utxo_sats u), vu_outputScript = utxo_outputScript u\<rparr>"
  by (auto simp: validateUtxo_def parsePositiveAmount_def err_simps)

lemma validated_sources:
  "mapE validateUtxo us = Inr vs \<Longrightarrow> map vu_source vs = us \<and> map vu_sats vs = map (BigInt_of \<circ> utxo_sats) us"
  unfolding mapE_Inr_iff by (induction rule: list_all2_induct) (simp_all add: err_simps)

lemma buildTx_inputs:
  assumes "buildTx L dummy T us = Inr tx"
  obtains inputs where "el_sign L dummy inputs (tt_pay T) (tt_changeScript T) (tt_feePerKb T) (tt_dustSats T) = Inr tx"
    and "map (\<lambda>(_, sats, _). sats) inputs = map vu_sats us"
proof -
  from assms obtain inputs where i: "mapE (\<lambda>u. ebind (tt_signatory T (vu_source u)) (\<lambda>k.
      Inr (vu_source u, vu_sats u, vu_outputScript u, k))) us = Inr inputs"
    and s: "el_sign L dummy inputs (tt_pay T) (tt_changeScript T) (tt_feePerKb T) (tt_dustSats T) = Inr tx"
    by (auto simp: buildTx_def ebind_Inr_iff)
  from i have "map (\<lambda>(_, sats, _). sats) inputs = map vu_sats us"
    unfolding mapE_Inr_iff by (induction rule: list_all2_induct) (auto simp: ebind_Inr_iff)
  with s that show thesis by blast
qed

lemma buildFundingTx_Inr:
  "buildFundingTx L r = Inr b \<longleftrightarrow> (\<exists>T utxos selected tx.
     build_terms L r = Inr (T, utxos) \<and> select_inputs L T utxos = Inr selected \<and>
     buildTx L False T selected = Inr tx \<and> describe_tx selected tx = Inr b)"
  by (auto simp: buildFundingTx_def err_simps)

lemma parsePositiveAmount_Inr:
  "parsePositiveAmount s f = Inr n \<longleftrightarrow> is_positive_dec s \<and> n = BigInt_of s"
  by (auto simp: parsePositiveAmount_def)

lemma build_terms_Inr:
  "build_terms L r = Inr (T, utxos) \<Longrightarrow> \<exists>i. parse_invoice (br_invoice r) = Some i \<and>
     parseAmountSats (inv_amountSats i) = Inr (fst (tt_pay T)) \<and>
     addressScript L (inv_payTo i) ''invoice.payTo'' = Inr (snd (tt_pay T)) \<and>
     addressScript L (br_changeAddress r) ''changeAddress'' = Inr (tt_changeScript T) \<and>
     mapE validateUtxo (br_utxos r) = Inr utxos \<and> tt_signatory T = br_signatoryForUtxo r \<and>
     tt_dustSats T = (case br_dustSats r of None \<Rightarrow> DEFAULT_DUST_SATS | Some d \<Rightarrow> BigInt_of d)"
  by (auto simp: build_terms_def err_simps parsePositiveAmount_Inr split: option.splits)

text \<open>The amounts of a result add up.\<close>

definition sats_of :: "funding_utxo list \<Rightarrow> int" where
  "sats_of us = sum_list (map (BigInt_of \<circ> utxo_sats) us)"

definition dust_of :: "'k build_request \<Rightarrow> int" where
  "dust_of r = (case br_dustSats r of None \<Rightarrow> DEFAULT_DUST_SATS | Some d \<Rightarrow> BigInt_of d)"

lemma funding_tx_pays:
  assumes "buildFundingTx L r = Inr b" "builder_pays L"
  shows "\<exists>i script n. parse_invoice (br_invoice r) = Some i \<and>
    addressScript L (inv_payTo i) ''invoice.payTo'' = Inr script \<and>
    0 < n \<and> n \<le> length (br_utxos r) \<and> bt_selectedInputs b = take n (br_utxos r) \<and>
    (BigInt_of (bt_changeSats b) = 0 \<or> dust_of r \<le> BigInt_of (bt_changeSats b)) \<and>
    bt_outpoint_txid b = bt_txid b \<and> bt_outpoint_outIdx b = 0 \<and>
    fto_outIdx (bt_fundingOutput b) = 0 \<and> fto_outputScript (bt_fundingOutput b) = script \<and>
    BigInt_of (fto_amountSats (bt_fundingOutput b)) = BigInt_of (inv_amountSats i) \<and>
    0 \<le> BigInt_of (bt_feeSats b) \<and>
    sats_of (bt_selectedInputs b) =
      BigInt_of (inv_amountSats i) + BigInt_of (bt_changeSats b) + BigInt_of (bt_feeSats b)"
proof -
  from assms(1) obtain T utxos selected tx where T: "build_terms L r = Inr (T, utxos)"
    and sel: "select_inputs L T utxos = Inr selected" and tx: "buildTx L False T selected = Inr tx"
    and b: "describe_tx selected tx = Inr b"
    by (auto simp: buildFundingTx_Inr)
  from build_terms_Inr [OF T] obtain i where i: "parse_invoice (br_invoice r) = Some i"
    "parseAmountSats (inv_amountSats i) = Inr (fst (tt_pay T))"
    "addressScript L (inv_payTo i) ''invoice.payTo'' = Inr (snd (tt_pay T))"
    "mapE validateUtxo (br_utxos r) = Inr utxos" "tt_dustSats T = dust_of r" unfolding dust_of_def by blast
  from sel obtain n where n: "selected = take n utxos" "0 < n" "n \<le> length utxos" by (auto simp: select_inputs_Inr)
  have src: "map vu_source selected = take n (br_utxos r)" "length utxos = length (br_utxos r)"
    using validated_sources [OF i(4)] by (auto simp: n(1) take_map [symmetric] dest: map_eq_imp_length_eq)
  have sats: "sum_list (map vu_sats selected) = sats_of (map vu_source selected)"
    using validated_sources [OF i(4)] by (simp add: n sats_of_def take_map [symmetric])
  obtain inputs where s: "el_sign L False inputs (tt_pay T) (tt_changeScript T) (tt_feePerKb T) (tt_dustSats T) = Inr tx"
    and ins: "map (\<lambda>(_, sats, _). sats) inputs = map vu_sats selected"
    using buildTx_inputs [OF tx] by blast
  from assms(2) s obtain rest where rest: "lt_outputs tx = tt_pay T # rest"
    "rest = [] \<or> (\<exists>c \<ge> tt_dustSats T. rest = [(c, tt_changeScript T)])"
    "fst (tt_pay T) + sum_list (map fst rest) \<le> sum_list (map vu_sats selected)"
    unfolding builder_pays_def ins [symmetric] by blast
  have amount: "fst (tt_pay T) = BigInt_of (inv_amountSats i)" using int_to_dec_parse [OF i(2)] by (metis BigInt_of_to_dec)
  show ?thesis
    using b rest sats i(1,3,5) amount n(2,3) src
    by (cases "tt_pay T") (auto simp: describe_tx_def Let_def)
qed

text \<open>The bytes are those of a transaction that the library signed for these terms, over a prefix of the outputs.\<close>

lemma buildTx_sources:
  assumes "buildTx L dummy T us = Inr tx"
  shows "\<exists>inputs. el_sign L dummy inputs (tt_pay T) (tt_changeScript T) (tt_feePerKb T) (tt_dustSats T) = Inr tx \<and>
    map fst inputs = map vu_source us"
proof -
  from assms obtain inputs where i: "mapE (\<lambda>u. ebind (tt_signatory T (vu_source u)) (\<lambda>k.
      Inr (vu_source u, vu_sats u, vu_outputScript u, k))) us = Inr inputs"
    and s: "el_sign L dummy inputs (tt_pay T) (tt_changeScript T) (tt_feePerKb T) (tt_dustSats T) = Inr tx"
    by (auto simp: buildTx_def ebind_Inr_iff)
  from i have "map fst inputs = map vu_source us"
    unfolding mapE_Inr_iff by (induction rule: list_all2_induct) (auto simp: ebind_Inr_iff)
  with s show ?thesis by blast
qed

lemma funding_tx_signed:
  assumes "buildFundingTx L r = Inr b" "builder_pays L" "parse_invoice (br_invoice r) = Some i"
  shows "\<exists>n inputs script change fee dust tx rest.
    addressScript L (inv_payTo i) ''invoice.payTo'' = Inr script \<and>
    addressScript L (br_changeAddress r) ''changeAddress'' = Inr change \<and>
    map fst inputs = take n (br_utxos r) \<and>
    el_sign L False inputs (BigInt_of (inv_amountSats i), script) change fee dust = Inr tx \<and> bt_rawTx b = lt_hex tx \<and>
    lt_outputs tx = (BigInt_of (inv_amountSats i), script) # rest \<and> (rest = [] \<or> (\<exists>c. rest = [(c, change)]))"
proof -
  from assms(1) obtain T utxos selected tx where T: "build_terms L r = Inr (T, utxos)"
    and sel: "select_inputs L T utxos = Inr selected" and tx: "buildTx L False T selected = Inr tx"
    and b: "describe_tx selected tx = Inr b"
    by (auto simp: buildFundingTx_Inr)
  from build_terms_Inr [OF T] assms(3) have i: "parseAmountSats (inv_amountSats i) = Inr (fst (tt_pay T))"
    "addressScript L (inv_payTo i) ''invoice.payTo'' = Inr (snd (tt_pay T))"
    "addressScript L (br_changeAddress r) ''changeAddress'' = Inr (tt_changeScript T)"
    "mapE validateUtxo (br_utxos r) = Inr utxos" by auto
  have "fst (tt_pay T) = BigInt_of (inv_amountSats i)" using int_to_dec_parse [OF i(1)] by (metis BigInt_of_to_dec)
  then have pay: "tt_pay T = (BigInt_of (inv_amountSats i), snd (tt_pay T))" by (simp add: prod_eq_iff)
  from sel obtain n where n: "selected = take n utxos" by (auto simp: select_inputs_Inr)
  obtain inputs where s: "el_sign L False inputs (tt_pay T) (tt_changeScript T) (tt_feePerKb T) (tt_dustSats T) = Inr tx"
    and ins: "map fst inputs = map vu_source selected"
    using buildTx_sources [OF tx] by blast
  from assms(2) s obtain rest where rest: "lt_outputs tx = tt_pay T # rest" "rest = [] \<or> (\<exists>c. rest = [(c, tt_changeScript T)])"
    unfolding builder_pays_def by blast
  have "map fst inputs = take n (br_utxos r)"
    using ins validated_sources [OF i(4)] by (auto simp: n take_map [symmetric])
  moreover have "bt_rawTx b = lt_hex tx" using b rest(1) by (auto simp: describe_tx_def Let_def split: list.splits prod.splits)
  ultimately show ?thesis using i(2,3) s rest pay by metis
qed

end
