(* ===== verification/Payment_Providers.thy ===== *)
theory Payment_Providers
  imports Payment_Policy Transactions Resource
begin

text \<open>
  The two providers of \<open>packages/x402-xec-payments/src\<close> that talk to a Chronik server:
  \<open>chronik-utxo-provider.ts\<close>, which reads the unspent outputs of one address, and
  \<open>broadcast-provider.ts\<close>, which sends a transaction. The Chronik client (\<open>chronik-client\<close>) and the
  reading of addresses (\<open>ecash-lib\<close>) are parameters. The lemmas say exactly what is returned and into
  which of the three broadcast errors a failure is turned.
\<close>

subsection \<open>Endpoints and addresses\<close>

text \<open>Both files have this function.\<close>

definition validateEndpoint :: "runtime \<Rightarrow> string \<Rightarrow> string result" where
  "validateEndpoint E endpoint =
     (if endpoint = [] then Inl (TypeError ''Chronik endpoint is required'')
      else if endsWith endpoint ''/'' then
        Inl (TypeError (''Chronik endpoint must not end with '' @ quoted ''/''))
      else (case rt_url E endpoint of
          None \<Rightarrow> Inl (TypeError ''Chronik endpoint must be a valid HTTP(S) URL'')
        | Some parsed \<Rightarrow>
            if url_protocol parsed \<noteq> ''https:'' \<and> url_protocol parsed \<noteq> ''http:'' then
              Inl (TypeError ''Chronik endpoint must be a valid HTTP(S) URL'')
            else Inr endpoint))"

definition validateAddress :: "'k ecash_lib \<Rightarrow> string \<Rightarrow> string result" where
  "validateAddress L address =
     (if address = [] then Inl (TypeError ''Chronik eCash address is required'')
      else (case el_address L address of
          None \<Rightarrow> Inl (TypeError ''Chronik address must be a valid eCash cash address'')
        | Some (prefix, script) \<Rightarrow>
            if prefix \<noteq> ''ecash'' then Inl (TypeError ''Chronik address must use the ecash mainnet prefix'')
            else Inr address))"

subsection \<open>Unspent outputs\<close>

text \<open>The fields that the code checks are unchecked values.\<close>

record chronik_utxo =
  cu_txid :: string
  cu_outIdx :: js_number
  cu_sats :: js_value
  cu_isCoinbase :: js_value
  cu_token :: js_value

record chronik_utxo_set =
  cs_outputScript :: string
  cs_utxos :: "chronik_utxo list option"

record chronik_utxo_provider =
  cp_endpoint :: string
  cp_address :: string
  cp_client :: "string \<Rightarrow> chronik_utxo_set result"

record utxo_request =
  ur_network :: string
  ur_payer :: string
  ur_amountSats :: string

definition newChronikUtxoProvider ::
  "runtime \<Rightarrow> 'k ecash_lib \<Rightarrow> string \<Rightarrow> string \<Rightarrow> (string \<Rightarrow> chronik_utxo_set result) \<Rightarrow> chronik_utxo_provider result" where
  "newChronikUtxoProvider E L endpoint address client =
     ebind (validateEndpoint E endpoint) (\<lambda>ep.
     ebind (validateAddress L address) (\<lambda>ad.
       Inr \<lparr>cp_endpoint = ep, cp_address = ad, cp_client = client\<rparr>))"

definition ChronikUtxoProviderError :: "string \<Rightarrow> js_error" where
  "ChronikUtxoProviderError address =
     CodedError ''CHRONIK_UTXO_READ_FAILED'' (''Failed to read Chronik UTXOs for '' @ address)"

definition keeps_utxo :: "chronik_utxo \<Rightarrow> bool result" where
  "keeps_utxo u = (case cu_isCoinbase u of
     JBool b \<Rightarrow> Inr (\<not> b)
   | _ \<Rightarrow> Inl (TypeError ''Chronik UTXO isCoinbase must be boolean''))"

fun filterE :: "('a \<Rightarrow> bool result) \<Rightarrow> 'a list \<Rightarrow> 'a list result" where
  "filterE p [] = Inr []"
| "filterE p (x # xs) =
     ebind (p x) (\<lambda>b. ebind (filterE p xs) (\<lambda>ys. Inr (if b then x # ys else ys)))"

definition mapUtxo :: "string \<Rightarrow> chronik_utxo \<Rightarrow> funding_utxo result" where
  "mapUtxo outputScript u =
     (if \<not> is_hash (cu_txid u) then Inl (TypeError ''Chronik UTXO txid must be 64 lowercase hex characters'')
      else if safe_nonneg (cu_outIdx u) = None then
        Inl (TypeError ''Chronik UTXO outIdx must be a non-negative safe integer'')
      else (case cu_sats u of
          JBigInt sats \<Rightarrow>
            if sats \<le> 0 then Inl (TypeError ''Chronik UTXO sats must be a positive bigint'')
            else if \<not> is_script_hex outputScript then
              Inl (TypeError ''Chronik UTXO outputScript must be non-empty lowercase hex'')
            else Inr \<lparr>utxo_txid = cu_txid u, utxo_outIdx = cu_outIdx u, utxo_sats = int_to_dec sats,
                      utxo_outputScript = outputScript, utxo_token = cu_token u\<rparr>
        | _ \<Rightarrow> Inl (TypeError ''Chronik UTXO sats must be a positive bigint'')))"

definition read_utxos :: "chronik_utxo_set \<Rightarrow> funding_utxo list result" where
  "read_utxos response = (case cs_utxos response of
     None \<Rightarrow> Inl (TypeError ''Chronik UTXO response must contain an array'')
   | Some utxos \<Rightarrow> ebind (filterE keeps_utxo utxos) (mapE (mapUtxo (cs_outputScript response))))"

definition chronik_getUtxos :: "chronik_utxo_provider \<Rightarrow> utxo_request \<Rightarrow> funding_utxo list result" where
  "chronik_getUtxos P request =
     (if ur_network request \<noteq> XEC_MAINNET then
        Inl (PlainError (''unsupported x402-XEC network: '' @ ur_network request))
      else if ur_payer request \<noteq> cp_address P then
        Inl (PlainError ''UtxoProvider payer must match the configured Chronik address'')
      else (case ebind (cp_client P (cp_address P)) read_utxos of
          Inr utxos \<Rightarrow> Inr utxos
        | Inl e \<Rightarrow> Inl (ChronikUtxoProviderError (cp_address P))))"

lemma keeps_utxo_Inr [err_simps]: "keeps_utxo u = Inr b \<longleftrightarrow> cu_isCoinbase u = JBool (\<not> b)"
  by (auto simp: keeps_utxo_def split: js_value.splits)

lemma filterE_Inr: "filterE keeps_utxo us = Inr vs \<longleftrightarrow>
    (\<forall>u \<in> set us. \<exists>b. cu_isCoinbase u = JBool b) \<and> vs = filter (\<lambda>u. cu_isCoinbase u = JBool False) us"
proof (induction us arbitrary: vs)
  case (Cons u us)
  show ?case
  proof (cases "keeps_utxo u")
    case (Inl e)
    then have "\<nexists>b. cu_isCoinbase u = JBool b" by (auto simp: keeps_utxo_def)
    with Inl show ?thesis by simp
  next
    case (Inr b)
    then have "cu_isCoinbase u = JBool (\<not> b)" by (simp add: keeps_utxo_Inr)
    with Inr Cons show ?thesis by (auto simp: ebind_Inr_iff)
  qed
qed auto

lemma mapUtxo_Inr:
  "mapUtxo script u = Inr f \<longleftrightarrow>
     (\<exists>n > 0. is_hash (cu_txid u) \<and> safe_nonneg (cu_outIdx u) \<noteq> None \<and> cu_sats u = JBigInt n \<and>
        is_script_hex script \<and>
        f = \<lparr>utxo_txid = cu_txid u, utxo_outIdx = cu_outIdx u, utxo_sats = int_to_dec n,
             utxo_outputScript = script, utxo_token = cu_token u\<rparr>)"
  by (cases "cu_sats u") (auto simp: mapUtxo_def)

text \<open>The outputs returned pass the transaction builder's checks, but for the token, which it checks.\<close>

lemma mapUtxo_valid: "mapUtxo script u = Inr f \<Longrightarrow> ok (validateUtxo f) \<longleftrightarrow> cu_token u = JUndef"
proof -
  assume "mapUtxo script u = Inr f"
  moreover have "is_positive_dec (int_to_dec n)" if "0 < n" for n
    using that by (simp add: int_to_dec_def nat_to_dec_positive)
  ultimately show ?thesis by (auto simp: mapUtxo_Inr ok_iff validateUtxo_Inr)
qed

lemma read_utxos_Inr:
  "read_utxos response = Inr fs \<longleftrightarrow>
     (\<exists>us. cs_utxos response = Some us \<and> (\<forall>u \<in> set us. \<exists>b. cu_isCoinbase u = JBool b) \<and>
        list_all2 (\<lambda>u f. mapUtxo (cs_outputScript response) u = Inr f)
          (filter (\<lambda>u. cu_isCoinbase u = JBool False) us) fs)"
  by (cases "cs_utxos response") (auto simp: read_utxos_def ebind_Inr_iff mapE_Inr_iff filterE_Inr)

lemma chronik_getUtxos_Inr:
  "chronik_getUtxos P request = Inr fs \<longleftrightarrow>
     ur_network request = XEC_MAINNET \<and> ur_payer request = cp_address P \<and>
     (\<exists>response. cp_client P (cp_address P) = Inr response \<and> read_utxos response = Inr fs)"
  by (cases "cp_client P (cp_address P)") (auto simp: chronik_getUtxos_def split: sum.splits)

subsection \<open>Broadcast\<close>

text \<open>What a client's promise is rejected with: an \<open>Error\<close> with its message and own properties (one of
  the two error classes of the file, or another), or any other value.\<close>

datatype thrown =
    RejectedError
  | NetworkError
  | OtherError string "(string \<times> js_value) list"
  | ThrownValue js_value

definition BroadcastDisabledError :: js_error where
  "BroadcastDisabledError = CodedError ''BROADCAST_DISABLED'' ''Transaction broadcast is disabled''"
definition BroadcastRejectedError :: js_error where
  "BroadcastRejectedError = CodedError ''BROADCAST_REJECTED'' ''Transaction broadcast was rejected''"
definition BroadcastNetworkError :: js_error where
  "BroadcastNetworkError =
     CodedError ''BROADCAST_NETWORK_ERROR'' ''Transaction broadcast failed because of a network error''"

definition disabled_broadcast :: "string \<Rightarrow> js_value result" where
  "disabled_broadcast rawTxHex = Inl BroadcastDisabledError"

text \<open>\<open>TestOnlyMockBroadcastProvider\<close>: its configured txid, and what it was given.\<close>

definition mock_broadcast :: "string \<Rightarrow> string list \<Rightarrow> string \<Rightarrow> js_value result \<times> string list" where
  "mock_broadcast txid broadcasts rawTxHex = (Inr (JObj [(''txid'', JStr txid)]), broadcasts @ [rawTxHex])"

text \<open>\<open>400 <= n && n < 500\<close>; a number between that is not an integer prints with a point after three digits.\<close>

definition in_4xx :: "js_number \<Rightarrow> bool" where
  "in_4xx n = (case n of
     NInt i \<Rightarrow> 400 \<le> i \<and> i < 500
   | NFloat s \<Rightarrow> (case s of a # b # c # d # r \<Rightarrow> a = CHR ''4'' \<and> is_digit b \<and> is_digit c \<and> d = CHR ''.'' | _ \<Rightarrow> False)
   | _ \<Rightarrow> False)"

definition is_num :: "js_value \<Rightarrow> bool" where
  "is_num v = (case v of JNum n \<Rightarrow> True | _ \<Rightarrow> False)"

definition readStatus :: "js_value \<Rightarrow> js_value" where
  "readStatus e =
     (if is_num (prop_of e ''status'') then prop_of e ''status''
      else let response = prop_of e ''response'' in
        if is_num (prop_of response ''status'') then prop_of response ''status'' else JUndef)"

definition status_rejects :: "js_value \<Rightarrow> bool" where
  "status_rejects e = (case readStatus e of JNum n \<Rightarrow> in_4xx n | _ \<Rightarrow> False)"

definition rejection_texts :: "string list" where
  "rejection_texts = [''failed getting /broadcast-tx:'', ''broadcast failed'', ''transaction rejected'',
     ''mempool reject'', ''token burn'']"

definition isChronikRejection :: "thrown \<Rightarrow> bool" where
  "isChronikRejection e = (case e of
     ThrownValue v \<Rightarrow> status_rejects v
   | OtherError message own \<Rightarrow>
       status_rejects (JInst own) \<or> list_ex (str_includes (toLowerCase message)) rejection_texts
   | _ \<Rightarrow> False)"

definition classify_broadcast :: "thrown \<Rightarrow> js_error" where
  "classify_broadcast e = (case e of
     RejectedError \<Rightarrow> BroadcastRejectedError
   | NetworkError \<Rightarrow> BroadcastNetworkError
   | _ \<Rightarrow> if isChronikRejection e then BroadcastRejectedError else BroadcastNetworkError)"

text \<open>\<open>client rawTx skipTokenChecks\<close> answers a call of the client.\<close>

type_synonym broadcast_client = "string \<Rightarrow> bool \<Rightarrow> thrown + js_value"

definition read_broadcast :: "js_value \<Rightarrow> thrown + js_value" where
  "read_broadcast response =
     (if response \<in> {JUndef, JNull} then
        Inl (OtherError ''Cannot read properties of undefined (reading txid)'' [])
      else (case str_field is_hash response ''txid'' of
          None \<Rightarrow> Inl (OtherError ''Chronik broadcast response txid must be 64 lowercase hex characters'' [])
        | Some txid \<Rightarrow> Inr (JObj [(''txid'', JStr txid), (''rawResponse'', response)])))"

definition chronik_broadcastTx :: "broadcast_client \<Rightarrow> string \<Rightarrow> js_value result" where
  "chronik_broadcastTx client rawTxHex =
     (case ebind (client rawTxHex False) read_broadcast of
        Inr r \<Rightarrow> Inr r
      | Inl e \<Rightarrow> Inl (classify_broadcast e))"

lemma read_broadcast_Inr:
  "read_broadcast v = Inr r \<longleftrightarrow>
     (\<exists>txid. prop_of v ''txid'' = JStr txid \<and> is_hash txid \<and>
        r = JObj [(''txid'', JStr txid), (''rawResponse'', v)])"
proof (cases "str_field is_hash v ''txid''")
  case None
  then have "\<nexists>t. prop_of v ''txid'' = JStr t \<and> is_hash t" using str_field_Some [of is_hash v "''txid''"] by auto
  with None show ?thesis by (auto simp: read_broadcast_def)
next
  case (Some t)
  then have t: "prop_of v ''txid'' = JStr t" "is_hash t" by (simp_all add: str_field_Some)
  then have "v \<noteq> JUndef" "v \<noteq> JNull" by (auto simp: prop_of_def)
  with Some t show ?thesis by (auto simp: read_broadcast_def)
qed

lemma chronik_broadcastTx_Inr:
  "chronik_broadcastTx client raw = Inr r \<longleftrightarrow>
     (\<exists>v txid. client raw False = Inr v \<and> prop_of v ''txid'' = JStr txid \<and> is_hash txid \<and>
        r = JObj [(''txid'', JStr txid), (''rawResponse'', v)])"
proof -
  have "chronik_broadcastTx client raw = Inr r \<longleftrightarrow> ebind (client raw False) read_broadcast = Inr r"
    by (simp add: chronik_broadcastTx_def split: sum.splits)
  then show ?thesis by (auto simp: ebind_Inr_iff read_broadcast_Inr)
qed

lemma read_broadcast_Inl: "read_broadcast v = Inl e \<Longrightarrow> classify_broadcast e = BroadcastNetworkError"
proof -
  have "\<not> list_ex (str_includes (toLowerCase ''Cannot read properties of undefined (reading txid)'')) rejection_texts"
    "\<not> list_ex (str_includes (toLowerCase ''Chronik broadcast response txid must be 64 lowercase hex characters'')) rejection_texts"
    by code_simp+
  then show "read_broadcast v = Inl e \<Longrightarrow> classify_broadcast e = BroadcastNetworkError"
    by (auto simp: read_broadcast_def classify_broadcast_def isChronikRejection_def status_rejects_def
        readStatus_def is_num_def prop_of_def Let_def split: if_splits option.splits)
qed

lemma chronik_broadcastTx_Inl:
  "chronik_broadcastTx client raw = Inl e \<longleftrightarrow>
     e = BroadcastRejectedError \<and>
       (client raw False = Inl RejectedError \<or> (\<exists>t. client raw False = Inl t \<and> isChronikRejection t)) \<or>
     e = BroadcastNetworkError \<and>
       (\<exists>t. client raw False = Inl t \<and> t \<noteq> RejectedError \<and> \<not> isChronikRejection t) \<or>
     e = BroadcastNetworkError \<and> (\<exists>v. client raw False = Inr v \<and> (\<nexists>txid. prop_of v ''txid'' = JStr txid \<and> is_hash txid))"
  (is "?l \<longleftrightarrow> ?r")
proof (cases "client raw False")
  case (Inl t)
  then show ?thesis
    by (cases t) (auto simp: chronik_broadcastTx_def classify_broadcast_def isChronikRejection_def
        BroadcastRejectedError_def BroadcastNetworkError_def)
next
  case (Inr v)
  show ?thesis
  proof (cases "read_broadcast v")
    case (Inl t)
    with Inr read_broadcast_Inl [OF Inl] read_broadcast_Inr [of v] show ?thesis
      by (auto simp: chronik_broadcastTx_def BroadcastRejectedError_def BroadcastNetworkError_def)
  next
    case (Inr r)
    then have "\<exists>txid. prop_of v ''txid'' = JStr txid \<and> is_hash txid" by (auto simp: read_broadcast_Inr)
    with \<open>client raw False = Inr v\<close> Inr show ?thesis by (auto simp: chronik_broadcastTx_def)
  qed
qed

end
