(* ===== verification/Json_Text.thy ===== *)
theory Json_Text
  imports Canonical
begin

text \<open>
  \<open>JSON.stringify\<close> and \<open>JSON.parse\<close>, as the packages use them on header values and HTTP bodies. The
  parser follows the grammar of ECMA-404 on texts whose code units are below 256, with escapes up to
  \<open>\u00ff\<close>; the value of a numeral that is not a safe integer is the parameter \<open>num\<close>. Of two fields with
  one key the last one counts. The lemmas show that the values the protocol sends (\<open>plain\<close>: JSON with
  safe integers) are read back from their texts, plain and canonical.
\<close>

subsection \<open>Printing\<close>

definition json_number_text :: "js_number \<Rightarrow> string" where
  "json_number_text n = (case n of NNaN \<Rightarrow> ''null'' | NInf _ \<Rightarrow> ''null'' | NNegZero \<Rightarrow> ''0''
     | NInt i \<Rightarrow> int_to_dec i | NFloat s \<Rightarrow> s)"

text \<open>\<open>undefined\<close> and functions print as nothing: they are left out of objects and are \<open>null\<close> in arrays.\<close>

fun stringify :: "js_value \<Rightarrow> string option result" where
  "stringify JUndef = Inr None"
| "stringify JFun = Inr None"
| "stringify JNull = Inr (Some ''null'')"
| "stringify (JBool b) = Inr (Some (if b then ''true'' else ''false''))"
| "stringify (JNum n) = Inr (Some (json_number_text n))"
| "stringify (JBigInt i) = Inl (TypeError ''Do not know how to serialize a BigInt'')"
| "stringify (JStr s) = Inr (Some (json_quote s))"
| "stringify (JArr xs) =
     ebind (mapE stringify xs) (\<lambda>ts. Inr (Some (''['' @
       join_with '','' (map (\<lambda>t. case t of None \<Rightarrow> ''null'' | Some c \<Rightarrow> c) ts) @ '']'')))"
| "stringify (JObj fs) =
     ebind (mapE (\<lambda>(k, v). ebind (stringify v) (\<lambda>t. Inr (map_option (\<lambda>c. json_quote k @ '':'' @ c) t))) fs)
       (\<lambda>ts. Inr (Some (''{'' @ join_with '','' (map the (filter (\<lambda>t. t \<noteq> None) ts)) @ ''}'')))"
| "stringify (JInst fs) =
     ebind (mapE (\<lambda>(k, v). ebind (stringify v) (\<lambda>t. Inr (map_option (\<lambda>c. json_quote k @ '':'' @ c) t))) fs)
       (\<lambda>ts. Inr (Some (''{'' @ join_with '','' (map the (filter (\<lambda>t. t \<noteq> None) ts)) @ ''}'')))"

subsection \<open>Parsing\<close>

definition skip_ws :: "string \<Rightarrow> string" where
  "skip_ws s = dropWhile (\<lambda>c. code c \<in> {9, 10, 13, 32}) s"

definition is_hex :: "char \<Rightarrow> bool" where
  "is_hex c \<longleftrightarrow> is_lower_hex c \<or> in_range 65 70 c"

definition hex_value :: "char \<Rightarrow> nat" where
  "hex_value c = (if is_digit c then code c - 48 else if is_lower_hex c then code c - 87 else code c - 55)"

definition simple_escape :: "char \<Rightarrow> char option" where
  "simple_escape e =
     (if e = CHR 0x22 \<or> e = CHR 0x5C \<or> e = CHR ''/'' then Some e
      else if e = CHR ''b'' then Some (char_of (8 :: nat)) else if e = CHR ''f'' then Some (char_of (12 :: nat))
      else if e = CHR ''n'' then Some (char_of (10 :: nat)) else if e = CHR ''r'' then Some (char_of (13 :: nat))
      else if e = CHR ''t'' then Some (char_of (9 :: nat)) else None)"

text \<open>The rest of a string after its opening quote.\<close>

fun json_string :: "string \<Rightarrow> (string \<times> string) option" where
  "json_string [] = None"
| "json_string (c # s) =
     (if c = CHR 0x22 then Some ([], s)
      else if code c < 32 then None
      else if c = CHR 0x5C then
        (case s of
           [] \<Rightarrow> None
         | e # r \<Rightarrow>
             if e = CHR ''u'' then
               (case r of
                  a # b # h # l # r' \<Rightarrow>
                    if a = CHR ''0'' \<and> b = CHR ''0'' \<and> is_hex h \<and> is_hex l then
                      map_option (\<lambda>(t, x). (char_of (16 * hex_value h + hex_value l) # t, x)) (json_string r')
                    else None
                | _ \<Rightarrow> None)
             else (case simple_escape e of
                 None \<Rightarrow> None
               | Some d \<Rightarrow> map_option (\<lambda>(t, x). (d # t, x)) (json_string r)))
      else map_option (\<lambda>(t, x). (c # t, x)) (json_string s))"

text \<open>A numeral: an integer without leading zeros, a fraction, an exponent.\<close>

definition digits_of :: "string \<Rightarrow> string \<times> string" where
  "digits_of s = (takeWhile is_digit s, dropWhile is_digit s)"

definition json_int_part :: "string \<Rightarrow> (string \<times> string) option" where
  "json_int_part s = (case s of
     [] \<Rightarrow> None
   | c # r \<Rightarrow> if c = CHR ''0'' then Some (''0'', r)
              else if is_digit c then Some (digits_of s) else None)"

definition json_frac_part :: "string \<Rightarrow> (string \<times> string) option" where
  "json_frac_part s = (case s of
     [] \<Rightarrow> Some ([], s)
   | c # r \<Rightarrow> if c \<noteq> CHR ''.'' then Some ([], s)
              else (case digits_of r of (ds, x) \<Rightarrow> if ds = [] then None else Some (c # ds, x)))"

definition json_exp_part :: "string \<Rightarrow> (string \<times> string) option" where
  "json_exp_part s = (case s of
     [] \<Rightarrow> Some ([], s)
   | c # r \<Rightarrow> if c \<noteq> CHR ''e'' \<and> c \<noteq> CHR ''E'' then Some ([], s)
              else (let (sign, r') = (case r of d # q \<Rightarrow> if d = CHR ''+'' \<or> d = CHR ''-'' then ([d], q) else ([], r)
                                              | [] \<Rightarrow> ([], r)) in
                    (case digits_of r' of (ds, x) \<Rightarrow> if ds = [] then None else Some (c # sign @ ds, x))))"

definition json_numeral :: "string \<Rightarrow> (string \<times> string) option" where
  "json_numeral s =
     (let (sign, s1) = (if startsWith s ''-'' then (''-'', drop 1 s) else ([], s)) in
      case json_int_part s1 of None \<Rightarrow> None | Some (i, s2) \<Rightarrow>
      (case json_frac_part s2 of None \<Rightarrow> None | Some (f, s3) \<Rightarrow>
      (case json_exp_part s3 of None \<Rightarrow> None | Some (e, s4) \<Rightarrow> Some (sign @ i @ f @ e, s4))))"

definition numeral_value :: "(string \<Rightarrow> js_number) \<Rightarrow> string \<Rightarrow> js_number" where
  "numeral_value num t =
     (if t = ''-0'' then NNegZero else if is_safe_dec t then NInt (BigInt_of t) else num t)"

definition json_literal :: "string \<Rightarrow> (js_value \<times> string) option" where
  "json_literal s =
     (if startsWith s ''null'' then Some (JNull, drop 4 s) else if startsWith s ''true'' then Some (JBool True, drop 4 s)
      else if startsWith s ''false'' then Some (JBool False, drop 5 s) else None)"

lemma skip_ws_le: "length (skip_ws s) \<le> length s"
  by (simp add: skip_ws_def length_dropWhile_le)

lemma skip_ws_length: "skip_ws s = c # r \<Longrightarrow> length r < length s"
  using skip_ws_le [of s] by simp

text \<open>The comparisons of lengths only make the termination evident: what is left of a text after a value
  is shorter (\<open>json_shorter\<close>), so they never fail.\<close>

function (sequential) json_value :: "(string \<Rightarrow> js_number) \<Rightarrow> string \<Rightarrow> (js_value \<times> string) option"
  and json_elems :: "(string \<Rightarrow> js_number) \<Rightarrow> string \<Rightarrow> (js_value list \<times> string) option"
  and json_members :: "(string \<Rightarrow> js_number) \<Rightarrow> string \<Rightarrow> ((string \<times> js_value) list \<times> string) option" where
  "json_value num s = (case skip_ws s of
     [] \<Rightarrow> None
   | c # r \<Rightarrow>
       if c = CHR ''{'' then
         (case skip_ws r of
            [] \<Rightarrow> None
          | d # y \<Rightarrow> if d = CHR ''}'' then Some (JObj [], y)
                     else map_option (\<lambda>(fs, x). (JObj (foldl (\<lambda>m (k, v). jset m k v) [] fs), x)) (json_members num r))
       else if c = CHR ''['' then
         (case skip_ws r of
            [] \<Rightarrow> None
          | d # y \<Rightarrow> if d = CHR '']'' then Some (JArr [], y)
                     else map_option (\<lambda>(vs, x). (JArr vs, x)) (json_elems num r))
       else if c = CHR 0x22 then map_option (\<lambda>(t, x). (JStr t, x)) (json_string r)
       else (case json_literal (c # r) of
           Some vx \<Rightarrow> Some vx
         | None \<Rightarrow> map_option (\<lambda>(t, x). (JNum (numeral_value num t), x)) (json_numeral (c # r))))"
| "json_elems num s = (case json_value num s of
     None \<Rightarrow> None
   | Some (v, x) \<Rightarrow>
       (case skip_ws x of
          [] \<Rightarrow> None
        | d # y \<Rightarrow> if d = CHR '']'' then Some ([v], y)
                   else if d = CHR '','' \<and> length y < length s then map_option (\<lambda>(vs, z). (v # vs, z)) (json_elems num y)
                   else None))"
| "json_members num s = (case skip_ws s of
     [] \<Rightarrow> None
   | q # t \<Rightarrow> if q \<noteq> CHR 0x22 then None else
       (case json_string t of
          None \<Rightarrow> None
        | Some (k, u) \<Rightarrow>
            (case skip_ws u of
               [] \<Rightarrow> None
             | e # w \<Rightarrow> if e \<noteq> CHR '':'' \<or> length s \<le> length w then None else
                 (case json_value num w of
                    None \<Rightarrow> None
                  | Some (v, x) \<Rightarrow>
                      (case skip_ws x of
                         [] \<Rightarrow> None
                       | d # y \<Rightarrow> if d = CHR ''}'' then Some ([(k, v)], y)
                                  else if d = CHR '','' \<and> length y < length s then
                                    map_option (\<lambda>(fs, z). ((k, v) # fs, z)) (json_members num y)
                                  else None)))))"
  by pat_completeness auto
termination
  by (relation "measure (case_sum (\<lambda>(num, s). 2 * length s) (case_sum (\<lambda>(num, s). 2 * length s + 1)
      (\<lambda>(num, s). 2 * length s + 1)))")
    (auto dest: skip_ws_length)

declare json_value.simps [simp del] json_elems.simps [simp del] json_members.simps [simp del]

text \<open>\<open>JSON.parse\<close>: one value, and white space around it.\<close>

definition JSON_parse :: "(string \<Rightarrow> js_number) \<Rightarrow> string \<Rightarrow> js_value result" where
  "JSON_parse num s = (case json_value num s of
     Some (v, r) \<Rightarrow> if skip_ws r = [] then Inr v else Inl (PlainError ''Unexpected token in JSON'')
   | None \<Rightarrow> Inl (PlainError ''Unexpected token in JSON''))"

subsection \<open>What is left is shorter\<close>

lemma json_string_shorter: "json_string s = Some (t, x) \<Longrightarrow> length x < length s"
proof (induction s arbitrary: t x rule: json_string.induct)
  case (2 c s)
  show ?case
  proof (cases "c = CHR 0x22 \<or> code c < 32 \<or> c \<noteq> CHR 0x5C")
    case True
    with 2 show ?thesis by (fastforce split: if_splits)
  next
    case False
    with 2(4) obtain e r where s: "s = e # r" by (auto split: list.splits)
    show ?thesis
    proof (cases "e = CHR ''u''")
      case True
      with 2(4) False s obtain a b h l r' where r: "r = a # b # h # l # r'"
        by (auto split: list.splits if_splits)
      with 2(4) True False s obtain u where "json_string r' = Some (u, x)" "a = CHR ''0''" "b = CHR ''0''" "is_hex h" "is_hex l"
        by (auto split: if_splits)
      with 2(1) False s r True have "length x < length r'" by auto
      with s r show ?thesis by simp
    next
      case u: False
      with 2(4) False s obtain d v where "simple_escape e = Some d" "json_string r = Some (v, x)"
        by (auto split: option.splits if_splits)
      with 2(2) False s u have "length x < length r" by auto
      with s show ?thesis by simp
    qed
  qed
qed simp

lemma json_parts_shorter:
  "json_int_part s = Some (t, x) \<Longrightarrow> length x < length s"
  "json_frac_part s = Some (t, x) \<Longrightarrow> length x \<le> length s"
  "json_exp_part s = Some (t, x) \<Longrightarrow> length x \<le> length s"
proof -
  have dw: "length (dropWhile P r) \<le> n" if "length r \<le> n" for P :: "char \<Rightarrow> bool" and r n
    using length_dropWhile_le [of P r] that by simp
  show "json_int_part s = Some (t, x) \<Longrightarrow> length x < length s"
    by (auto simp: json_int_part_def digits_of_def less_Suc_eq_le intro: dw split: list.splits if_splits)
  show "json_frac_part s = Some (t, x) \<Longrightarrow> length x \<le> length s"
    by (auto simp: json_frac_part_def digits_of_def intro: dw split: list.splits if_splits)
  show "json_exp_part s = Some (t, x) \<Longrightarrow> length x \<le> length s"
    by (auto simp: json_exp_part_def digits_of_def intro: dw split: list.splits if_splits)
qed

lemma json_numeral_shorter: "json_numeral s = Some (t, x) \<Longrightarrow> length x < length s"
  by (auto simp: json_numeral_def split: option.splits if_splits dest!: json_parts_shorter) arith

lemma json_literal_shorter: "json_literal s = Some (v, x) \<Longrightarrow> length x < length s"
  by (auto simp: json_literal_def startsWith_iff split: if_splits)

lemma json_shorter:
  "json_value num s = Some (v, x) \<Longrightarrow> length x < length s"
  "json_elems num s = Some (vs, x) \<Longrightarrow> length x < length s"
  "json_members num s = Some (fs, x) \<Longrightarrow> length x < length s"
proof (induction num s and num s and num s arbitrary: v x and vs x and fs x
    rule: json_value_json_elems_json_members.induct)
  case (1 num s)
  then obtain c r where s: "skip_ws s = c # r" by (cases "skip_ws s") (simp_all add: json_value.simps)
  note le = skip_ws_length [OF s]
  show ?case
    using 1 s le
    by (auto simp: json_value.simps [of num s] split: list.splits if_splits option.splits
        dest!: json_string_shorter json_numeral_shorter json_literal_shorter skip_ws_length)
      (blast intro: less_trans)+
next
  case (2 num s)
  show ?case
    using 2 by (force simp: json_elems.simps [of num s] split: list.splits if_splits option.splits prod.splits
        dest: skip_ws_length)
next
  case (3 num s)
  show ?case
    using 3 by (force simp: json_members.simps [of num s] split: list.splits if_splits option.splits prod.splits
        dest: skip_ws_length)
qed

subsection \<open>Reading back what was printed\<close>

fun plain :: "js_value \<Rightarrow> bool" where
  "plain JNull \<longleftrightarrow> True"
| "plain (JBool b) \<longleftrightarrow> True"
| "plain (JStr s) \<longleftrightarrow> True"
| "plain (JNum (NInt i)) \<longleftrightarrow> \<bar>i\<bar> \<le> max_safe_integer"
| "plain (JArr xs) \<longleftrightarrow> list_all plain xs"
| "plain (JObj fs) \<longleftrightarrow> distinct (map fst fs) \<and> list_all (\<lambda>(k, v). plain v) fs"
| "plain _ \<longleftrightarrow> False"

text \<open>The text of a plain value.\<close>

fun json_text :: "js_value \<Rightarrow> string" where
  "json_text (JBool b) = (if b then ''true'' else ''false'')"
| "json_text (JStr s) = json_quote s"
| "json_text (JNum n) = json_number_text n"
| "json_text (JArr xs) = ''['' @ join_with '','' (map json_text xs) @ '']''"
| "json_text (JObj fs) = ''{'' @ join_with '','' (map (\<lambda>(k, v). json_quote k @ '':'' @ json_text v) fs) @ ''}''"
| "json_text _ = ''null''"

lemma mapE_Some_map: "(\<And>x. x \<in> set xs \<Longrightarrow> f x = Inr (g x)) \<Longrightarrow> mapE f xs = Inr (map g xs)"
  by (induction xs) simp_all

lemma stringify_plain: "plain v \<Longrightarrow> stringify v = Inr (Some (json_text v))"
proof (induction v rule: plain.induct)
  case (5 xs)
  then have "mapE stringify xs = Inr (map (\<lambda>x. Some (json_text x)) xs)"
    by (intro mapE_Some_map) (auto simp: list_all_iff)
  then show ?case by (simp add: comp_def)
next
  case (6 fs)
  then have "mapE (\<lambda>(k, v). ebind (stringify v) (\<lambda>t. Inr (map_option (\<lambda>c. json_quote k @ '':'' @ c) t))) fs =
      Inr (map (\<lambda>(k, v). Some (json_quote k @ '':'' @ json_text v)) fs)"
    by (intro mapE_Some_map) (fastforce simp: list_all_iff)
  then show ?case by (simp add: filter_map comp_def split_def)
qed simp_all

lemma skip_ws_id: "s = c # r \<Longrightarrow> 32 < code c \<Longrightarrow> skip_ws s = s"
  by (auto simp: skip_ws_def)

lemma json_string_esc: "json_string (esc_char c @ y) = map_option (\<lambda>(t, x). (c # t, x)) (json_string y)"
proof -
  have hex: "is_hex (hex_digit d)" "hex_value (hex_digit d) = d" if "d < 16" for d
    using that by (auto simp: is_hex_def hex_value_def hex_digit_def char_class_defs)
  consider "code c = 34 \<or> code c = 92" | "code c \<in> {8, 9, 10, 12, 13}"
    | "code c < 32" "code c \<notin> {8, 9, 10, 12, 13}"
    | "code c \<ge> 32" "code c \<noteq> 34" "code c \<noteq> 92"
    by fastforce
  then show ?thesis
  proof cases
    case 1
    then have "c = CHR 0x22 \<or> c = CHR 0x5C"
      using char_eq_code [of c 34] char_eq_code [of c 92] by (auto simp: char_of_34_92)
    then show ?thesis by (auto simp: esc_char_def simple_escape_def)
  next
    case 2
    then show ?thesis by (auto simp: esc_char_def simple_escape_def dest!: char_eq_code)
  next
    case 3
    then have "16 * (code c div 16) + code c mod 16 = code c" by simp
    moreover from 3 have "code c div 16 < 16" "code c mod 16 < 16" by simp_all
    ultimately show ?thesis using 3 hex by (simp add: esc_char_def Let_def)
  next
    case 4
    then have "c \<noteq> CHR 0x22" "c \<noteq> CHR 0x5C" by auto
    with 4 show ?thesis by (simp add: esc_char_def Let_def)
  qed
qed

lemma json_string_quote: "json_string (concat (map esc_char s) @ CHR 0x22 # x) = Some (s, x)"
  by (induction s) (simp_all add: json_string_esc)

lemma digits_delim:
  assumes "list_all is_digit ds" "delim x"
  shows "digits_of (ds @ x) = (ds, x)"
proof -
  have "takeWhile is_digit x = []" "dropWhile is_digit x = x"
    using assms(2) by (cases x; auto simp: delim_def char_class_defs)+
  with assms(1) show ?thesis
    by (auto simp: digits_of_def list_all_iff takeWhile_append dropWhile_append)
qed

lemma no_frac: "delim x \<Longrightarrow> json_frac_part x = Some ([], x)"
  by (auto simp: json_frac_part_def delim_def split: list.splits)

lemma no_exp: "delim x \<Longrightarrow> json_exp_part x = Some ([], x)"
  by (auto simp: json_exp_part_def delim_def split: list.splits)

lemma json_int_part_nat: "delim x \<Longrightarrow> json_int_part (nat_to_dec n @ x) = Some (nat_to_dec n, x)"
proof (cases "n = 0")
  case True
  then show ?thesis by (simp add: json_int_part_def nat_to_dec.simps)
next
  case False
  assume x: "delim x"
  from False have pos: "in_range 49 57 (hd (nat_to_dec n))" by (intro hd_nat_to_dec) simp
  then obtain c cs where d: "nat_to_dec n = c # cs" "in_range 49 57 c" by (cases "nat_to_dec n") simp_all
  have "digits_of (nat_to_dec n @ x) = (nat_to_dec n, x)" by (rule digits_delim [OF nat_to_dec_digits x])
  moreover have "c \<noteq> CHR ''0''" "is_digit c" using d(2) by (auto simp: char_class_defs)
  ultimately show ?thesis by (simp add: json_int_part_def d(1))
qed

lemma json_numeral_int:
  assumes "delim x"
  shows "json_numeral (int_to_dec i @ x) = Some (int_to_dec i, x)"
proof -
  have "\<not> startsWith (nat_to_dec n @ x) ''-''" for n
    using nat_to_dec_hd_digit [of n] by (cases "nat_to_dec n") (simp_all add: startsWith_def)
  then show ?thesis using assms
    by (auto simp: json_numeral_def int_to_dec_def json_int_part_nat no_frac no_exp startsWith_def Let_def)
qed

lemma numeral_value_int: "\<bar>i\<bar> \<le> max_safe_integer \<Longrightarrow> numeral_value num (int_to_dec i) = NInt i"
proof -
  assume i: "\<bar>i\<bar> \<le> max_safe_integer"
  have "int_to_dec i \<noteq> ''-0''"
  proof
    assume eq: "int_to_dec i = ''-0''"
    then have "i = BigInt_of ''-0''" by (metis BigInt_of_to_dec)
    also have "\<dots> = 0" by code_simp
    finally have "int_to_dec i = ''0''" by (simp add: int_to_dec_def nat_to_dec.simps)
    with eq show False by simp
  qed
  with int_to_dec_safe [OF i] show ?thesis by (simp add: numeral_value_def)
qed

lemma int_to_dec_first:
  obtains c r where "int_to_dec i = c # r" "is_digit c \<or> c = CHR ''-''"
proof (cases "int_to_dec i")
  case Nil
  then show thesis by simp
next
  case (Cons c r)
  have "is_digit c \<or> c = CHR ''-''"
  proof (cases "i < 0")
    case True
    with Cons show ?thesis by (simp add: int_to_dec_def)
  next
    case False
    with Cons nat_to_dec_digits [of "nat i"] show ?thesis by (simp add: int_to_dec_def)
  qed
  with Cons that show thesis by blast
qed

text \<open>How the text of a value begins.\<close>

lemma json_text_first:
  assumes "plain v"
  obtains c r where "json_text v = c # r" "32 < code c" "c \<noteq> CHR '']''" "c \<noteq> CHR ''}''"
proof (cases v rule: plain.cases)
  case (2 b)
  with that show thesis by (cases b) simp_all
next
  case (4 i)
  obtain c r where "int_to_dec i = c # r" "is_digit c \<or> c = CHR ''-''" by (rule int_to_dec_first)
  moreover from this(2) have "32 < code c" "c \<noteq> CHR '']''" "c \<noteq> CHR ''}''" by (auto simp: char_class_defs)
  ultimately show thesis using 4 that by (simp add: json_number_text_def)
qed (use assms that in \<open>auto simp: json_quote_def\<close>)

lemma json_value_number:
  assumes "\<bar>i\<bar> \<le> max_safe_integer" "delim x"
  shows "json_value num (int_to_dec i @ x) = Some (JNum (NInt i), x)"
proof -
  obtain c r where c: "int_to_dec i = c # r" "is_digit c \<or> c = CHR ''-''" by (rule int_to_dec_first)
  then have "skip_ws (int_to_dec i @ x) = int_to_dec i @ x"
    by (intro skip_ws_id [of _ c "r @ x"]) (auto simp: char_class_defs)
  moreover have "json_literal (c # r @ x) = None" "c \<notin> {CHR ''{'', CHR ''['', CHR 0x22}"
    using c(2) by (auto simp: json_literal_def startsWith_def char_class_defs)
  ultimately show ?thesis
    using json_numeral_int [OF assms(2), of i] numeral_value_int [OF assms(1)] c(1)
    by (simp add: json_value.simps)
qed

lemma json_elems_texts:
  assumes "\<And>v x. v \<in> set (u # vs) \<Longrightarrow> delim x \<Longrightarrow> json_value num (json_text v @ x) = Some (v, x)"
  shows "json_elems num (join_with '','' (map json_text (u # vs)) @ '']'' @ x) = Some (u # vs, x)"
  using assms
proof (induction vs arbitrary: u)
  case Nil
  then show ?case by (simp add: json_elems.simps skip_ws_id)
next
  case (Cons w ws)
  let ?rest = "join_with '','' (map json_text (w # ws)) @ '']'' @ x"
  have "json_value num (json_text u @ '','' @ ?rest) = Some (u, '','' @ ?rest)" using Cons.prems by simp
  moreover have "json_elems num ?rest = Some (w # ws, x)" by (rule Cons.IH) (use Cons.prems in auto)
  moreover have "skip_ws ('','' @ ?rest) = '','' @ ?rest" by (simp add: skip_ws_def)
  ultimately show ?case by (simp add: json_elems.simps [of num "json_text u @ _"])
qed

definition field_text :: "string \<times> js_value \<Rightarrow> string" where
  "field_text = (\<lambda>(k, v). json_quote k @ '':'' @ json_text v)"

lemma json_member_text:
  assumes "json_value num (json_text v @ y) = Some (v, y)"
  shows "json_members num (field_text (k, v) @ y) = (case skip_ws y of
      [] \<Rightarrow> None
    | d # z \<Rightarrow> if d = CHR ''}'' then Some ([(k, v)], z)
               else if d = CHR '','' then map_option (\<lambda>(fs, z'). ((k, v) # fs, z')) (json_members num z) else None)"
proof -
  let ?t = "concat (map esc_char k) @ CHR 0x22 # (CHR '':'' # json_text v @ y)"
  have s: "field_text (k, v) @ y = CHR 0x22 # ?t" by (simp add: field_text_def json_quote_def)
  have "skip_ws (CHR 0x22 # ?t) = CHR 0x22 # ?t" "skip_ws (CHR '':'' # json_text v @ y) = CHR '':'' # json_text v @ y"
    by (simp_all add: skip_ws_def)
  moreover have "length z < length (CHR 0x22 # ?t)" if "skip_ws y = d # z" for d z
    using skip_ws_length [OF that] by simp
  ultimately show ?thesis
    unfolding s json_members.simps [of num "CHR 0x22 # ?t"]
    by (simp add: json_string_quote assms split: list.splits)
qed

lemma json_members_texts:
  assumes "\<And>k v x. (k, v) \<in> set (kv # fs) \<Longrightarrow> delim x \<Longrightarrow> json_value num (json_text v @ x) = Some (v, x)"
  shows "json_members num (join_with '','' (map field_text (kv # fs)) @ ''}'' @ x) = Some (kv # fs, x)"
  using assms
proof (induction fs arbitrary: kv)
  case Nil
  obtain k v where kv: "kv = (k, v)" by (cases kv)
  have "json_value num (json_text v @ ''}'' @ x) = Some (v, ''}'' @ x)" using Nil kv by simp
  from json_member_text [OF this, of k] show ?case by (simp add: kv skip_ws_def)
next
  case (Cons w ws)
  obtain k v where kv: "kv = (k, v)" by (cases kv)
  let ?rest = "join_with '','' (map field_text (w # ws)) @ ''}'' @ x"
  have v: "json_value num (json_text v @ '','' @ ?rest) = Some (v, '','' @ ?rest)"
    by (rule Cons.prems [of k]) (simp_all add: kv)
  have "json_members num ?rest = Some (w # ws, x)" by (rule Cons.IH) (use Cons.prems in auto)
  with json_member_text [OF v, of k] show ?case by (simp add: kv skip_ws_def)
qed

lemma foldl_jset_distinct:
  assumes "distinct (map fst (ms @ fs))"
  shows "foldl (\<lambda>m (k, v). jset m k v) ms fs = ms @ fs"
  using assms
proof (induction fs arbitrary: ms)
  case (Cons kv fs)
  obtain k v where kv: "kv = (k, v)" by (cases kv)
  have "k \<notin> fst ` set ms" using Cons.prems kv by auto
  then have "jset ms k v = ms @ [(k, v)]" by (induction ms) (auto simp: jset_def)
  with Cons kv show ?case by simp
qed simp

text \<open>A plain value is read back from the front of any text in which it ends.\<close>

lemma json_value_text: "plain v \<Longrightarrow> delim x \<Longrightarrow> json_value num (json_text v @ x) = Some (v, x)"
proof (induction v arbitrary: x rule: plain.induct)
  case (3 s)
  then show ?case by (simp add: json_value.simps json_quote_def skip_ws_def json_string_quote)
next
  case (4 i)
  then show ?case by (simp add: json_number_text_def json_value_number)
next
  case (5 xs)
  show ?case
  proof (cases xs)
    case Nil
    then show ?thesis by (simp add: json_value.simps skip_ws_def)
  next
    case (Cons u vs)
    let ?body = "join_with '','' (map json_text xs) @ '']'' @ x"
    have "json_elems num ?body = Some (xs, x)"
      unfolding Cons by (rule json_elems_texts) (use 5 Cons in \<open>auto simp: list_all_iff\<close>)
    moreover obtain c r where "json_text u = c # r" "32 < code c" "c \<noteq> CHR '']''"
      using 5(2) Cons by (auto elim: json_text_first)
    then obtain r' where "?body = c # r'" "32 < code c" "c \<noteq> CHR '']''" using Cons by (cases vs) simp_all
    moreover from this have "skip_ws ?body = c # r'" by (metis skip_ws_id)
    ultimately show ?thesis by (simp add: json_value.simps [of num "CHR ''['' # _"] skip_ws_def)
  qed
next
  case (6 fs)
  show ?case
  proof (cases fs)
    case Nil
    then show ?thesis by (simp add: json_value.simps skip_ws_def)
  next
    case (Cons kv ks)
    let ?body = "join_with '','' (map field_text fs) @ ''}'' @ x"
    have "json_members num ?body = Some (fs, x)"
      unfolding Cons by (rule json_members_texts) (use 6 Cons in \<open>fastforce simp: list_all_iff\<close>)
    moreover obtain r' where body: "?body = CHR 0x22 # r'"
      using Cons by (cases ks; cases kv) (simp_all add: field_text_def json_quote_def)
    moreover have "skip_ws ?body = CHR 0x22 # r'" using body by (simp add: skip_ws_def)
    moreover have "foldl (\<lambda>m (k, v). jset m k v) [] fs = fs" using foldl_jset_distinct [of "[]" fs] 6(2) by simp
    moreover have "json_text (JObj fs) @ x = CHR ''{'' # ?body" by (simp add: field_text_def)
    moreover have "skip_ws (CHR ''{'' # ?body) = CHR ''{'' # ?body" by (simp add: skip_ws_def)
    ultimately show ?thesis by (simp add: json_value.simps [of num "CHR ''{'' # _"])
  qed
qed (simp_all add: json_value.simps skip_ws_def json_literal_def startsWith_def)

lemma JSON_parse_text: "plain v \<Longrightarrow> JSON_parse num (json_text v) = Inr v"
  using json_value_text [of v "[]" num] by (simp add: JSON_parse_def skip_ws_def)

text \<open>The canonical text of a plain value is the text of its normal form.\<close>

lemma plain_sort: "plain (JObj fs) \<Longrightarrow> plain (JObj (sort_key fst fs))"
  by (auto simp: list_all_iff distinct_map)

lemma canonicalize_plain: "plain v \<Longrightarrow> canonicalize v = Inr (json_text (normal v)) \<and> plain (normal v)"
proof (induction v rule: plain.induct)
  case (4 i)
  then show ?case by (simp add: canonical_number_def json_number_text_def)
next
  case (5 xs)
  then have "mapE canonicalize xs = Inr (map (\<lambda>x. json_text (normal x)) xs)"
    by (intro mapE_Some_map) (auto simp: list_all_iff)
  with 5 show ?case by (auto simp: comp_def list_all_iff)
next
  case (6 fs)
  let ?f = "\<lambda>(k, v). ebind (canonicalize v) (\<lambda>c. Inr (json_quote k @ '':'' @ c))"
  have "mapE ?f (sort_key fst fs) = Inr (map (\<lambda>(k, v). json_quote k @ '':'' @ json_text (normal v)) (sort_key fst fs))"
    using 6 by (intro mapE_Some_map) (fastforce simp: list_all_iff)
  moreover have "map fst (map (\<lambda>(k, v). (k, normal v)) (sort_key fst fs)) = map fst (sort_key fst fs)"
    by (simp add: comp_def split_def)
  moreover have "distinct (map fst (sort_key fst fs))" using 6(2) by (simp add: distinct_map)
  moreover have "list_all (\<lambda>(k, v). plain v) (map (\<lambda>(k, v). (k, normal v)) (sort_key fst fs))"
    using 6 by (fastforce simp: list_all_iff)
  ultimately show ?case by (simp add: comp_def split_def)
qed simp_all

subsection \<open>Reading UTF-8\<close>

text \<open>\<open>buffer.toString("utf8")\<close> where it is exact: \<open>None\<close> on bytes that are not UTF-8, which \<open>toString\<close>
  replaces, and on characters beyond the code units of the model.\<close>

fun utf8_decode :: "string \<Rightarrow> string option" where
  "utf8_decode [] = Some []"
| "utf8_decode (c # s) =
     (if code c < 128 then map_option ((#) c) (utf8_decode s)
      else (case s of
          [] \<Rightarrow> None
        | d # r \<Rightarrow>
            if code c \<in> {194, 195} \<and> 128 \<le> code d \<and> code d < 192 then
              map_option ((#) (char_of ((code c - 192) * 64 + (code d - 128)))) (utf8_decode r)
            else None))"

lemma utf8_decode_encode [simp]: "utf8_decode (utf8_encode s) = Some s"
proof (induction s)
  case (Cons c s)
  show ?case
  proof (cases "code c < 128")
    case True
    with Cons show ?thesis by (simp add: utf8_encode_def)
  next
    case False
    have lt: "code c < 256" by (rule code_less_256)
    then have "code c div 64 < 4" by (simp add: less_mult_imp_div_less)
    moreover from False have "2 \<le> code c div 64" by (simp add: div_le_mono [of 128 "code c" 64, simplified])
    ultimately have "code c div 64 \<in> {2, 3}" by auto
    moreover have "128 + code c mod 64 = code c" if "code c div 64 = 2"
      using div_mult_mod_eq [of "code c" 64] unfolding that by simp
    moreover have "192 + code c mod 64 = code c" if "code c div 64 = 3"
      using div_mult_mod_eq [of "code c" 64] unfolding that by simp
    ultimately show ?thesis using Cons False
      by (auto simp: utf8_encode_def utf8_char_def Let_def)
  qed
qed (simp add: utf8_encode_def)

lemma utf8_encode_decode: "utf8_decode b = Some s \<Longrightarrow> utf8_encode s = b"
proof (induction b arbitrary: s rule: utf8_decode.induct)
  case 1
  then show ?case by (simp add: utf8_encode_def)
next
  case (2 c b)
  show ?case
  proof (cases "code c < 128")
    case True
    with 2 obtain t where "utf8_decode b = Some t" "s = c # t" by auto
    with 2(1) True show ?thesis by (simp add: utf8_encode_def)
  next
    case False
    with 2(3) obtain d r t where b: "b = d # r" and cd: "code c = 194 \<or> code c = 195" "128 \<le> code d" "code d < 192"
      and t: "utf8_decode r = Some t" "s = char_of ((code c - 192) * 64 + (code d - 128)) # t"
      by (auto split: list.splits if_splits)
    have mod: "m mod 64 = m - 128" and div_eq: "m div 64 = 2" if "128 \<le> m" "m < 192" for m :: nat
      using that by (simp_all add: le_mod_geq le_div_geq)
    let ?n = "(code c - 192) * 64 + (code d - 128)"
    have n: "128 \<le> ?n" "?n < 256" "?n div 64 = code c - 192" "?n mod 64 = code d - 128"
      using cd mod by (auto simp: div_eq)
    have "utf8_encode t = r" using 2(2) [OF False b] cd t(1) by auto
    moreover have "192 + (code c - 192) = code c" "128 + (code d - 128) = code d" using cd by auto
    ultimately show ?thesis using n t(2) b by (simp add: utf8_encode_def utf8_char_def Let_def)
  qed
qed

end
