(* ===== verification/Base64.thy ===== *)
theory Base64
  imports Json_Text
begin

text \<open>
  \<open>Buffer.from(s, "base64")\<close>, \<open>Buffer.from(s, "base64url")\<close> and the two encodings of a buffer, which
  the packages use for header values. A byte is a character of the model. The decoder is Node's: it
  takes both alphabets, skips other characters, stops at \<open>=\<close> and drops bits that do not fill a byte.
  The lemmas show that it inverts the encoders and which texts are canonical.
\<close>

subsection \<open>Sextets\<close>

definition sextet_char :: "bool \<Rightarrow> nat \<Rightarrow> char" where
  "sextet_char url v =
     (if v < 26 then char_of (65 + v) else if v < 52 then char_of (71 + v) else if v < 62 then char_of (v - 4)
      else if v = 62 then (if url then CHR ''-'' else CHR ''+'') else (if url then CHR ''_'' else CHR ''/''))"

definition sextet_of :: "char \<Rightarrow> nat option" where
  "sextet_of c =
     (if is_upper c then Some (code c - 65) else if is_lower c then Some (code c - 71)
      else if is_digit c then Some (code c + 4)
      else if c = CHR ''-'' \<or> c = CHR ''+'' then Some 62 else if c = CHR ''_'' \<or> c = CHR ''/'' then Some 63 else None)"

lemma sextet_of_char [simp]: "v < 64 \<Longrightarrow> sextet_of (sextet_char url v) = Some v"
proof -
  assume v: "v < 64"
  then consider "v < 26" | "26 \<le> v" "v < 52" | "52 \<le> v" "v < 62" | "v = 62" | "v = 63" by linarith
  then show ?thesis by cases (auto simp: sextet_of_def sextet_char_def char_class_defs)
qed

lemma sextet_range: "sextet_of c = Some v \<Longrightarrow> v < 64"
  by (auto simp: sextet_of_def char_class_defs split: if_splits)

lemma sextet_char_url: "v < 64 \<Longrightarrow> is_base64url (sextet_char True v)"
proof -
  assume v: "v < 64"
  then consider "v < 26" | "26 \<le> v" "v < 52" | "52 \<le> v" "v < 62" | "v = 62" | "v = 63" by linarith
  then show ?thesis by cases (auto simp: sextet_char_def char_class_defs)
qed

subsection \<open>Encoding and decoding\<close>

fun sextets :: "nat list \<Rightarrow> nat list" where
  "sextets (a # b # c # r) =
     [a div 4, a mod 4 * 16 + b div 16, b mod 16 * 4 + c div 64, c mod 64] @ sextets r"
| "sextets [a, b] = [a div 4, a mod 4 * 16 + b div 16, b mod 16 * 4]"
| "sextets [a] = [a div 4, a mod 4 * 16]"
| "sextets [] = []"

fun octets :: "nat list \<Rightarrow> nat list" where
  "octets (p # q # r # s # t) =
     [p * 4 + q div 16, q mod 16 * 16 + r div 4, r mod 4 * 64 + s] @ octets t"
| "octets [p, q, r] = [p * 4 + q div 16, q mod 16 * 16 + r div 4]"
| "octets [p, q] = [p * 4 + q div 16]"
| "octets _ = []"

text \<open>Without padding for base64url, with it for base64.\<close>

definition base64url :: "string \<Rightarrow> string" where
  "base64url bytes = map (sextet_char True) (sextets (map code bytes))"

definition base64 :: "string \<Rightarrow> string" where
  "base64 bytes = (let s = map (sextet_char False) (sextets (map code bytes)) in
     s @ replicate ((4 - length s mod 4) mod 4) CHR ''='')"

definition from_base64 :: "string \<Rightarrow> string" where
  "from_base64 s = map char_of (octets (List.map_filter sextet_of (takeWhile (\<lambda>c. c \<noteq> CHR ''='') s)))"

lemma sextets_range: "list_all (\<lambda>b. b < 256) bs \<Longrightarrow> list_all (\<lambda>v. v < 64) (sextets bs)"
  by (induction bs rule: sextets.induct) auto

lemma octets_sextets: "list_all (\<lambda>b. b < 256) bs \<Longrightarrow> octets (sextets bs) = bs"
proof (induction bs rule: sextets.induct)
  case (1 a b c r)
  have "a div 4 * 4 + (a mod 4 * 16 + b div 16) div 16 = a" if "b < 256" for a b :: nat
    using that by (simp add: less_mult_imp_div_less)
  with 1 show ?case by (auto simp: less_mult_imp_div_less)
qed (auto simp: less_mult_imp_div_less)

lemma map_filter_sextets: "list_all (\<lambda>v. v < 64) vs \<Longrightarrow> List.map_filter sextet_of (map (sextet_char url) vs) = vs"
  by (induction vs) (simp_all add: List.map_filter_simps)

lemma codes_bytes: "list_all (\<lambda>b. b < 256) (map code (bs :: string))"
  by (simp add: list_all_iff code_less_256)

lemma no_padding: "v < 64 \<Longrightarrow> sextet_char url v \<noteq> CHR ''=''"
  using sextet_of_char [of v url] by (auto simp: sextet_of_def char_class_defs simp del: sextet_of_char)

lemma takeWhile_sextets:
  "list_all (\<lambda>v. v < 64) vs \<Longrightarrow>
   takeWhile (\<lambda>c. c \<noteq> CHR ''='') (map (sextet_char url) vs @ replicate n CHR ''='') = map (sextet_char url) vs"
  by (induction vs) (simp_all add: no_padding takeWhile_replicate)

lemma from_base64_base64url [simp]: "from_base64 (base64url bs) = bs"
proof -
  have "takeWhile (\<lambda>c. c \<noteq> CHR ''='') (base64url bs) = base64url bs"
    using takeWhile_sextets [OF sextets_range [OF codes_bytes [of bs]], of True 0]
    unfolding base64url_def replicate_0 append_Nil2 .
  then show ?thesis unfolding from_base64_def
    by (simp only:) (simp add: base64url_def map_filter_sextets sextets_range codes_bytes octets_sextets comp_def)
qed

lemma from_base64_base64 [simp]: "from_base64 (base64 bs) = bs"
  by (simp add: from_base64_def base64_def Let_def takeWhile_sextets map_filter_sextets sextets_range codes_bytes
      octets_sextets comp_def)

lemma base64url_inj [simp]: "base64url a = base64url b \<longleftrightarrow> a = b"
  by (metis from_base64_base64url)

lemma base64url_chars: "list_all is_base64url (base64url bs)"
  using sextets_range [OF codes_bytes [of bs]] by (auto simp: base64url_def list_all_iff sextet_char_url)

lemma base64url_empty [simp]: "base64url bs = [] \<longleftrightarrow> bs = []"
  by (metis base64url_inj base64url_def list.map(1) sextets.simps(4))

lemma length_sextets: "length (sextets bs) mod 4 \<noteq> 1"
  by (induction bs rule: sextets.induct) simp_all

lemma length_base64url: "length (base64url bs) mod 4 \<noteq> 1"
  using length_sextets by (simp add: base64url_def)

subsection \<open>The characters of the other alphabet\<close>

text \<open>\<open>s.replaceAll("+", "-").replaceAll("/", "_").replace(/=+$/, "")\<close>, which three packages apply to base64.\<close>

definition url_char :: "char \<Rightarrow> char" where
  "url_char c = (if c = CHR ''+'' then CHR ''-'' else if c = CHR ''/'' then CHR ''_'' else c)"

definition unpadded_url :: "string \<Rightarrow> string" where
  "unpadded_url s = rev (dropWhile (\<lambda>c. c = CHR ''='') (rev (map url_char s)))"

lemma url_char_sextet: "v < 64 \<Longrightarrow> url_char (sextet_char False v) = sextet_char True v"
proof -
  assume v: "v < 64"
  have plain_char: "code c \<noteq> 43 \<Longrightarrow> code c \<noteq> 47 \<Longrightarrow> url_char c = c" for c by (auto simp: url_char_def)
  from v consider "v < 26" | "26 \<le> v" "v < 52" | "52 \<le> v" "v < 62" | "v = 62" | "v = 63" by linarith
  then show ?thesis
  proof cases
    case 4
    then show ?thesis by (simp add: sextet_char_def url_char_def)
  next
    case 5
    then show ?thesis by (simp add: sextet_char_def url_char_def)
  qed (simp_all add: sextet_char_def plain_char)
qed

lemma strip_padding:
  "list_all (\<lambda>c. c \<noteq> CHR ''='') s \<Longrightarrow> rev (dropWhile (\<lambda>c. c = CHR ''='') (rev (s @ replicate n CHR ''=''))) = s"
proof -
  assume s: "list_all (\<lambda>c. c \<noteq> CHR ''='') s"
  have self: "dropWhile (\<lambda>c. c = CHR ''='') (rev s) = rev s"
  proof (cases s rule: rev_cases)
    case (snoc t c)
    with s show ?thesis by simp
  qed simp
  have "dropWhile (\<lambda>c. c = CHR ''='') (replicate n CHR ''='' @ rev s) = rev s"
    by (induction n) (simp_all add: self)
  then show ?thesis by simp
qed

text \<open>From base64 to base64url.\<close>

lemma unpadded_base64 [simp]: "unpadded_url (base64 bytes) = base64url bytes"
proof -
  let ?vs = "sextets (map code bytes)"
  have range: "list_all (\<lambda>v. v < 64) ?vs" by (intro sextets_range codes_bytes)
  then have "map url_char (map (sextet_char False) ?vs) = map (sextet_char True) ?vs"
    by (auto simp: list_all_iff url_char_sextet)
  then have "map url_char (base64 bytes) =
      base64url bytes @ replicate ((4 - length ?vs mod 4) mod 4) CHR ''=''"
    by (simp add: base64_def base64url_def Let_def url_char_def)
  moreover have "list_all (\<lambda>c. c \<noteq> CHR ''='') (base64url bytes)"
    using range by (auto simp: base64url_def list_all_iff no_padding)
  ultimately show ?thesis by (simp only: unpadded_url_def strip_padding)
qed

end
