(* ===== verification/Wire.thy ===== *)
theory Wire
  imports Base64 Authorization
begin

text \<open>
  Facts about what travels between the parties: the JSON forms of invoices and authorizations can be
  printed and read back (\<open>plain\<close>), and the parsers of the schemas do not see the order of fields that
  canonical JSON forgets.
\<close>

subsection \<open>Reading a normal form\<close>

lemma map_of_normal_fields:
  assumes "distinct (map fst fs)"
  shows "map_of (map (\<lambda>(k, v). (k, normal v)) (sort_key fst fs)) k = map_option normal (map_of fs k)"
proof -
  have "map_of (sort_key fst fs) = map_of fs"
    using assms by (intro map_of_inject_set [THEN iffD2]) (auto simp: distinct_map)
  then show ?thesis by (simp add: map_of_map)
qed

lemma prop_of_normal: "distinct (map fst fs) \<Longrightarrow> prop_of (normal (JObj fs)) k = normal (prop_of (JObj fs) k)"
  by (auto simp: prop_of_def map_of_normal_fields split: option.splits)

lemma normal_eq_simps [simp]: "normal v = JStr s \<longleftrightarrow> v = JStr s" "normal v = JUndef \<longleftrightarrow> v = JUndef"
  by (cases v; simp)+

lemma str_field_normal:
  "distinct (map fst fs) \<Longrightarrow> str_field p (normal (JObj fs)) k = str_field p (JObj fs) k"
  unfolding str_field_def prop_of_normal by (cases "prop_of (JObj fs) k") simp_all

lemma int_field_normal: "distinct (map fst fs) \<Longrightarrow> int_field (normal (JObj fs)) k = int_field (JObj fs) k"
proof -
  have "safe_nonneg (normal_number n) = safe_nonneg n" for n by (cases n) (simp_all add: max_safe_integer_def)
  then show "distinct (map fst fs) \<Longrightarrow> ?thesis"
    unfolding int_field_def prop_of_normal by (cases "prop_of (JObj fs) k") simp_all
qed

lemma normal_number_one: "normal_number n = NInt X402_VERSION \<longleftrightarrow> n = NInt X402_VERSION"
  by (cases n) (simp_all add: X402_VERSION_def)

lemma normal_version: "normal v = JNum (NInt X402_VERSION) \<longleftrightarrow> v = JNum (NInt X402_VERSION)"
  by (cases v) (simp_all add: normal_number_one)

lemma version_field_normal:
  "distinct (map fst fs) \<Longrightarrow> version_field (normal (JObj fs)) k = version_field (JObj fs) k"
  by (simp add: version_field_def prop_of_normal normal_version del: normal.simps)

lemma only_keys_normal: "only_keys (normal (JObj fs)) ks = only_keys (JObj fs) ks"
  by (auto simp: only_keys_def list_all_iff)

lemma parse_invoice_normal:
  "distinct (map fst fs) \<Longrightarrow> parse_invoice (normal (JObj fs)) = parse_invoice (JObj fs)"
  unfolding parse_invoice_def str_field_normal int_field_normal version_field_normal only_keys_normal by simp

lemma plain_invoice_json: "invoice_valid i \<Longrightarrow> plain (invoice_to_json i)"
  by (simp add: invoice_to_json_def invoice_valid_def is_timestamp_def X402_VERSION_def max_safe_integer_def)

lemma plain_authorization_json: "authorization_valid a \<Longrightarrow> plain (authorization_to_json a)"
  by (simp add: authorization_to_json_def authorization_valid_def unsigned_fields_def unsigned_valid_def
      tx_ref_to_json_def is_timestamp_def X402_VERSION_def max_safe_integer_def)

end
