(* ===== verification/Payment_Preparer.thy ===== *)
theory Payment_Preparer
  imports Payment_Providers Wire
begin

text \<open>
  \<open>packages/x402-xec-payments/src/index.ts\<close>: \<open>OfflinePaymentPreparer\<close>, which checks the invoice of a 402
  response against the resource that was asked for, builds the funding transaction and signs the
  authorization. The wallet's parts (UTXO provider, signature provider, transaction builder) are
  fields of the options; a call of one of them is an event of the trace. The lemmas show what a
  prepared payment contains, and that a server that parses it accepts it.
\<close>

datatype payment_event =
    GetUtxos utxo_request
  | SignMessage string
  | AskApproval payment_plan
  | BroadcastTx string

type_synonym 'a payment = "(payment_event, 'a) traced"

record payment_envelope =
  env_invoice :: invoice
  env_authorization :: authorization

record prepared_payment =
  pp_envelope :: payment_envelope
  pp_paymentSignature :: string
  pp_rawTx :: string
  pp_fundingTransaction :: build_result

text \<open>\<open>op_utxoProvider\<close> answers \<open>None\<close> where the answer is not an array, \<open>op_now\<close> is the number that the
  clock or the hook returns.\<close>

record 'k preparer_options =
  op_utxoProvider :: "utxo_request \<Rightarrow> funding_utxo list option result"
  op_sign :: "string \<Rightarrow> js_value result"
  op_payer :: string
  op_changeAddress :: string
  op_signatoryForUtxo :: "funding_utxo \<Rightarrow> 'k result"
  op_transactionBuilder :: "('k build_request \<Rightarrow> build_result result) option"
  op_maxPaymentSats :: js_value
  op_feePerKb :: "string option"
  op_dustSats :: "string option"
  op_now :: js_number

definition checkedNow :: "js_number \<Rightarrow> int result" where
  "checkedNow value = (case safe_nonneg value of
     None \<Rightarrow> Inl (RangeError ''now must return non-negative epoch seconds'')
   | Some t \<Rightarrow> Inr t)"

definition readMaximum :: "js_value \<Rightarrow> int result" where
  "readMaximum input = (case limit_of input of
     None \<Rightarrow> Inl (TypeError ''maxPaymentSats must be a non-negative integer'')
   | Some maximum \<Rightarrow>
       if maximum < 0 then Inl (RangeError ''maxPaymentSats must be non-negative'') else Inr maximum)"

text \<open>The constructor: the maximum it reads.\<close>

definition newOfflinePaymentPreparer :: "'k preparer_options \<Rightarrow> int result" where
  "newOfflinePaymentPreparer P =
     ebind (readMaximum (op_maxPaymentSats P)) (\<lambda>maximum.
       if is_address (op_payer P) then Inr maximum else Inl ZodError)"

text \<open>\<open>issue\<close> is the message of the first issue of a zod error, or \<open>malformed\<close>.\<close>

definition validateInvoice ::
  "runtime \<Rightarrow> (js_value \<Rightarrow> string) \<Rightarrow> js_value \<Rightarrow> resource_request \<Rightarrow> int \<Rightarrow> invoice result" where
  "validateInvoice E issue input resource now =
     (if \<not> isRecord input then Inl (TypeError ''invalid x402-XEC invoice'')
      else if prop_of input ''network'' \<noteq> JStr XEC_MAINNET then
        ebind (String_of (prop_of input ''network'')) (\<lambda>s.
          Inl (PlainError (''unsupported x402-XEC network: '' @ s)))
      else if prop_of input ''scheme'' \<noteq> JStr XEC_SCHEME then
        ebind (String_of (prop_of input ''scheme'')) (\<lambda>s.
          Inl (PlainError (''unsupported x402-XEC invoice scheme: '' @ s)))
      else (case parse_invoice input of
          None \<Rightarrow> Inl (TypeError (''invalid x402-XEC invoice: '' @ issue input))
        | Some i \<Rightarrow>
            if now < inv_issuedAt i then Inl (PlainError ''x402-XEC invoice is not yet valid'')
            else if now \<ge> inv_expiresAt i then Inl (PlainError ''x402-XEC invoice has expired'')
            else (case computeResourceHash E resource of
                Inl _ \<Rightarrow> Inl (TypeError ''invalid x402-XEC resource metadata'')
              | Inr h \<Rightarrow>
                  if h \<noteq> inv_resourceHash i then
                    Inl (PlainError ''x402-XEC invoice does not match resource metadata'')
                  else Inr i)))"

definition encodeBase64UrlJson :: "js_value \<Rightarrow> string result" where
  "encodeBase64UrlJson input = ebind (stringify input) (\<lambda>t. case t of
     None \<Rightarrow> Inl (TypeError ''The first argument must be of type string'')
   | Some json \<Rightarrow> Inr (base64url (utf8_encode json)))"

definition envelope_to_json :: "payment_envelope \<Rightarrow> js_value" where
  "envelope_to_json e =
     JObj [(''invoice'', invoice_to_json (env_invoice e)),
           (''authorization'', authorization_to_json (env_authorization e))]"

definition unsigned_payment :: "invoice \<Rightarrow> string \<Rightarrow> string \<Rightarrow> build_result \<Rightarrow> unsigned_authorization" where
  "unsigned_payment i invoiceHash payer b =
     \<lparr>auth_x402Version = X402_VERSION, auth_scheme = XEC_SCHEME, auth_network = XEC_MAINNET,
      auth_invoiceHash = invoiceHash, auth_resourceHash = inv_resourceHash i,
      auth_amountSats = inv_amountSats i, auth_payTo = inv_payTo i, auth_nonce = inv_nonce i,
      auth_payer = payer,
      auth_transaction = \<lparr>ref_txid = bt_outpoint_txid b, ref_vout = bt_outpoint_outIdx b\<rparr>\<rparr>"

definition with_signature :: "unsigned_authorization \<Rightarrow> string \<Rightarrow> authorization" where
  "with_signature u s = unsigned_authorization.extend u \<lparr>auth_signature = s\<rparr>"

definition funding_request :: "'k preparer_options \<Rightarrow> invoice \<Rightarrow> funding_utxo list \<Rightarrow> 'k build_request" where
  "funding_request P i utxos =
     \<lparr>br_invoice = invoice_to_json i, br_utxos = utxos, br_changeAddress = op_changeAddress P,
      br_signatoryForUtxo = op_signatoryForUtxo P, br_feePerKb = op_feePerKb P, br_dustSats = op_dustSats P\<rparr>"

definition fetch_utxos :: "'k preparer_options \<Rightarrow> invoice \<Rightarrow> funding_utxo list payment" where
  "fetch_utxos P i =
     (let request = \<lparr>ur_network = XEC_MAINNET, ur_payer = op_payer P, ur_amountSats = inv_amountSats i\<rparr> in
      ask (GetUtxos request) (ebind (op_utxoProvider P request) (\<lambda>utxos. case utxos of
        None \<Rightarrow> Inl (TypeError ''UtxoProvider must return an array'')
      | Some us \<Rightarrow> Inr us)))"

definition sign_payment :: "'k preparer_options \<Rightarrow> unsigned_authorization \<Rightarrow> authorization payment" where
  "sign_payment P u =
     tbind (tpure (authorizationSigningMessage (with_signature u ''unsigned''))) (\<lambda>message.
     tbind (ask (SignMessage message) (op_sign P message)) (\<lambda>signature.
       tpure (case parse_authorization (JObj (unsigned_fields u @ [(''signature'', signature)])) of
           None \<Rightarrow> Inl ZodError
         | Some a \<Rightarrow> Inr a)))"

definition prepare_payment ::
  "runtime \<Rightarrow> 'k ecash_lib \<Rightarrow> (js_value \<Rightarrow> string) \<Rightarrow> 'k preparer_options \<Rightarrow> int \<Rightarrow> js_value \<Rightarrow>
   resource_request \<Rightarrow> prepared_payment payment" where
  "prepare_payment E L issue P maximum invoice_input resource =
     tbind (tpure (checkedNow (op_now P))) (\<lambda>now.
     tbind (tpure (validateInvoice E issue invoice_input resource now)) (\<lambda>i.
     tbind (tpure (parseAmountSats (inv_amountSats i))) (\<lambda>amountSats.
     tbind (tpure (if amountSats > maximum then
         Inl (RangeError (''payment amount '' @ inv_amountSats i @ '' exceeds maxPaymentSats '' @ int_to_dec maximum))
       else Inr ())) (\<lambda>_.
     tbind (fetch_utxos P i) (\<lambda>utxos.
     tbind (tpure ((case op_transactionBuilder P of None \<Rightarrow> buildFundingTx L | Some build \<Rightarrow> build)
         (funding_request P i utxos))) (\<lambda>b.
     tbind (tpure (computeInvoiceHash E i)) (\<lambda>h.
     tbind (sign_payment P (unsigned_payment i h (op_payer P) b)) (\<lambda>a.
     tbind (tpure (encodeBase64UrlJson (envelope_to_json \<lparr>env_invoice = i, env_authorization = a\<rparr>))) (\<lambda>s.
       tpure (Inr \<lparr>pp_envelope = \<lparr>env_invoice = i, env_authorization = a\<rparr>, pp_paymentSignature = s,
         pp_rawTx = bt_rawTx b, pp_fundingTransaction = b\<rparr>))))))))))"

text \<open>\<open>StaticUtxoProvider\<close>: a snapshot.\<close>

definition static_utxos :: "funding_utxo list \<Rightarrow> utxo_request \<Rightarrow> funding_utxo list option result" where
  "static_utxos utxos request = Inr (Some utxos)"

subsection \<open>What is prepared\<close>

lemma checkedNow_Inr [err_simps]: "checkedNow n = Inr t \<longleftrightarrow> safe_nonneg n = Some t"
  by (auto simp: checkedNow_def split: option.splits)

lemma readMaximum_Inr [err_simps]: "readMaximum v = Inr m \<longleftrightarrow> limit_of v = Some m \<and> 0 \<le> m"
  by (auto simp: readMaximum_def split: option.splits)

lemma parse_invoice_consts:
  "parse_invoice v = Some i \<Longrightarrow> isRecord v \<and> prop_of v ''network'' = JStr XEC_MAINNET \<and>
     prop_of v ''scheme'' = JStr XEC_SCHEME"
  by (auto simp: parse_invoice_def bind_eq_Some_conv str_field_Some)

lemma validateInvoice_Inr:
  "validateInvoice E issue v resource now = Inr i \<longleftrightarrow>
     parse_invoice v = Some i \<and> inv_issuedAt i \<le> now \<and> now < inv_expiresAt i \<and>
     computeResourceHash E resource = Inr (inv_resourceHash i)"
proof (cases "parse_invoice v")
  case None
  then show ?thesis by (auto simp: validateInvoice_def err_simps)
next
  case (Some j)
  note literals = parse_invoice_consts [OF Some]
  show ?thesis
    by (cases "computeResourceHash E resource") (auto simp: validateInvoice_def Some literals)
qed

lemma with_signature_simps [simp]:
  "unsignedAuthorization (with_signature u s) = u" "auth_signature (with_signature u s) = s"
  by (simp_all add: unsignedAuthorization_def with_signature_def unsigned_authorization.truncate_def
      unsigned_authorization.extend_def authorization.defs)

lemma with_signature_json:
  "JObj (unsigned_fields u @ [(''signature'', JStr s)]) = authorization_to_json (with_signature u s)"
  by (simp add: authorization_to_json_def with_signature_def unsigned_fields_def unsigned_authorization.defs
      authorization.defs)

lemma parse_authorization_signature:
  "parse_authorization v = Some a \<Longrightarrow> prop_of v ''signature'' = JStr (auth_signature a)"
  by (auto simp: parse_authorization_def bind_eq_Some_conv str_field_Some)

lemma parse_tx_ref_exact: "parse_tx_ref (tx_ref_to_json t) = Some r \<Longrightarrow> r = t"
  by (cases t) (auto simp: parse_tx_ref_def tx_ref_to_json_def bind_eq_Some_conv str_field_Some int_field_Some
      prop_of_def split: if_splits)

lemma parse_authorization_exact:
  assumes "parse_authorization (authorization_to_json b) = Some a"
  shows "a = b"
proof -
  have "prop_of (authorization_to_json b) ''transaction'' = tx_ref_to_json (auth_transaction b)"
    by (simp add: authorization_to_json_def unsigned_fields_def prop_of_def)
  with assms obtain tx where "parse_tx_ref (tx_ref_to_json (auth_transaction b)) = Some tx" "auth_transaction a = tx"
    by (auto simp: parse_authorization_def bind_eq_Some_conv)
  then have tx: "auth_transaction a = auth_transaction b" using parse_tx_ref_exact by blast
  from assms have "auth_x402Version a = auth_x402Version b" "auth_scheme a = auth_scheme b"
    "auth_network a = auth_network b" "auth_invoiceHash a = auth_invoiceHash b"
    "auth_resourceHash a = auth_resourceHash b" "auth_amountSats a = auth_amountSats b"
    "auth_payTo a = auth_payTo b" "auth_nonce a = auth_nonce b" "auth_payer a = auth_payer b"
    "auth_signature a = auth_signature b"
    by (auto simp: parse_authorization_def bind_eq_Some_conv str_field_Some version_field_Some
        authorization_to_json_def unsigned_fields_def prop_of_def)
  with tx show ?thesis by (cases a; cases b) simp
qed

text \<open>The signature provider signs the message that the verifier of the authorization recomputes.\<close>

lemma signing_message_unsigned: "authorizationSigningMessage (with_signature u s) = authorizationSigningMessage (with_signature u t)"
  by (simp add: authorizationSigningMessage_def)

lemma sign_payment_Inr:
  "snd (sign_payment P u) = Inr a \<longleftrightarrow>
     (\<exists>m s. authorizationSigningMessage a = Inr m \<and> op_sign P m = Inr (JStr s) \<and>
        a = with_signature u s \<and> authorization_valid a)" (is "?l \<longleftrightarrow> ?r")
proof
  assume ?l
  then obtain m v where m: "authorizationSigningMessage (with_signature u ''unsigned'') = Inr m"
    and v: "op_sign P m = Inr v" and a: "parse_authorization (JObj (unsigned_fields u @ [(''signature'', v)])) = Some a"
    by (auto simp: sign_payment_def snd_tbind_Inr split: option.splits)
  have "prop_of (JObj (unsigned_fields u @ [(''signature'', v)])) ''signature'' = v"
    by (simp add: prop_of_def unsigned_fields_def)
  with parse_authorization_signature [OF a] have "v = JStr (auth_signature a)" by simp
  moreover from this a have "parse_authorization (authorization_to_json (with_signature u (auth_signature a))) = Some a"
    by (simp add: with_signature_json [symmetric])
  then have "a = with_signature u (auth_signature a)" by (rule parse_authorization_exact)
  ultimately show ?r
    using m v parse_authorization_valid [OF a] signing_message_unsigned [of u "auth_signature a" "''unsigned''"]
    by metis
next
  assume ?r
  then obtain m s where "authorizationSigningMessage a = Inr m" "op_sign P m = Inr (JStr s)"
    "a = with_signature u s" "authorization_valid a" by blast
  moreover from this have "parse_authorization (JObj (unsigned_fields u @ [(''signature'', JStr s)])) = Some a"
    unfolding with_signature_json by (simp add: parse_authorization_to_json)
  ultimately show ?l
    using signing_message_unsigned [of u s "''unsigned''"]
    by (simp add: sign_payment_def snd_tbind)
qed

lemma sign_payment_events:
  "set (fst (sign_payment P u)) \<subseteq> {SignMessage m |m. authorizationSigningMessage (with_signature u ''unsigned'') = Inr m}"
  by (auto simp: sign_payment_def fst_tbind)

lemma plain_envelope:
  "invoice_valid (env_invoice e) \<Longrightarrow> authorization_valid (env_authorization e) \<Longrightarrow> plain (envelope_to_json e)"
  by (simp add: envelope_to_json_def plain_invoice_json plain_authorization_json)

lemma encode_plain: "plain v \<Longrightarrow> encodeBase64UrlJson v = Inr (base64url (utf8_encode (json_text v)))"
  by (simp add: encodeBase64UrlJson_def stringify_plain)

lemma fetch_utxos_Inr:
  "snd (fetch_utxos P i) = Inr us \<longleftrightarrow>
     op_utxoProvider P \<lparr>ur_network = XEC_MAINNET, ur_payer = op_payer P, ur_amountSats = inv_amountSats i\<rparr> = Inr (Some us)"
  by (auto simp: fetch_utxos_def Let_def err_simps split: option.splits)

text \<open>A prepared payment: the invoice is valid, timely and for this resource, its amount is within the
  limit, and the authorization is signed over the transaction that was built.\<close>

definition prepared_ok ::
  "runtime \<Rightarrow> 'k ecash_lib \<Rightarrow> 'k preparer_options \<Rightarrow> int \<Rightarrow> js_value \<Rightarrow> resource_request \<Rightarrow> prepared_payment \<Rightarrow> bool" where
  "prepared_ok E L P maximum v resource pp \<longleftrightarrow>
     (\<exists>now i us h m s. safe_nonneg (op_now P) = Some now \<and> parse_invoice v = Some i \<and>
        inv_issuedAt i \<le> now \<and> now < inv_expiresAt i \<and>
        computeResourceHash E resource = Inr (inv_resourceHash i) \<and>
        int (dec_to_nat (inv_amountSats i)) \<le> maximum \<and> snd (fetch_utxos P i) = Inr us \<and>
        (case op_transactionBuilder P of None \<Rightarrow> buildFundingTx L | Some build \<Rightarrow> build) (funding_request P i us) =
          Inr (pp_fundingTransaction pp) \<and>
        computeInvoiceHash E i = Inr h \<and> env_invoice (pp_envelope pp) = i \<and>
        env_authorization (pp_envelope pp) =
          with_signature (unsigned_payment i h (op_payer P) (pp_fundingTransaction pp)) s \<and>
        authorization_valid (env_authorization (pp_envelope pp)) \<and>
        authorizationSigningMessage (env_authorization (pp_envelope pp)) = Inr m \<and> op_sign P m = Inr (JStr s) \<and>
        pp_rawTx pp = bt_rawTx (pp_fundingTransaction pp) \<and>
        pp_paymentSignature pp = base64url (utf8_encode (json_text (envelope_to_json (pp_envelope pp)))))"

lemma prepare_payment_Inr:
  assumes "snd (prepare_payment E L issue P maximum v resource) = Inr pp"
  shows "prepared_ok E L P maximum v resource pp"
proof -
  from assms obtain now i amount us b h a s where
    now: "safe_nonneg (op_now P) = Some now"
    and i: "validateInvoice E issue v resource now = Inr i"
    and amount: "parseAmountSats (inv_amountSats i) = Inr amount" "amount \<le> maximum"
    and us: "snd (fetch_utxos P i) = Inr us"
    and b: "(case op_transactionBuilder P of None \<Rightarrow> buildFundingTx L | Some build \<Rightarrow> build) (funding_request P i us) = Inr b"
    and h: "computeInvoiceHash E i = Inr h"
    and a: "snd (sign_payment P (unsigned_payment i h (op_payer P) b)) = Inr a"
    and s: "encodeBase64UrlJson (envelope_to_json \<lparr>env_invoice = i, env_authorization = a\<rparr>) = Inr s"
    and pp: "pp = \<lparr>pp_envelope = \<lparr>env_invoice = i, env_authorization = a\<rparr>, pp_paymentSignature = s,
         pp_rawTx = bt_rawTx b, pp_fundingTransaction = b\<rparr>"
    by (auto simp: prepare_payment_def snd_tbind_Inr checkedNow_Inr split: if_splits)
  from i have i': "parse_invoice v = Some i" "inv_issuedAt i \<le> now" "now < inv_expiresAt i"
    "computeResourceHash E resource = Inr (inv_resourceHash i)" by (simp_all add: validateInvoice_Inr)
  from a obtain m t where a': "authorizationSigningMessage a = Inr m" "op_sign P m = Inr (JStr t)"
    "a = with_signature (unsigned_payment i h (op_payer P) b) t" "authorization_valid a"
    unfolding sign_payment_Inr by blast
  have "s = base64url (utf8_encode (json_text (envelope_to_json \<lparr>env_invoice = i, env_authorization = a\<rparr>)))"
    using s encode_plain [OF plain_envelope [of "\<lparr>env_invoice = i, env_authorization = a\<rparr>"]]
      parse_invoice_valid [OF i'(1)] a'(4) by simp
  moreover have "int (dec_to_nat (inv_amountSats i)) \<le> maximum" using amount by (simp add: parseAmountSats_Inr)
  ultimately show ?thesis
    unfolding prepared_ok_def pp using now i' us b h a' by fastforce
qed

lemma prepared_ok_payment:
  assumes "prepared_ok E L P maximum v resource pp"
  shows "snd (prepare_payment E L issue P maximum v resource) = Inr pp"
proof -
  from assms obtain now i us h m s where now: "safe_nonneg (op_now P) = Some now" and v: "parse_invoice v = Some i"
    and time: "inv_issuedAt i \<le> now" "now < inv_expiresAt i"
    and rh: "computeResourceHash E resource = Inr (inv_resourceHash i)"
    and amount: "int (dec_to_nat (inv_amountSats i)) \<le> maximum" and us: "snd (fetch_utxos P i) = Inr us"
    and b: "(case op_transactionBuilder P of None \<Rightarrow> buildFundingTx L | Some build \<Rightarrow> build) (funding_request P i us) =
          Inr (pp_fundingTransaction pp)"
    and h: "computeInvoiceHash E i = Inr h" and i: "env_invoice (pp_envelope pp) = i"
    and a: "env_authorization (pp_envelope pp) =
          with_signature (unsigned_payment i h (op_payer P) (pp_fundingTransaction pp)) s"
      "authorization_valid (env_authorization (pp_envelope pp))"
      "authorizationSigningMessage (env_authorization (pp_envelope pp)) = Inr m" "op_sign P m = Inr (JStr s)"
    and pp: "pp_rawTx pp = bt_rawTx (pp_fundingTransaction pp)"
      "pp_paymentSignature pp = base64url (utf8_encode (json_text (envelope_to_json (pp_envelope pp))))"
    unfolding prepared_ok_def by blast
  let ?a = "env_authorization (pp_envelope pp)"
  have valid: "invoice_valid i" using v by (rule parse_invoice_valid)
  then have n: "parseAmountSats (inv_amountSats i) = Inr (int (dec_to_nat (inv_amountSats i)))"
    by (simp add: parseAmountSats_Inr invoice_valid_def)
  have signed: "snd (sign_payment P (unsigned_payment i h (op_payer P) (pp_fundingTransaction pp))) = Inr ?a"
    using a unfolding sign_payment_Inr by blast
  have env: "\<lparr>env_invoice = i, env_authorization = ?a\<rparr> = pp_envelope pp" using i by (cases "pp_envelope pp") simp
  have "encodeBase64UrlJson (envelope_to_json (pp_envelope pp)) = Inr (pp_paymentSignature pp)"
    using encode_plain [OF plain_envelope] valid i a(2) pp(2) by simp
  then show ?thesis
    using now time rh amount us b h pp(1) v n signed env validateInvoice_Inr [of E issue v resource now i]
    by (simp add: prepare_payment_def snd_tbind checkedNow_def)
qed

lemma prepare_payment_iff:
  "snd (prepare_payment E L issue P maximum v resource) = Inr pp \<longleftrightarrow> prepared_ok E L P maximum v resource pp"
  using prepare_payment_Inr prepared_ok_payment by blast

text \<open>Preparing asks for outputs and for one signature, and never broadcasts.\<close>

lemma prepare_payment_events:
  "set (fst (prepare_payment E L issue P maximum v resource)) \<subseteq> range GetUtxos \<union> range SignMessage"
  using sign_payment_events by (fastforce simp: prepare_payment_def fst_tbind fetch_utxos_def Let_def)

text \<open>The verifier's conditions hold of a prepared payment.\<close>

lemma prepared_matches:
  assumes "prepared_ok E L P maximum v resource pp" "inv_issuedAt (env_invoice (pp_envelope pp)) \<le> now"
    and "now < inv_expiresAt (env_invoice (pp_envelope pp))"
  shows "authorization_matches E (env_invoice (pp_envelope pp)) (env_authorization (pp_envelope pp)) resource now"
  using assms by (auto simp: prepared_ok_def authorization_matches_def with_signature_def unsigned_payment_def
      unsigned_authorization.defs authorization.defs)

end
