(* ===== verification/Payment_Orchestrator.thy ===== *)
theory Payment_Orchestrator
  imports Payment_Preparer
begin

text \<open>
  \<open>packages/x402-xec-payments/src/live-payment-orchestrator.ts\<close>: \<open>LivePaymentOrchestrator\<close> checks the
  policy, prepares the payment, checks the policy again with the fee, asks for approval and broadcasts.
  The trace of a run holds every call of a provider, so that the theorems can say when a transaction is
  broadcast. \<open>num\<close> gives the number of a text that is not a safe integer's, as in \<open>JSON_parse\<close>.
\<close>

subsection \<open>Conversions\<close>

text \<open>\<open>Number(v)\<close>: a string is read without the white space around it.\<close>

definition number_of_string :: "(string \<Rightarrow> js_number) \<Rightarrow> string \<Rightarrow> js_number" where
  "number_of_string num s =
     (if trim s = [] then NInt 0
      else if is_safe_dec (trim s) then NInt (BigInt_of (trim s)) else num (trim s))"

fun Number_of :: "(string \<Rightarrow> js_number) \<Rightarrow> js_value \<Rightarrow> js_number result" where
  "Number_of num JUndef = Inr NNaN"
| "Number_of num JNull = Inr (NInt 0)"
| "Number_of num (JBool b) = Inr (NInt (if b then 1 else 0))"
| "Number_of num (JNum n) = Inr n"
| "Number_of num (JBigInt i) =
     Inr (if \<bar>i\<bar> \<le> max_safe_integer then NInt i else num (int_to_dec i))"
| "Number_of num (JStr s) = Inr (number_of_string num s)"
| "Number_of num v = ebind (String_of v) (\<lambda>s. Inr (number_of_string num s))"

subsection \<open>Configuration\<close>

datatype broadcaster =
    DisabledBroadcaster
  | Broadcaster "string \<Rightarrow> js_value result"

record 'k orchestrator_config =
  oc_utxoProvider :: "utxo_request \<Rightarrow> funding_utxo list option result"
  oc_transactionBuilder :: "('k build_request \<Rightarrow> build_result result) option"
  oc_sign :: "string \<Rightarrow> js_value result"
  oc_broadcastProvider :: "broadcaster option"
  oc_approvalProvider :: "(payment_plan \<Rightarrow> js_value result) option"
  oc_paymentPolicy :: "payment_policy option"
  oc_payer :: string
  oc_changeAddress :: string
  oc_signatoryForUtxo :: "funding_utxo \<Rightarrow> 'k result"
  oc_dryRun :: "bool option"
  oc_allowBroadcast :: "bool option"
  oc_maxPaymentSats :: js_value
  oc_feePerKb :: "string option"
  oc_dustSats :: "string option"
  oc_now :: js_number

datatype payment_result =
    DryRun prepared_payment bool
  | Broadcasted prepared_payment js_value js_value

definition is_dryRun :: "'k orchestrator_config \<Rightarrow> bool" where
  "is_dryRun C = (case oc_dryRun C of None \<Rightarrow> True | Some b \<Rightarrow> b)"

definition broadcastProvider :: "'k orchestrator_config \<Rightarrow> broadcaster" where
  "broadcastProvider C = (case oc_broadcastProvider C of None \<Rightarrow> DisabledBroadcaster | Some b \<Rightarrow> b)"

definition approvalProvider :: "'k orchestrator_config \<Rightarrow> payment_plan \<Rightarrow> js_value result" where
  "approvalProvider C = (case oc_approvalProvider C of None \<Rightarrow> disabled_approval | Some p \<Rightarrow> p)"

text \<open>The constructor's checks.\<close>

definition newLivePaymentOrchestrator :: "'k orchestrator_config \<Rightarrow> unit result" where
  "newLivePaymentOrchestrator C =
     (if is_dryRun C then Inr ()
      else if oc_allowBroadcast C \<noteq> Some True then
        Inl (PlainError ''live payment broadcast requires allowBroadcast: true'')
      else if oc_broadcastProvider C = None \<or> broadcastProvider C = DisabledBroadcaster then
        Inl (PlainError ''live payment broadcast requires an explicit non-disabled BroadcastProvider'')
      else if oc_paymentPolicy C = None then
        Inl (PlainError ''live payment broadcast requires paymentPolicy'')
      else Inr ())"

definition broadcastTx :: "broadcaster \<Rightarrow> string \<Rightarrow> js_value result" where
  "broadcastTx b raw = (case b of DisabledBroadcaster \<Rightarrow> disabled_broadcast raw | Broadcaster f \<Rightarrow> f raw)"

definition dryRunPolicy :: "js_value \<Rightarrow> js_value \<Rightarrow> payment_policy result" where
  "dryRunPolicy invoice maxPaymentSats =
     ebind (get_prop invoice ''amountSats'') (\<lambda>amountSats.
     ebind (get_prop invoice ''network'') (\<lambda>network.
     ebind (get_prop invoice ''scheme'') (\<lambda>scheme.
       Inr \<lparr>pol_maxPaymentSats = (if maxPaymentSats \<in> {JUndef, JNull} then amountSats else maxPaymentSats),
            pol_allowedNetworks = [network], pol_allowedSchemes = [scheme], pol_allowedPayToAddresses = None,
            pol_requireFinality = None, pol_requireManualApproval = True, pol_expiresAtSkewSeconds = None,
            pol_maxFeeSats = None\<rparr>)))"

definition string_prop :: "js_value \<Rightarrow> string \<Rightarrow> string result" where
  "string_prop v k = ebind (get_prop v k) String_of"

definition initial_plan :: "(string \<Rightarrow> js_number) \<Rightarrow> payment_policy \<Rightarrow> js_value \<Rightarrow> payment_plan result" where
  "initial_plan num policy invoice =
     ebind (string_prop invoice ''network'') (\<lambda>network.
     ebind (string_prop invoice ''scheme'') (\<lambda>scheme.
     ebind (string_prop invoice ''amountSats'') (\<lambda>amountSats.
     ebind (string_prop invoice ''payTo'') (\<lambda>payTo.
     ebind (ebind (get_prop invoice ''expiresAt'') (Number_of num)) (\<lambda>expiresAt.
       Inr \<lparr>plan_network = network, plan_scheme = scheme, plan_amountSats = amountSats, plan_payTo = payTo,
            plan_expiresAt = expiresAt, plan_feeSats = None, plan_transactionTxid = None,
            plan_requiresManualApproval = pol_requireManualApproval policy, plan_finality = None\<rparr>)))))"

subsection \<open>Execution\<close>

definition preparer_of :: "'k orchestrator_config \<Rightarrow> payment_policy \<Rightarrow> int \<Rightarrow> 'k preparer_options" where
  "preparer_of C policy now =
     \<lparr>op_utxoProvider = oc_utxoProvider C, op_sign = oc_sign C, op_payer = oc_payer C,
      op_changeAddress = oc_changeAddress C, op_signatoryForUtxo = oc_signatoryForUtxo C,
      op_transactionBuilder = oc_transactionBuilder C, op_maxPaymentSats = pol_maxPaymentSats policy,
      op_feePerKb = oc_feePerKb C, op_dustSats = oc_dustSats C, op_now = NInt now\<rparr>"

definition approval_plan :: "payment_plan \<Rightarrow> prepared_payment \<Rightarrow> payment_plan" where
  "approval_plan plan pp =
     plan\<lparr>plan_feeSats := Some (bt_feeSats (pp_fundingTransaction pp)),
          plan_transactionTxid := Some (bt_txid (pp_fundingTransaction pp))\<rparr>"

definition check_approval :: "js_value \<Rightarrow> unit result" where
  "check_approval decision = (case prop_of decision ''approved'' of
     JBool True \<Rightarrow> Inr ()
   | JBool False \<Rightarrow> (case prop_of decision ''reason'' of
         JUndef \<Rightarrow> Inl (PaymentApprovalError None)
       | reason \<Rightarrow> ebind (String_of reason) (\<lambda>m. Inl (PaymentApprovalError (Some m))))
   | _ \<Rightarrow> Inl (TypeError ''ApprovalProvider must return an ApprovalDecision''))"

definition execute_payment ::
  "runtime \<Rightarrow> 'k ecash_lib \<Rightarrow> (js_value \<Rightarrow> string) \<Rightarrow> (string \<Rightarrow> js_number) \<Rightarrow> 'k orchestrator_config \<Rightarrow>
   js_value \<Rightarrow> resource_request \<Rightarrow> payment_result payment" where
  "execute_payment E L issue num C invoice resource =
     tbind (tpure (checkedNow (oc_now C))) (\<lambda>now.
     tbind (tpure (case oc_paymentPolicy C of
         Some p \<Rightarrow> Inr p | None \<Rightarrow> dryRunPolicy invoice (oc_maxPaymentSats C))) (\<lambda>policy.
     tbind (tpure (initial_plan num policy invoice)) (\<lambda>plan.
     let context = \<lparr>pc_dryRun = is_dryRun C, pc_allowBroadcast = (oc_allowBroadcast C = Some True), pc_now = NInt now\<rparr> in
     tbind (tpure (evaluatePaymentPolicy policy plan context)) (\<lambda>_.
     tbind (tpure (newOfflinePaymentPreparer (preparer_of C policy now))) (\<lambda>maximum.
     tbind (prepare_payment E L issue (preparer_of C policy now) maximum invoice resource) (\<lambda>prepared.
     let approvalPlan = approval_plan plan prepared in
     tbind (tpure (evaluatePaymentPolicy policy approvalPlan context)) (\<lambda>_.
     if is_dryRun C then tpure (Inr (DryRun prepared (pol_requireManualApproval policy)))
     else
       tbind (ask (AskApproval approvalPlan) (approvalProvider C approvalPlan)) (\<lambda>decision.
       tbind (tpure (check_approval decision)) (\<lambda>_.
       tbind (ask (BroadcastTx (pp_rawTx prepared)) (broadcastTx (broadcastProvider C) (pp_rawTx prepared))) (\<lambda>r.
         tpure (Inr (Broadcasted prepared r decision))))))))))))"

subsection \<open>When a transaction is broadcast\<close>

lemma check_approval_Inr: "check_approval d = Inr u \<longleftrightarrow> prop_of d ''approved'' = JBool True"
  by (auto simp: check_approval_def err_simps split: js_value.splits bool.splits)

definition run_context :: "'k orchestrator_config \<Rightarrow> int \<Rightarrow> policy_context" where
  "run_context C now =
     \<lparr>pc_dryRun = is_dryRun C, pc_allowBroadcast = (oc_allowBroadcast C = Some True), pc_now = NInt now\<rparr>"

text \<open>The steps before the approval: a plan that the policy allows, before and after the payment is prepared.\<close>

definition planned ::
  "runtime \<Rightarrow> 'k ecash_lib \<Rightarrow> (js_value \<Rightarrow> string) \<Rightarrow> (string \<Rightarrow> js_number) \<Rightarrow> 'k orchestrator_config \<Rightarrow>
   js_value \<Rightarrow> resource_request \<Rightarrow> payment_policy \<Rightarrow> payment_plan \<Rightarrow> prepared_payment \<Rightarrow> bool" where
  "planned E L issue num C invoice resource policy plan prepared \<longleftrightarrow>
     (\<exists>now maximum. safe_nonneg (oc_now C) = Some now \<and>
        (case oc_paymentPolicy C of Some p \<Rightarrow> Inr p | None \<Rightarrow> dryRunPolicy invoice (oc_maxPaymentSats C)) = Inr policy \<and>
        initial_plan num policy invoice = Inr plan \<and> plan_allowed policy plan (run_context C now) \<and>
        limit_of (pol_maxPaymentSats policy) = Some maximum \<and> is_address (oc_payer C) \<and>
        snd (prepare_payment E L issue (preparer_of C policy now) maximum invoice resource) = Inr prepared \<and>
        plan_allowed policy (approval_plan plan prepared) (run_context C now))"

lemma newOfflinePaymentPreparer_Inr:
  "newOfflinePaymentPreparer P = Inr m \<longleftrightarrow> limit_of (op_maxPaymentSats P) = Some m \<and> 0 \<le> m \<and> is_address (op_payer P)"
  by (auto simp: newOfflinePaymentPreparer_def err_simps)

lemma evaluate_context:
  "evaluatePaymentPolicy policy plan
     \<lparr>pc_dryRun = is_dryRun C, pc_allowBroadcast = (oc_allowBroadcast C = Some True), pc_now = NInt now\<rparr> = Inr u \<longleftrightarrow>
   plan_allowed policy plan (run_context C now)"
  by (simp add: evaluatePaymentPolicy_Inr run_context_def)

lemma execute_events:
  assumes "ev \<in> set (fst (execute_payment E L issue num C invoice resource))"
  shows "(\<exists>r. ev = GetUtxos r) \<or> (\<exists>m. ev = SignMessage m) \<or>
    (\<not> is_dryRun C \<and> (\<exists>policy plan prepared. planned E L issue num C invoice resource policy plan prepared \<and>
       (ev = AskApproval (approval_plan plan prepared) \<or>
        (\<exists>d. approvalProvider C (approval_plan plan prepared) = Inr d \<and> prop_of d ''approved'' = JBool True \<and>
           ev = BroadcastTx (pp_rawTx prepared)))))"
proof -
  let ?p = "\<lambda>policy now maximum. prepare_payment E L issue (preparer_of C policy now) maximum invoice resource"
  from assms obtain now policy plan maximum where
    now: "safe_nonneg (oc_now C) = Some now"
    and policy: "(case oc_paymentPolicy C of Some p \<Rightarrow> Inr p | None \<Rightarrow> dryRunPolicy invoice (oc_maxPaymentSats C)) = Inr policy"
    and plan: "initial_plan num policy invoice = Inr plan" "plan_allowed policy plan (run_context C now)"
    and maximum: "limit_of (pol_maxPaymentSats policy) = Some maximum" "is_address (oc_payer C)"
    and ev: "ev \<in> set (fst (?p policy now maximum)) \<or>
      (\<exists>prepared. snd (?p policy now maximum) = Inr prepared \<and>
         plan_allowed policy (approval_plan plan prepared) (run_context C now) \<and> \<not> is_dryRun C \<and>
         (ev = AskApproval (approval_plan plan prepared) \<or>
          (\<exists>d. approvalProvider C (approval_plan plan prepared) = Inr d \<and> prop_of d ''approved'' = JBool True \<and>
             ev = BroadcastTx (pp_rawTx prepared))))"
    by (auto simp: execute_payment_def fst_tbind Let_def checkedNow_Inr evaluate_context check_approval_Inr
        newOfflinePaymentPreparer_Inr preparer_of_def split: if_splits)
  from ev show ?thesis
  proof
    assume "ev \<in> set (fst (?p policy now maximum))"
    then show ?thesis using prepare_payment_events by fast
  next
    assume "\<exists>prepared. snd (?p policy now maximum) = Inr prepared \<and>
         plan_allowed policy (approval_plan plan prepared) (run_context C now) \<and> \<not> is_dryRun C \<and>
         (ev = AskApproval (approval_plan plan prepared) \<or>
          (\<exists>d. approvalProvider C (approval_plan plan prepared) = Inr d \<and> prop_of d ''approved'' = JBool True \<and>
             ev = BroadcastTx (pp_rawTx prepared)))"
    then show ?thesis using now policy plan maximum unfolding planned_def by blast
  qed
qed

text \<open>An approved plan is broadcast.\<close>

lemma broadcast_run:
  assumes "planned E L issue num C invoice resource policy plan prepared" "\<not> is_dryRun C"
    and "approvalProvider C (approval_plan plan prepared) = Inr d" "prop_of d ''approved'' = JBool True"
  shows "BroadcastTx (pp_rawTx prepared) \<in> set (fst (execute_payment E L issue num C invoice resource))"
proof -
  from assms(1) obtain now maximum where now: "safe_nonneg (oc_now C) = Some now"
    and policy: "(case oc_paymentPolicy C of Some p \<Rightarrow> Inr p | None \<Rightarrow> dryRunPolicy invoice (oc_maxPaymentSats C)) = Inr policy"
    and plan: "initial_plan num policy invoice = Inr plan" "plan_allowed policy plan (run_context C now)"
    and maximum: "limit_of (pol_maxPaymentSats policy) = Some maximum" "is_address (oc_payer C)"
    and prepared: "snd (prepare_payment E L issue (preparer_of C policy now) maximum invoice resource) = Inr prepared"
    and again: "plan_allowed policy (approval_plan plan prepared) (run_context C now)"
    unfolding planned_def by blast
  have "0 \<le> maximum" using plan(2) maximum(1) canonical_dec_nonneg [of "plan_amountSats plan"]
    by (auto simp: plan_allowed_def)
  then have "newOfflinePaymentPreparer (preparer_of C policy now) = Inr maximum"
    using maximum by (simp add: newOfflinePaymentPreparer_Inr preparer_of_def)
  moreover have "check_approval d = Inr ()" using assms(4) by (simp add: check_approval_Inr)
  ultimately show ?thesis
    using now policy plan prepared again assms(2,3)
    by (simp add: execute_payment_def fst_tbind Let_def checkedNow_def run_context_def evaluatePaymentPolicy_Inr)
qed

text \<open>A run asks for approval at most once, after the preparation, and broadcasts at most once, after that.\<close>

lemma fst_tbind_append: "fst (tbind m f) = fst m @ (case snd m of Inl _ \<Rightarrow> [] | Inr x \<Rightarrow> fst (f x))"
  by (simp add: tbind_def split: sum.split)

definition tail_ok :: "payment_event list \<Rightarrow> bool" where
  "tail_ok evs \<longleftrightarrow> evs = [] \<or> (\<exists>p. evs = [AskApproval p]) \<or> (\<exists>p r. evs = [AskApproval p, BroadcastTx r])"

definition trace_ok :: "payment_event list \<Rightarrow> bool" where
  "trace_ok evs \<longleftrightarrow> (\<exists>before after. evs = before @ after \<and>
     set before \<subseteq> range GetUtxos \<union> range SignMessage \<and> tail_ok after)"

lemma trace_nil: "tail_ok []" "trace_ok []"
  by (simp_all add: tail_ok_def trace_ok_def)

lemma trace_ok_append:
  "set as \<subseteq> range GetUtxos \<union> range SignMessage \<Longrightarrow> tail_ok bs \<Longrightarrow> trace_ok (as @ bs)"
  unfolding trace_ok_def by blast

lemma trace_pure: "(\<And>x. trace_ok (fst (f x))) \<Longrightarrow> trace_ok (fst (tbind (tpure m) f))"
  by (cases m) (simp_all add: trace_nil)

lemma tail_pure: "(\<And>x. tail_ok (fst (f x))) \<Longrightarrow> tail_ok (fst (tbind (tpure m) f))"
  by (cases m) (simp_all add: trace_nil)

lemma trace_prepare:
  assumes "\<And>x. tail_ok (fst (f x))"
  shows "trace_ok (fst (tbind (prepare_payment E L issue P maximum v resource) f))"
proof -
  have "tail_ok (case snd (prepare_payment E L issue P maximum v resource) of Inl e \<Rightarrow> [] | Inr x \<Rightarrow> fst (f x))"
    using assms trace_nil(1) by (simp split: sum.split)
  then show ?thesis
    unfolding fst_tbind_append by (intro trace_ok_append prepare_payment_events)
qed

lemma tail_approval:
  "tail_ok (fst (tbind (ask (AskApproval p) d) (\<lambda>d. tbind (tpure (c d)) (\<lambda>_. tbind (ask (BroadcastTx r) b) (\<lambda>x. tpure (g d x))))))"
proof (cases d)
  case (Inr v)
  then show ?thesis by (cases "c v"; cases b) (simp_all add: tail_ok_def)
qed (simp add: tail_ok_def)

lemma execute_trace: "trace_ok (fst (execute_payment E L issue num C invoice resource))"
  unfolding execute_payment_def Let_def by (intro trace_pure trace_prepare tail_pure) (simp add: tail_approval trace_nil)

text \<open>In particular, a dry run stops after the preparation.\<close>

lemma live_tail:
  assumes "tail_ok after" "\<And>p. AskApproval p \<in> set after \<Longrightarrow> live"
  shows "after = [] \<or> (live \<and> (\<exists>p. after = [AskApproval p] \<or> (\<exists>r. after = [AskApproval p, BroadcastTx r])))"
  using assms(1) [unfolded tail_ok_def]
proof (elim disjE exE)
  fix p assume "after = [AskApproval p]"
  with assms(2) show ?thesis by simp
next
  fix p r assume "after = [AskApproval p, BroadcastTx r]"
  with assms(2) show ?thesis by simp
qed simp

lemma execute_order:
  "\<exists>before after. fst (execute_payment E L issue num C invoice resource) = before @ after \<and>
     set before \<subseteq> range GetUtxos \<union> range SignMessage \<and>
     (after = [] \<or> (\<not> is_dryRun C \<and> (\<exists>p. after = [AskApproval p] \<or> (\<exists>r. after = [AskApproval p, BroadcastTx r]))))"
proof -
  define t where "t = fst (execute_payment E L issue num C invoice resource)"
  obtain before after where parts: "t = before @ after" "set before \<subseteq> range GetUtxos \<union> range SignMessage" "tail_ok after"
    using execute_trace [of E L issue num C invoice resource] unfolding t_def [symmetric] trace_ok_def
    by (elim exE conjE) (rule that)
  have "\<not> is_dryRun C" if "AskApproval p \<in> set after" for p
  proof -
    have "AskApproval p \<in> set t" using that parts(1) by simp
    from execute_events [OF this [unfolded t_def]] show ?thesis by (elim disjE exE conjE) simp_all
  qed
  then have "after = [] \<or> (\<not> is_dryRun C \<and> (\<exists>p. after = [AskApproval p] \<or> (\<exists>r. after = [AskApproval p, BroadcastTx r])))"
    by (rule live_tail [OF parts(3)])
  with parts(1,2) show ?thesis
    unfolding t_def [symmetric] by (intro exI [of _ before] exI [of _ after] conjI)
qed

subsection \<open>What is approved\<close>

lemma parse_invoice_props:
  "parse_invoice v = Some i \<Longrightarrow>
     isRecord v \<and> prop_of v ''network'' = JStr XEC_MAINNET \<and> prop_of v ''scheme'' = JStr XEC_SCHEME \<and>
     prop_of v ''amountSats'' = JStr (inv_amountSats i) \<and> prop_of v ''payTo'' = JStr (inv_payTo i) \<and>
     (\<exists>n. prop_of v ''expiresAt'' = JNum n \<and> safe_nonneg n = Some (inv_expiresAt i))"
  by (auto simp: parse_invoice_def bind_eq_Some_conv str_field_Some int_field_Some)

text \<open>The plan put to approval is the invoice's payment, with the fee and the id of the transaction built.\<close>

definition plan_of :: "payment_plan \<Rightarrow> invoice \<Rightarrow> build_result \<Rightarrow> bool" where
  "plan_of plan i b \<longleftrightarrow>
     plan_network plan = XEC_MAINNET \<and> plan_scheme plan = XEC_SCHEME \<and> plan_amountSats plan = inv_amountSats i \<and>
     plan_payTo plan = inv_payTo i \<and> safe_nonneg (plan_expiresAt plan) = Some (inv_expiresAt i) \<and>
     plan_feeSats plan = Some (bt_feeSats b) \<and> plan_transactionTxid plan = Some (bt_txid b)"

lemma planned_terms:
  assumes "planned E L issue num C invoice resource policy plan prepared"
  shows "plan_of (approval_plan plan prepared) (env_invoice (pp_envelope prepared)) (pp_fundingTransaction prepared)"
    and "parse_invoice invoice = Some (env_invoice (pp_envelope prepared))"
    and "pp_rawTx prepared = bt_rawTx (pp_fundingTransaction prepared)"
    and "computeResourceHash E resource = Inr (inv_resourceHash (env_invoice (pp_envelope prepared)))"
proof -
  from assms obtain now maximum where plan: "initial_plan num policy invoice = Inr plan"
    and p: "snd (prepare_payment E L issue (preparer_of C policy now) maximum invoice resource) = Inr prepared"
    unfolding planned_def by blast
  from prepare_payment_Inr [OF p] have i: "parse_invoice invoice = Some (env_invoice (pp_envelope prepared))"
    and raw: "pp_rawTx prepared = bt_rawTx (pp_fundingTransaction prepared)"
    and h: "computeResourceHash E resource = Inr (inv_resourceHash (env_invoice (pp_envelope prepared)))"
    by (auto simp: prepared_ok_def)
  note props = parse_invoice_props [OF i]
  then have "get_prop invoice k = Inr (prop_of invoice k)" for k by (auto simp: get_prop_def)
  with plan props show "plan_of (approval_plan plan prepared) (env_invoice (pp_envelope prepared)) (pp_fundingTransaction prepared)"
    by (auto simp: initial_plan_def string_prop_def err_simps plan_of_def approval_plan_def)
  from i raw h show "parse_invoice invoice = Some (env_invoice (pp_envelope prepared))"
    "pp_rawTx prepared = bt_rawTx (pp_fundingTransaction prepared)"
    "computeResourceHash E resource = Inr (inv_resourceHash (env_invoice (pp_envelope prepared)))" by simp_all
qed

text \<open>The transaction is what the builder made of the outputs that the provider offered for this invoice.\<close>

lemma planned_built:
  assumes "planned E L issue num C invoice resource policy plan prepared"
  shows "\<exists>now us. safe_nonneg (oc_now C) = Some now \<and> plan_allowed policy (approval_plan plan prepared) (run_context C now) \<and>
    oc_utxoProvider C \<lparr>ur_network = XEC_MAINNET, ur_payer = oc_payer C,
      ur_amountSats = inv_amountSats (env_invoice (pp_envelope prepared))\<rparr> = Inr (Some us) \<and>
    (case oc_transactionBuilder C of None \<Rightarrow> buildFundingTx L | Some build \<Rightarrow> build)
      (funding_request (preparer_of C policy now) (env_invoice (pp_envelope prepared)) us) =
      Inr (pp_fundingTransaction prepared)"
proof -
  from assms obtain now maximum where now: "safe_nonneg (oc_now C) = Some now"
    and allowed: "plan_allowed policy (approval_plan plan prepared) (run_context C now)"
    and p: "snd (prepare_payment E L issue (preparer_of C policy now) maximum invoice resource) = Inr prepared"
    unfolding planned_def by blast
  from prepare_payment_Inr [OF p] obtain us where
    "snd (fetch_utxos (preparer_of C policy now) (env_invoice (pp_envelope prepared))) = Inr us"
    "(case op_transactionBuilder (preparer_of C policy now) of None \<Rightarrow> buildFundingTx L | Some build \<Rightarrow> build)
       (funding_request (preparer_of C policy now) (env_invoice (pp_envelope prepared)) us) =
       Inr (pp_fundingTransaction prepared)"
    unfolding prepared_ok_def by blast
  then show ?thesis using now allowed unfolding fetch_utxos_Inr by (auto simp: preparer_of_def)
qed

lemma planned_unique:
  assumes "planned E L issue num C invoice resource policy plan prepared"
    and "planned E L issue num C invoice resource policy' plan' prepared'"
  shows "plan' = plan" "prepared' = prepared"
  using assms by (auto simp: planned_def)

text \<open>A run that broadcasts ends with the approval of the plan and the broadcast.\<close>

lemma broadcast_trace:
  assumes "BroadcastTx raw \<in> set (fst (execute_payment E L issue num C invoice resource))"
    and p: "planned E L issue num C invoice resource policy plan prepared"
  shows "\<exists>before. set before \<subseteq> range GetUtxos \<union> range SignMessage \<and>
    fst (execute_payment E L issue num C invoice resource) = before @ [AskApproval (approval_plan plan prepared), BroadcastTx raw]"
proof -
  let ?t = "fst (execute_payment E L issue num C invoice resource)"
  obtain before after where t: "?t = before @ after" "set before \<subseteq> range GetUtxos \<union> range SignMessage"
    and after: "after = [] \<or> (\<exists>q. after = [AskApproval q] \<or> (\<exists>r. after = [AskApproval q, BroadcastTx r]))"
    using execute_order [of E L issue num C invoice resource] by blast
  have "BroadcastTx raw \<notin> set before" using t(2) by auto
  then obtain q where q: "after = [AskApproval q, BroadcastTx raw]" using assms(1) t(1) after by auto
  then have "AskApproval q \<in> set ?t" using t(1) by simp
  from execute_events [OF this] obtain policy' plan' prepared' where
    "planned E L issue num C invoice resource policy' plan' prepared'" "q = approval_plan plan' prepared'"
    by auto
  with planned_unique [OF p] t q show ?thesis by blast
qed

text \<open>A broadcast transaction: what the constructor and the run have checked.\<close>

lemma broadcast_checked:
  assumes "newLivePaymentOrchestrator C = Inr ()"
    and "BroadcastTx raw \<in> set (fst (execute_payment E L issue num C invoice resource))"
  shows "oc_dryRun C = Some False \<and> oc_allowBroadcast C = Some True \<and>
    (\<exists>f policy plan i us b d now before. oc_broadcastProvider C = Some (Broadcaster f) \<and> oc_paymentPolicy C = Some policy \<and>
       safe_nonneg (oc_now C) = Some now \<and> parse_invoice invoice = Some i \<and>
       computeResourceHash E resource = Inr (inv_resourceHash i) \<and>
       oc_utxoProvider C \<lparr>ur_network = XEC_MAINNET, ur_payer = oc_payer C, ur_amountSats = inv_amountSats i\<rparr> = Inr (Some us) \<and>
       (case oc_transactionBuilder C of None \<Rightarrow> buildFundingTx L | Some build \<Rightarrow> build)
         (funding_request (preparer_of C policy now) i us) = Inr b \<and>
       raw = bt_rawTx b \<and> plan_of plan i b \<and> plan_allowed policy plan (run_context C now) \<and>
       approvalProvider C plan = Inr d \<and> prop_of d ''approved'' = JBool True \<and>
       set before \<subseteq> range GetUtxos \<union> range SignMessage \<and>
       fst (execute_payment E L issue num C invoice resource) = before @ [AskApproval plan, BroadcastTx raw])"
proof -
  from execute_events [OF assms(2)] obtain policy plan prepared d where
    live: "\<not> is_dryRun C" and p: "planned E L issue num C invoice resource policy plan prepared"
    and d: "approvalProvider C (approval_plan plan prepared) = Inr d" "prop_of d ''approved'' = JBool True"
    and raw: "raw = pp_rawTx prepared"
    by auto
  from assms(1) live have c: "oc_allowBroadcast C = Some True" "broadcastProvider C \<noteq> DisabledBroadcaster"
    "oc_paymentPolicy C \<noteq> None" "oc_broadcastProvider C \<noteq> None"
    by (auto simp: newLivePaymentOrchestrator_def split: if_splits)
  from c(2,4) obtain f where f: "oc_broadcastProvider C = Some (Broadcaster f)"
    by (cases "broadcastProvider C") (auto simp: broadcastProvider_def split: option.splits)
  from live have dry: "oc_dryRun C = Some False" by (auto simp: is_dryRun_def split: option.splits)
  from p c(3) have policy: "oc_paymentPolicy C = Some policy" by (auto simp: planned_def split: option.splits)
  note t = planned_terms [OF p]
  from t(3) raw have raw: "raw = bt_rawTx (pp_fundingTransaction prepared)" by simp
  from planned_built [OF p] broadcast_trace [OF assms(2) p] obtain now us before where
    "safe_nonneg (oc_now C) = Some now \<and> plan_allowed policy (approval_plan plan prepared) (run_context C now) \<and>
      oc_utxoProvider C \<lparr>ur_network = XEC_MAINNET, ur_payer = oc_payer C,
        ur_amountSats = inv_amountSats (env_invoice (pp_envelope prepared))\<rparr> = Inr (Some us) \<and>
      (case oc_transactionBuilder C of None \<Rightarrow> buildFundingTx L | Some build \<Rightarrow> build)
        (funding_request (preparer_of C policy now) (env_invoice (pp_envelope prepared)) us) =
        Inr (pp_fundingTransaction prepared)"
    "set before \<subseteq> range GetUtxos \<union> range SignMessage"
    "fst (execute_payment E L issue num C invoice resource) = before @ [AskApproval (approval_plan plan prepared), BroadcastTx raw]"
    by blast
  with c(1) f dry policy raw t(1,2,4) d show ?thesis by blast
qed

end
