(* ===== verification/Payment_Samples.thy ===== *)
theory Payment_Samples
  imports Payment_Orchestrator Samples
begin

text \<open>
  One live payment of the sample invoice: a transaction library, outputs, a policy, and what the preparer
  and the orchestrator make of them.
\<close>

subsection \<open>A live payment\<close>

definition sample_lib :: "unit ecash_lib" where
  "sample_lib = \<lparr>el_address = (\<lambda>a. if a = sample_address then Some (''ecash'', sample_script) else None),
     el_sign = (\<lambda>dummy inputs pay change fee dust.
       if sum_list (map (\<lambda>(_, sats, _). sats) inputs) < fst pay + 200 then Inl (PlainError ''Insufficient input sats'')
       else Inr \<lparr>lt_txid = hex64 CHR ''2'', lt_hex = ''0200'', lt_outputs = [pay]\<rparr>)\<rparr>"

definition sample_utxo :: funding_utxo where
  "sample_utxo = \<lparr>utxo_txid = hex64 CHR ''3'', utxo_outIdx = NInt 1, utxo_sats = ''400'',
     utxo_outputScript = sample_script, utxo_token = JUndef\<rparr>"

definition sample_policy :: payment_policy where
  "sample_policy = \<lparr>pol_maxPaymentSats = JNum (NInt 600), pol_allowedNetworks = [JStr XEC_MAINNET],
     pol_allowedSchemes = [JStr XEC_SCHEME], pol_allowedPayToAddresses = Some [sample_address],
     pol_requireFinality = None, pol_requireManualApproval = True, pol_expiresAtSkewSeconds = Some (NInt 10),
     pol_maxFeeSats = Some (JStr ''300'')\<rparr>"

definition sample_live :: "unit orchestrator_config" where
  "sample_live = \<lparr>oc_utxoProvider = (\<lambda>r. Inr (Some [sample_utxo, sample_utxo, sample_utxo])), oc_transactionBuilder = None,
     oc_sign = (\<lambda>m. Inr (JStr ''sig'')),
     oc_broadcastProvider = Some (Broadcaster (\<lambda>raw. Inr (JObj [(''txid'', JStr (hex64 CHR ''2''))]))),
     oc_approvalProvider = Some (\<lambda>plan. Inr (JObj [(''approved'', JBool True)])), oc_paymentPolicy = Some sample_policy,
     oc_payer = sample_address, oc_changeAddress = sample_address, oc_signatoryForUtxo = (\<lambda>u. Inr ()),
     oc_dryRun = Some False, oc_allowBroadcast = Some True, oc_maxPaymentSats = JUndef, oc_feePerKb = None,
     oc_dustSats = None, oc_now = NInt 150\<rparr>"

lemma sample_live_new: "newLivePaymentOrchestrator sample_live = Inr ()"
  by (simp add: newLivePaymentOrchestrator_def is_dryRun_def broadcastProvider_def sample_live_def)


text \<open>What the preparer makes of it: two outputs are spent, as one does not suffice.\<close>

definition sample_funding :: build_result where
  "sample_funding = \<lparr>bt_rawTx = ''0200'', bt_txid = hex64 CHR ''2'', bt_selectedInputs = [sample_utxo, sample_utxo],
     bt_outpoint_txid = hex64 CHR ''2'', bt_outpoint_outIdx = 0,
     bt_fundingOutput = \<lparr>fto_outIdx = 0, fto_amountSats = ''546'', fto_outputScript = sample_script\<rparr>,
     bt_feeSats = ''254'', bt_changeSats = ''0''\<rparr>"

definition sample_signed :: authorization where
  "sample_signed = with_signature (unsigned_payment sample_invoice (hex64 CHR ''0'') sample_address sample_funding) ''sig''"

definition sample_prepared_payment :: prepared_payment where
  "sample_prepared_payment = \<lparr>pp_envelope = \<lparr>env_invoice = sample_invoice, env_authorization = sample_signed\<rparr>,
     pp_paymentSignature = base64url (utf8_encode (json_text (envelope_to_json
       \<lparr>env_invoice = sample_invoice, env_authorization = sample_signed\<rparr>))),
     pp_rawTx = ''0200'', pp_fundingTransaction = sample_funding\<rparr>"

definition sample_plan :: payment_plan where
  "sample_plan = \<lparr>plan_network = XEC_MAINNET, plan_scheme = XEC_SCHEME, plan_amountSats = ''546'',
     plan_payTo = sample_address, plan_expiresAt = NInt 200, plan_feeSats = None, plan_transactionTxid = None,
     plan_requiresManualApproval = True, plan_finality = None\<rparr>"

definition sample_approved_plan :: payment_plan where
  "sample_approved_plan = sample_plan\<lparr>plan_feeSats := Some ''254'', plan_transactionTxid := Some (hex64 CHR ''2'')\<rparr>"

abbreviation sample_preparer :: "unit preparer_options" where
  "sample_preparer \<equiv> preparer_of sample_live sample_policy 150"

lemma sample_funding_built:
  "buildFundingTx sample_lib (funding_request sample_preparer sample_invoice [sample_utxo, sample_utxo, sample_utxo]) =
     Inr sample_funding"
  by code_simp

lemma sample_signed_valid: "authorization_valid sample_signed"
  by code_simp

lemma sample_preparer_ok:
  "prepared_ok sample_runtime sample_lib sample_preparer 600 (invoice_to_json sample_invoice) sample_request
     sample_prepared_payment"
proof -
  obtain m where m: "authorizationSigningMessage sample_signed = Inr m" using authorizationSigningMessage_total by blast
  have "snd (fetch_utxos sample_preparer sample_invoice) = Inr [sample_utxo, sample_utxo, sample_utxo]"
    by (simp add: fetch_utxos_Inr preparer_of_def sample_live_def)
  moreover have "op_transactionBuilder sample_preparer = None" "op_now sample_preparer = NInt 150"
    "op_payer sample_preparer = sample_address" "op_sign sample_preparer m = Inr (JStr ''sig'')"
    by (simp_all add: preparer_of_def sample_live_def)
  moreover have "int (dec_to_nat (inv_amountSats sample_invoice)) \<le> 600" by code_simp
  moreover have "safe_nonneg (NInt 150) = Some 150" by code_simp
  moreover have "inv_resourceHash sample_invoice = hex64 CHR ''0''" "inv_issuedAt sample_invoice = 100"
    "inv_expiresAt sample_invoice = 200" by (simp_all add: sample_invoice_def)
  ultimately show ?thesis
    using sample_funding_built sample_signed_valid sample_resource_hash sample_invoice_hash sample_parses(1) m
    unfolding prepared_ok_def
    by (intro exI [of _ 150] exI [of _ sample_invoice] exI [of _ "[sample_utxo, sample_utxo, sample_utxo]"]
        exI [of _ "hex64 CHR ''0''"] exI [of _ m] exI [of _ "''sig''"])
      (simp add: sample_prepared_payment_def, simp add: sample_signed_def sample_funding_def)
qed

lemma sample_planned:
  "planned sample_runtime sample_lib (\<lambda>v. []) (\<lambda>s. NNaN) sample_live (invoice_to_json sample_invoice) sample_request
     sample_policy sample_plan sample_prepared_payment"
proof -
  have "initial_plan (\<lambda>s. NNaN) sample_policy (invoice_to_json sample_invoice) = Inr sample_plan" by code_simp
  moreover have "approval_plan sample_plan sample_prepared_payment = sample_approved_plan"
    by (simp add: approval_plan_def sample_prepared_payment_def sample_approved_plan_def sample_funding_def)
  moreover have "evaluatePaymentPolicy sample_policy sample_plan (run_context sample_live 150) = Inr ()"
    "evaluatePaymentPolicy sample_policy sample_approved_plan (run_context sample_live 150) = Inr ()"
    by code_simp+
  moreover have "safe_nonneg (oc_now sample_live) = Some 150" "limit_of (pol_maxPaymentSats sample_policy) = Some 600"
    "is_address (oc_payer sample_live)" by code_simp+
  moreover have "oc_paymentPolicy sample_live = Some sample_policy" by (simp add: sample_live_def)
  ultimately show ?thesis
    using sample_preparer_ok unfolding planned_def prepare_payment_iff evaluatePaymentPolicy_Inr
    by (intro exI [of _ 150] exI [of _ 600]) simp
qed

lemma sample_broadcast:
  "BroadcastTx ''0200'' \<in> set (fst (execute_payment sample_runtime sample_lib (\<lambda>v. []) (\<lambda>s. NNaN) sample_live
     (invoice_to_json sample_invoice) sample_request))"
  using broadcast_run [OF sample_planned, of "JObj [(''approved'', JBool True)]"]
  by (simp add: is_dryRun_def approvalProvider_def sample_live_def sample_prepared_payment_def prop_of_def)

lemma sample_lib_pays: "builder_pays sample_lib"
  by (auto simp: builder_pays_def sample_lib_def split: if_splits)

end
