(* ===== verification/Wallet_Adapter.thy ===== *)
theory Wallet_Adapter
  imports Payment_Policy Canonical
begin

text \<open>
  \<open>packages/x402-xec-payments/src/browser-wallet-adapter.ts\<close>: the boundary to a browser wallet. Requests
  and responses are unchecked values; what the boundary hands to the wallet is a copy with the declared
  fields only. The lemmas show that a signature is asked for only after an approval, and that no
  other field of a request reaches the wallet.
\<close>

subsection \<open>Copies\<close>

definition pick_fields :: "string list \<Rightarrow> js_value \<Rightarrow> (string \<times> js_value) list result" where
  "pick_fields ks v = mapE (\<lambda>k. ebind (get_prop v k) (\<lambda>x. Inr (k, x))) ks"

text \<open>A field that is copied unless it is \<open>undefined\<close>.\<close>

definition optional_fields :: "string list \<Rightarrow> js_value \<Rightarrow> (string \<times> js_value) list" where
  "optional_fields ks v = filter (\<lambda>(_, x). x \<noteq> JUndef) (map (\<lambda>k. (k, prop_of v k)) ks)"

text \<open>The own enumerable properties, as \<open>{ ...v }\<close> copies them.\<close>

fun spread :: "js_value \<Rightarrow> js_value" where
  "spread (JArr xs) = JObj (map (\<lambda>(i, x). (nat_to_dec i, x)) (List.enumerate 0 xs))"
| "spread (JStr s) = JObj (map (\<lambda>(i, c). (nat_to_dec i, JStr [c])) (List.enumerate 0 s))"
| "spread v = JObj (fields_of v)"

definition invoice_fields :: "string list" where
  "invoice_fields = [''x402Version'', ''scheme'', ''network'', ''resourceHash'', ''amountSats'', ''payTo'',
     ''nonce'', ''issuedAt'', ''expiresAt'']"

definition copyInvoice :: "js_value \<Rightarrow> js_value result" where
  "copyInvoice v = ebind (pick_fields invoice_fields v) (\<lambda>fs. Inr (JObj fs))"

definition plan_fields :: "string list" where
  "plan_fields = [''network'', ''scheme'', ''amountSats'', ''payTo'', ''expiresAt'', ''requiresManualApproval'']"

definition plan_options :: "string list" where
  "plan_options = [''feeSats'', ''transactionTxid'', ''finality'']"

definition copyPaymentPlan :: "js_value \<Rightarrow> js_value result" where
  "copyPaymentPlan v = ebind (pick_fields plan_fields v) (\<lambda>fs. Inr (JObj (fs @ optional_fields plan_options v)))"

definition copyApprovalRequest :: "js_value \<Rightarrow> js_value result" where
  "copyApprovalRequest request =
     ebind (ebind (get_prop request ''invoice'') copyInvoice) (\<lambda>i.
     ebind (ebind (get_prop request ''paymentPlan'') copyPaymentPlan) (\<lambda>p.
       Inr (JObj [(''invoice'', i), (''paymentPlan'', p)])))"

definition authorization_fields :: "string list" where
  "authorization_fields = [''x402Version'', ''scheme'', ''network'', ''invoiceHash'', ''resourceHash'',
     ''amountSats'', ''payTo'', ''nonce'', ''payer'']"

definition copySigningRequest :: "js_value \<Rightarrow> js_value result" where
  "copySigningRequest request =
     ebind (get_prop request ''authorization'') (\<lambda>a.
     ebind (pick_fields authorization_fields a) (\<lambda>fs.
     ebind (ebind (get_prop a ''transaction'') (pick_fields [''txid'', ''vout''])) (\<lambda>tx.
       Inr (JObj [(''authorization'', JObj (fs @ [(''transaction'', JObj tx)])),
                  (''message'', prop_of request ''message'')]))))"

definition copyTransactionSigningRequest :: "js_value \<Rightarrow> js_value result" where
  "copyTransactionSigningRequest request =
     ebind (get_prop request ''invoiceHash'') (\<lambda>h.
     ebind (ebind (get_prop request ''paymentPlan'') copyPaymentPlan) (\<lambda>p.
     ebind (ebind (get_prop request ''transaction'') (\<lambda>t. ebind (get_prop t ''transactionHex'') (\<lambda>x.
         Inr (JObj ([(''transactionHex'', x)] @ optional_fields [''transactionTxid''] t @
           map (\<lambda>(k, v). (k, spread v)) (optional_fields [''fundingOutpoint''] t) @
           optional_fields [''feeSats''] t))))) (\<lambda>tx.
       Inr (JObj [(''invoiceHash'', h), (''paymentPlan'', p), (''transaction'', tx)]))))"

subsection \<open>Adapters\<close>

record wallet_adapter =
  wa_getActiveAccount :: "js_value result"
  wa_requestApproval :: "js_value \<Rightarrow> js_value result"
  wa_signAuthorization :: "js_value \<Rightarrow> js_value result"
  wa_signPreparedTransaction :: "(js_value \<Rightarrow> js_value result) option"

definition disabled_response :: "string \<Rightarrow> js_value" where
  "disabled_response status =
     JObj [(''status'', JStr status), (''reason'', JStr ''Browser wallet adapter is disabled'')]"

definition disabled_wallet :: wallet_adapter where
  "disabled_wallet = \<lparr>wa_getActiveAccount = Inr (disabled_response ''unavailable''),
     wa_requestApproval = (\<lambda>_. Inr (disabled_response ''rejected'')),
     wa_signAuthorization = (\<lambda>_. Inr (disabled_response ''rejected'')),
     wa_signPreparedTransaction = Some (\<lambda>_. Inr (disabled_response ''rejected''))\<rparr>"

text \<open>\<open>TestOnlyBrowserWalletAdapter\<close>: its options, and what it was asked.\<close>

record test_wallet =
  tw_address :: js_value
  tw_publicKey :: js_value
  tw_approval :: js_value
  tw_authorizationSigning :: js_value
  tw_transactionSigning :: js_value
  tw_approvalRequests :: "js_value list"
  tw_signingRequests :: "js_value list"
  tw_transactionRequests :: "js_value list"

definition test_getActiveAccount :: "test_wallet \<Rightarrow> js_value" where
  "test_getActiveAccount w = JObj [(''status'', JStr ''available''),
     (''account'', JObj [(''address'', tw_address w), (''publicKey'', tw_publicKey w)])]"

definition test_requestApproval :: "test_wallet \<Rightarrow> js_value \<Rightarrow> js_value result \<times> test_wallet" where
  "test_requestApproval w request = (case copyApprovalRequest request of
     Inl e \<Rightarrow> (Inl e, w)
   | Inr r \<Rightarrow>
       (Inr (spread (if tw_approval w \<in> {JUndef, JNull} then JObj [(''status'', JStr ''approved'')] else tw_approval w)),
        w\<lparr>tw_approvalRequests := tw_approvalRequests w @ [r]\<rparr>))"

definition test_signAuthorization :: "hasher \<Rightarrow> test_wallet \<Rightarrow> js_value \<Rightarrow> js_value result \<times> test_wallet" where
  "test_signAuthorization sha w request = (case copySigningRequest request of
     Inl e \<Rightarrow> (Inl e, w)
   | Inr r \<Rightarrow>
       (if tw_authorizationSigning w \<noteq> JUndef then Inr (spread (tw_authorizationSigning w))
        else ebind (canonicalHash sha (JObj
            [(''domain'', JStr ''x402-xec-test-browser-wallet-authorization-v1''), (''address'', tw_address w),
             (''message'', prop_of r ''message'')])) (\<lambda>h.
          Inr (JObj [(''status'', JStr ''approved''), (''signature'', JStr h), (''publicKey'', tw_publicKey w)])),
        w\<lparr>tw_signingRequests := tw_signingRequests w @ [r]\<rparr>))"

definition test_signTransaction :: "test_wallet \<Rightarrow> js_value \<Rightarrow> js_value result \<times> test_wallet" where
  "test_signTransaction w request = (case copyTransactionSigningRequest request of
     Inl e \<Rightarrow> (Inl e, w)
   | Inr r \<Rightarrow>
       (Inr (if tw_transactionSigning w \<noteq> JUndef then spread (tw_transactionSigning w)
          else JObj ([(''status'', JStr ''approved''),
                      (''signedTransactionHex'', prop_of (prop_of r ''transaction'') ''transactionHex'')] @
                     optional_fields [''transactionTxid''] (prop_of r ''transaction''))),
        w\<lparr>tw_transactionRequests := tw_transactionRequests w @ [r]\<rparr>))"

subsection \<open>Approval before signing\<close>

datatype wallet_event = RequestApproval js_value | SignAuthorization js_value

definition wallet_authorize :: "wallet_adapter \<Rightarrow> js_value \<Rightarrow> (wallet_event, js_value) traced" where
  "wallet_authorize A request =
     tbind (tpure (ebind (get_prop request ''approval'') copyApprovalRequest)) (\<lambda>ar.
     tbind (ask (RequestApproval ar) (wa_requestApproval A ar)) (\<lambda>approval.
     tbind (tpure (get_prop approval ''status'')) (\<lambda>status.
     if status \<noteq> JStr ''approved'' then tpure (Inr (JObj [(''approval'', spread approval)]))
     else
       tbind (tpure (ebind (get_prop request ''signing'') copySigningRequest)) (\<lambda>sr.
       tbind (ask (SignAuthorization sr) (wa_signAuthorization A sr)) (\<lambda>signing.
         tpure (Inr (JObj [(''approval'', spread approval), (''signing'', spread signing)])))))))"

lemma get_prop_Inr [err_simps]: "get_prop v k = Inr x \<longleftrightarrow> v \<noteq> JUndef \<and> v \<noteq> JNull \<and> x = prop_of v k"
  by (auto simp: get_prop_def)

lemma pick_fields_Inr:
  "pick_fields ks v = Inr fs \<longleftrightarrow> (ks \<noteq> [] \<longrightarrow> v \<noteq> JUndef \<and> v \<noteq> JNull) \<and> fs = map (\<lambda>k. (k, prop_of v k)) ks"
  unfolding pick_fields_def by (induction ks arbitrary: fs) (auto simp: err_simps get_prop_Inr)

text \<open>The copies have exactly the declared fields, with the values of the request.\<close>

lemma copyInvoice_Inr:
  "copyInvoice v = Inr w \<longleftrightarrow> v \<noteq> JUndef \<and> v \<noteq> JNull \<and> w = JObj (map (\<lambda>k. (k, prop_of v k)) invoice_fields)"
  by (auto simp: copyInvoice_def err_simps pick_fields_Inr invoice_fields_def)

lemma copyPaymentPlan_Inr:
  "copyPaymentPlan v = Inr w \<longleftrightarrow> v \<noteq> JUndef \<and> v \<noteq> JNull \<and>
     w = JObj (map (\<lambda>k. (k, prop_of v k)) plan_fields @ optional_fields plan_options v)"
  by (auto simp: copyPaymentPlan_def err_simps pick_fields_Inr plan_fields_def)

lemma copySigningRequest_Inr:
  "copySigningRequest r = Inr w \<longleftrightarrow>
     (let a = prop_of r ''authorization''; t = prop_of a ''transaction'' in
      t \<noteq> JUndef \<and> t \<noteq> JNull \<and>
      w = JObj [(''authorization'', JObj (map (\<lambda>k. (k, prop_of a k)) authorization_fields @
             [(''transaction'', JObj [(''txid'', prop_of t ''txid''), (''vout'', prop_of t ''vout'')])])),
           (''message'', prop_of r ''message'')])"
proof -
  have nil: "prop_of JUndef k = JUndef" "prop_of JNull k = JUndef" for k by (simp_all add: prop_of_def)
  then show ?thesis
    by (auto simp: copySigningRequest_def err_simps get_prop_Inr pick_fields_Inr Let_def authorization_fields_def)
qed

lemma copyApprovalRequest_Inr:
  "ebind (get_prop request ''approval'') copyApprovalRequest = Inr w \<longleftrightarrow>
     (let i = prop_of (prop_of request ''approval'') ''invoice''; p = prop_of (prop_of request ''approval'') ''paymentPlan'' in
      i \<notin> {JUndef, JNull} \<and> p \<notin> {JUndef, JNull} \<and>
      w = JObj [(''invoice'', JObj (map (\<lambda>k. (k, prop_of i k)) invoice_fields)),
        (''paymentPlan'', JObj (map (\<lambda>k. (k, prop_of p k)) plan_fields @ optional_fields plan_options p))])"
proof -
  have nil: "prop_of JUndef k = JUndef" "prop_of JNull k = JUndef" for k by (simp_all add: prop_of_def)
  show ?thesis
    by (auto simp: copyApprovalRequest_def err_simps copyInvoice_Inr copyPaymentPlan_Inr Let_def nil)
qed

lemma copySigningRequest_of:
  "ebind (get_prop request ''signing'') copySigningRequest = Inr w \<longleftrightarrow>
     (let a = prop_of (prop_of request ''signing'') ''authorization''; t = prop_of a ''transaction'' in
      t \<notin> {JUndef, JNull} \<and>
      w = JObj [(''authorization'', JObj (map (\<lambda>k. (k, prop_of a k)) authorization_fields @
             [(''transaction'', JObj [(''txid'', prop_of t ''txid''), (''vout'', prop_of t ''vout'')])])),
           (''message'', prop_of (prop_of request ''signing'') ''message'')])"
proof -
  have nil: "prop_of JUndef k = JUndef" "prop_of JNull k = JUndef" for k by (simp_all add: prop_of_def)
  show ?thesis by (auto simp: err_simps copySigningRequest_Inr Let_def nil)
qed

lemma Inr_or_fails: "(\<And>w. m = Inr w \<longleftrightarrow> P \<and> w = c) \<Longrightarrow> (P \<and> m = Inr c) \<or> (\<not> P \<and> (\<exists>e. m = Inl e))"
  by (cases m) auto

text \<open>The whole trace, with the fields written out.\<close>

lemma wallet_authorize_trace:
  "let i = prop_of (prop_of request ''approval'') ''invoice''; p = prop_of (prop_of request ''approval'') ''paymentPlan'';
       s = prop_of request ''signing''; a = prop_of s ''authorization''; t = prop_of a ''transaction'';
       asked = JObj [(''invoice'', JObj
         [(''x402Version'', prop_of i ''x402Version''), (''scheme'', prop_of i ''scheme''), (''network'', prop_of i ''network''),
          (''resourceHash'', prop_of i ''resourceHash''), (''amountSats'', prop_of i ''amountSats''), (''payTo'', prop_of i ''payTo''),
          (''nonce'', prop_of i ''nonce''), (''issuedAt'', prop_of i ''issuedAt''), (''expiresAt'', prop_of i ''expiresAt'')]),
         (''paymentPlan'', JObj (
         [(''network'', prop_of p ''network''), (''scheme'', prop_of p ''scheme''), (''amountSats'', prop_of p ''amountSats''),
          (''payTo'', prop_of p ''payTo''), (''expiresAt'', prop_of p ''expiresAt''), (''requiresManualApproval'', prop_of p ''requiresManualApproval'')] @
          filter (\<lambda>(k, x). x \<noteq> JUndef) [(''feeSats'', prop_of p ''feeSats''), (''transactionTxid'', prop_of p ''transactionTxid''), (''finality'', prop_of p ''finality'')]))];
       signed = JObj [(''authorization'', JObj
         [(''x402Version'', prop_of a ''x402Version''), (''scheme'', prop_of a ''scheme''), (''network'', prop_of a ''network''),
          (''invoiceHash'', prop_of a ''invoiceHash''), (''resourceHash'', prop_of a ''resourceHash''), (''amountSats'', prop_of a ''amountSats''),
          (''payTo'', prop_of a ''payTo''), (''nonce'', prop_of a ''nonce''), (''payer'', prop_of a ''payer''),
          (''transaction'', JObj [(''txid'', prop_of t ''txid''), (''vout'', prop_of t ''vout'')])]),
         (''message'', prop_of s ''message'')] in
   fst (wallet_authorize A request) =
     (if i \<in> {JUndef, JNull} \<or> p \<in> {JUndef, JNull} then []
      else case wa_requestApproval A asked of
          Inl e \<Rightarrow> [RequestApproval asked]
        | Inr answer \<Rightarrow>
            if prop_of answer ''status'' = JStr ''approved'' \<and> t \<notin> {JUndef, JNull}
            then [RequestApproval asked, SignAuthorization signed]
            else [RequestApproval asked])"
proof -
  note pick = invoice_fields_def plan_fields_def plan_options_def optional_fields_def authorization_fields_def
  define i where "i = prop_of (prop_of request ''approval'') ''invoice''"
  define p where "p = prop_of (prop_of request ''approval'') ''paymentPlan''"
  define a where "a = prop_of (prop_of request ''signing'') ''authorization''"
  define t where "t = prop_of a ''transaction''"
  define asked where "asked = JObj [(''invoice'', JObj (map (\<lambda>k. (k, prop_of i k)) invoice_fields)),
        (''paymentPlan'', JObj (map (\<lambda>k. (k, prop_of p k)) plan_fields @ optional_fields plan_options p))]"
  define signed where "signed = JObj [(''authorization'', JObj (map (\<lambda>k. (k, prop_of a k)) authorization_fields @
             [(''transaction'', JObj [(''txid'', prop_of t ''txid''), (''vout'', prop_of t ''vout'')])])),
           (''message'', prop_of (prop_of request ''signing'') ''message'')]"
  have ar: "(i \<notin> {JUndef, JNull} \<and> p \<notin> {JUndef, JNull}) \<and>
        ebind (get_prop request ''approval'') copyApprovalRequest = Inr asked \<or>
      \<not> (i \<notin> {JUndef, JNull} \<and> p \<notin> {JUndef, JNull}) \<and>
        (\<exists>e. ebind (get_prop request ''approval'') copyApprovalRequest = Inl e)"
    by (rule Inr_or_fails) (simp only: copyApprovalRequest_Inr Let_def i_def p_def asked_def conj_assoc)
  have sr: "t \<notin> {JUndef, JNull} \<and> ebind (get_prop request ''signing'') copySigningRequest = Inr signed \<or>
      t \<in> {JUndef, JNull} \<and> (\<exists>e. ebind (get_prop request ''signing'') copySigningRequest = Inl e)"
    by (rule Inr_or_fails [where P = "t \<notin> {JUndef, JNull}", simplified not_not])
      (simp only: copySigningRequest_of Let_def a_def t_def signed_def)
  have status: "get_prop x ''status'' = Inr (JStr ''approved'') \<longleftrightarrow> prop_of x ''status'' = JStr ''approved''" for x
    by (auto simp: get_prop_Inr prop_of_def)
  have "fst (wallet_authorize A request) =
     (if i \<in> {JUndef, JNull} \<or> p \<in> {JUndef, JNull} then []
      else case wa_requestApproval A asked of
          Inl e \<Rightarrow> [RequestApproval asked]
        | Inr answer \<Rightarrow>
            if prop_of answer ''status'' = JStr ''approved'' \<and> t \<notin> {JUndef, JNull}
            then [RequestApproval asked, SignAuthorization signed]
            else [RequestApproval asked])"
  proof (cases "i \<notin> {JUndef, JNull} \<and> p \<notin> {JUndef, JNull}")
    case False
    with ar show ?thesis by (auto simp: wallet_authorize_def)
  next
    case True
    with ar have asked: "ebind (get_prop request ''approval'') copyApprovalRequest = Inr asked" by blast
    show ?thesis
    proof (cases "wa_requestApproval A asked")
      case (Inr x)
      show ?thesis
      proof (cases "prop_of x ''status'' = JStr ''approved''")
        case yes: True
        then have "get_prop x ''status'' = Inr (JStr ''approved'')" by (simp add: status)
        with sr True Inr yes asked show ?thesis
          by (elim disjE conjE exE; cases "wa_signAuthorization A signed") (auto simp: wallet_authorize_def)
      next
        case no: False
        then show ?thesis using True Inr asked status [of x]
          by (cases "get_prop x ''status''") (auto simp: wallet_authorize_def)
      qed
    qed (use True asked in \<open>auto simp: wallet_authorize_def\<close>)
  qed
  moreover have "asked = JObj [(''invoice'', JObj
         [(''x402Version'', prop_of i ''x402Version''), (''scheme'', prop_of i ''scheme''), (''network'', prop_of i ''network''),
          (''resourceHash'', prop_of i ''resourceHash''), (''amountSats'', prop_of i ''amountSats''), (''payTo'', prop_of i ''payTo''),
          (''nonce'', prop_of i ''nonce''), (''issuedAt'', prop_of i ''issuedAt''), (''expiresAt'', prop_of i ''expiresAt'')]),
         (''paymentPlan'', JObj (
         [(''network'', prop_of p ''network''), (''scheme'', prop_of p ''scheme''), (''amountSats'', prop_of p ''amountSats''),
          (''payTo'', prop_of p ''payTo''), (''expiresAt'', prop_of p ''expiresAt''), (''requiresManualApproval'', prop_of p ''requiresManualApproval'')] @
          filter (\<lambda>(k, x). x \<noteq> JUndef) [(''feeSats'', prop_of p ''feeSats''), (''transactionTxid'', prop_of p ''transactionTxid''), (''finality'', prop_of p ''finality'')]))]"
    by (simp only: asked_def pick list.map)
  moreover have "signed = JObj [(''authorization'', JObj
         [(''x402Version'', prop_of a ''x402Version''), (''scheme'', prop_of a ''scheme''), (''network'', prop_of a ''network''),
          (''invoiceHash'', prop_of a ''invoiceHash''), (''resourceHash'', prop_of a ''resourceHash''), (''amountSats'', prop_of a ''amountSats''),
          (''payTo'', prop_of a ''payTo''), (''nonce'', prop_of a ''nonce''), (''payer'', prop_of a ''payer''),
          (''transaction'', JObj [(''txid'', prop_of t ''txid''), (''vout'', prop_of t ''vout'')])]),
         (''message'', prop_of (prop_of request ''signing'') ''message'')]"
    by (simp only: signed_def pick list.map append.simps)
  ultimately show ?thesis by (simp only: Let_def i_def p_def a_def t_def)
qed

lemma spread_prop: "isRecord v \<Longrightarrow> prop_of (spread v) k = prop_of v k"
  by (cases v) (simp_all add: prop_of_def)

end
