(* ===== verification/Payment_Properties.thy ===== *)
theory Payment_Properties
  imports Payment_Samples Wallet_Adapter
begin

text \<open>
  The properties of the paying side: what has been checked when a transaction is broadcast, the order of
  a run, what a funding transaction pays, how broadcast errors are told apart, and that a wallet signs
  after an approval only. The witnesses run one live payment of the sample invoice.
\<close>

subsection \<open>Broadcast and approval\<close>

text \<open>C5: A transaction is broadcast only by an orchestrator that was configured for live payments with a
  provider and a policy, for a valid invoice of the requested resource. The bytes are those that the
  builder made of the outputs offered for the invoice; the run ends with the approval of a plan and this broadcast;
  and the plan, which the policy allowed and the approval provider approved, has the invoice's terms and the
  fee and the id of that very build.\<close>

theorem broadcast_gated:
  assumes "newLivePaymentOrchestrator C = Inr ()"
    and "BroadcastTx raw \<in> set (fst (execute_payment E L issue num C invoice resource))"
  shows "oc_dryRun C = Some False \<and> oc_allowBroadcast C = Some True \<and>
    (\<exists>f policy plan i us b d now before. oc_broadcastProvider C = Some (Broadcaster f) \<and> oc_paymentPolicy C = Some policy \<and>
       safe_nonneg (oc_now C) = Some now \<and> parse_invoice invoice = Some i \<and>
       computeResourceHash E resource = Inr (inv_resourceHash i) \<and>
       oc_utxoProvider C \<lparr>ur_network = XEC_MAINNET, ur_payer = oc_payer C, ur_amountSats = inv_amountSats i\<rparr> = Inr (Some us) \<and>
       (case oc_transactionBuilder C of None \<Rightarrow> buildFundingTx L | Some build \<Rightarrow> build)
         (funding_request (preparer_of C policy now) i us) = Inr b \<and>
       raw = bt_rawTx b \<and> plan_of plan i b \<and> plan_allowed policy plan (run_context C now) \<and>
       approvalProvider C plan = Inr d \<and> prop_of d ''approved'' = JBool True \<and>
       set before \<subseteq> range GetUtxos \<union> range SignMessage \<and>
       fst (execute_payment E L issue num C invoice resource) = before @ [AskApproval plan, BroadcastTx raw])"
  by (rule broadcast_checked [OF assms])

theorem broadcast_gated_witness:
  "\<exists>plan us b d. buildFundingTx sample_lib (funding_request sample_preparer sample_invoice us) = Inr b \<and>
     ''0200'' = bt_rawTx b \<and> plan_of plan sample_invoice b \<and>
     plan_allowed sample_policy plan (run_context sample_live 150) \<and> approvalProvider sample_live plan = Inr d \<and>
     prop_of d ''approved'' = JBool True"
proof -
  have "oc_transactionBuilder sample_live = None" "oc_paymentPolicy sample_live = Some sample_policy"
    "safe_nonneg (oc_now sample_live) = Some 150"
    by (simp_all add: sample_live_def safe_nonneg_def max_safe_integer_def)
  with broadcast_gated [OF sample_live_new sample_broadcast] sample_parses(1) show ?thesis by auto
qed

text \<open>C24: A run of the orchestrator reads outputs and signs first, asks for approval at most once after that, and
  broadcasts at most once, right after the approval; a dry run does neither.\<close>

theorem execution_order:
  "\<exists>before after. fst (execute_payment E L issue num C invoice resource) = before @ after \<and>
     set before \<subseteq> range GetUtxos \<union> range SignMessage \<and>
     (after = [] \<or> (\<not> is_dryRun C \<and> (\<exists>p. after = [AskApproval p] \<or> (\<exists>r. after = [AskApproval p, BroadcastTx r]))))"
  by (rule execute_order)

text \<open>C23: The preparer succeeds exactly where the invoice is valid, timely, within the limit and for the requested
  resource, the provider and the builder answer, and the signature is over the message that a verifier
  of the authorization recomputes; the header is then the base64url text of the envelope.\<close>

theorem preparation_iff:
  "snd (prepare_payment E L issue P maximum v resource) = Inr pp \<longleftrightarrow> prepared_ok E L P maximum v resource pp"
  by (rule prepare_payment_iff)

text \<open>C22: Where the transaction library keeps its contract, a funding transaction spends a non-empty prefix of the
  outputs offered, pays the invoice's address exactly the invoice's amount with its first output, leaves
  no change below the dust threshold, and the amounts spent are the amounts paid, returned and left as fee.\<close>

theorem funding_balanced:
  assumes "buildFundingTx L r = Inr b" "builder_pays L"
  shows "\<exists>i script n. parse_invoice (br_invoice r) = Some i \<and>
    addressScript L (inv_payTo i) ''invoice.payTo'' = Inr script \<and>
    0 < n \<and> n \<le> length (br_utxos r) \<and> bt_selectedInputs b = take n (br_utxos r) \<and>
    (BigInt_of (bt_changeSats b) = 0 \<or> dust_of r \<le> BigInt_of (bt_changeSats b)) \<and>
    bt_outpoint_txid b = bt_txid b \<and> bt_outpoint_outIdx b = 0 \<and>
    fto_outIdx (bt_fundingOutput b) = 0 \<and> fto_outputScript (bt_fundingOutput b) = script \<and>
    BigInt_of (fto_amountSats (bt_fundingOutput b)) = BigInt_of (inv_amountSats i) \<and>
    0 \<le> BigInt_of (bt_feeSats b) \<and>
    sats_of (bt_selectedInputs b) =
      BigInt_of (inv_amountSats i) + BigInt_of (bt_changeSats b) + BigInt_of (bt_feeSats b)"
  by (rule funding_tx_pays [OF assms])

theorem funding_balanced_witness:
  "sats_of (bt_selectedInputs sample_funding) =
     BigInt_of (inv_amountSats sample_invoice) + BigInt_of (bt_changeSats sample_funding) + BigInt_of (bt_feeSats sample_funding)"
  using funding_balanced [OF sample_funding_built sample_lib_pays] sample_parses(1)
  by (elim exE conjE) (simp add: funding_request_def)

text \<open>The inputs are the shortest prefix of the outputs offered for which the transaction can be built; for
  every shorter one the library reports insufficient inputs.\<close>

lemma shortest_selection:
  "select_inputs L T utxos = Inr us \<longleftrightarrow>
     (\<exists>n. 0 < n \<and> n \<le> length utxos \<and> us = take n utxos \<and> ok (buildTx L True T us) \<and>
          {0<..<n} \<subseteq> {m. insufficient L T (take m utxos)})"
proof -
  have "{0<..<n} \<subseteq> {m. insufficient L T (take m utxos)} \<longleftrightarrow>
      (\<forall>m. 0 < m \<and> m < n \<longrightarrow> insufficient L T (take m utxos))" for n :: nat
    by (simp only: subset_eq Ball_def greaterThanLessThan_iff mem_Collect_eq)
  then show ?thesis unfolding select_inputs_Inr by simp
qed

text \<open>C33: What the wallet boundary sends to a wallet: nothing for a request without an invoice or a plan; otherwise a request
  for approval with the nine fields of the invoice and those of the plan, and nothing else; and after that,
  exactly if the wallet's answer has the status \<open>approved\<close> and the signing request has a transaction, one request
  for a signature with the ten fields of the authorization and the message, and nothing else. An
  optional field of the plan is left out where it is \<open>undefined\<close>.\<close>

theorem wallet_signs_after_approval:
  "let i = prop_of (prop_of request ''approval'') ''invoice''; p = prop_of (prop_of request ''approval'') ''paymentPlan'';
       s = prop_of request ''signing''; a = prop_of s ''authorization''; t = prop_of a ''transaction'';
       asked = JObj [(''invoice'', JObj
         [(''x402Version'', prop_of i ''x402Version''), (''scheme'', prop_of i ''scheme''), (''network'', prop_of i ''network''),
          (''resourceHash'', prop_of i ''resourceHash''), (''amountSats'', prop_of i ''amountSats''), (''payTo'', prop_of i ''payTo''),
          (''nonce'', prop_of i ''nonce''), (''issuedAt'', prop_of i ''issuedAt''), (''expiresAt'', prop_of i ''expiresAt'')]),
         (''paymentPlan'', JObj (
         [(''network'', prop_of p ''network''), (''scheme'', prop_of p ''scheme''), (''amountSats'', prop_of p ''amountSats''),
          (''payTo'', prop_of p ''payTo''), (''expiresAt'', prop_of p ''expiresAt''), (''requiresManualApproval'', prop_of p ''requiresManualApproval'')] @
          filter (\<lambda>(k, x). x \<noteq> JUndef) [(''feeSats'', prop_of p ''feeSats''), (''transactionTxid'', prop_of p ''transactionTxid''), (''finality'', prop_of p ''finality'')]))];
       signed = JObj [(''authorization'', JObj
         [(''x402Version'', prop_of a ''x402Version''), (''scheme'', prop_of a ''scheme''), (''network'', prop_of a ''network''),
          (''invoiceHash'', prop_of a ''invoiceHash''), (''resourceHash'', prop_of a ''resourceHash''), (''amountSats'', prop_of a ''amountSats''),
          (''payTo'', prop_of a ''payTo''), (''nonce'', prop_of a ''nonce''), (''payer'', prop_of a ''payer''),
          (''transaction'', JObj [(''txid'', prop_of t ''txid''), (''vout'', prop_of t ''vout'')])]),
         (''message'', prop_of s ''message'')] in
   fst (wallet_authorize A request) =
     (if i \<in> {JUndef, JNull} \<or> p \<in> {JUndef, JNull} then []
      else case wa_requestApproval A asked of
          Inl e \<Rightarrow> [RequestApproval asked]
        | Inr answer \<Rightarrow>
            if prop_of answer ''status'' = JStr ''approved'' \<and> t \<notin> {JUndef, JNull}
            then [RequestApproval asked, SignAuthorization signed]
            else [RequestApproval asked])"
  by (rule wallet_authorize_trace)

end
