(* ===== verification/Payment_Offer.thy ===== *)
theory Payment_Offer
  imports Wire
begin

text \<open>
  \<open>packages/x402-xec-express/src/payment-offer-header.ts\<close>: the header that carries a payment offer, as
  canonical JSON in unpadded base64url. The text of a zod error is a parameter (\<open>issues\<close>), and so is
  the reading of numerals that are not safe integers. The lemmas show that decoding and encoding are
  inverse to each other: a header has one offer, and an offer one header.
\<close>

definition MAX_X402_PAYMENT_OFFER_HEADER_LENGTH :: nat where
  "MAX_X402_PAYMENT_OFFER_HEADER_LENGTH = 4096"

text \<open>An offer; the constant fields of its one \<open>accepts\<close> entry are left out.\<close>

record payment_offer =
  po_x402Version :: int
  po_invoiceId :: string
  po_invoice :: invoice
  po_amountSats :: string
  po_payTo :: string
  po_description :: "string option"

definition hasExactKeys :: "js_value \<Rightarrow> string list \<Rightarrow> string list \<Rightarrow> bool" where
  "hasExactKeys v required optional \<longleftrightarrow>
     list_all (\<lambda>k. map_of (fields_of v) k \<noteq> None) required \<and> only_keys v (required @ optional)"

definition accept_keys :: "string list" where
  "accept_keys = [''asset'', ''network'', ''scheme'', ''amountSats'', ''payTo'', ''proofHeader'']"

text \<open>The checks on the \<open>accepts\<close> entry, which has to agree with the invoice.\<close>

definition parse_accept :: "invoice \<Rightarrow> js_value \<Rightarrow> string option result" where
  "parse_accept i a =
     (if \<not> isRecord a \<or> \<not> hasExactKeys a accept_keys [''description''] then
        Inl (TypeError ''payment offer accept entry has invalid fields'')
      else if prop_of a ''asset'' \<noteq> JStr ''XEC'' \<or> prop_of a ''network'' \<noteq> JStr XEC_MAINNET \<or>
              prop_of a ''scheme'' \<noteq> JStr ''exact'' \<or> prop_of a ''proofHeader'' \<noteq> JStr ''payment-proof'' \<or>
              prop_of a ''amountSats'' \<noteq> JStr (inv_amountSats i) \<or> prop_of a ''payTo'' \<noteq> JStr (inv_payTo i) \<or>
              (prop_of a ''description'' \<noteq> JUndef \<and> \<not> is_str (prop_of a ''description'')) then
        Inl (TypeError ''payment offer accept entry is inconsistent with its invoice'')
      else Inr (if prop_of a ''description'' = JUndef then None else Some (str_of (prop_of a ''description''))))"

definition parsePaymentOffer :: "runtime \<Rightarrow> (js_value \<Rightarrow> string) \<Rightarrow> js_value \<Rightarrow> payment_offer result" where
  "parsePaymentOffer E issues v =
     (if \<not> isRecord v \<or> \<not> hasExactKeys v [''x402Version'', ''invoiceId'', ''invoice'', ''accepts''] [] then
        Inl (TypeError ''payment offer must contain only the required top-level fields'')
      else if prop_of v ''x402Version'' \<noteq> JNum (NInt X402_VERSION) then
        Inl (TypeError (''payment offer x402Version must be '' @ int_to_dec X402_VERSION))
      else (case str_field is_hash v ''invoiceId'' of
          None \<Rightarrow> Inl (TypeError ''payment offer invoiceId must be lowercase SHA-256 hex'')
        | Some invoiceId \<Rightarrow>
            (case parse_invoice (prop_of v ''invoice'') of
               None \<Rightarrow> Inl (TypeError (''payment offer invoice is invalid: '' @ issues (prop_of v ''invoice'')))
             | Some i \<Rightarrow>
                 ebind (computeInvoiceHash E i) (\<lambda>h.
                 if h \<noteq> invoiceId then Inl (TypeError ''payment offer invoiceId does not match its invoice'')
                 else (case prop_of v ''accepts'' of
                     JArr [a] \<Rightarrow> ebind (parse_accept i a) (\<lambda>d.
                       Inr \<lparr>po_x402Version = X402_VERSION, po_invoiceId = invoiceId, po_invoice = i,
                            po_amountSats = inv_amountSats i, po_payTo = inv_payTo i, po_description = d\<rparr>)
                   | _ \<Rightarrow> Inl (TypeError ''payment offer accepts must contain exactly one entry''))))))"

definition accept_to_json :: "payment_offer \<Rightarrow> js_value" where
  "accept_to_json p = JObj
     ([(''asset'', JStr ''XEC''), (''network'', JStr XEC_MAINNET), (''scheme'', JStr ''exact''),
       (''amountSats'', JStr (po_amountSats p)), (''payTo'', JStr (po_payTo p)),
       (''proofHeader'', JStr ''payment-proof'')] @
      (case po_description p of None \<Rightarrow> [] | Some d \<Rightarrow> [(''description'', JStr d)]))"

definition offer_to_json :: "payment_offer \<Rightarrow> js_value" where
  "offer_to_json p = JObj
     [(''x402Version'', JNum (NInt (po_x402Version p))), (''invoiceId'', JStr (po_invoiceId p)),
      (''invoice'', invoice_to_json (po_invoice p)), (''accepts'', JArr [accept_to_json p])]"

definition encodePaymentOfferHeader :: "runtime \<Rightarrow> (js_value \<Rightarrow> string) \<Rightarrow> js_value \<Rightarrow> string result" where
  "encodePaymentOfferHeader E issues offer =
     ebind (parsePaymentOffer E issues offer) (\<lambda>p.
     ebind (canonicalize (offer_to_json p)) (\<lambda>canonicalJson.
       let encoded = base64url (utf8_encode canonicalJson) in
       if length encoded > MAX_X402_PAYMENT_OFFER_HEADER_LENGTH then
         Inl (RangeError (''encoded payment offer exceeds '' @
           nat_to_dec MAX_X402_PAYMENT_OFFER_HEADER_LENGTH @ '' characters''))
       else Inr encoded))"

definition decodePaymentOfferHeader ::
  "runtime \<Rightarrow> (js_value \<Rightarrow> string) \<Rightarrow> (string \<Rightarrow> js_number) \<Rightarrow> string \<Rightarrow> payment_offer result" where
  "decodePaymentOfferHeader E issues num encoded =
     (if encoded = [] \<or> length encoded > MAX_X402_PAYMENT_OFFER_HEADER_LENGTH \<or>
         \<not> list_all is_base64url encoded \<or> length encoded mod 4 = 1 then
        Inl (TypeError ''payment offer header is not canonical unpadded base64url'')
      else
        let bytes = from_base64 encoded in
        if base64url bytes \<noteq> encoded then
          Inl (TypeError ''payment offer header has non-canonical base64url encoding'')
        else (case utf8_decode bytes of
            None \<Rightarrow> Inl (TypeError ''payment offer header is not valid UTF-8'')
          | Some json \<Rightarrow>
              (case JSON_parse num json of
                 Inl _ \<Rightarrow> Inl (TypeError ''payment offer header does not contain valid JSON'')
               | Inr v \<Rightarrow>
                   ebind (parsePaymentOffer E issues v) (\<lambda>p.
                   ebind (encodePaymentOfferHeader E issues (offer_to_json p)) (\<lambda>again.
                   if again \<noteq> encoded then Inl (TypeError ''payment offer header JSON is not canonical'')
                   else Inr p)))))"

subsection \<open>Parsed offers\<close>

definition offer_valid :: "runtime \<Rightarrow> payment_offer \<Rightarrow> bool" where
  "offer_valid E p \<longleftrightarrow>
     po_x402Version p = X402_VERSION \<and> is_hash (po_invoiceId p) \<and> invoice_valid (po_invoice p) \<and>
     computeInvoiceHash E (po_invoice p) = Inr (po_invoiceId p) \<and>
     po_amountSats p = inv_amountSats (po_invoice p) \<and> po_payTo p = inv_payTo (po_invoice p)"

lemma parsePaymentOffer_valid: "parsePaymentOffer E issues v = Inr p \<Longrightarrow> offer_valid E p"
  by (auto simp: parsePaymentOffer_def offer_valid_def err_simps str_field_Some
      split: if_splits option.splits js_value.splits list.splits dest: parse_invoice_valid)

lemma parse_accept_offer:
  "po_amountSats p = inv_amountSats i \<Longrightarrow> po_payTo p = inv_payTo i \<Longrightarrow>
   parse_accept i (accept_to_json p) = Inr (po_description p)"
  by (cases "po_description p")
     (simp_all add: parse_accept_def accept_to_json_def hasExactKeys_def accept_keys_def only_keys_def prop_of_def)

lemma distinct_accept: "distinct (map fst (fields_of (accept_to_json p)))"
  by (simp add: accept_to_json_def split: option.split)

lemma accept_obj: "accept_to_json p = JObj (fields_of (accept_to_json p))"
  by (simp add: accept_to_json_def)

lemma hasExactKeys_normal:
  "distinct (map fst fs) \<Longrightarrow> hasExactKeys (normal (JObj fs)) r opt = hasExactKeys (JObj fs) r opt"
proof -
  assume "distinct (map fst fs)"
  then have "map_of (fields_of (normal (JObj fs))) k = map_option normal (map_of fs k)" for k
    by (simp add: map_of_normal_fields)
  then show ?thesis by (simp add: hasExactKeys_def only_keys_normal del: normal.simps)
qed

lemma parse_accept_normal:
  assumes "distinct (map fst fs)"
  shows "parse_accept i (normal (JObj fs)) = parse_accept i (JObj fs)"
proof -
  have "isRecord (normal (JObj fs))" by simp
  moreover have "is_str (normal w) = is_str w" "str_of (normal w) = str_of w" for w by (cases w; simp)+
  ultimately show ?thesis
    unfolding parse_accept_def hasExactKeys_normal [OF assms] prop_of_normal [OF assms] by simp
qed

lemma parse_offer_json:
  assumes "offer_valid E p"
  shows "parsePaymentOffer E issues (offer_to_json p) = Inr p"
    and "parsePaymentOffer E issues (normal (offer_to_json p)) = Inr p"
proof -
  define fs where "fs = fields_of (offer_to_json p)"
  have obj: "offer_to_json p = JObj fs" by (simp add: fs_def offer_to_json_def)
  have d: "distinct (map fst fs)" by (simp add: fs_def offer_to_json_def)
  have keys: "hasExactKeys (JObj fs) [''x402Version'', ''invoiceId'', ''invoice'', ''accepts''] []"
    by (simp add: fs_def hasExactKeys_def offer_to_json_def only_keys_def)
  have ver: "prop_of (JObj fs) ''x402Version'' = JNum (NInt X402_VERSION)"
    using assms by (simp add: fs_def offer_to_json_def prop_of_def offer_valid_def)
  have ident: "str_field is_hash (JObj fs) ''invoiceId'' = Some (po_invoiceId p)"
    using assms by (simp add: fs_def offer_to_json_def prop_of_def offer_valid_def str_field_def)
  have inv: "prop_of (JObj fs) ''invoice'' = invoice_to_json (po_invoice p)"
    by (simp add: fs_def offer_to_json_def prop_of_def)
  have acc: "prop_of (JObj fs) ''accepts'' = JArr [accept_to_json p]"
    by (simp add: fs_def offer_to_json_def prop_of_def)
  have i: "parse_invoice (invoice_to_json (po_invoice p)) = Some (po_invoice p)"
    using assms by (simp add: parse_invoice_to_json offer_valid_def)
  have i': "parse_invoice (normal (invoice_to_json (po_invoice p))) = Some (po_invoice p)"
    using i parse_invoice_normal [of "fields_of (invoice_to_json (po_invoice p))"]
    by (simp add: invoice_to_json_def del: normal.simps)
  have a: "parse_accept (po_invoice p) (accept_to_json p) = Inr (po_description p)"
    using assms by (intro parse_accept_offer) (simp_all add: offer_valid_def)
  have a': "parse_accept (po_invoice p) (normal (accept_to_json p)) = Inr (po_description p)"
    using a parse_accept_normal [OF distinct_accept] accept_obj by metis
  have r: "\<lparr>po_x402Version = X402_VERSION, po_invoiceId = po_invoiceId p, po_invoice = po_invoice p,
      po_amountSats = inv_amountSats (po_invoice p), po_payTo = inv_payTo (po_invoice p),
      po_description = po_description p\<rparr> = p"
    using assms by (cases p) (simp add: offer_valid_def)
  have h: "computeInvoiceHash E (po_invoice p) = Inr (po_invoiceId p)"
    using assms by (simp add: offer_valid_def)
  show "parsePaymentOffer E issues (offer_to_json p) = Inr p"
    unfolding obj parsePaymentOffer_def using keys ver ident inv acc i a h r by simp
  have acc': "prop_of (normal (JObj fs)) ''accepts'' = JArr [normal (accept_to_json p)]"
    using acc by (simp add: prop_of_normal [OF d] del: normal.simps(3))
  have inv': "prop_of (normal (JObj fs)) ''invoice'' = normal (invoice_to_json (po_invoice p))"
    using inv by (simp add: prop_of_normal [OF d] del: normal.simps(3))
  have ver': "prop_of (normal (JObj fs)) ''x402Version'' = JNum (NInt X402_VERSION)"
    using ver by (simp add: prop_of_normal [OF d] normal_version del: normal.simps)
  have rec: "isRecord (normal (JObj fs))" by simp
  show "parsePaymentOffer E issues (normal (offer_to_json p)) = Inr p"
    unfolding obj parsePaymentOffer_def
    using keys ident ver' inv' acc' i' a' h r rec
    by (simp add: hasExactKeys_normal [OF d] str_field_normal [OF d] del: normal.simps)
qed

lemma plain_offer_json: "offer_valid E p \<Longrightarrow> plain (offer_to_json p)"
  by (auto simp: offer_valid_def offer_to_json_def accept_to_json_def plain_invoice_json X402_VERSION_def
      max_safe_integer_def split: option.split)

subsection \<open>Encoding and decoding\<close>

definition offer_header :: "payment_offer \<Rightarrow> string" where
  "offer_header p = base64url (utf8_encode (json_text (normal (offer_to_json p))))"

lemma encode_offer_Inr:
  "encodePaymentOfferHeader E issues v = Inr s \<longleftrightarrow>
     (\<exists>p. parsePaymentOffer E issues v = Inr p \<and> s = offer_header p \<and>
       length s \<le> MAX_X402_PAYMENT_OFFER_HEADER_LENGTH)"
proof (cases "parsePaymentOffer E issues v")
  case (Inr p)
  have "canonicalize (offer_to_json p) = Inr (json_text (normal (offer_to_json p)))"
    using canonicalize_plain [OF plain_offer_json [OF parsePaymentOffer_valid [OF Inr]]] by simp
  with Inr show ?thesis by (auto simp: encodePaymentOfferHeader_def offer_header_def Let_def)
qed (simp add: encodePaymentOfferHeader_def)

lemma encode_valid_offer:
  "offer_valid E p \<Longrightarrow> encodePaymentOfferHeader E issues (offer_to_json p) = Inr s \<longleftrightarrow>
     s = offer_header p \<and> length s \<le> MAX_X402_PAYMENT_OFFER_HEADER_LENGTH"
  by (auto simp: encode_offer_Inr parse_offer_json)

lemma json_text_nonempty: "json_text (normal (offer_to_json p)) \<noteq> []"
  by (simp add: offer_to_json_def)

lemma utf8_encode_nonempty: "s \<noteq> [] \<Longrightarrow> utf8_encode s \<noteq> []"
  by (cases s) (simp_all add: utf8_encode_def)

lemma decode_offer_iff:
  "decodePaymentOfferHeader E issues num s = Inr p \<longleftrightarrow>
     offer_valid E p \<and> s = offer_header p \<and> length s \<le> MAX_X402_PAYMENT_OFFER_HEADER_LENGTH"
proof
  assume "decodePaymentOfferHeader E issues num s = Inr p"
  then obtain v where v: "parsePaymentOffer E issues v = Inr p"
    and e: "encodePaymentOfferHeader E issues (offer_to_json p) = Inr s"
    by (auto simp: decodePaymentOfferHeader_def Let_def err_simps split: if_splits option.splits sum.splits)
  note p = parsePaymentOffer_valid [OF v]
  from e have "s = offer_header p \<and> length s \<le> MAX_X402_PAYMENT_OFFER_HEADER_LENGTH"
    by (rule encode_valid_offer [OF p, THEN iffD1])
  with p show "offer_valid E p \<and> s = offer_header p \<and> length s \<le> MAX_X402_PAYMENT_OFFER_HEADER_LENGTH" by blast
next
  assume p: "offer_valid E p \<and> s = offer_header p \<and> length s \<le> MAX_X402_PAYMENT_OFFER_HEADER_LENGTH"
  let ?t = "json_text (normal (offer_to_json p))"
  have s: "s = base64url (utf8_encode ?t)" using p by (simp add: offer_header_def)
  have "s \<noteq> []" using json_text_nonempty [of p] utf8_encode_nonempty [of ?t] by (simp add: s)
  moreover have "list_all is_base64url s" "length s mod 4 \<noteq> 1"
    by (simp_all only: s base64url_chars length_base64url not_False_eq_True)
  moreover have "from_base64 s = utf8_encode ?t" by (simp only: s from_base64_base64url)
  moreover have "JSON_parse num ?t = Inr (normal (offer_to_json p))"
    using p canonicalize_plain [OF plain_offer_json] by (intro JSON_parse_text) blast
  moreover have "encodePaymentOfferHeader E issues (offer_to_json p) = Inr s"
    using p by (intro encode_valid_offer [THEN iffD2]) blast+
  ultimately show "decodePaymentOfferHeader E issues num s = Inr p"
    using parse_offer_json(2) [of E p issues] p [THEN conjunct1] p [THEN conjunct2, THEN conjunct2]
      s [symmetric]
    by (simp add: decodePaymentOfferHeader_def del: json_text.simps normal.simps)
qed

lemma offer_header_inj:
  assumes "offer_header p = offer_header q" "offer_valid E p" "offer_valid E q"
  shows "p = q"
proof -
  let ?t = "\<lambda>p. json_text (normal (offer_to_json p))"
  from assms(1) have "?t p = ?t q" by (simp add: offer_header_def del: json_text.simps normal.simps)
  moreover have "JSON_parse num (?t r) = Inr (normal (offer_to_json r))" if "offer_valid E r" for r num
    using that canonicalize_plain [OF plain_offer_json] by (intro JSON_parse_text) blast
  ultimately have "normal (offer_to_json p) = normal (offer_to_json q)" using assms(2,3) by (metis sum.inject(2))
  then show ?thesis using parse_offer_json(2) assms(2,3) by (metis sum.inject(2))
qed

end
