(* ===== verification/Express_Core.thy ===== *)
theory Express_Core
  imports Payment_Offer
begin

text \<open>
  What the two Express middlewares of \<open>packages/x402-xec-express/src\<close> share: the parts of a request they
  read, the keys of their route tables, and the resource that a request asks for. Express and the URL
  parser are not under \<open>src/\<close>: \<open>rq_get\<close> is \<open>request.get\<close>, \<open>rq_headers\<close> the raw header values, and
  \<open>xe_url\<close> parses a URL against a base, giving its path and its query pairs. Numerals that are not safe
  integers (\<open>xe_num\<close>), texts beyond the characters of the model (\<open>xe_parse_wide\<close>) and the collation of
  \<open>localeCompare\<close> (\<open>xe_collate\<close>) are parameters too.
\<close>

record http_request =
  rq_method :: string
  rq_path :: string
  rq_originalUrl :: string
  rq_url :: string
  rq_body :: js_value
  rq_get :: "string \<Rightarrow> string option"
  rq_headers :: "string \<Rightarrow> string list option"

record express_env =
  xe_runtime :: runtime
  xe_url :: "string \<Rightarrow> string \<Rightarrow> (string \<times> (string \<times> string) list) option"
  xe_num :: "string \<Rightarrow> js_number"
  xe_parse_wide :: "string \<Rightarrow> js_value result"
  xe_collate :: "string \<Rightarrow> string"
  xe_issues :: "js_value \<Rightarrow> string"

text \<open>\<open>JSON.parse(buffer.toString("utf8"))\<close>.\<close>

definition parse_bytes :: "express_env \<Rightarrow> string \<Rightarrow> js_value result" where
  "parse_bytes X bytes = (case utf8_decode bytes of
     Some text \<Rightarrow> JSON_parse (xe_num X) text
   | None \<Rightarrow> xe_parse_wide X bytes)"

subsection \<open>Route tables\<close>

text \<open>\<open>/^(\\S+)\\s+(\\S+)$/.exec(key)\<close>.\<close>

definition split_route :: "string \<Rightarrow> (string \<times> string) option" where
  "split_route s =
     (let a = takeWhile (\<lambda>c. \<not> is_space c) s; r = dropWhile (\<lambda>c. \<not> is_space c) s; b = dropWhile is_space r in
      if a \<noteq> [] \<and> r \<noteq> [] \<and> b \<noteq> [] \<and> list_all (\<lambda>c. \<not> is_space c) b then Some (a, b) else None)"

text \<open>A table is built entry by entry; \<open>entry\<close> gives the key and the route of one.\<close>

fun build_routes ::
  "('c \<Rightarrow> (string \<times> 'r) result) \<Rightarrow> 'c list \<Rightarrow> (string, 'r) jmap \<Rightarrow> (string, 'r) jmap result" where
  "build_routes entry [] routes = Inr routes"
| "build_routes entry (c # cs) routes =
     ebind (entry c) (\<lambda>(key, route).
       if jhas routes key then Inl (TypeError (''duplicate route: '' @ key))
       else build_routes entry cs (jset routes key route))"

lemma build_routes_from:
  "build_routes entry cs m = Inr routes \<Longrightarrow> map_of routes k = Some r \<Longrightarrow>
   map_of m k = Some r \<or> (\<exists>c \<in> set cs. entry c = Inr (k, r))"
proof (induction cs arbitrary: m)
  case (Cons c cs)
  then obtain key route where e: "entry c = Inr (key, route)" "build_routes entry cs (jset m key route) = Inr routes"
    by (auto simp: ebind_Inr_iff split: if_splits)
  from Cons.IH [OF e(2) Cons.prems(2)] e(1) show ?case by (auto split: if_splits)
qed simp

lemma build_routes_keep:
  "build_routes entry cs m = Inr routes \<Longrightarrow> map_of m k = Some r \<Longrightarrow> map_of routes k = Some r"
proof (induction cs arbitrary: m)
  case (Cons c cs)
  then obtain key route where e: "\<not> jhas m key" "build_routes entry cs (jset m key route) = Inr routes"
    by (auto simp: ebind_Inr_iff split: if_splits)
  with Cons.prems(2) have "map_of (jset m key route) k = Some r" by (auto simp: jhas_def)
  with Cons.IH [OF e(2)] show ?case by simp
qed simp

lemma build_routes_all:
  "build_routes entry cs m = Inr routes \<Longrightarrow> c \<in> set cs \<Longrightarrow> \<exists>k r. entry c = Inr (k, r) \<and> map_of routes k = Some r"
proof (induction cs arbitrary: m)
  case (Cons d cs)
  then obtain key route where e: "entry d = Inr (key, route)" "build_routes entry cs (jset m key route) = Inr routes"
    by (auto simp: ebind_Inr_iff split: if_splits)
  then have "map_of routes key = Some route" using build_routes_keep by fastforce
  with e Cons show ?case by auto
qed simp

subsection \<open>The requested resource\<close>

definition opt_query :: "(string \<times> string) list \<Rightarrow> js_value" where
  "opt_query q = (if q = [] then JUndef else typed_query q)"

text \<open>The \<open>resource\<close> field of a 402 response.\<close>

definition resource_to_json :: "resource_request \<Rightarrow> js_value" where
  "resource_to_json r = JObj
     ([(''serverOrigin'', JStr (res_serverOrigin r)), (''method'', JStr (res_method r)), (''path'', JStr (res_path r))] @
      (if res_query r = JUndef then [] else [(''query'', res_query r)]) @
      (if res_body r = JUndef then [] else [(''body'', res_body r)]))"

text \<open>The body of \<open>settlement-middleware.ts\<close>: absent members are dropped, absent elements are \<open>null\<close>.\<close>

definition null_if_undef :: "js_value \<Rightarrow> js_value" where
  "null_if_undef v = (if v = JUndef then JNull else v)"

lemma size_filtered_field [termination_simp]:
  "(k, v) \<in> set (sort_key f (filter P fs)) \<Longrightarrow> size v < Suc (size_list (size_prod g size) fs)"
  by (auto intro: size_field)

function settlement_canonicalBody :: "(string \<Rightarrow> string) \<Rightarrow> js_value \<Rightarrow> js_value result" where
  "settlement_canonicalBody collate v = (case v of
     JUndef \<Rightarrow> Inr JUndef
   | JNull \<Rightarrow> Inr JNull
   | JStr s \<Rightarrow> Inr (JStr s)
   | JBool b \<Rightarrow> Inr (JBool b)
   | JNum n \<Rightarrow> if finite_number n then Inr (JNum n)
       else Inl (TypeError ''numbers must be finite for canonicalization'')
   | JArr xs \<Rightarrow> ebind (mapE (\<lambda>x. ebind (settlement_canonicalBody collate x) (\<lambda>y. Inr (null_if_undef y))) xs)
       (\<lambda>ys. Inr (JArr ys))
   | JObj fs \<Rightarrow> ebind (mapE (\<lambda>(k, x). ebind (settlement_canonicalBody collate x) (\<lambda>y. Inr (k, null_if_undef y)))
         (sort_key (collate \<circ> fst) (filter (\<lambda>(_, x). x \<noteq> JUndef) fs))) (\<lambda>gs. Inr (JObj gs))
   | JInst fs \<Rightarrow> ebind (mapE (\<lambda>(k, x). ebind (settlement_canonicalBody collate x) (\<lambda>y. Inr (k, null_if_undef y)))
         (sort_key (collate \<circ> fst) (filter (\<lambda>(_, x). x \<noteq> JUndef) fs))) (\<lambda>gs. Inr (JObj gs))
   | _ \<Rightarrow> Inl (TypeError ''unsupported body type''))"
  by pat_completeness auto
termination
  by (relation "measure (\<lambda>(_, v). size v)") (auto simp: less_Suc_eq_le dest: size_field intro: size_list_estimation')

text \<open>The body of \<open>middleware.ts\<close>: an \<open>undefined\<close> inside is refused.\<close>

fun payment_canonicalBody :: "js_value \<Rightarrow> js_value result" where
  "payment_canonicalBody JUndef = Inr JUndef"
| "payment_canonicalBody JNull = Inr JNull"
| "payment_canonicalBody (JStr s) = Inr (JStr s)"
| "payment_canonicalBody (JBool b) = Inr (JBool b)"
| "payment_canonicalBody (JNum n) =
     (if finite_number n then Inr (JNum n) else Inl (TypeError ''body is not canonical JSON''))"
| "payment_canonicalBody (JArr xs) =
     ebind (mapE (\<lambda>x. ebind (payment_canonicalBody x) (\<lambda>y.
       if y = JUndef then Inl (TypeError ''body contains undefined'') else Inr y)) xs) (\<lambda>ys. Inr (JArr ys))"
| "payment_canonicalBody (JObj fs) =
     ebind (mapE (\<lambda>(k, x). ebind (payment_canonicalBody x) (\<lambda>y.
       if y = JUndef then Inl (TypeError ''body contains undefined'') else Inr (k, y))) fs) (\<lambda>gs. Inr (JObj gs))"
| "payment_canonicalBody (JInst fs) =
     ebind (mapE (\<lambda>(k, x). ebind (payment_canonicalBody x) (\<lambda>y.
       if y = JUndef then Inl (TypeError ''body contains undefined'') else Inr (k, y))) fs) (\<lambda>gs. Inr (JObj gs))"
| "payment_canonicalBody v = Inl (TypeError ''body is not canonical JSON'')"

end
