(* ===== verification/Settlement_Middleware.thy ===== *)
theory Settlement_Middleware
  imports Express_Core Settlement_System
begin

text \<open>
  \<open>packages/x402-xec-express/src/settlement-middleware.ts\<close>: the middleware that unlocks a route when a
  settlement proof verifies. The store is given by its operations, as the interface in \<open>Invoice_Store\<close>;
  the clock is a safe integer and \<open>random\<close> the bytes that \<open>randomBytes\<close> returns. A handler call is one
  step on the store; \<open>Settlement_System\<close> has the interleaved verifications. The lemmas say when a
  request passes and what a 402 response promises.
\<close>

subsection \<open>Configuration\<close>

record route_config =
  rc_amountSats :: string
  rc_description :: "string option"

record protected_route =
  pr_method :: string
  pr_path :: string
  pr_amountSats :: string
  pr_description :: "string option"

record 's settlement_store =
  ss_isDurable :: bool
  ss_issue :: "'s \<Rightarrow> invoice_record \<Rightarrow> unit result \<times> 's"
  ss_issueWithAllocation :: "'s \<Rightarrow> issue_params \<Rightarrow> allocator \<Rightarrow> issued result \<times> 's"
  ss_getByInvoiceHash :: "'s \<Rightarrow> authority"
  ss_commitPaid :: "'s \<Rightarrow> string \<Rightarrow> string \<Rightarrow> int \<Rightarrow> commit_result result \<times> 's"

record 's settlement_config =
  sm_publicOrigin :: string
  sm_payTo :: "string option"
  sm_payToAllocator :: "allocator option"
  sm_routes :: "(string \<times> route_config) list"
  sm_store :: "'s settlement_store"
  sm_txProvider :: chronik_target
  sm_expirySeconds :: "int option"
  sm_addressToScript :: "(string \<Rightarrow> string result) option"
  sm_allowInsecureDevelopmentMode :: "bool option"

record 's settlement_server =
  sv_config :: "'s settlement_config"
  sv_publicOrigin :: string
  sv_routes :: "(string, protected_route) jmap"
  sv_staticPayTo :: "string option"
  sv_expirySeconds :: int

definition SETTLEMENT_DEFAULT_EXPIRY_SECONDS :: int where "SETTLEMENT_DEFAULT_EXPIRY_SECONDS = 60"

definition PAYMENT_PROOF_HEADER :: string where "PAYMENT_PROOF_HEADER = ''payment-proof''"
definition SETTLEMENT_PROOF_HEADER :: string where "SETTLEMENT_PROOF_HEADER = ''settlement-proof''"
definition X402_SETTLEMENT_PROOF_HEADER :: string where "X402_SETTLEMENT_PROOF_HEADER = ''x402-settlement-proof''"
definition X402_PAYMENT_OFFER_HEADER :: string where "X402_PAYMENT_OFFER_HEADER = ''x-x402-payment-offer''"

definition strip_slashes :: "string \<Rightarrow> string" where
  "strip_slashes p = rev (dropWhile (\<lambda>c. c = CHR ''/'') (rev p))"

definition canonicalProtectedRoutePath :: "string \<Rightarrow> string result" where
  "canonicalProtectedRoutePath path = ebind (validatePath path) (\<lambda>validated.
     if validated = ''/'' then Inr validated else Inr (toLowerCase (strip_slashes validated)))"

definition route_key :: "string \<Rightarrow> string \<Rightarrow> string" where
  "route_key method path = method @ '' '' @ path"

definition settlement_route :: "string \<times> route_config \<Rightarrow> (string \<times> protected_route) result" where
  "settlement_route = (\<lambda>(configuredKey, config). case split_route configuredKey of
     None \<Rightarrow> Inl (TypeError (''invalid route key: '' @ configuredKey))
   | Some (m, p) \<Rightarrow>
       ebind (normalizeMethod m) (\<lambda>method.
       ebind (canonicalProtectedRoutePath p) (\<lambda>path.
       ebind (parseAmountSats (rc_amountSats config)) (\<lambda>_.
         Inr (route_key method path,
              \<lparr>pr_method = method, pr_path = path, pr_amountSats = rc_amountSats config,
               pr_description = rc_description config\<rparr>)))))"

definition settlement_parseRoutes :: "(string \<times> route_config) list \<Rightarrow> (string, protected_route) jmap result" where
  "settlement_parseRoutes input = build_routes settlement_route input []"

text \<open>\<open>node_env\<close> is \<open>process.env.NODE_ENV\<close>.\<close>

definition insecure_mode :: "string option \<Rightarrow> 's settlement_config \<Rightarrow> bool" where
  "insecure_mode node_env config \<longleftrightarrow>
     sm_allowInsecureDevelopmentMode config = Some True \<and> (node_env = Some ''test'' \<or> node_env = Some ''development'')"

definition production_guards :: "'s settlement_config \<Rightarrow> unit result" where
  "production_guards config =
     (if \<not> ss_isDurable (sm_store config) then
        Inl (TypeError ''Production real-funds middleware requires a durable authoritative store (isDurable: true). Process-local stores (InMemoryAuthoritativeInvoiceStore) are strictly rejected.'')
      else if sm_payToAllocator config = None then
        Inl (TypeError ''Production real-funds middleware requires a watch-only payToAllocator for unique per-invoice on-chain binding (P0). Static payTo is strictly prohibited in production.'')
      else if sm_addressToScript config \<noteq> None then
        Inl (TypeError ''Production real-funds middleware strictly prohibits custom addressToScript converters. Custom addressToScript hooks are permitted only in test or development mode with allowInsecureDevelopmentMode: true.'')
      else Inr ())"

text \<open>An empty \<open>payTo\<close> counts as absent.\<close>

definition given_payTo :: "'s settlement_config \<Rightarrow> string option" where
  "given_payTo config = (if sm_payTo config = Some [] then None else sm_payTo config)"

definition createX402SettlementMiddleware ::
  "runtime \<Rightarrow> cashaddr_codec \<Rightarrow> string option \<Rightarrow> 's settlement_config \<Rightarrow> 's settlement_server result" where
  "createX402SettlementMiddleware E L node_env config =
     ebind (if insecure_mode node_env config then Inr () else production_guards config) (\<lambda>_.
     ebind (if sm_payToAllocator config = None \<and> given_payTo config = None then
         Inl (TypeError ''Either payToAllocator or payTo must be provided'') else Inr ()) (\<lambda>_.
     ebind (normalizeServerOrigin E (sm_publicOrigin config)) (\<lambda>publicOrigin.
     ebind (settlement_parseRoutes (sm_routes config)) (\<lambda>routes.
     ebind (case given_payTo config of
         None \<Rightarrow> Inr None
       | Some a \<Rightarrow> if is_address a then ebind (decodeCashAddress L a) (\<lambda>_. Inr (Some a)) else Inl ZodError) (\<lambda>staticPayTo.
       Inr \<lparr>sv_config = config, sv_publicOrigin = publicOrigin, sv_routes = routes, sv_staticPayTo = staticPayTo,
            sv_expirySeconds = (case sm_expirySeconds config of None \<Rightarrow> SETTLEMENT_DEFAULT_EXPIRY_SECONDS | Some e \<Rightarrow> e)\<rparr>)))))"

subsection \<open>Reading a request\<close>

definition settlement_resource :: "express_env \<Rightarrow> http_request \<Rightarrow> string \<Rightarrow> resource_request result" where
  "settlement_resource X request serverOrigin =
     (case xe_url X (if rq_originalUrl request \<noteq> [] then rq_originalUrl request else rq_url request) serverOrigin of
        None \<Rightarrow> Inl (TypeError ''Invalid URL'')
      | Some (pathname, query) \<Rightarrow>
          ebind (settlement_canonicalBody (xe_collate X) (rq_body request)) (\<lambda>body.
          ebind (normalizeMethod (rq_method request)) (\<lambda>method.
          ebind (validatePath pathname) (\<lambda>path.
            Inr \<lparr>res_serverOrigin = serverOrigin, res_method = method, res_path = path,
                 res_query = opt_query query, res_body = body\<rparr>))))"

definition requestIndicatesBody :: "http_request \<Rightarrow> bool" where
  "requestIndicatesBody request =
     (let encodings = (case rq_headers request ''transfer-encoding'' of
          None \<Rightarrow> False
        | Some values \<Rightarrow>
            if list_ex (\<lambda>v. list_ex (\<lambda>coding. toLowerCase (trim coding) \<noteq> []) (split_on CHR '','' v)) values
            then True else True) in
      case rq_headers request ''content-length'' of
        None \<Rightarrow> encodings
      | Some [contentLength] \<Rightarrow>
          if contentLength = ''0'' then encodings
          else if is_positive_dec contentLength then BigInt_of contentLength > 0
          else True
      | Some _ \<Rightarrow> True)"

text \<open>\<open>^(?:[A-Za-z0-9+/]{4})*(?:[A-Za-z0-9+/]{2}==|[A-Za-z0-9+/]{3}=)?$\<close>.\<close>

definition is_base64 :: "char \<Rightarrow> bool" where
  "is_base64 c \<longleftrightarrow> is_upper c \<or> is_lower c \<or> is_digit c \<or> c = CHR ''+'' \<or> c = CHR ''/''"

fun base64_shape :: "string \<Rightarrow> bool" where
  "base64_shape [] \<longleftrightarrow> True"
| "base64_shape (a # b # c # d # s) \<longleftrightarrow>
     is_base64 a \<and> is_base64 b \<and>
     ((is_base64 c \<and> is_base64 d \<and> base64_shape s) \<or>
      (is_base64 c \<and> d = CHR ''='' \<and> s = []) \<or> (c = CHR ''='' \<and> d = CHR ''='' \<and> s = []))"
| "base64_shape _ \<longleftrightarrow> False"

definition parseProofHeader :: "express_env \<Rightarrow> string \<Rightarrow> js_value result" where
  "parseProofHeader X rawHeader =
     (let trimmed = trim rawHeader in
      if startsWith trimmed ''{'' then JSON_parse (xe_num X) trimmed
      else if rawHeader \<noteq> [] \<and> list_all is_base64url rawHeader \<and> length rawHeader mod 4 \<noteq> 1 then
        (if base64url (from_base64 rawHeader) \<noteq> rawHeader then Inl (TypeError ''non-canonical base64url proof'')
         else parse_bytes X (from_base64 rawHeader))
      else if base64_shape rawHeader \<and> rawHeader \<noteq> [] then
        (if base64 (from_base64 rawHeader) \<noteq> rawHeader then Inl (TypeError ''non-canonical base64 proof'')
         else parse_bytes X (from_base64 rawHeader))
      else Inl (TypeError ''proof must be raw JSON, canonical base64url, or canonical base64''))"

subsection \<open>The handler\<close>

text \<open>\<open>PassThrough\<close> is \<open>next()\<close> on a route that is not protected; \<open>Unlock\<close> attaches the verified
  settlement and calls \<open>next()\<close>.\<close>

datatype http_outcome =
    PassThrough
  | Unlock invoice_record settlement_proof nat chronik_tx bool
  | Respond int "(string \<times> string) list" js_value

definition error_body :: "string \<Rightarrow> string \<Rightarrow> js_value" where
  "error_body err message = JObj [(''error'', JStr err), (''message'', JStr message)]"

fun code_text :: "settlement_code \<Rightarrow> string" where
  "code_text S_MALFORMED_PROOF = ''MALFORMED_PROOF''"
| "code_text S_INVOICE_NOT_FOUND = ''INVOICE_NOT_FOUND''"
| "code_text S_RESOURCE_MISMATCH = ''RESOURCE_MISMATCH''"
| "code_text S_NETWORK_MISMATCH = ''NETWORK_MISMATCH''"
| "code_text S_VERSION_MISMATCH = ''VERSION_MISMATCH''"
| "code_text S_INVOICE_EXPIRED = ''INVOICE_EXPIRED''"
| "code_text S_INVOICE_NOT_YET_VALID = ''INVOICE_NOT_YET_VALID''"
| "code_text S_INVALID_SERVER_TIME = ''INVALID_SERVER_TIME''"
| "code_text S_TX_NOT_FOUND = ''TX_NOT_FOUND''"
| "code_text S_TRANSACTION_NOT_FINAL = ''TRANSACTION_NOT_FINAL''"
| "code_text S_TRANSACTION_TIME_UNKNOWN = ''TRANSACTION_TIME_UNKNOWN''"
| "code_text S_HISTORICAL_TRANSACTION = ''HISTORICAL_TRANSACTION''"
| "code_text S_PAY_TO_MISMATCH = ''PAY_TO_MISMATCH''"
| "code_text S_AMOUNT_MISMATCH = ''AMOUNT_MISMATCH''"
| "code_text S_TOKEN_OUTPUT_DISALLOWED = ''TOKEN_OUTPUT_DISALLOWED''"
| "code_text S_OUTPUT_NOT_FOUND = ''OUTPUT_NOT_FOUND''"
| "code_text S_TXID_CONFLICT = ''TXID_CONFLICT''"
| "code_text S_TXID_REUSED = ''TXID_REUSED''"
| "code_text S_CHRONIK_UNAVAILABLE = ''CHRONIK_UNAVAILABLE''"
| "code_text S_MALFORMED_CHRONIK_TX = ''MALFORMED_CHRONIK_TX''"

definition protected_by :: "(string, protected_route) jmap \<Rightarrow> string \<Rightarrow> string \<Rightarrow> protected_route option" where
  "protected_by routes method path =
     (case jget routes (route_key method path) of
        Some r \<Rightarrow> Some r
      | None \<Rightarrow> if method = ''HEAD'' then jget routes (route_key ''GET'' path) else None)"

definition is_multipart :: "http_request \<Rightarrow> bool" where
  "is_multipart request =
     startsWith (toLowerCase (dropWhile is_space
       (case rq_get request ''content-type'' of None \<Rightarrow> [] | Some t \<Rightarrow> t))) ''multipart/''"

text \<open>The invoice for a request, issued into the store: by the allocator, or with the static address.\<close>

definition issue_invoice ::
  "runtime \<Rightarrow> 's settlement_server \<Rightarrow> int \<Rightarrow> string \<Rightarrow> resource_request \<Rightarrow> protected_route \<Rightarrow> 's \<Rightarrow>
   (invoice \<times> string) result \<times> 's" where
  "issue_invoice E SV now random resource route s =
     (let store = sm_store (sv_config SV); expiresAt = now + sv_expirySeconds SV; nonce = base64url random in
      case computeResourceHash E resource of
        Inl e \<Rightarrow> (Inl e, s)
      | Inr resourceHash \<Rightarrow>
          (case parseAmountSats (pr_amountSats route) of
             Inl e \<Rightarrow> (Inl e, s)
           | Inr amountSats \<Rightarrow>
               (case sm_payToAllocator (sv_config SV) of
                  Some allocator \<Rightarrow>
                    (let (res, s') = ss_issueWithAllocation store s
                       \<lparr>ip_nonce = nonce, ip_resourceHash = resourceHash, ip_amountSats = amountSats,
                        ip_network = Some XEC_MAINNET, ip_scheme = Some XEC_SCHEME, ip_issuedAt = now,
                        ip_expiresAt = expiresAt, ip_state = Some ISSUED\<rparr> allocator in
                     (ebind res (\<lambda>(r, i). Inr (i, rec_invoiceHash r)), s'))
                | None \<Rightarrow>
                    (case ebind (createInvoice E \<lparr>cin_request = resource, cin_amountSats = amountSats,
                          cin_payTo = (case sv_staticPayTo SV of None \<Rightarrow> [] | Some a \<Rightarrow> a), cin_nonce = nonce,
                          cin_issuedAt = now, cin_expiresAt = expiresAt\<rparr>) (\<lambda>i.
                        ebind (computeInvoiceHash E i) (\<lambda>h. Inr (i, h))) of
                       Inl e \<Rightarrow> (Inl e, s)
                     | Inr (i, h) \<Rightarrow>
                         (let (res, s') = ss_issue store s
                            \<lparr>rec_invoiceHash = h, rec_nonce = inv_nonce i, rec_resourceHash = inv_resourceHash i,
                             rec_amountSats = BigInt_of (inv_amountSats i), rec_payTo = inv_payTo i,
                             rec_network = XEC_MAINNET, rec_scheme = XEC_SCHEME, rec_issuedAt = inv_issuedAt i,
                             rec_expiresAt = inv_expiresAt i, rec_state = ISSUED, rec_settledTxid = None,
                             rec_settledAt = None, rec_derivationIndex = None\<rparr> in
                          (ebind res (\<lambda>_. Inr (i, h)), s'))))))"

definition offer_of :: "protected_route \<Rightarrow> invoice \<Rightarrow> string \<Rightarrow> payment_offer" where
  "offer_of route i invoiceHash =
     \<lparr>po_x402Version = X402_VERSION, po_invoiceId = invoiceHash, po_invoice = i,
      po_amountSats = inv_amountSats i, po_payTo = inv_payTo i,
      po_description = (if pr_description route = Some [] then None else pr_description route)\<rparr>"

definition respond_402 :: "express_env \<Rightarrow> protected_route \<Rightarrow> resource_request \<Rightarrow> invoice \<Rightarrow> string \<Rightarrow> http_outcome" where
  "respond_402 X route resource i invoiceHash =
     (let offer = offer_of route i invoiceHash in
      case encodePaymentOfferHeader (xe_runtime X) (xe_issues X) (offer_to_json offer) of
        Inl _ \<Rightarrow> Respond 500 [] (error_body ''PAYMENT_OFFER_ENCODING_FAILED''
          ''Server could not emit a bounded canonical payment offer'')
      | Inr encoded \<Rightarrow>
          Respond 402 [(''payment-required'', ''true''), (X402_PAYMENT_OFFER_HEADER, encoded)] (JObj
            [(''x402Version'', JNum (NInt (po_x402Version offer))), (''invoiceId'', JStr (po_invoiceId offer)),
             (''invoice'', invoice_to_json (po_invoice offer)), (''resource'', resource_to_json resource),
             (''accepts'', JArr [accept_to_json offer])]))"

definition answer_result :: "settlement_result \<Rightarrow> http_outcome" where
  "answer_result result = (case result of
     Unlocked r pf i tx idem \<Rightarrow> Unlock r pf i tx idem
   | Locked httpStatus c message \<Rightarrow> Respond httpStatus [] (error_body (code_text c) message))"

definition verify_request_proof ::
  "express_env \<Rightarrow> cashaddr_codec \<Rightarrow> 's settlement_server \<Rightarrow> int \<Rightarrow> resource_request \<Rightarrow> string \<Rightarrow> 's \<Rightarrow>
   http_outcome result \<times> 's" where
  "verify_request_proof X L SV now resource rawHeader s =
     (case parseProofHeader X rawHeader of
        Inl _ \<Rightarrow> (Inr (Respond 400 [] (error_body ''MALFORMED_PROOF'' ''Failed to parse proof header JSON'')), s)
      | Inr proofObj \<Rightarrow>
          (let config = sv_config SV;
               (res, s') = verifySettlementProof
                 \<lparr>se_runtime = xe_runtime X, se_codec = L, se_target = sm_txProvider config,
                  se_proof_issues = xe_issues X\<rparr>
                 (ss_getByInvoiceHash (sm_store config)) (ss_commitPaid (sm_store config))
                 \<lparr>so_proof = proofObj, so_expectedResource = Some resource, so_now = JNum (NInt now),
                  so_addressToScript = sm_addressToScript config\<rparr> s in
           (ebind res (\<lambda>r. Inr (answer_result r)), s')))"

definition proof_headers :: "http_request \<Rightarrow> string list" where
  "proof_headers request =
     List.map_filter (rq_get request) [PAYMENT_PROOF_HEADER, SETTLEMENT_PROOF_HEADER, X402_SETTLEMENT_PROOF_HEADER]"

definition serve_protected ::
  "express_env \<Rightarrow> cashaddr_codec \<Rightarrow> 's settlement_server \<Rightarrow> int \<Rightarrow> string \<Rightarrow> http_request \<Rightarrow> protected_route \<Rightarrow> 's \<Rightarrow>
   http_outcome result \<times> 's" where
  "serve_protected X L SV now random request route s =
     (if is_multipart request then
        (Inr (Respond 415 [] (error_body ''UNSUPPORTED_MULTIPART_BODY''
           ''Protected multipart requests require explicit resource binding support'')), s)
      else if rq_body request = JUndef \<and> requestIndicatesBody request then
        (Inr (Respond 500 [] (error_body ''UNPARSED_BODY_DETECTED''
           ''Protected request body must be parsed before x402 settlement middleware'')), s)
      else (case settlement_resource X request (sv_publicOrigin SV) of
          Inl e \<Rightarrow> (Inl e, s)
        | Inr resource \<Rightarrow>
            (case proof_headers request of
               [] \<Rightarrow> (let (res, s') = issue_invoice (xe_runtime X) SV now random resource route s in
                   (ebind res (\<lambda>(i, h). Inr (respond_402 X route resource i h)), s'))
             | [rawHeader] \<Rightarrow> verify_request_proof X L SV now resource rawHeader s
             | _ \<Rightarrow> (Inr (Respond 400 [] (error_body ''MALFORMED_PROOF'' ''Multiple proof header aliases are ambiguous'')), s))))"

definition handle_settlement ::
  "express_env \<Rightarrow> cashaddr_codec \<Rightarrow> 's settlement_server \<Rightarrow> int \<Rightarrow> string \<Rightarrow> http_request \<Rightarrow> 's \<Rightarrow>
   http_outcome result \<times> 's" where
  "handle_settlement X L SV now random request s =
     (case ebind (normalizeMethod (rq_method request)) (\<lambda>method.
         ebind (canonicalProtectedRoutePath (rq_path request)) (\<lambda>path.
           Inr (protected_by (sv_routes SV) method path))) of
        Inl e \<Rightarrow> (Inl e, s)
      | Inr None \<Rightarrow> (Inr PassThrough, s)
      | Inr (Some route) \<Rightarrow> serve_protected X L SV now random request route s)"

subsection \<open>The configuration that is enforced\<close>

lemma ebindE: "ebind m f = Inr y \<Longrightarrow> (\<And>x. m = Inr x \<Longrightarrow> f x = Inr y \<Longrightarrow> P) \<Longrightarrow> P"
  by (cases m) simp_all

lemma create_settlement_Inr:
  assumes "createX402SettlementMiddleware E L node_env config = Inr SV"
  shows "sv_config SV = config" "settlement_parseRoutes (sm_routes config) = Inr (sv_routes SV)"
    "normalizeServerOrigin E (sm_publicOrigin config) = Inr (sv_publicOrigin SV)"
    "insecure_mode node_env config \<or>
       (ss_isDurable (sm_store config) \<and> sm_payToAllocator config \<noteq> None \<and> sm_addressToScript config = None)"
proof -
  from assms obtain u publicOrigin routes p where
    guards: "(if insecure_mode node_env config then Inr () else production_guards config) = Inr u"
    and origin: "normalizeServerOrigin E (sm_publicOrigin config) = Inr publicOrigin"
    and routes: "settlement_parseRoutes (sm_routes config) = Inr routes"
    and SV: "SV = \<lparr>sv_config = config, sv_publicOrigin = publicOrigin, sv_routes = routes, sv_staticPayTo = p,
            sv_expirySeconds = (case sm_expirySeconds config of None \<Rightarrow> SETTLEMENT_DEFAULT_EXPIRY_SECONDS | Some e \<Rightarrow> e)\<rparr>"
    unfolding createX402SettlementMiddleware_def by (elim ebindE) (auto elim: that)
  from origin routes show "sv_config SV = config" "settlement_parseRoutes (sm_routes config) = Inr (sv_routes SV)"
    "normalizeServerOrigin E (sm_publicOrigin config) = Inr (sv_publicOrigin SV)" by (simp_all add: SV)
  have "production_guards config = Inr v \<Longrightarrow> ss_isDurable (sm_store config) \<and> sm_payToAllocator config \<noteq> None \<and>
      sm_addressToScript config = None" for v
    unfolding production_guards_def by (simp split: if_splits)
  with guards show "insecure_mode node_env config \<or>
       (ss_isDurable (sm_store config) \<and> sm_payToAllocator config \<noteq> None \<and> sm_addressToScript config = None)"
    by (cases "insecure_mode node_env config") simp_all
qed

text \<open>Requests whose paths differ in case or trailing slashes are protected alike.\<close>

definition same_path :: "string \<Rightarrow> string \<Rightarrow> bool" where
  "same_path p q \<longleftrightarrow> toLowerCase (strip_slashes p) = toLowerCase (strip_slashes q)"

lemma strip_slashes_nil: "ok (validatePath p) \<Longrightarrow> strip_slashes p = [] \<longleftrightarrow> p = ''/''"
proof -
  assume "ok (validatePath p)"
  then have p: "startsWith p ''/''" "\<not> startsWith p ''//''"
    by (auto simp: validatePath_def split: if_splits)
  then obtain r where r: "p = CHR ''/'' # r" by (auto simp: startsWith_iff)
  have iff: "strip_slashes p = [] \<longleftrightarrow> (\<forall>c \<in> set p. c = CHR ''/'')" by (simp add: strip_slashes_def)
  show ?thesis
  proof (cases r)
    case Nil
    with r iff show ?thesis by simp
  next
    case (Cons c t)
    with p(2) r have "c \<noteq> CHR ''/''" by (auto simp: startsWith_def)
    with Cons r iff show ?thesis by simp
  qed
qed

lemma validatePath_Inr: "validatePath p = Inr q \<longleftrightarrow> ok (validatePath p) \<and> q = p"
  by (auto simp: validatePath_def)

lemma canonical_path_same:
  assumes "same_path p q" "ok (validatePath p)" "ok (validatePath q)"
  shows "canonicalProtectedRoutePath p = canonicalProtectedRoutePath q"
proof -
  have "strip_slashes p = [] \<longleftrightarrow> strip_slashes q = []"
    using assms(1) by (auto simp: same_path_def toLowerCase_def)
  then have "p = ''/'' \<longleftrightarrow> q = ''/''" using strip_slashes_nil assms(2,3) by blast
  moreover have "validatePath p = Inr p" "validatePath q = Inr q" using assms(2,3) by (simp_all add: validatePath_Inr)
  ultimately show ?thesis using assms(1) by (auto simp: canonicalProtectedRoutePath_def same_path_def)
qed

text \<open>The route that protects a request, and the configured routes that are in the table.\<close>

definition protecting_route :: "'s settlement_server \<Rightarrow> http_request \<Rightarrow> protected_route option result" where
  "protecting_route SV request =
     ebind (normalizeMethod (rq_method request)) (\<lambda>method.
     ebind (canonicalProtectedRoutePath (rq_path request)) (\<lambda>path.
       Inr (protected_by (sv_routes SV) method path)))"

lemma handle_settlement_alt:
  "handle_settlement X L SV now random request s =
     (case protecting_route SV request of
        Inl e \<Rightarrow> (Inl e, s)
      | Inr None \<Rightarrow> (Inr PassThrough, s)
      | Inr (Some route) \<Rightarrow> serve_protected X L SV now random request route s)"
  by (simp add: handle_settlement_def protecting_route_def)

lemma configured_route_protected:
  assumes "settlement_parseRoutes entries = Inr routes" "(key, config) \<in> set entries"
  shows "\<exists>m p method path r. split_route key = Some (m, p) \<and> normalizeMethod m = Inr method \<and>
    canonicalProtectedRoutePath p = Inr path \<and> jget routes (route_key method path) = Some r \<and>
    pr_amountSats r = rc_amountSats config"
proof -
  from build_routes_all [OF assms(1) [unfolded settlement_parseRoutes_def] assms(2)]
  obtain k r where "settlement_route (key, config) = Inr (k, r)" "map_of routes k = Some r" by blast
  then show ?thesis by (fastforce simp: settlement_route_def ebind_Inr_iff split: option.splits)
qed

subsection \<open>When a request passes\<close>

text \<open>The methods that a route of method \<open>m\<close> protects.\<close>

definition served_by :: "string \<Rightarrow> string \<Rightarrow> bool" where
  "served_by m method \<longleftrightarrow> method = m \<or> (method = ''HEAD'' \<and> m = ''GET'')"

lemma configured_request_protected:
  assumes "settlement_parseRoutes entries = Inr (sv_routes SV)" "(key, config) \<in> set entries"
    and "split_route key = Some (m, p)" "normalizeMethod m = Inr route_method"
    and "normalizeMethod (rq_method request) = Inr method" "served_by route_method method"
    and "same_path p (rq_path request)" "ok (validatePath (rq_path request))"
  shows "\<exists>route. protecting_route SV request = Inr (Some route)"
proof -
  from configured_route_protected [OF assms(1,2)] assms(3,4) obtain path r where
    path: "canonicalProtectedRoutePath p = Inr path" and r: "jget (sv_routes SV) (route_key route_method path) = Some r"
    by auto
  from path have "ok (validatePath p)" by (auto simp: canonicalProtectedRoutePath_def ebind_Inr_iff ok_iff)
  with canonical_path_same [OF assms(7)] assms(8) path
  have "canonicalProtectedRoutePath (rq_path request) = Inr path" by simp
  with assms(5,6) r show ?thesis
    by (auto simp: protecting_route_def protected_by_def served_by_def split: option.split)
qed

lemma answer_result_simps [simp]:
  "answer_result x = Unlock r pf i tx idem \<longleftrightarrow> x = Unlocked r pf i tx idem" "answer_result x \<noteq> PassThrough"
  by (cases x; simp add: answer_result_def)+

lemma verify_request_proof_Unlock:
  "fst (verify_request_proof X L SV now resource raw s) = Inr (Unlock r pf i tx idem) \<longleftrightarrow>
     (\<exists>v. parseProofHeader X raw = Inr v \<and>
        fst (verifySettlementProof
           \<lparr>se_runtime = xe_runtime X, se_codec = L, se_target = sm_txProvider (sv_config SV),
            se_proof_issues = xe_issues X\<rparr>
           (ss_getByInvoiceHash (sm_store (sv_config SV))) (ss_commitPaid (sm_store (sv_config SV)))
           \<lparr>so_proof = v, so_expectedResource = Some resource, so_now = JNum (NInt now),
            so_addressToScript = sm_addressToScript (sv_config SV)\<rparr> s) = Inr (Unlocked r pf i tx idem))"
  by (auto simp: verify_request_proof_def Let_def ebind_Inr_iff split: sum.splits prod.splits)

lemma issue_not_pass: "ebind res (\<lambda>(i, h). Inr (respond_402 X route resource i h)) \<noteq> Inr PassThrough"
  "ebind res (\<lambda>(i, h). Inr (respond_402 X route resource i h)) \<noteq> Inr (Unlock r pf j tx idem)"
  by (auto simp: respond_402_def Let_def ebind_Inr_iff split: sum.splits prod.splits)

lemma serve_protected_Unlock:
  "fst (serve_protected X L SV now random request route s) = Inr (Unlock r pf i tx idem) \<longleftrightarrow>
     \<not> is_multipart request \<and> \<not> (rq_body request = JUndef \<and> requestIndicatesBody request) \<and>
     (\<exists>resource raw. settlement_resource X request (sv_publicOrigin SV) = Inr resource \<and>
        proof_headers request = [raw] \<and>
        fst (verify_request_proof X L SV now resource raw s) = Inr (Unlock r pf i tx idem))"
proof -
  have "fst (let (res, s') = issue_invoice (xe_runtime X) SV now random resource route s in
      (ebind res (\<lambda>(i, h). Inr (respond_402 X route resource i h)), s')) \<noteq> Inr (Unlock r pf i tx idem)" for resource
    by (cases "issue_invoice (xe_runtime X) SV now random resource route s") (simp add: issue_not_pass)
  then show ?thesis by (simp add: serve_protected_def split: sum.split list.split)
qed

lemma serve_protected_not_pass:
  "fst (serve_protected X L SV now random request route s) \<noteq> Inr PassThrough"
proof -
  have 1: "fst (let (res, s') = issue_invoice (xe_runtime X) SV now random resource route s in
      (ebind res (\<lambda>(i, h). Inr (respond_402 X route resource i h)), s')) \<noteq> Inr PassThrough" for resource
    by (cases "issue_invoice (xe_runtime X) SV now random resource route s") (simp add: issue_not_pass)
  have 2: "fst (verify_request_proof X L SV now resource raw s) \<noteq> Inr PassThrough" for resource raw
    by (auto simp: verify_request_proof_def Let_def ebind_Inr_iff split: sum.splits prod.splits)
  from 1 2 show ?thesis by (simp add: serve_protected_def split: sum.split list.split)
qed

lemma pass_through_iff:
  "fst (handle_settlement X L SV now random request s) = Inr PassThrough \<longleftrightarrow> protecting_route SV request = Inr None"
  by (auto simp: handle_settlement_alt serve_protected_not_pass split: sum.splits option.splits)

text \<open>A request that is unlocked carried a proof with the evidence that this resource was paid for.\<close>

lemma unlock_evidence:
  "fst (handle_settlement X L SV now random request s) = Inr (Unlock r pf i tx idem) \<longleftrightarrow>
     (\<exists>route resource raw v invoice.
        protecting_route SV request = Inr (Some route) \<and>
        \<not> is_multipart request \<and> \<not> (rq_body request = JUndef \<and> requestIndicatesBody request) \<and>
        settlement_resource X request (sv_publicOrigin SV) = Inr resource \<and>
        proof_headers request = [raw] \<and> parseProofHeader X raw = Inr v \<and> parse_proof v = Some pf \<and>
        ss_getByInvoiceHash (sm_store (sv_config SV)) s (prf_invoiceHash pf) = Some invoice \<and>
        (\<exists>t. settlement_evidence
           \<lparr>se_runtime = xe_runtime X, se_codec = L, se_target = sm_txProvider (sv_config SV),
            se_proof_issues = xe_issues X\<rparr>
           \<lparr>so_proof = v, so_expectedResource = Some resource, so_now = JNum (NInt now),
            so_addressToScript = sm_addressToScript (sv_config SV)\<rparr> invoice pf i tx t \<and>
         fst (ss_commitPaid (sm_store (sv_config SV)) s (prf_invoiceHash pf) (prf_txid pf) t) = Inr (Committed idem r)))"
proof -
  have "fst (handle_settlement X L SV now random request s) = Inr (Unlock r pf i tx idem) \<longleftrightarrow>
      (\<exists>route. protecting_route SV request = Inr (Some route) \<and>
         fst (serve_protected X L SV now random request route s) = Inr (Unlock r pf i tx idem))"
    by (auto simp: handle_settlement_alt split: sum.splits option.splits)
  then show ?thesis
    unfolding serve_protected_Unlock verify_request_proof_Unlock verifySettlementProof_Unlocked by auto
qed

subsection \<open>What a 402 response promises\<close>

lemma parsePaymentOffer_id:
  "parsePaymentOffer E issues v = Inr p \<Longrightarrow> \<exists>h. prop_of v ''invoiceId'' = JStr h \<and> is_hash h"
  by (auto simp: parsePaymentOffer_def str_field_Some split: if_splits option.splits)

text \<open>The header of a 402 decodes to the offer.\<close>

lemma offer_header_decodes:
  assumes "computeInvoiceHash E i = Inr h"
    and "encodePaymentOfferHeader E issues (offer_to_json (offer_of route i h)) = Inr encoded"
  shows "decodePaymentOfferHeader E issues' num encoded = Inr (offer_of route i h)"
proof -
  from assms(2) obtain p where "parsePaymentOffer E issues (offer_to_json (offer_of route i h)) = Inr p"
    by (auto simp: encode_offer_Inr)
  from parsePaymentOffer_id [OF this] have "is_hash h"
    by (simp add: offer_to_json_def offer_of_def prop_of_def)
  with assms(1) have v: "offer_valid E (offer_of route i h)"
    by (simp add: offer_valid_def offer_of_def computeInvoiceHash_Inr)
  from assms(2) have "encoded = offer_header (offer_of route i h) \<and> length encoded \<le> MAX_X402_PAYMENT_OFFER_HEADER_LENGTH"
    by (rule encode_valid_offer [OF v, THEN iffD1])
  with v show ?thesis by (intro decode_offer_iff [THEN iffD2]) blast
qed

text \<open>The record that backs an offer.\<close>

definition backed_by :: "invoice_record \<Rightarrow> invoice \<Rightarrow> string \<Rightarrow> bool" where
  "backed_by r i h \<longleftrightarrow> rec_invoiceHash r = h \<and> rec_state r = ISSUED \<and> rec_resourceHash r = inv_resourceHash i \<and>
     rec_amountSats r = BigInt_of (inv_amountSats i) \<and> rec_payTo r = inv_payTo i \<and> rec_nonce r = inv_nonce i \<and>
     rec_issuedAt r = inv_issuedAt i \<and> rec_expiresAt r = inv_expiresAt i \<and> rec_network r = XEC_MAINNET \<and>
     rec_settledTxid r = None"

text \<open>The operations that a server was configured with.\<close>

definition uses_store ::
  "('s \<Rightarrow> authority) \<Rightarrow> ('s \<Rightarrow> invoice_record \<Rightarrow> unit result \<times> 's) \<Rightarrow>
   ('s \<Rightarrow> issue_params \<Rightarrow> allocator \<Rightarrow> issued result \<times> 's) \<Rightarrow>
   ('s \<Rightarrow> string \<Rightarrow> string \<Rightarrow> int \<Rightarrow> commit_result result \<times> 's) \<Rightarrow> 's settlement_server \<Rightarrow> bool" where
  "uses_store lookup issue alloc commit SV \<longleftrightarrow> ss_issue (sm_store (sv_config SV)) = issue \<and>
     ss_issueWithAllocation (sm_store (sv_config SV)) = alloc \<and>
     ss_getByInvoiceHash (sm_store (sv_config SV)) = lookup \<and> ss_commitPaid (sm_store (sv_config SV)) = commit"

context invoice_store
begin

lemma issue_invoice_backed:
  assumes "uses_store lookup issue alloc commit SV" "invar s" "issue_invoice E SV now random resource route s = (Inr (i, h), s')"
  shows "invar s' \<and> computeInvoiceHash E i = Inr h \<and> computeResourceHash E resource = Inr (inv_resourceHash i) \<and>
    inv_amountSats i = pr_amountSats route \<and> inv_issuedAt i = now \<and> lookup s h = None \<and>
    (\<exists>r. lookup s' = (lookup s)(h \<mapsto> r) \<and> backed_by r i h)"
proof -
  from assms(3) obtain rh n where rh: "computeResourceHash E resource = Inr rh"
    and n: "parseAmountSats (pr_amountSats route) = Inr n"
    by (auto simp: issue_invoice_def Let_def split: sum.splits)
  note amount = int_to_dec_parse [OF n]
  show ?thesis
  proof (cases "sm_payToAllocator (sv_config SV)")
    case (Some allocator)
    define p where "p = \<lparr>ip_nonce = base64url random, ip_resourceHash = rh, ip_amountSats = n,
      ip_network = Some XEC_MAINNET, ip_scheme = Some XEC_SCHEME, ip_issuedAt = now,
      ip_expiresAt = now + sv_expirySeconds SV, ip_state = Some ISSUED\<rparr>"
    have fresh: "fresh_params p" by (simp add: p_def fresh_params_def)
    from assms(1,3) Some rh n obtain r where a: "alloc s p allocator = (Inr (r, i), s')" "h = rec_invoiceHash r"
      by (auto simp: issue_invoice_def Let_def uses_store_def p_def [symmetric] ebind_Inr_iff split: prod.splits)
    from alloc_refines [OF assms(2) fresh, of allocator] a obtain k g payTo where
      i: "i = allocated_invoice p payTo" and g: "computeInvoiceHash E i = Inr g" and r: "r = allocated_record p g payTo k"
      and new: "lookup s g = None" and s': "lookup s' = (lookup s)(g \<mapsto> r)"
      by (auto simp: alloc_spec_def)
    have "h = g" using a(2) r by (simp add: allocated_record_def)
    moreover have "backed_by r i g"
      by (simp add: backed_by_def r i allocated_record_def allocated_invoice_def p_def or_default_def)
    moreover have "invar s'" using alloc_invar [OF assms(2) fresh, of allocator] a(1) by simp
    ultimately show ?thesis using g new s' rh amount by (auto simp: i allocated_invoice_def p_def)
  next
    case None
    define c where "c = \<lparr>cin_request = resource, cin_amountSats = n,
      cin_payTo = (case sv_staticPayTo SV of None \<Rightarrow> [] | Some a \<Rightarrow> a), cin_nonce = base64url random,
      cin_issuedAt = now, cin_expiresAt = now + sv_expirySeconds SV\<rparr>"
    from assms(1,3) None rh n obtain r where i: "createInvoice E c = Inr i" and h: "computeInvoiceHash E i = Inr h"
      and r: "r = \<lparr>rec_invoiceHash = h, rec_nonce = inv_nonce i, rec_resourceHash = inv_resourceHash i,
         rec_amountSats = BigInt_of (inv_amountSats i), rec_payTo = inv_payTo i,
         rec_network = XEC_MAINNET, rec_scheme = XEC_SCHEME, rec_issuedAt = inv_issuedAt i,
         rec_expiresAt = inv_expiresAt i, rec_state = ISSUED, rec_settledTxid = None,
         rec_settledAt = None, rec_derivationIndex = None\<rparr>"
      and s': "issue s r = (Inr (), s')"
      by (auto simp: issue_invoice_def Let_def uses_store_def c_def [symmetric] ebind_Inr_iff
          split: prod.splits sum.splits)
    have fresh: "fresh_record r" by (simp add: r fresh_record_def)
    from i rh have c: "inv_resourceHash i = rh" "inv_amountSats i = int_to_dec n" "inv_issuedAt i = now"
      by (simp_all add: createInvoice_Inr c_def)
    from issue_refines [OF assms(2) fresh] s' obtain k where
      "lookup s h = None" "lookup s' = (lookup s)(h \<mapsto> r\<lparr>rec_derivationIndex := k\<rparr>)"
      by (auto simp: issue_spec_def r)
    moreover have "backed_by (r\<lparr>rec_derivationIndex := k\<rparr>) i h" by (simp add: backed_by_def r)
    moreover have "invar s'" using issue_invar [OF assms(2) fresh] s' by simp
    ultimately show ?thesis using h rh c amount by auto
  qed
qed

lemma no_proof_offers:
  assumes "uses_store lookup issue alloc commit SV" "invar s" "xe_runtime X = E" "protecting_route SV request = Inr (Some route)"
    and "proof_headers request = []"
    and "handle_settlement X L SV now random request s = (Inr (Respond 402 hs body), s')"
  shows "\<exists>resource encoded i h. settlement_resource X request (sv_publicOrigin SV) = Inr resource \<and>
    map_of hs X402_PAYMENT_OFFER_HEADER = Some encoded \<and>
    decodePaymentOfferHeader E issues num encoded = Inr (offer_of route i h) \<and>
    computeResourceHash E resource = Inr (inv_resourceHash i) \<and> inv_amountSats i = pr_amountSats route \<and>
    invar s' \<and> lookup s h = None \<and> (\<exists>r. lookup s' = (lookup s)(h \<mapsto> r) \<and> backed_by r i h)"
proof -
  from assms(3-6) obtain resource where res: "settlement_resource X request (sv_publicOrigin SV) = Inr resource"
    and out: "(let (res, s') = issue_invoice E SV now random resource route s in
      (ebind res (\<lambda>(i, h). Inr (respond_402 X route resource i h)), s')) = (Inr (Respond 402 hs body), s')"
    by (auto simp: handle_settlement_alt serve_protected_def split: if_splits sum.splits)
  then obtain i h where issued: "issue_invoice E SV now random resource route s = (Inr (i, h), s')"
    and resp: "respond_402 X route resource i h = Respond 402 hs body"
    by (auto simp: ebind_Inr_iff split: prod.splits)
  note b = issue_invoice_backed [OF assms(1,2) issued]
  from resp obtain encoded where e: "encodePaymentOfferHeader E (xe_issues X) (offer_to_json (offer_of route i h)) = Inr encoded"
    and hs: "hs = [(''payment-required'', ''true''), (X402_PAYMENT_OFFER_HEADER, encoded)]"
    using assms(3) by (auto simp: respond_402_def Let_def split: sum.splits)
  have "map_of hs X402_PAYMENT_OFFER_HEADER = Some encoded" by (simp add: hs X402_PAYMENT_OFFER_HEADER_def)
  with res b offer_header_decodes [OF _ e] show ?thesis by blast
qed

text \<open>A request with a proof of an honest payment is unlocked.\<close>

lemma honest_request_unlocks:
  assumes "uses_store lookup issue alloc commit SV" "invar s" "protecting_route SV request = Inr (Some route)"
    and "\<not> is_multipart request" "\<not> (rq_body request = JUndef \<and> requestIndicatesBody request)"
    and "settlement_resource X request (sv_publicOrigin SV) = Inr resource"
    and "proof_headers request = [raw]" "parseProofHeader X raw = Inr v" "parse_proof v = Some pf"
    and "lookup s (prf_invoiceHash pf) = Some invoice" "rec_state invoice \<noteq> PAID"
    and "\<forall>k. \<not> settled_by (lookup s) k (prf_txid pf)"
    and "settlement_evidence
           \<lparr>se_runtime = xe_runtime X, se_codec = L, se_target = sm_txProvider (sv_config SV),
            se_proof_issues = xe_issues X\<rparr>
           \<lparr>so_proof = v, so_expectedResource = Some resource, so_now = JNum (NInt now),
            so_addressToScript = sm_addressToScript (sv_config SV)\<rparr> invoice pf i tx t"
  shows "fst (handle_settlement X L SV now random request s) =
    Inr (Unlock (pay_record invoice (prf_txid pf) t) pf i tx False)"
proof -
  let ?SE = "\<lparr>se_runtime = xe_runtime X, se_codec = L, se_target = sm_txProvider (sv_config SV),
      se_proof_issues = xe_issues X\<rparr>"
  let ?opt = "\<lparr>so_proof = v, so_expectedResource = Some resource, so_now = JNum (NInt now),
      so_addressToScript = sm_addressToScript (sv_config SV)\<rparr>"
  have "fst (verifySettlementProof ?SE lookup commit ?opt s) = Inr (Unlocked (pay_record invoice (prf_txid pf) t) pf i tx False)"
    using payment_unlocks [OF assms(2), of ?opt pf invoice ?SE i tx t] assms(9-13) by simp
  with assms(1,8) have "fst (verify_request_proof X L SV now resource raw s) =
      Inr (Unlock (pay_record invoice (prf_txid pf) t) pf i tx False)"
    by (auto simp: verify_request_proof_Unlock uses_store_def)
  with assms(3-7) show ?thesis by (simp add: handle_settlement_alt serve_protected_Unlock)
qed

end

end
