(* ===== verification/Settlement_Flow.thy ===== *)
theory Settlement_Flow
  imports Settlement_Middleware
begin

text \<open>
  One purchase over HTTP, end to end: the settlement middleware answers a request without a proof by an
  offer, the client reads the offer from the header, pays it on chain, and repeats the request with a
  settlement proof in a header. The lemma \<open>paid_offer_unlocks\<close> composes the store, the header encodings,
  the JSON reader, the verifier and the handler: the repeated request is unlocked.
\<close>

text \<open>The header in which a client sends a proof: its JSON text in base64url.\<close>

definition proof_header :: "settlement_proof \<Rightarrow> string" where
  "proof_header pf = base64url (utf8_encode (json_text (proof_to_json pf)))"

lemma plain_proof: "proof_valid pf \<Longrightarrow> plain (proof_to_json pf)"
  by (simp add: proof_to_json_def proof_valid_def X402_VERSION_def max_safe_integer_def)

lemma set_trim: "set (trim s) \<subseteq> set s"
  by (auto simp: trim_def dest!: set_dropWhileD)

lemma not_raw_json:
  assumes "list_all is_base64url s" shows "\<not> startsWith (trim s) ''{''"
proof
  assume "startsWith (trim s) ''{''"
  then have "CHR ''{'' \<in> set (trim s)" by (auto simp: startsWith_iff)
  with set_trim assms have "is_base64url CHR ''{''" by (auto simp: list_all_iff)
  then show False by code_simp
qed

lemma proof_header_parses:
  assumes "proof_valid pf"
  shows "parseProofHeader X (proof_header pf) = Inr (proof_to_json pf)"
proof -
  have t: "json_text (proof_to_json pf) \<noteq> []" by (simp add: proof_to_json_def)
  have "proof_header pf \<noteq> []" using utf8_encode_nonempty [OF t] by (simp add: proof_header_def)
  moreover have "list_all is_base64url (proof_header pf)" by (simp add: proof_header_def base64url_chars)
  moreover have "length (proof_header pf) mod 4 \<noteq> 1" by (simp only: proof_header_def length_base64url not_False_eq_True)
  moreover have "parse_bytes X (from_base64 (proof_header pf)) = Inr (proof_to_json pf)"
    by (simp add: proof_header_def parse_bytes_def JSON_parse_text plain_proof assms)
  moreover have "base64url (from_base64 (proof_header pf)) = proof_header pf" by (simp add: proof_header_def)
  ultimately show ?thesis by (simp add: parseProofHeader_def not_raw_json)
qed

text \<open>The proof that a client makes of an offer and the transaction that pays it, and what it takes of the chain:
  the provider finds the transaction, which is settled, not older than the invoice, and pays the offer's
  address exactly the offer's amount.\<close>

definition proof_of :: "payment_offer \<Rightarrow> string \<Rightarrow> settlement_proof" where
  "proof_of offer txid = \<lparr>prf_x402Version = X402_VERSION, prf_network = XEC_MAINNET,
     prf_invoiceHash = po_invoiceId offer, prf_txid = txid\<rparr>"

definition paid_on_chain ::
  "cashaddr_codec \<Rightarrow> (string \<Rightarrow> string result) option \<Rightarrow> chronik_target \<Rightarrow> payment_offer \<Rightarrow> string \<Rightarrow> chronik_tx \<Rightarrow> nat \<Rightarrow> bool" where
  "paid_on_chain L converter target offer txid tx i \<longleftrightarrow>
     is_hash txid \<and> fetchChronikTx target txid = Inr (Some tx) \<and>
     (\<exists>t. ctx_txid tx = JStr t \<and> toLowerCase t = txid) \<and> (\<exists>b. ctx_isFinal tx = JBool b) \<and> tx_settled tx \<and>
     (\<exists>seen. observed_at tx = Some seen \<and>
        inv_issuedAt (po_invoice offer) - TEMPORAL_FENCE_TOLERANCE_SECONDS \<le> seen) \<and>
     (\<exists>script outputs. script_of_invoice L converter (po_payTo offer) script \<and> ctx_outputs tx = Some outputs \<and>
        i < length outputs \<and> pays script (BigInt_of (po_amountSats offer)) (outputs ! i) \<and>
        (\<forall>j < i. \<not> pays script (BigInt_of (po_amountSats offer)) (outputs ! j)))"

text \<open>A request that carries a proof, apart from its headers the same as another one.\<close>

definition proof_request :: "http_request \<Rightarrow> settlement_proof \<Rightarrow> http_request" where
  "proof_request request pf = request\<lparr>rq_get := (rq_get request)(PAYMENT_PROOF_HEADER \<mapsto> proof_header pf)\<rparr>"

lemma proof_headers_request:
  assumes "proof_headers request = []"
  shows "proof_headers (proof_request request pf) = [proof_header pf]"
proof -
  from assms have "rq_get request SETTLEMENT_PROOF_HEADER = None" "rq_get request X402_SETTLEMENT_PROOF_HEADER = None"
    by (auto simp: proof_headers_def List.map_filter_simps split: option.splits)
  moreover have "SETTLEMENT_PROOF_HEADER \<noteq> PAYMENT_PROOF_HEADER" "X402_SETTLEMENT_PROOF_HEADER \<noteq> PAYMENT_PROOF_HEADER"
    by (simp_all add: SETTLEMENT_PROOF_HEADER_def PAYMENT_PROOF_HEADER_def X402_SETTLEMENT_PROOF_HEADER_def)
  ultimately show ?thesis by (simp add: proof_headers_def proof_request_def List.map_filter_simps)
qed

lemma proof_request_same:
  "protecting_route SV (proof_request request pf) = protecting_route SV request"
  "is_multipart (proof_request request pf) = is_multipart request"
  "rq_body (proof_request request pf) = rq_body request"
  "requestIndicatesBody (proof_request request pf) = requestIndicatesBody request"
  "settlement_resource X (proof_request request pf) origin = settlement_resource X request origin"
  by (simp_all add: proof_request_def protecting_route_def is_multipart_def PAYMENT_PROOF_HEADER_def
      requestIndicatesBody_def settlement_resource_def split: option.split)

lemma offer_answer_reads:
  assumes "fst (handle_settlement X L SV now random request s) = Inr (Respond 402 hs body)" "proof_headers request = []"
  shows "\<not> is_multipart request" "\<not> (rq_body request = JUndef \<and> requestIndicatesBody request)"
  using assms by (auto simp: handle_settlement_alt serve_protected_def split: sum.splits option.splits if_splits)

context invoice_store
begin

lemma paid_offer_unlocks:
  assumes store: "uses_store lookup issue alloc commit SV" "invar s" "xe_runtime X = E"
    and first: "protecting_route SV request = Inr (Some route)" "proof_headers request = []"
      "handle_settlement X L SV now random request s = (Inr (Respond 402 hs body), s')"
    and offer: "map_of hs X402_PAYMENT_OFFER_HEADER = Some encoded"
      "decodePaymentOfferHeader E issues num encoded = Inr offer"
    and paid: "paid_on_chain L (sm_addressToScript (sv_config SV)) (sm_txProvider (sv_config SV)) offer txid tx i"
      "\<forall>k. \<not> settled_by (lookup s) k txid"
    and later: "0 \<le> later" "later \<le> max_safe_integer" "inv_issuedAt (po_invoice offer) \<le> later"
      "later < inv_expiresAt (po_invoice offer)"
  shows "\<exists>r. fst (handle_settlement X L SV later random' (proof_request request (proof_of offer txid)) s') =
    Inr (Unlock r (proof_of offer txid) i tx False)"
proof -
  let ?pf = "proof_of offer txid"
  from no_proof_offers [OF store first(1,2,3), of issues num] obtain resource encoded' inv h r where
    res: "settlement_resource X request (sv_publicOrigin SV) = Inr resource"
    and e: "map_of hs X402_PAYMENT_OFFER_HEADER = Some encoded'"
      "decodePaymentOfferHeader E issues num encoded' = Inr (offer_of route inv h)"
    and rh: "computeResourceHash E resource = Inr (inv_resourceHash inv)"
    and r: "lookup s h = None" "lookup s' = (lookup s)(h \<mapsto> r)" "backed_by r inv h"
      and inv': "invar s'"
    by blast
  from e offer have po: "offer = offer_of route inv h" by simp
  have hash: "is_hash h" using decode_offer_iff [THEN iffD1, OF e(2)] by (simp add: offer_valid_def offer_of_def)
  have pf: "proof_valid ?pf" using hash paid(1) by (simp add: proof_valid_def proof_of_def po offer_of_def paid_on_chain_def)
  have lk: "lookup s' (prf_invoiceHash ?pf) = Some r" by (simp add: r(2) proof_of_def po offer_of_def)
  have open': "rec_state r \<noteq> PAID" using r(3) by (simp add: backed_by_def)
  have fresh: "\<forall>k. \<not> settled_by (lookup s') k (prf_txid ?pf)"
    using paid(2) r(3) by (auto simp: settled_by_def r(2) proof_of_def backed_by_def)
  have ev: "settlement_evidence
         \<lparr>se_runtime = xe_runtime X, se_codec = L, se_target = sm_txProvider (sv_config SV),
          se_proof_issues = xe_issues X\<rparr>
         \<lparr>so_proof = proof_to_json ?pf, so_expectedResource = Some resource, so_now = JNum (NInt later),
          so_addressToScript = sm_addressToScript (sv_config SV)\<rparr> r ?pf i tx later"
    using paid(1) later r(3) open' rh store(3)
    by (auto simp: settlement_evidence_def paid_on_chain_def pays_record_def backed_by_def po offer_of_def proof_of_def
        safe_nonneg_def safe_nonneg_value_def)
  note answer = offer_answer_reads [of X L SV now random request s hs body]
  have "fst (handle_settlement X L SV later random' (proof_request request ?pf) s') =
      Inr (Unlock (pay_record r (prf_txid ?pf) later) ?pf i tx False)"
    using first proof_header_parses [OF pf] parse_proof_to_json [OF pf] lk open' fresh ev res answer
    by (intro honest_request_unlocks [OF store(1) inv', where route = route and raw = "proof_header ?pf"
          and v = "proof_to_json ?pf" and resource = resource])
       (simp_all add: proof_request_same proof_headers_request)
  then show ?thesis by blast
qed

end

end
