(* ===== verification/Offer_Size.thy ===== *)
theory Offer_Size
  imports Payment_Offer
begin

text \<open>
  The length of a payment-offer header. \<open>text_bytes\<close> counts the UTF-8 bytes of the JSON text of a value;
  sorting the fields does not change it, so that the length of a header is bounded field by field.
  The lemma \<open>offer_header_fits\<close> says which offers fit the limit of the header.
\<close>

definition quoted_bytes :: "string \<Rightarrow> nat" where
  "quoted_bytes s = length (utf8_encode (json_quote s))"

fun text_bytes :: "js_value \<Rightarrow> nat" where
  "text_bytes (JStr s) = quoted_bytes s"
| "text_bytes (JArr xs) = 2 + (length xs - 1) + sum_list (map text_bytes xs)"
| "text_bytes (JObj fs) = 2 + (length fs - 1) + sum_list (map (\<lambda>(k, v). quoted_bytes k + 1 + text_bytes v) fs)"
| "text_bytes v = length (utf8_encode (json_text v))"

lemma utf8_encode_append [simp]: "utf8_encode (s @ t) = utf8_encode s @ utf8_encode t" "utf8_encode [] = []"
  by (simp_all add: utf8_encode_def)

lemma utf8_encode_delims [simp]:
  "utf8_encode ''['' = ''[''" "utf8_encode '']'' = '']''" "utf8_encode ''{'' = ''{''" "utf8_encode ''}'' = ''}''"
  "utf8_encode '':'' = '':''" "utf8_encode '','' = '',''"
  by (rule utf8_encode_ascii, code_simp)+

lemma length_join: "length (utf8_encode (join_with '','' ts)) = (length ts - 1) + sum_list (map (length \<circ> utf8_encode) ts)"
proof (induction ts)
  case (Cons t ts)
  then show ?case
  proof (cases ts)
    case (Cons u us)
    have "utf8_encode (join_with '','' (t # u # us)) = utf8_encode t @ utf8_encode '','' @ utf8_encode (join_with '','' (u # us))"
      by (simp only: join_with.simps utf8_encode_append)
    with Cons.IH Cons show ?thesis by simp
  qed simp
qed simp

lemma text_bytes_correct: "length (utf8_encode (json_text v)) = text_bytes v"
proof (induction v rule: text_bytes.induct)
  case (1 s)
  show ?case by (simp add: quoted_bytes_def)
next
  case (2 xs)
  have "utf8_encode (json_text (JArr xs)) = utf8_encode ''['' @ utf8_encode (join_with '','' (map json_text xs)) @ utf8_encode '']''"
    by (simp only: json_text.simps utf8_encode_append)
  moreover have "sum_list (map (length \<circ> utf8_encode) (map json_text xs)) = sum_list (map text_bytes xs)"
    using 2 by (auto intro!: arg_cong [where f = sum_list])
  ultimately show ?case
    by (simp only: length_append length_join length_map text_bytes.simps) simp
next
  case (3 fs)
  let ?m = "\<lambda>(k, v). json_quote k @ '':'' @ json_text v"
  have "utf8_encode (json_text (JObj fs)) = utf8_encode ''{'' @ utf8_encode (join_with '','' (map ?m fs)) @ utf8_encode ''}''"
    by (simp only: json_text.simps utf8_encode_append)
  moreover have "sum_list (map (length \<circ> utf8_encode) (map ?m fs)) =
      sum_list (map (\<lambda>(k, v). quoted_bytes k + 1 + text_bytes v) fs)"
    using 3 by (auto simp: quoted_bytes_def simp flip: append_Cons intro!: arg_cong [where f = sum_list])
  ultimately show ?case
    by (simp only: length_append length_join length_map text_bytes.simps) simp
qed simp_all

lemma sum_list_sort: "sum_list (map f (sort_key g xs)) = sum_list (map (f :: 'a \<Rightarrow> nat) xs)"
proof -
  have "sum_list (map f (insort_key g x xs)) = f x + sum_list (map f xs)" for x xs
    by (induction xs) simp_all
  then show ?thesis by (induction xs) (simp_all add: sort_key_def)
qed

lemma text_bytes_normal: "plain v \<Longrightarrow> text_bytes (normal v) = text_bytes v"
proof (induction v rule: plain.induct)
  case (5 xs)
  then show ?case by (auto simp: list_all_iff intro!: arg_cong [where f = sum_list])
next
  case (6 fs)
  let ?g = "\<lambda>(k, v). quoted_bytes k + 1 + text_bytes v"
  have fields: "text_bytes (normal v) = text_bytes v" if "(k, v) \<in> set fs" for k v
    using 6 that by (fastforce simp: list_all_iff)
  have "sum_list (map (\<lambda>(k, v). ?g (k, normal v)) (sort_key fst fs)) = sum_list (map ?g (sort_key fst fs))"
    using fields by (auto intro!: arg_cong [where f = sum_list])
  also have "\<dots> = sum_list (map ?g fs)"
    by (rule sum_list_sort)
  finally show ?case by (simp add: comp_def split_def)
qed simp_all

subsection \<open>Texts\<close>

text \<open>A text without characters that are escaped, and any other one.\<close>

definition clean :: "string \<Rightarrow> bool" where
  "clean s \<longleftrightarrow> list_all (\<lambda>c. 32 \<le> code c \<and> code c < 128 \<and> code c \<noteq> 34 \<and> code c \<noteq> 92) s"

lemma quoted_clean: "clean s \<Longrightarrow> quoted_bytes s = length s + 2"
proof -
  assume s: "clean s"
  then have "concat (map esc_char s) = s" by (induction s) (auto simp: clean_def esc_char_def Let_def)
  moreover have "utf8_encode [CHR 0x22] = [CHR 0x22]" by (rule utf8_encode_ascii) code_simp
  moreover have "utf8_encode s = s" using s by (intro utf8_encode_ascii) (auto simp: clean_def list_all_iff)
  ultimately show ?thesis
    unfolding quoted_bytes_def json_quote_def
    using utf8_encode_append(1) [of "[CHR 0x22]" "s @ [CHR 0x22]"] by simp
qed

lemma quoted_le: "quoted_bytes s \<le> 6 * length s + 2"
proof -
  have char: "length (utf8_encode (esc_char c)) \<le> 6" for c
  proof (cases "code c < 128")
    case True
    then have "list_all (\<lambda>d. code d < 128) (esc_char c)"
      by (auto simp: esc_char_def hex_digit_def Let_def)
    then have "utf8_encode (esc_char c) = esc_char c" by (rule utf8_encode_ascii)
    then show ?thesis by (simp add: esc_char_def Let_def)
  next
    case False
    then show ?thesis by (simp add: esc_char_def utf8_encode_def utf8_char_def Let_def)
  qed
  have "length (utf8_encode (concat (map esc_char s))) \<le> 6 * length s"
  proof (induction s)
    case (Cons c s)
    with char [of c] show ?case by simp
  qed simp
  moreover have "utf8_encode [CHR 0x22] = [CHR 0x22]" by (rule utf8_encode_ascii) code_simp
  ultimately show ?thesis
    unfolding quoted_bytes_def json_quote_def
    using utf8_encode_append(1) [of "[CHR 0x22]" "concat (map esc_char s) @ [CHR 0x22]"] by simp
qed

lemma clean_lower_hex: "is_hash s \<Longrightarrow> clean s \<and> length s = 64"
  by (auto simp: is_hash_def clean_def list_all_iff char_class_defs)

lemma clean_nonce: "is_nonce s \<Longrightarrow> clean s \<and> length s \<le> 128"
  by (auto simp: is_nonce_def clean_def list_all_iff char_class_defs)

lemma clean_amount: "is_amount s \<Longrightarrow> clean s"
  by (cases s) (auto simp: is_amount_def is_positive_dec_def clean_def list_all_iff char_class_defs in_range_def)

lemma clean_address: "is_address s \<Longrightarrow> clean s"
proof -
  assume s: "is_address s"
  then obtain t where t: "s = ''ecash:'' @ t" by (auto simp: is_address_def startsWith_iff)
  have "clean ''ecash:''" by code_simp
  moreover have "clean t" using s unfolding t
    by (auto simp: is_address_def clean_def list_all_iff char_class_defs split: list.splits)
  ultimately show "clean s" by (simp add: t clean_def)
qed

lemma length_nat_to_dec: "n < 10 ^ Suc k \<Longrightarrow> length (nat_to_dec n) \<le> Suc k"
proof (induction k arbitrary: n)
  case (Suc k)
  then have "n div 10 < 10 ^ Suc k" by (simp add: less_mult_imp_div_less)
  from Suc.IH [OF this] show ?case by (subst nat_to_dec.simps) simp
qed (subst nat_to_dec.simps, simp)

lemma timestamp_text: "is_timestamp t \<Longrightarrow> length (utf8_encode (json_number_text (NInt t))) \<le> 16"
proof -
  assume t: "is_timestamp t"
  have "list_all (\<lambda>c. code c < 128) (nat_to_dec n)" for n
    using nat_to_dec_digits [of n] by (auto simp: list_all_iff char_class_defs)
  then have "utf8_encode (nat_to_dec (nat t)) = nat_to_dec (nat t)" by (rule utf8_encode_ascii)
  moreover have "nat t < 10 ^ Suc 15" using t by (simp add: is_timestamp_def max_safe_integer_def nat_less_iff)
  then have "length (nat_to_dec (nat t)) \<le> Suc 15" by (rule length_nat_to_dec)
  ultimately show ?thesis using t by (simp add: json_number_text_def int_to_dec_def is_timestamp_def)
qed

subsection \<open>Offers\<close>

lemma clean_literals:
  "list_all clean [''x402Version'', ''invoiceId'', ''invoice'', ''accepts'', ''scheme'', ''network'', ''resourceHash'',
     ''amountSats'', ''payTo'', ''nonce'', ''issuedAt'', ''expiresAt'', ''asset'', ''proofHeader'', ''description'',
     ''XEC'', ''payment-proof'', ''exact'', ''xec:mainnet'']"
  by code_simp

lemma length_base64url_le: "3 * length (base64url s) \<le> 4 * length s + 2"
proof -
  have "3 * length (sextets bs) \<le> 4 * length bs + 2" for bs
    by (induction bs rule: sextets.induct) simp_all
  from this [of "map code s"] show ?thesis by (simp add: base64url_def)
qed

definition offer_bytes :: "payment_offer \<Rightarrow> nat" where
  "offer_bytes p = 660 + 2 * length (po_amountSats p) + 2 * length (po_payTo p) +
     (case po_description p of None \<Rightarrow> 0 | Some d \<Rightarrow> 17 + 6 * length d)"

lemma offer_text_le:
  assumes "offer_valid E p"
  shows "text_bytes (offer_to_json p) \<le> offer_bytes p"
proof -
  let ?i = "po_invoice p"
  from assms have i: "invoice_valid ?i" "is_hash (po_invoiceId p)" "po_x402Version p = 1"
    "po_amountSats p = inv_amountSats ?i" "po_payTo p = inv_payTo ?i"
    by (simp_all add: offer_valid_def X402_VERSION_def)
  from i(1) have inv: "inv_x402Version ?i = 1" "inv_scheme ?i = ''exact''" "inv_network ?i = ''xec:mainnet''"
    "is_hash (inv_resourceHash ?i)" "is_amount (inv_amountSats ?i)" "is_address (inv_payTo ?i)"
    "is_nonce (inv_nonce ?i)" "is_timestamp (inv_issuedAt ?i)" "is_timestamp (inv_expiresAt ?i)"
    by (simp_all add: invoice_valid_def X402_VERSION_def XEC_SCHEME_def XEC_MAINNET_def)
  have q: "quoted_bytes (po_invoiceId p) = 66" "quoted_bytes (inv_resourceHash ?i) = 66"
    "quoted_bytes (inv_amountSats ?i) = length (inv_amountSats ?i) + 2"
    "quoted_bytes (inv_payTo ?i) = length (inv_payTo ?i) + 2" "quoted_bytes (inv_nonce ?i) \<le> 130"
    using clean_lower_hex [OF i(2)] clean_lower_hex [OF inv(4)] clean_amount [OF inv(5)] clean_address [OF inv(6)]
      clean_nonce [OF inv(7)] by (simp_all add: quoted_clean)
  have one: "length (utf8_encode (json_number_text (NInt 1))) = 1" by code_simp
  show ?thesis
  proof (cases "po_description p")
    case None
    then show ?thesis
      using q one timestamp_text [OF inv(8)] timestamp_text [OF inv(9)] clean_literals
      by (simp add: offer_to_json_def accept_to_json_def invoice_to_json_def offer_bytes_def inv i quoted_clean
          XEC_MAINNET_def del: utf8_encode_append)
  next
    case (Some d)
    then show ?thesis
      using q one timestamp_text [OF inv(8)] timestamp_text [OF inv(9)] clean_literals quoted_le [of d]
      by (simp add: offer_to_json_def accept_to_json_def invoice_to_json_def offer_bytes_def inv i quoted_clean
          XEC_MAINNET_def del: utf8_encode_append)
  qed
qed

lemma offer_header_fits:
  assumes "offer_valid E p" "offer_bytes p \<le> 3071"
  shows "length (offer_header p) \<le> MAX_X402_PAYMENT_OFFER_HEADER_LENGTH"
proof -
  have "text_bytes (normal (offer_to_json p)) \<le> 3071"
    using offer_text_le [OF assms(1)] text_bytes_normal [OF plain_offer_json [OF assms(1)]] assms(2) by simp
  moreover have "3 * length (offer_header p) \<le> 4 * text_bytes (normal (offer_to_json p)) + 2"
    using length_base64url_le [of "utf8_encode (json_text (normal (offer_to_json p)))"]
    unfolding offer_header_def text_bytes_correct .
  ultimately show ?thesis by (simp add: MAX_X402_PAYMENT_OFFER_HEADER_LENGTH_def)
qed

end
