(* ===== verification/Payment_Middleware.thy ===== *)
theory Payment_Middleware
  imports Express_Core Payment_Preparer
begin

text \<open>
  \<open>packages/x402-xec-express/src/middleware.ts\<close>: the middleware that has a facilitator verify a signed
  payment. The URL printer (\<open>url.toString()\<close> after its path is set) and \<open>fetch\<close> are parameters; a call
  of the facilitator is an event. The lemmas say when a request passes, and that a payment that
  \<open>OfflinePaymentPreparer\<close> made is read back as it was and passes the local checks.
\<close>

definition PAYMENT_HEADER :: string where "PAYMENT_HEADER = ''payment-signature''"
definition DEFAULT_EXPIRY_SECONDS :: int where "DEFAULT_EXPIRY_SECONDS = 60"
definition DEFAULT_MAX_PAYMENT_HEADER_BYTES :: int where "DEFAULT_MAX_PAYMENT_HEADER_BYTES = 16 * 1024"
definition MAX_FACILITATOR_RESPONSE_BYTES :: int where "MAX_FACILITATOR_RESPONSE_BYTES = 64 * 1024"

record route_payment_config =
  rp_amountSats :: string
  rp_description :: "string option"
  rp_asset :: string
  rp_network :: string
  rp_scheme :: string

record payment_route =
  pq_method :: string
  pq_path :: string
  pq_payment :: route_payment_config
  pq_amountSats :: int

text \<open>What \<open>fetch\<close> resolves to; \<open>text()\<close> may reject.\<close>

record fetch_response =
  fr_ok :: bool
  fr_status :: int
  fr_text :: "string result"

type_synonym fetcher = "string \<Rightarrow> string \<Rightarrow> fetch_response result"

record payment_middleware_config =
  pm_publicOrigin :: string
  pm_facilitatorUrl :: string
  pm_payTo :: string
  pm_routes :: "(string \<times> route_payment_config) list"
  pm_expirySeconds :: "js_number option"
  pm_maxPaymentHeaderBytes :: "js_number option"
  pm_fetch :: "fetcher option"

record payment_server =
  ps_publicOrigin :: string
  ps_facilitatorVerifyUrl :: string
  ps_routes :: "(string, payment_route) jmap"
  ps_payTo :: string
  ps_expirySeconds :: int
  ps_maxPaymentHeaderBytes :: int
  ps_fetch :: fetcher

record received_envelope =
  re_invoice :: invoice
  re_authorization :: authorization
  re_idempotencyKey :: "string option"

subsection \<open>Configuration\<close>

definition positiveInteger :: "js_number \<Rightarrow> string \<Rightarrow> int result" where
  "positiveInteger value name = (case num_int value of
     None \<Rightarrow> Inl (RangeError (name @ '' must be a positive integer''))
   | Some i \<Rightarrow> if i \<le> 0 then Inl (RangeError (name @ '' must be a positive integer'')) else Inr i)"

text \<open>\<open>href\<close> prints the parsed URL with another path.\<close>

definition resolveFacilitatorVerifyUrl :: "runtime \<Rightarrow> (string \<Rightarrow> string \<Rightarrow> string) \<Rightarrow> string \<Rightarrow> string result" where
  "resolveFacilitatorVerifyUrl E href input = (case rt_url E input of
     None \<Rightarrow> Inl (TypeError ''Invalid URL'')
   | Some url \<Rightarrow>
       if url_protocol url \<noteq> ''http:'' \<and> url_protocol url \<noteq> ''https:'' then
         Inl (TypeError ''facilitatorUrl must use http or https'')
       else if url_username url \<noteq> [] \<or> url_password url \<noteq> [] \<or> url_search url \<noteq> [] \<or> url_hash url \<noteq> [] then
         Inl (TypeError ''facilitatorUrl must not contain credentials, query, or fragment'')
       else let path = rev (dropWhile (\<lambda>c. c = CHR ''/'') (rev (url_pathname url))) in
         Inr (href input
           (if endsWith path ''/verify'' then path
            else if endsWith path ''/facilitator'' then path @ ''/verify''
            else path @ ''/facilitator/verify'')))"

definition routeKey :: "string \<Rightarrow> string \<Rightarrow> string result" where
  "routeKey method path = ebind (normalizeMethod method) (\<lambda>m. Inr (m @ '' '' @ path))"

definition payment_route_of :: "string \<times> route_payment_config \<Rightarrow> (string \<times> payment_route) result" where
  "payment_route_of = (\<lambda>(configuredKey, payment). case split_route configuredKey of
     None \<Rightarrow> Inl (TypeError (''invalid route key: '' @ configuredKey))
   | Some (m, p) \<Rightarrow>
       ebind (normalizeMethod m) (\<lambda>method.
       ebind (validatePath p) (\<lambda>path.
       if rp_asset payment \<noteq> ''XEC'' \<or> rp_network payment \<noteq> ''xec:mainnet'' \<or> rp_scheme payment \<noteq> ''xec-prepaid-utxo''
       then Inl (TypeError (''unsupported payment configuration for '' @ configuredKey))
       else
         ebind (parseAmountSats (rp_amountSats payment)) (\<lambda>amountSats.
         ebind (routeKey method path) (\<lambda>key.
           Inr (key, \<lparr>pq_method = method, pq_path = path, pq_payment = payment, pq_amountSats = amountSats\<rparr>))))))"

definition payment_parseRoutes :: "(string \<times> route_payment_config) list \<Rightarrow> (string, payment_route) jmap result" where
  "payment_parseRoutes input = build_routes payment_route_of input []"

definition createX402XecMiddleware ::
  "runtime \<Rightarrow> (string \<Rightarrow> string \<Rightarrow> string) \<Rightarrow> payment_middleware_config \<Rightarrow> payment_server result" where
  "createX402XecMiddleware E href config =
     ebind (normalizeServerOrigin E (pm_publicOrigin config)) (\<lambda>publicOrigin.
     ebind (resolveFacilitatorVerifyUrl E href (pm_facilitatorUrl config)) (\<lambda>verifyUrl.
     ebind (payment_parseRoutes (pm_routes config)) (\<lambda>routes.
     ebind (if is_address (pm_payTo config) then Inr (pm_payTo config) else Inl ZodError) (\<lambda>payTo.
     ebind (positiveInteger (case pm_expirySeconds config of None \<Rightarrow> NInt DEFAULT_EXPIRY_SECONDS | Some e \<Rightarrow> e)
       ''expirySeconds'') (\<lambda>expirySeconds.
     ebind (positiveInteger (case pm_maxPaymentHeaderBytes config of
         None \<Rightarrow> NInt DEFAULT_MAX_PAYMENT_HEADER_BYTES | Some b \<Rightarrow> b) ''maxPaymentHeaderBytes'') (\<lambda>maxBytes.
     case pm_fetch config of
       None \<Rightarrow> Inl (TypeError ''a Fetch API implementation is required'')
     | Some f \<Rightarrow>
         Inr \<lparr>ps_publicOrigin = publicOrigin, ps_facilitatorVerifyUrl = verifyUrl, ps_routes = routes, ps_payTo = payTo,
              ps_expirySeconds = expirySeconds, ps_maxPaymentHeaderBytes = maxBytes, ps_fetch = f\<rparr>))))))"

subsection \<open>Reading a request\<close>

definition payment_resource :: "express_env \<Rightarrow> http_request \<Rightarrow> string \<Rightarrow> resource_request result" where
  "payment_resource X request serverOrigin =
     (case xe_url X (rq_originalUrl request) serverOrigin of
        None \<Rightarrow> Inl (TypeError ''Invalid URL'')
      | Some (pathname, query) \<Rightarrow>
          ebind (payment_canonicalBody (rq_body request)) (\<lambda>body.
          ebind (normalizeMethod (rq_method request)) (\<lambda>method.
          ebind (validatePath (rq_path request)) (\<lambda>path.
            Inr \<lparr>res_serverOrigin = serverOrigin, res_method = method, res_path = path,
                 res_query = opt_query query, res_body = body\<rparr>))))"

text \<open>\<open>^[A-Za-z0-9._:-]{1,128}$\<close>.\<close>

definition is_envelope_key :: "string \<Rightarrow> bool" where
  "is_envelope_key s \<longleftrightarrow> 1 \<le> length s \<and> length s \<le> 128 \<and>
     list_all (\<lambda>c. is_upper c \<or> is_lower c \<or> is_digit c \<or> c \<in> set ''._:-'') s"

definition parsePaymentEnvelope :: "express_env \<Rightarrow> string \<Rightarrow> received_envelope result" where
  "parsePaymentEnvelope X encoded =
     (if encoded = [] \<or> \<not> list_all is_base64url encoded then Inl (TypeError ''invalid base64url'')
      else ebind (parse_bytes X (from_base64 encoded)) (\<lambda>parsed.
        if \<not> isRecord parsed then Inl (TypeError ''payment envelope must be an object'')
        else (case (parse_invoice (prop_of parsed ''invoice''), parse_authorization (prop_of parsed ''authorization'')) of
            (Some i, Some a) \<Rightarrow>
              (case prop_of parsed ''idempotencyKey'' of
                 JUndef \<Rightarrow> Inr \<lparr>re_invoice = i, re_authorization = a, re_idempotencyKey = None\<rparr>
               | JStr k \<Rightarrow>
                   if is_envelope_key k then Inr \<lparr>re_invoice = i, re_authorization = a, re_idempotencyKey = Some k\<rparr>
                   else Inl (TypeError ''invalid idempotency key'')
               | _ \<Rightarrow> Inl (TypeError ''invalid idempotency key''))
          | _ \<Rightarrow> Inl ZodError)))"

type_synonym local_failure = "int \<times> string \<times> string"

text \<open>The checks before the facilitator is asked; \<open>Inr None\<close> where all hold.\<close>

definition validateEnvelope ::
  "runtime \<Rightarrow> received_envelope \<Rightarrow> resource_request \<Rightarrow> payment_route \<Rightarrow> string \<Rightarrow> int \<Rightarrow> int \<Rightarrow>
   local_failure option result" where
  "validateEnvelope E envelope resource route payTo expirySeconds now =
     (let i = re_invoice envelope; a = re_authorization envelope in
      if now < inv_issuedAt i then Inr (Some (402, ''NOT_YET_VALID'', ''Invoice is not yet valid''))
      else if now \<ge> inv_expiresAt i then Inr (Some (402, ''EXPIRED'', ''Invoice has expired''))
      else if inv_expiresAt i - inv_issuedAt i > expirySeconds then
        Inr (Some (402, ''INVALID_EXPIRY'', ''Invoice expiry exceeds the configured limit''))
      else ebind (computeResourceHash E resource) (\<lambda>resourceHash.
        if inv_resourceHash i \<noteq> resourceHash then
          Inr (Some (403, ''RESOURCE_MISMATCH'', ''Invoice does not match this method, path, origin, query, or body''))
        else if inv_amountSats i \<noteq> rp_amountSats (pq_payment route) then
          Inr (Some (403, ''AMOUNT_MISMATCH'', ''Invoice amount does not match the protected route''))
        else if inv_payTo i \<noteq> payTo then
          Inr (Some (403, ''PAY_TO_MISMATCH'', ''Invoice recipient does not match the configured recipient''))
        else ebind (computeInvoiceHash E i) (\<lambda>invoiceHash.
          if auth_invoiceHash a \<noteq> invoiceHash then
            Inr (Some (403, ''INVOICE_MISMATCH'', ''Authorization does not match the invoice''))
          else if auth_resourceHash a \<noteq> inv_resourceHash i then
            Inr (Some (403, ''RESOURCE_MISMATCH'', ''Authorization does not match the protected resource''))
          else if auth_amountSats a \<noteq> inv_amountSats i then
            Inr (Some (403, ''AMOUNT_MISMATCH'', ''Authorization amount does not match the invoice''))
          else if auth_payTo a \<noteq> inv_payTo i then
            Inr (Some (403, ''PAY_TO_MISMATCH'', ''Authorization recipient does not match the invoice''))
          else if auth_nonce a \<noteq> inv_nonce i then
            Inr (Some (403, ''NONCE_MISMATCH'', ''Authorization nonce does not match the invoice''))
          else if auth_x402Version a \<noteq> inv_x402Version i \<or> auth_scheme a \<noteq> inv_scheme i \<or>
                  auth_network a \<noteq> inv_network i then
            Inr (Some (403, ''INVOICE_MISMATCH'', ''Authorization protocol fields do not match the invoice''))
          else Inr None)))"

definition isSuccessfulVerification :: "js_value \<Rightarrow> bool" where
  "isSuccessfulVerification input \<longleftrightarrow> isRecord input \<and>
     ((prop_of input ''ok'' = JBool True \<and> prop_of input ''status'' = JStr ''VERIFIED'') \<or>
      prop_of input ''isValid'' = JBool True)"

definition readStringProperty :: "js_value \<Rightarrow> string \<Rightarrow> string option" where
  "readStringProperty input key =
     (if isRecord input then (case prop_of input key of JStr s \<Rightarrow> Some s | _ \<Rightarrow> None) else None)"

subsection \<open>The handler\<close>

datatype payment_outcome =
    PassUnprotected
  | Verified js_value
  | PaymentResponse int js_value

datatype facilitator_call = PostFacilitator string string

definition paymentError :: "int \<Rightarrow> string \<Rightarrow> string \<Rightarrow> payment_outcome" where
  "paymentError status c message = PaymentResponse status
     (JObj [(''x402Version'', JNum (NInt X402_VERSION)),
            (''error'', JObj [(''code'', JStr c), (''message'', JStr message)])])"

definition payment_required ::
  "runtime \<Rightarrow> payment_server \<Rightarrow> int \<Rightarrow> string \<Rightarrow> resource_request \<Rightarrow> payment_route \<Rightarrow> payment_outcome result" where
  "payment_required E PS now random resource route =
     ebind (createInvoice E \<lparr>cin_request = resource, cin_amountSats = pq_amountSats route, cin_payTo = ps_payTo PS,
        cin_nonce = base64url random, cin_issuedAt = now, cin_expiresAt = now + ps_expirySeconds PS\<rparr>) (\<lambda>i.
     ebind (computeInvoiceHash E i) (\<lambda>h.
       Inr (PaymentResponse 402 (JObj
         [(''x402Version'', JNum (NInt X402_VERSION)), (''invoiceId'', JStr h), (''invoice'', invoice_to_json i),
          (''resource'', resource_to_json resource),
          (''accepts'', JArr [JObj ([(''asset'', JStr (rp_asset (pq_payment route))),
             (''network'', JStr (rp_network (pq_payment route))), (''scheme'', JStr (rp_scheme (pq_payment route))),
             (''amountSats'', JStr (inv_amountSats i)), (''payTo'', JStr (inv_payTo i))] @
            (case rp_description (pq_payment route) of None \<Rightarrow> [] | Some d \<Rightarrow> [(''description'', JStr d)]) @
            [(''paymentHeader'', JStr ''PAYMENT-SIGNATURE'')])])]))))"

text \<open>The body of the request to the facilitator.\<close>

definition facilitator_body :: "received_envelope \<Rightarrow> resource_request \<Rightarrow> string \<Rightarrow> string result" where
  "facilitator_body envelope resource idempotencyKey =
     ebind (stringify (JObj [(''invoice'', invoice_to_json (re_invoice envelope)),
       (''authorization'', authorization_to_json (re_authorization envelope)),
       (''resource'', resource_to_json resource), (''idempotencyKey'', JStr idempotencyKey)]))
       (\<lambda>t. Inr (case t of None \<Rightarrow> [] | Some s \<Rightarrow> s))"

text \<open>What follows a response of the facilitator.\<close>

definition judge_response :: "express_env \<Rightarrow> fetch_response result \<Rightarrow> payment_outcome" where
  "judge_response X answer = (case answer of
     Inl _ \<Rightarrow> paymentError 502 ''FACILITATOR_UNAVAILABLE'' ''Facilitator verification request failed''
   | Inr response \<Rightarrow>
       (case ebind (fr_text response) (\<lambda>text.
           if int (length (utf8_encode text)) > MAX_FACILITATOR_RESPONSE_BYTES then
             Inl (RangeError ''facilitator response too large'')
           else JSON_parse (xe_num X) text) of
          Inl _ \<Rightarrow> paymentError 502 ''FACILITATOR_ERROR'' ''Facilitator returned an invalid response''
        | Inr result \<Rightarrow>
            if fr_ok response \<and> isSuccessfulVerification result then Verified result
            else paymentError (if fr_status response = 403 then 403 else 402)
              (case readStringProperty result ''code'' of None \<Rightarrow> ''PAYMENT_INVALID'' | Some c \<Rightarrow> c)
              ''Facilitator rejected the payment''))"

definition ask_facilitator ::
  "express_env \<Rightarrow> payment_server \<Rightarrow> received_envelope \<Rightarrow> resource_request \<Rightarrow>
   (facilitator_call, payment_outcome) traced" where
  "ask_facilitator X PS envelope resource =
     tbind (tpure (case re_idempotencyKey envelope of
         Some k \<Rightarrow> Inr k
       | None \<Rightarrow> ebind (canonicalHash (rt_sha256 (xe_runtime X)) (authorization_to_json (re_authorization envelope)))
           (\<lambda>h. Inr (''x402-'' @ h)))) (\<lambda>idempotencyKey.
     case facilitator_body envelope resource idempotencyKey of
       Inl _ \<Rightarrow> tpure (Inr (paymentError 502 ''FACILITATOR_UNAVAILABLE'' ''Facilitator verification request failed''))
     | Inr body \<Rightarrow>
         ask (PostFacilitator (ps_facilitatorVerifyUrl PS) body)
           (Inr (judge_response X (ps_fetch PS (ps_facilitatorVerifyUrl PS) body))))"

text \<open>\<open>now\<close> is what the clock returns.\<close>

definition handle_payment ::
  "express_env \<Rightarrow> payment_server \<Rightarrow> js_number \<Rightarrow> string \<Rightarrow> http_request \<Rightarrow> (facilitator_call, payment_outcome) traced" where
  "handle_payment X PS now random request =
     tbind (tpure (routeKey (rq_method request) (rq_path request))) (\<lambda>key.
     case jget (ps_routes PS) key of
       None \<Rightarrow> tpure (Inr PassUnprotected)
     | Some route \<Rightarrow>
         (case payment_resource X request (ps_publicOrigin PS) of
            Inl _ \<Rightarrow> tpure (Inr (paymentError 400 ''MALFORMED_RESOURCE'' ''Request body is not canonical JSON''))
          | Inr resource \<Rightarrow>
              (case rq_get request PAYMENT_HEADER of
                 None \<Rightarrow> tbind (tpure (checkedNow now)) (\<lambda>issuedAt.
                   tpure (payment_required (xe_runtime X) PS issuedAt random resource route))
               | Some header \<Rightarrow>
                   if int (length (utf8_encode header)) > ps_maxPaymentHeaderBytes PS then
                     tpure (Inr (paymentError 402 ''PAYMENT_HEADER_TOO_LARGE'' ''Payment header exceeds the configured limit''))
                   else (case parsePaymentEnvelope X header of
                       Inl _ \<Rightarrow> tpure (Inr (paymentError 402 ''MALFORMED_PAYMENT''
                         ''PAYMENT-SIGNATURE must contain base64url-encoded JSON''))
                     | Inr envelope \<Rightarrow>
                         tbind (tpure (checkedNow now)) (\<lambda>t.
                         tbind (tpure (validateEnvelope (xe_runtime X) envelope resource route (ps_payTo PS)
                           (ps_expirySeconds PS) t)) (\<lambda>localFailure.
                         case localFailure of
                           Some (status, c, message) \<Rightarrow> tpure (Inr (paymentError status c message))
                         | None \<Rightarrow> ask_facilitator X PS envelope resource))))))"

subsection \<open>When a request passes\<close>

lemma parsePaymentEnvelope_valid:
  "parsePaymentEnvelope X header = Inr e \<Longrightarrow> invoice_valid (re_invoice e) \<and> authorization_valid (re_authorization e)"
  by (auto simp: parsePaymentEnvelope_def ebind_Inr_iff split: if_splits option.splits js_value.splits
      dest: parse_invoice_valid parse_authorization_valid)

text \<open>What the local checks accept.\<close>

definition envelope_accepted ::
  "runtime \<Rightarrow> received_envelope \<Rightarrow> resource_request \<Rightarrow> payment_route \<Rightarrow> string \<Rightarrow> int \<Rightarrow> int \<Rightarrow> bool" where
  "envelope_accepted E e resource route payTo expirySeconds now \<longleftrightarrow>
     authorization_matches E (re_invoice e) (re_authorization e) resource now \<and>
     inv_expiresAt (re_invoice e) - inv_issuedAt (re_invoice e) \<le> expirySeconds \<and>
     inv_amountSats (re_invoice e) = rp_amountSats (pq_payment route) \<and> inv_payTo (re_invoice e) = payTo"

lemma validateEnvelope_None:
  assumes "invoice_valid (re_invoice e)" "authorization_valid (re_authorization e)"
  shows "validateEnvelope E e resource route payTo expirySeconds now = Inr None \<longleftrightarrow>
    envelope_accepted E e resource route payTo expirySeconds now"
proof -
  obtain h where h: "computeInvoiceHash E (re_invoice e) = Inr h" using computeInvoiceHash_total [OF assms(1)] by blast
  have literals: "auth_x402Version (re_authorization e) = inv_x402Version (re_invoice e)"
    "auth_scheme (re_authorization e) = inv_scheme (re_invoice e)"
    "auth_network (re_authorization e) = inv_network (re_invoice e)"
    using assms by (simp_all add: invoice_valid_def authorization_valid_def unsigned_valid_def)
  show ?thesis
    by (cases "computeResourceHash E resource")
       (auto simp: validateEnvelope_def Let_def envelope_accepted_def authorization_matches_def h literals)
qed

lemma judge_response_Verified:
  "judge_response X answer = Verified v \<longleftrightarrow>
     (\<exists>r text. answer = Inr r \<and> fr_ok r \<and> fr_text r = Inr text \<and>
        int (length (utf8_encode text)) \<le> MAX_FACILITATOR_RESPONSE_BYTES \<and>
        JSON_parse (xe_num X) text = Inr v \<and> isSuccessfulVerification v)"
proof (cases answer)
  case (Inr r)
  show ?thesis
    by (cases "fr_text r") (auto simp: judge_response_def Inr paymentError_def Let_def split: sum.splits)
qed (simp add: judge_response_def paymentError_def)

lemma ask_facilitator_Verified:
  assumes "snd (ask_facilitator X PS e resource) = Inr (Verified v)"
  shows "\<exists>k body. facilitator_body e resource k = Inr body \<and>
    fst (ask_facilitator X PS e resource) = [PostFacilitator (ps_facilitatorVerifyUrl PS) body] \<and>
    judge_response X (ps_fetch PS (ps_facilitatorVerifyUrl PS) body) = Verified v"
proof -
  let ?k = "case re_idempotencyKey e of
         Some k \<Rightarrow> Inr k
       | None \<Rightarrow> ebind (canonicalHash (rt_sha256 (xe_runtime X)) (authorization_to_json (re_authorization e)))
           (\<lambda>h. Inr (''x402-'' @ h))"
  from assms obtain k where k: "?k = Inr k" by (auto simp: ask_facilitator_def snd_tbind_Inr)
  with assms show ?thesis
    by (cases "facilitator_body e resource k") (auto simp: ask_facilitator_def k paymentError_def)
qed

lemma handle_payment_Verified:
  assumes "snd (handle_payment X PS now random request) = Inr (Verified v)"
  shows "\<exists>key route resource header e t k body.
    routeKey (rq_method request) (rq_path request) = Inr key \<and> jget (ps_routes PS) key = Some route \<and>
    payment_resource X request (ps_publicOrigin PS) = Inr resource \<and>
    rq_get request PAYMENT_HEADER = Some header \<and> parsePaymentEnvelope X header = Inr e \<and>
    safe_nonneg now = Some t \<and>
    envelope_accepted (xe_runtime X) e resource route (ps_payTo PS) (ps_expirySeconds PS) t \<and>
    facilitator_body e resource k = Inr body \<and>
    fst (handle_payment X PS now random request) = [PostFacilitator (ps_facilitatorVerifyUrl PS) body] \<and>
    judge_response X (ps_fetch PS (ps_facilitatorVerifyUrl PS) body) = Verified v"
proof -
  from assms obtain key where key: "routeKey (rq_method request) (rq_path request) = Inr key"
    by (auto simp: handle_payment_def snd_tbind_Inr)
  with assms obtain route where route: "jget (ps_routes PS) key = Some route"
    by (auto simp: handle_payment_def split: option.splits)
  with assms key obtain resource where resource: "payment_resource X request (ps_publicOrigin PS) = Inr resource"
    by (auto simp: handle_payment_def paymentError_def split: sum.splits)
  with assms key route obtain header where header: "rq_get request PAYMENT_HEADER = Some header"
    by (cases "rq_get request PAYMENT_HEADER") (auto simp: handle_payment_def payment_required_def snd_tbind_Inr ebind_Inr_iff)
  with assms key route resource obtain e where e: "parsePaymentEnvelope X header = Inr e"
    "\<not> int (length (utf8_encode header)) > ps_maxPaymentHeaderBytes PS"
    by (auto simp: handle_payment_def paymentError_def split: sum.splits if_splits)
  with assms key route resource header have
    "snd (tbind (tpure (checkedNow now)) (\<lambda>t.
       tbind (tpure (validateEnvelope (xe_runtime X) e resource route (ps_payTo PS) (ps_expirySeconds PS) t)) (\<lambda>localFailure.
         case localFailure of
           Some (status, c, message) \<Rightarrow> tpure (Inr (paymentError status c message))
         | None \<Rightarrow> ask_facilitator X PS e resource))) = Inr (Verified v)"
    by (simp add: handle_payment_def)
  then obtain t where t: "checkedNow now = Inr t"
    "validateEnvelope (xe_runtime X) e resource route (ps_payTo PS) (ps_expirySeconds PS) t = Inr None"
    "snd (ask_facilitator X PS e resource) = Inr (Verified v)"
    by (fastforce simp: snd_tbind_Inr paymentError_def split: option.splits)
  have acc: "envelope_accepted (xe_runtime X) e resource route (ps_payTo PS) (ps_expirySeconds PS) t"
    using t(2) parsePaymentEnvelope_valid [OF e(1)] by (simp add: validateEnvelope_None)
  have "handle_payment X PS now random request = ask_facilitator X PS e resource"
    using key route resource header e t(1,2) by (simp add: handle_payment_def)
  with ask_facilitator_Verified [OF t(3)] key route resource header e t(1) acc show ?thesis
    by (auto simp: checkedNow_Inr)
qed

text \<open>A request for a route of the server is passed on in no other way.\<close>

lemma handle_payment_protected:
  assumes "routeKey (rq_method request) (rq_path request) = Inr key" "jget (ps_routes PS) key = Some route"
  shows "snd (handle_payment X PS now random request) \<noteq> Inr PassUnprotected"
proof -
  have "snd (ask_facilitator X PS e resource) \<noteq> Inr PassUnprotected" for e resource
    by (auto simp: ask_facilitator_def snd_tbind_Inr judge_response_def paymentError_def Let_def split: sum.splits)
  then show ?thesis
    using assms by (auto simp: handle_payment_def snd_tbind_Inr paymentError_def payment_required_def ebind_Inr_iff
        split: sum.splits option.splits)
qed

lemma handle_payment_passes:
  assumes route: "routeKey (rq_method request) (rq_path request) = Inr key" "jget (ps_routes PS) key = Some route"
    and passes: "snd (handle_payment X PS now random request) = Inr outcome" "\<nexists>status body. outcome = PaymentResponse status body"
  shows "\<exists>v resource header e t k body r text.
    outcome = Verified v \<and> payment_resource X request (ps_publicOrigin PS) = Inr resource \<and>
    rq_get request PAYMENT_HEADER = Some header \<and> parsePaymentEnvelope X header = Inr e \<and>
    safe_nonneg now = Some t \<and>
    envelope_accepted (xe_runtime X) e resource route (ps_payTo PS) (ps_expirySeconds PS) t \<and>
    facilitator_body e resource k = Inr body \<and>
    fst (handle_payment X PS now random request) = [PostFacilitator (ps_facilitatorVerifyUrl PS) body] \<and>
    ps_fetch PS (ps_facilitatorVerifyUrl PS) body = Inr r \<and> fr_ok r \<and> fr_text r = Inr text \<and>
    int (length (utf8_encode text)) \<le> MAX_FACILITATOR_RESPONSE_BYTES \<and> JSON_parse (xe_num X) text = Inr v \<and>
    (prop_of v ''ok'' = JBool True \<and> prop_of v ''status'' = JStr ''VERIFIED'' \<or> prop_of v ''isValid'' = JBool True)"
proof -
  have "outcome \<noteq> PassUnprotected" using handle_payment_protected [OF route] passes(1) by metis
  with passes(2) obtain v where v: "outcome = Verified v" by (cases outcome) auto
  from handle_payment_Verified [OF passes(1) [unfolded v]] route show ?thesis
    by (auto simp: v judge_response_Verified isSuccessfulVerification_def)
qed

subsection \<open>From the client to the server\<close>

lemma parse_envelope_text:
  assumes "invoice_valid (env_invoice e)" "authorization_valid (env_authorization e)"
  shows "parsePaymentEnvelope X (base64url (utf8_encode (json_text (envelope_to_json e)))) =
    Inr \<lparr>re_invoice = env_invoice e, re_authorization = env_authorization e, re_idempotencyKey = None\<rparr>"
proof -
  let ?v = "envelope_to_json e"
  let ?s = "base64url (utf8_encode (json_text ?v))"
  have "utf8_encode (json_text ?v) \<noteq> []" by (intro utf8_encode_nonempty) (simp add: envelope_to_json_def)
  then have "?s \<noteq> []" by simp
  moreover have "parse_bytes X (from_base64 ?s) = Inr ?v"
    by (simp add: parse_bytes_def JSON_parse_text [OF plain_envelope [OF assms]])
  moreover have "prop_of ?v ''invoice'' = invoice_to_json (env_invoice e)"
    "prop_of ?v ''authorization'' = authorization_to_json (env_authorization e)" "prop_of ?v ''idempotencyKey'' = JUndef"
    "isRecord ?v" by (simp_all add: envelope_to_json_def prop_of_def)
  ultimately show ?thesis
    unfolding parsePaymentEnvelope_def
    by (simp add: base64url_chars parse_invoice_to_json parse_authorization_to_json assms)
qed

definition envelope_of :: "prepared_payment \<Rightarrow> received_envelope" where
  "envelope_of pp = \<lparr>re_invoice = env_invoice (pp_envelope pp), re_authorization = env_authorization (pp_envelope pp),
     re_idempotencyKey = None\<rparr>"

text \<open>A payment that the preparer made for an invoice of this server is accepted before the facilitator is asked.\<close>

lemma prepared_accepted:
  assumes "prepared_ok E L P maximum v resource pp" "xe_runtime X = E"
    and "createInvoice E c = Inr (env_invoice (pp_envelope pp))" "cin_amountSats c = pq_amountSats route"
    and "cin_payTo c = payTo" "cin_expiresAt c = cin_issuedAt c + expirySeconds"
    and "payment_route_of entry = Inr (key, route)"
    and "cin_issuedAt c \<le> now" "now < cin_issuedAt c + expirySeconds"
  shows "parsePaymentEnvelope X (pp_paymentSignature pp) = Inr (envelope_of pp)"
    and "validateEnvelope E (envelope_of pp) resource route payTo expirySeconds now = Inr None"
proof -
  let ?i = "env_invoice (pp_envelope pp)" and ?a = "env_authorization (pp_envelope pp)"
  let ?e = "envelope_of pp"
  from assms(1) have v: "invoice_valid ?i" "authorization_valid ?a"
    and sig: "pp_paymentSignature pp = base64url (utf8_encode (json_text (envelope_to_json (pp_envelope pp))))"
    by (auto simp: prepared_ok_def dest: parse_invoice_valid)
  from assms(3) have i: "inv_issuedAt ?i = cin_issuedAt c" "inv_expiresAt ?i = cin_expiresAt c"
    "inv_amountSats ?i = int_to_dec (cin_amountSats c)" "inv_payTo ?i = cin_payTo c"
    by (simp_all add: createInvoice_Inr)
  from assms(7) have "parseAmountSats (rp_amountSats (pq_payment route)) = Inr (pq_amountSats route)"
    by (auto simp: payment_route_of_def ebind_Inr_iff split: prod.splits option.splits if_splits)
  then have "int_to_dec (pq_amountSats route) = rp_amountSats (pq_payment route)" by (rule int_to_dec_parse)
  moreover have "authorization_matches E ?i ?a resource now"
    using prepared_matches [OF assms(1)] i assms(6,8,9) by simp
  ultimately have "envelope_accepted E ?e resource route payTo expirySeconds now"
    using i assms(4,5,6) by (simp add: envelope_accepted_def envelope_of_def)
  then show "validateEnvelope E ?e resource route payTo expirySeconds now = Inr None"
    using v by (simp add: validateEnvelope_None envelope_of_def)
  show "parsePaymentEnvelope X (pp_paymentSignature pp) = Inr ?e"
    unfolding sig envelope_of_def by (rule parse_envelope_text [OF v])
qed

end
