(* ===== verification/Payment_Flow.thy ===== *)
theory Payment_Flow
  imports Payment_Middleware
begin

text \<open>
  One prepaid purchase over HTTP: the payment middleware answers a request without a payment by an invoice,
  the offline preparer pays it, and the repeated request passes all checks of the middleware, so that the
  facilitator is asked about exactly the envelope that the preparer made.
\<close>

text \<open>What follows the local checks.\<close>

lemma handle_payment_run:
  assumes "routeKey (rq_method request) (rq_path request) = Inr key" "jget (ps_routes PS) key = Some route"
    and "payment_resource X request (ps_publicOrigin PS) = Inr resource" "rq_get request PAYMENT_HEADER = Some header"
    and "int (length (utf8_encode header)) \<le> ps_maxPaymentHeaderBytes PS" "parsePaymentEnvelope X header = Inr e"
    and "safe_nonneg now = Some t"
    and "validateEnvelope (xe_runtime X) e resource route (ps_payTo PS) (ps_expirySeconds PS) t = Inr None"
  shows "handle_payment X PS now random request = ask_facilitator X PS e resource"
  using assms by (simp add: handle_payment_def checkedNow_def)

lemma ask_facilitator_run:
  assumes "re_idempotencyKey e = Some k" "facilitator_body e resource k = Inr body"
  shows "ask_facilitator X PS e resource = ([PostFacilitator (ps_facilitatorVerifyUrl PS) body],
    Inr (judge_response X (ps_fetch PS (ps_facilitatorVerifyUrl PS) body)))"
  using assms by (simp add: ask_facilitator_def ask_def)

text \<open>The routes of a server come from its configuration.\<close>

lemma server_routes:
  assumes "createX402XecMiddleware E href config = Inr PS" "jget (ps_routes PS) key = Some route"
  shows "\<exists>entry. payment_route_of entry = Inr (key, route)"
proof -
  from assms(1) have "payment_parseRoutes (pm_routes config) = Inr (ps_routes PS)"
    unfolding createX402XecMiddleware_def by (auto simp: ebind_Inr_iff split: option.splits)
  with build_routes_from [of payment_route_of "pm_routes config" "[]" "ps_routes PS" key route] assms(2)
  show ?thesis by (auto simp: payment_parseRoutes_def)
qed

definition paid_request :: "http_request \<Rightarrow> prepared_payment \<Rightarrow> http_request" where
  "paid_request request pp = request\<lparr>rq_get := (rq_get request)(PAYMENT_HEADER \<mapsto> pp_paymentSignature pp)\<rparr>"

lemma payment_answer:
  assumes "rq_get request PAYMENT_HEADER = None"
    and "snd (handle_payment X PS clock random request) = Inr (PaymentResponse 402 body)"
  shows "\<exists>key route resource now i. routeKey (rq_method request) (rq_path request) = Inr key \<and>
    jget (ps_routes PS) key = Some route \<and> payment_resource X request (ps_publicOrigin PS) = Inr resource \<and>
    createInvoice (xe_runtime X) \<lparr>cin_request = resource, cin_amountSats = pq_amountSats route, cin_payTo = ps_payTo PS,
        cin_nonce = base64url random, cin_issuedAt = now, cin_expiresAt = now + ps_expirySeconds PS\<rparr> = Inr i \<and>
    prop_of body ''invoice'' = invoice_to_json i"
proof -
  from assms obtain key where key: "routeKey (rq_method request) (rq_path request) = Inr key"
    by (auto simp: handle_payment_def snd_tbind_Inr)
  with assms obtain route where route: "jget (ps_routes PS) key = Some route"
    by (auto simp: handle_payment_def split: option.splits)
  with assms key obtain resource where resource: "payment_resource X request (ps_publicOrigin PS) = Inr resource"
    by (auto simp: handle_payment_def paymentError_def split: sum.splits)
  with assms key route obtain now where
    "payment_required (xe_runtime X) PS now random resource route = Inr (PaymentResponse 402 body)"
    by (auto simp: handle_payment_def snd_tbind_Inr)
  then obtain i where i: "createInvoice (xe_runtime X) \<lparr>cin_request = resource, cin_amountSats = pq_amountSats route,
      cin_payTo = ps_payTo PS, cin_nonce = base64url random, cin_issuedAt = now,
      cin_expiresAt = now + ps_expirySeconds PS\<rparr> = Inr i"
    and "prop_of body ''invoice'' = invoice_to_json i"
    by (auto simp: payment_required_def ebind_Inr_iff prop_of_def)
  with key route resource show ?thesis by blast
qed

lemma payment_flow:
  assumes "createX402XecMiddleware E href config = Inr PS" "xe_runtime X = E"
    and first: "rq_get request PAYMENT_HEADER = None"
      "snd (handle_payment X PS clock random request) = Inr (PaymentResponse 402 body)"
    and prepared: "payment_resource X request (ps_publicOrigin PS) = Inr resource"
      "snd (prepare_payment E L issue P maximum (prop_of body ''invoice'') resource) = Inr pp"
    and size: "int (length (utf8_encode (pp_paymentSignature pp))) \<le> ps_maxPaymentHeaderBytes PS"
    and later: "safe_nonneg later = Some t" "inv_issuedAt (env_invoice (pp_envelope pp)) \<le> t"
      "t < inv_expiresAt (env_invoice (pp_envelope pp))"
  shows "handle_payment X PS later random' (paid_request request pp) = ask_facilitator X PS (envelope_of pp) resource"
proof -
  from payment_answer [OF first] prepared(1) assms(2) obtain key route now i where
    key: "routeKey (rq_method request) (rq_path request) = Inr key" "jget (ps_routes PS) key = Some route"
    and i: "createInvoice E \<lparr>cin_request = resource, cin_amountSats = pq_amountSats route, cin_payTo = ps_payTo PS,
        cin_nonce = base64url random, cin_issuedAt = now, cin_expiresAt = now + ps_expirySeconds PS\<rparr> = Inr i"
    and body: "prop_of body ''invoice'' = invoice_to_json i"
    by auto
  from server_routes [OF assms(1) key(2)] obtain entry where entry: "payment_route_of entry = Inr (key, route)" ..
  note ok = prepare_payment_Inr [OF prepared(2)]
  have "invoice_valid i" using i by (simp add: createInvoice_Inr)
  then have env: "env_invoice (pp_envelope pp) = i"
    using ok body by (auto simp: prepared_ok_def parse_invoice_to_json)
  have times: "inv_issuedAt i = now" "inv_expiresAt i = now + ps_expirySeconds PS" using i by (simp_all add: createInvoice_Inr)
  have e: "parsePaymentEnvelope X (pp_paymentSignature pp) = Inr (envelope_of pp)"
    "validateEnvelope E (envelope_of pp) resource route (ps_payTo PS) (ps_expirySeconds PS) t = Inr None"
    using prepared_accepted [OF ok assms(2) _ _ _ _ entry] i later env times by auto
  have same: "payment_resource X (paid_request request pp) (ps_publicOrigin PS) = Inr resource"
    "routeKey (rq_method (paid_request request pp)) (rq_path (paid_request request pp)) = Inr key"
    "rq_get (paid_request request pp) PAYMENT_HEADER = Some (pp_paymentSignature pp)"
    using prepared(1) key(1) by (simp_all add: paid_request_def payment_resource_def split: option.splits prod.splits)
  from handle_payment_run [OF same(2) key(2) same(1,3) size e(1) later(1)] e(2) assms(2) show ?thesis by simp
qed

end
