(* ===== verification/Facilitator_Service.thy ===== *)
theory Facilitator_Service
  imports Facilitator Payment_Providers Wire
begin

text \<open>
  What surrounds the facilitator in \<open>packages/x402-xec-facilitator/src\<close>: the transaction providers
  (\<open>tx-provider.ts\<close>, \<open>real-chronik-tx-provider.ts\<close>, \<open>mock-chronik.ts\<close>), the signature verifiers
  (\<open>ecash-message-signature.ts\<close>, \<open>mock-signature.ts\<close>) and the HTTP application (\<open>app.ts\<close>). The Chronik
  client, the address and message functions of ecash-lib and the body parser of Express are parameters.
  The lemmas say which transactions a provider gives, that a wire signature has one encoding, and when the
  application answers a request by a debit.
\<close>

subsection \<open>Fixture transactions\<close>

text \<open>The private \<open>Map\<close> of \<open>FixtureChronikTxProvider\<close>, keyed by \<open>transaction.txid\<close>.\<close>

type_synonym tx_fixtures = "(js_value, chronik_tx) jmap"

definition addTransaction :: "tx_fixtures \<Rightarrow> chronik_tx \<Rightarrow> tx_fixtures" where
  "addTransaction m tx = jset m (ctx_txid tx) tx"

definition newFixtures :: "chronik_tx list \<Rightarrow> tx_fixtures" where
  "newFixtures txs = foldl addTransaction [] txs"

definition fixture_getTx :: "tx_fixtures \<Rightarrow> tx_provider" where
  "fixture_getTx m txid = (case jget m (JStr txid) of
     None \<Rightarrow> Inl (TxNotFoundError txid)
   | Some tx \<Rightarrow> Inr (Some tx))"

text \<open>\<open>MockChronik.getTransaction\<close>: \<open>null\<close> for an unknown transaction.\<close>

definition mock_getTransaction :: "tx_fixtures \<Rightarrow> tx_provider" where
  "mock_getTransaction m txid = (case fixture_getTx m txid of
     Inl (TxNotFoundError _) \<Rightarrow> Inr None
   | r \<Rightarrow> r)"

lemma newFixtures_snoc: "newFixtures (txs @ [tx]) = jset (newFixtures txs) (ctx_txid tx) tx"
  by (simp add: newFixtures_def addTransaction_def)

text \<open>A provider of fixtures gives the last transaction with the id asked for.\<close>

lemma jget_newFixtures: "jget (newFixtures txs) k = find (\<lambda>tx. ctx_txid tx = k) (rev txs)"
proof (induction txs rule: rev_induct)
  case (snoc tx txs)
  then show ?case by (simp add: newFixtures_snoc jmap_simps)
qed (simp add: newFixtures_def)

lemma fixture_getTx_Inr:
  "fixture_getTx (newFixtures txs) txid = Inr r \<longleftrightarrow>
     (\<exists>tx. r = Some tx \<and> find (\<lambda>tx. ctx_txid tx = JStr txid) (rev txs) = Some tx)"
  by (auto simp: fixture_getTx_def jget_newFixtures split: option.splits)

subsection \<open>A Chronik server\<close>

text \<open>The part of a client's answer that is copied. The fields are typed, but not checked.\<close>

record client_token =
  ct_tokenId :: js_value
  ct_atoms :: js_value
  ct_isMintBaton :: js_value

record client_output =
  co_sats :: int
  co_outputScript :: string
  co_token :: "client_token option"

record client_block =
  cb_height :: js_value
  cb_hash :: js_value
  cb_timestamp :: js_value

record client_tx =
  ctt_txid :: js_value
  ctt_outputs :: "client_output list"
  ctt_block :: "client_block option"
  ctt_isFinal :: js_value
  ctt_timeFirstSeen :: js_value

record real_provider =
  rp_endpoint :: string
  rp_client :: "string \<Rightarrow> client_tx result"

definition newRealChronikTxProvider ::
  "runtime \<Rightarrow> (string list \<Rightarrow> string \<Rightarrow> client_tx result) \<Rightarrow> string \<Rightarrow> (string \<Rightarrow> client_tx result) option \<Rightarrow>
   real_provider result" where
  "newRealChronikTxProvider E connect endpoint client =
     ebind (validateEndpoint E endpoint) (\<lambda>ep.
       Inr \<lparr>rp_endpoint = ep, rp_client = (case client of Some c \<Rightarrow> c | None \<Rightarrow> connect [ep])\<rparr>)"

definition isTxNotFoundError :: "js_error \<Rightarrow> string \<Rightarrow> bool" where
  "isTxNotFoundError e txid \<longleftrightarrow>
     startsWith (err_text e) (''Failed getting /tx/'' @ txid @ '': 404:'') \<and>
     str_includes (toLowerCase (err_text e)) ''not found''"

definition copy_output :: "client_output \<Rightarrow> chronik_output" where
  "copy_output out = \<lparr>out_sats = co_sats out, out_outputScript = co_outputScript out,
     out_token = (case co_token out of
         None \<Rightarrow> JUndef
       | Some t \<Rightarrow> JObj [(''tokenId'', ct_tokenId t), (''atoms'', ct_atoms t), (''isMintBaton'', ct_isMintBaton t)])\<rparr>"

definition copy_tx :: "client_tx \<Rightarrow> chronik_tx" where
  "copy_tx tx = \<lparr>ctx_txid = ctt_txid tx, ctx_outputs = Some (map copy_output (ctt_outputs tx)),
     ctx_block = (case ctt_block tx of
         None \<Rightarrow> JUndef
       | Some b \<Rightarrow> JObj [(''height'', cb_height b), (''hash'', cb_hash b), (''timestamp'', cb_timestamp b)]),
     ctx_isFinal = ctt_isFinal tx, ctx_timeFirstSeen = ctt_timeFirstSeen tx\<rparr>"

definition real_getTx :: "real_provider \<Rightarrow> tx_provider" where
  "real_getTx P txid = (case rp_client P txid of
     Inl e \<Rightarrow> if isTxNotFoundError e txid then Inl (TxNotFoundError txid) else Inl e
   | Inr tx \<Rightarrow> Inr (Some (copy_tx tx)))"

text \<open>The funding inspection over a Chronik server: only a plain 404 counts as an unknown transaction, a
  transaction under another id counts as unknown too, and every other failure is passed on.\<close>

lemma real_inspection_not_found:
  "inspectFundingTransaction (real_getTx P) input = Inr (F_Fail F_TRANSACTION_NOT_FOUND) \<longleftrightarrow>
     (let txid = fo_txid (fin_fundingOutpoint input) in
      case rp_client P txid of
        Inl e \<Rightarrow> isTxNotFoundError e txid \<or> (\<exists>t. e = TxNotFoundError t)
      | Inr tx \<Rightarrow> ctt_txid tx \<noteq> JStr txid)"
  by (auto simp: inspectFundingTransaction_def real_getTx_def check_funding_def Let_def copy_tx_def
      split: sum.splits js_error.splits option.splits)

subsection \<open>Signatures\<close>

definition createMockSignature :: "runtime \<Rightarrow> string \<Rightarrow> string \<Rightarrow> string result" where
  "createMockSignature E payer message =
     canonicalHash (rt_sha256 E) (JObj [(''domain'', JStr ''x402-xec-local-mock-signature-v1''),
       (''message'', JStr message), (''payer'', JStr payer)])"

definition mock_verify :: "runtime \<Rightarrow> signature_verifier" where
  "mock_verify E payer message signature =
     ebind (createMockSignature E payer message) (\<lambda>s. Inr (signature = s))"

text \<open>\<open>toEcashLibSignature\<close>: \<open>Uint8Array.from(atob(...))\<close> is the text of \<open>atob\<close> here, a byte being a
  character, and \<open>atob\<close> does not fail on 88 characters of base64.\<close>

definition std_char :: "char \<Rightarrow> char" where
  "std_char c = (if c = CHR ''-'' then CHR ''+'' else if c = CHR ''_'' then CHR ''/'' else c)"

definition toEcashLibSignature :: "string \<Rightarrow> string option" where
  "toEcashLibSignature signature =
     (if \<not> (length signature = 87 \<and> list_all is_base64url signature) then None
      else
        let standard = map std_char signature @ ''='';
            bytes = from_base64 standard in
        if length bytes \<noteq> 65 then None
        else if unpadded_url (base64 bytes) = signature then Some standard else None)"

text \<open>\<open>address\<close> is \<open>Address.fromCashAddress\<close>, giving the prefix and the type, and \<open>verifyMsg\<close> is the
  function of that name.\<close>

definition ecash_verify ::
  "(string \<Rightarrow> (string \<times> string) option) \<Rightarrow> (string \<Rightarrow> string \<Rightarrow> string \<Rightarrow> bool result) \<Rightarrow> signature_verifier" where
  "ecash_verify address verifyMsg payer message signature = (case address payer of
     None \<Rightarrow> Inr False
   | Some (prefix, type) \<Rightarrow>
       if prefix \<noteq> ''ecash'' \<or> type \<noteq> ''p2pkh'' then Inr False
       else (case toEcashLibSignature signature of
           None \<Rightarrow> Inr False
         | Some s \<Rightarrow> verifyMsg message s payer))"

text \<open>The wire form of a signature is the one base64url text of its 65 bytes, and what the library gets is
  their base64 text: no two wire signatures stand for one signature.\<close>

lemma std_char_sextet: "v < 64 \<Longrightarrow> std_char (sextet_char True v) = sextet_char False v"
proof -
  assume v: "v < 64"
  have plain_char: "code c \<noteq> 45 \<Longrightarrow> code c \<noteq> 95 \<Longrightarrow> std_char c = c" for c by (auto simp: std_char_def)
  from v consider "v < 26" | "26 \<le> v" "v < 52" | "52 \<le> v" "v < 62" | "v = 62" | "v = 63" by linarith
  then show ?thesis
  proof cases
    case 4
    then show ?thesis by (simp add: sextet_char_def std_char_def)
  next
    case 5
    then show ?thesis by (simp add: sextet_char_def std_char_def)
  qed (simp_all add: sextet_char_def plain_char)
qed

lemma length_sextets_65: "length bs = 65 \<Longrightarrow> length (sextets bs) = 87"
proof -
  have "length (sextets bs) = 4 * (length bs div 3) + (if length bs mod 3 = 0 then 0 else length bs mod 3 + 1)" for bs
  proof (induction bs rule: sextets.induct)
    case (1 a b c r)
    have l: "length (a # b # c # r) = length r + 3" by simp
    have m: "(length r + 3) div 3 = length r div 3 + 1" "(length r + 3) mod 3 = length r mod 3" by presburger+
    have "length (sextets (a # b # c # r)) = length (sextets r) + 4" by simp
    also note 1
    finally show ?case unfolding l m by simp
  qed simp_all
  then show "length bs = 65 \<Longrightarrow> length (sextets bs) = 87" by simp
qed

lemma toEcashLibSignature_Some:
  "toEcashLibSignature s = Some t \<longleftrightarrow> (\<exists>bytes. length bytes = 65 \<and> s = base64url bytes \<and> t = base64 bytes)"
proof -
  have std: "map std_char (base64url bytes) @ ''='' = base64 bytes" "length (base64url bytes) = 87"
    if "length bytes = 65" for bytes
  proof -
    have n: "length (sextets (map code bytes)) = 87" using that by (simp add: length_sextets_65)
    have "map std_char (base64url bytes) = map (sextet_char False) (sextets (map code bytes))"
      using sextets_range [OF codes_bytes [of bytes]] by (auto simp: base64url_def list_all_iff std_char_sextet)
    then show "map std_char (base64url bytes) @ ''='' = base64 bytes" "length (base64url bytes) = 87"
      using n by (simp_all add: base64_def base64url_def Let_def)
  qed
  show ?thesis
  proof
    assume t: "toEcashLibSignature s = Some t"
    define bytes where "bytes = from_base64 (map std_char s @ ''='')"
    have b: "length bytes = 65" "unpadded_url (base64 bytes) = s" "t = map std_char s @ ''=''"
      using t by (simp_all add: toEcashLibSignature_def bytes_def Let_def split: if_splits)
    then have "s = base64url bytes" by simp
    with b std show "\<exists>bytes. length bytes = 65 \<and> s = base64url bytes \<and> t = base64 bytes" by metis
  next
    assume "\<exists>bytes. length bytes = 65 \<and> s = base64url bytes \<and> t = base64 bytes"
    then obtain bytes where b: "length bytes = 65" "s = base64url bytes" "t = base64 bytes" by blast
    with std [OF b(1)] base64url_chars [of bytes] show "toEcashLibSignature s = Some t"
      by (simp add: toEcashLibSignature_def)
  qed
qed

subsection \<open>The HTTP application\<close>

fun failure_code :: "facilitator_failure \<Rightarrow> string" where
  "failure_code (G_Verification A_MALFORMED) = ''MALFORMED''"
| "failure_code (G_Verification A_NOT_YET_VALID) = ''NOT_YET_VALID''"
| "failure_code (G_Verification A_EXPIRED) = ''EXPIRED''"
| "failure_code (G_Verification A_RESOURCE_MISMATCH) = ''RESOURCE_MISMATCH''"
| "failure_code (G_Verification A_AMOUNT_MISMATCH) = ''AMOUNT_MISMATCH''"
| "failure_code (G_Verification A_PAY_TO_MISMATCH) = ''PAY_TO_MISMATCH''"
| "failure_code (G_Verification A_NONCE_MISMATCH) = ''NONCE_MISMATCH''"
| "failure_code (G_Verification A_INVOICE_MISMATCH) = ''INVOICE_MISMATCH''"
| "failure_code (G_Verification A_INVALID_SIGNATURE) = ''INVALID_SIGNATURE''"
| "failure_code (G_Verification A_NONCE_REUSED) = ''NONCE_REUSED''"
| "failure_code G_FUNDING_NOT_FOUND = ''FUNDING_NOT_FOUND''"
| "failure_code G_FUNDING_CHANGED = ''FUNDING_CHANGED''"
| "failure_code G_PAYER_MISMATCH = ''PAYER_MISMATCH''"
| "failure_code G_INSUFFICIENT_CREDIT = ''INSUFFICIENT_CREDIT''"
| "failure_code G_IDEMPOTENCY_CONFLICT = ''IDEMPOTENCY_CONFLICT''"

fun verify_response_json :: "verify_response \<Rightarrow> js_value" where
  "verify_response_json (VerifyOk b) = JObj
     [(''ok'', JBool True), (''status'', JStr ''VERIFIED''), (''invoiceId'', JStr (vb_invoiceId b)),
      (''authorizationDigest'', JStr (vb_authorizationDigest b)), (''debitedSats'', JStr (vb_debitedSats b)),
      (''remainingBalanceSats'', JStr (vb_remainingBalanceSats b)),
      (''fundingOutpoint'', JObj [(''txid'', JStr (vb_txid b)), (''outIdx'', JNum (NInt (vb_outIdx b)))])]"
| "verify_response_json (VerifyFail c) = JObj [(''ok'', JBool False), (''code'', JStr (failure_code c))]"

text \<open>A response is a status and a JSON body. \<open>express.json\<close> gives the handler a body, or the application a
  \<open>SyntaxError\<close> or another error (a body above 64 KB).\<close>

type_synonym app_response = "int \<times> js_value"

datatype received = Received js_value | NotJson | ReceiveFailed

definition app_health :: app_response where
  "app_health = (200, JObj [(''ok'', JBool True), (''service'', JStr ''x402-xec-facilitator'')])"

definition app_supported :: app_response where
  "app_supported = (200, JObj [(''localOnly'', JBool True), (''x402Version'', JNum (NInt 1)),
     (''schemes'', JArr [JObj [(''scheme'', JStr ''exact''), (''network'', JStr ''xec:mainnet'')]]),
     (''chronik'', JStr ''mock''), (''broadcast'', JBool False), (''walletCustody'', JBool False)])"

definition app_error :: "bool \<Rightarrow> app_response" where
  "app_error isSyntaxError =
     (if isSyntaxError then (400, JObj [(''ok'', JBool False), (''code'', JStr ''MALFORMED'')])
      else (500, JObj [(''ok'', JBool False), (''code'', JStr ''INTERNAL_ERROR'')]))"

text \<open>\<open>POST /facilitator/verify\<close>; what \<open>verify\<close> throws is no \<open>SyntaxError\<close>.\<close>

definition app_verify ::
  "runtime \<Rightarrow> tx_provider \<Rightarrow> signature_verifier \<Rightarrow> js_number \<Rightarrow> received \<Rightarrow> ledger \<Rightarrow> app_response \<times> ledger" where
  "app_verify E provider verify now received l = (case received of
     NotJson \<Rightarrow> (app_error True, l)
   | ReceiveFailed \<Rightarrow> (app_error False, l)
   | Received body \<Rightarrow>
       (case facilitator_verify E provider verify now body l of
          (Inl e, l') \<Rightarrow> (app_error False, l')
        | (Inr (status, r), l') \<Rightarrow> ((status, verify_response_json r), l')))"

subsection \<open>The server's settings\<close>

text \<open>\<open>server.ts\<close> reads its settings from the environment; \<open>num\<close> is JavaScript's \<open>Number\<close> on a string, and the
  number of a JSON numeral.\<close>

definition parsePort :: "(string \<Rightarrow> js_number) \<Rightarrow> string \<Rightarrow> int result" where
  "parsePort num value = (case num_int (num value) of
     Some parsed \<Rightarrow> if parsed < 1 \<or> parsed > 65535 then Inl (PlainError ''PORT must be an integer from 1 to 65535'')
       else Inr parsed
   | None \<Rightarrow> Inl (PlainError ''PORT must be an integer from 1 to 65535''))"

definition parseTimestamp :: "(string \<Rightarrow> js_number) \<Rightarrow> string \<Rightarrow> int result" where
  "parseTimestamp num value = (case safe_nonneg (num value) of
     Some parsed \<Rightarrow> Inr parsed
   | None \<Rightarrow> Inl (PlainError ''FACILITATOR_NOW must be a non-negative integer Unix timestamp''))"

definition is_safe :: "js_value \<Rightarrow> bool" where
  "is_safe v = (case v of JNum n \<Rightarrow> isSafeInteger n | _ \<Rightarrow> False)"

definition is_bool :: "js_value \<Rightarrow> bool" where
  "is_bool v = (case v of JBool b \<Rightarrow> True | _ \<Rightarrow> False)"

definition isFixtureBlock :: "js_value \<Rightarrow> bool" where
  "isFixtureBlock block \<longleftrightarrow> is_safe (prop_of block ''height'') \<and> str_field is_hash block ''hash'' \<noteq> None \<and>
     is_safe (prop_of block ''timestamp'')"

definition isFixtureToken :: "js_value \<Rightarrow> bool" where
  "isFixtureToken token \<longleftrightarrow> str_field is_hash token ''tokenId'' \<noteq> None \<and>
     str_field is_positive_dec token ''atoms'' \<noteq> None \<and> is_bool (prop_of token ''isMintBaton'')"

definition isFixtureOutput :: "js_value \<Rightarrow> bool" where
  "isFixtureOutput out \<longleftrightarrow> str_field is_positive_dec out ''sats'' \<noteq> None \<and>
     str_field (list_all is_lower_hex) out ''outputScript'' \<noteq> None \<and>
     (prop_of out ''token'' = JUndef \<or> isFixtureToken (prop_of out ''token''))"

definition isFixture :: "js_value \<Rightarrow> bool" where
  "isFixture value \<longleftrightarrow> str_field (\<lambda>s. True) value ''txid'' \<noteq> None \<and>
     (case prop_of value ''outputs'' of JArr outs \<Rightarrow> list_all isFixtureOutput outs | _ \<Rightarrow> False) \<and>
     (prop_of value ''block'' = JUndef \<or> isFixtureBlock (prop_of value ''block'')) \<and>
     is_bool (prop_of value ''isFinal'') \<and> safe_nonneg_value (prop_of value ''timeFirstSeen'') \<noteq> None"

definition fixture_output :: "js_value \<Rightarrow> chronik_output" where
  "fixture_output out = \<lparr>out_sats = BigInt_of (str_of (prop_of out ''sats'')),
     out_outputScript = str_of (prop_of out ''outputScript''),
     out_token = (if prop_of out ''token'' = JUndef then JUndef else
       JObj [(''tokenId'', prop_of (prop_of out ''token'') ''tokenId''),
             (''atoms'', JBigInt (BigInt_of (str_of (prop_of (prop_of out ''token'') ''atoms'')))),
             (''isMintBaton'', prop_of (prop_of out ''token'') ''isMintBaton'')])\<rparr>"

definition fixture_tx :: "js_value \<Rightarrow> chronik_tx" where
  "fixture_tx candidate = \<lparr>ctx_txid = prop_of candidate ''txid'',
     ctx_outputs = Some (case prop_of candidate ''outputs'' of JArr outs \<Rightarrow> map fixture_output outs | _ \<Rightarrow> []),
     ctx_block = prop_of candidate ''block'', ctx_isFinal = prop_of candidate ''isFinal'',
     ctx_timeFirstSeen = prop_of candidate ''timeFirstSeen''\<rparr>"

definition parseFixtures :: "(string \<Rightarrow> js_number) \<Rightarrow> string \<Rightarrow> chronik_tx list result" where
  "parseFixtures num json = ebind (JSON_parse num json) (\<lambda>value. case value of
     JArr xs \<Rightarrow> mapE (\<lambda>candidate. if isFixture candidate then Inr (fixture_tx candidate)
       else Inl (PlainError ''Invalid MOCK_CHRONIK_FIXTURES entry'')) xs
   | _ \<Rightarrow> Inl (PlainError ''MOCK_CHRONIK_FIXTURES must be a JSON array''))"

text \<open>Every transaction that the server accepts has the types of the interface, with positive amounts.\<close>

definition block_typed :: "js_value \<Rightarrow> bool" where
  "block_typed block \<longleftrightarrow> block = JUndef \<or>
     (\<exists>height hash timestamp. prop_of block ''height'' = JNum height \<and> isSafeInteger height \<and>
        prop_of block ''hash'' = JStr hash \<and> is_hash hash \<and>
        prop_of block ''timestamp'' = JNum timestamp \<and> isSafeInteger timestamp)"

definition token_typed :: "js_value \<Rightarrow> bool" where
  "token_typed token \<longleftrightarrow> token = JUndef \<or>
     (\<exists>tokenId atoms mint. token = JObj [(''tokenId'', JStr tokenId), (''atoms'', JBigInt atoms), (''isMintBaton'', JBool mint)] \<and>
        is_hash tokenId \<and> 0 < atoms)"

definition fixture_typed :: "chronik_tx \<Rightarrow> bool" where
  "fixture_typed tx \<longleftrightarrow> is_str (ctx_txid tx) \<and> block_typed (ctx_block tx) \<and> is_bool (ctx_isFinal tx) \<and>
     safe_nonneg_value (ctx_timeFirstSeen tx) \<noteq> None \<and>
     (\<exists>outs. ctx_outputs tx = Some outs \<and>
        (\<forall>out \<in> set outs. 0 < out_sats out \<and> list_all is_lower_hex (out_outputScript out) \<and>
           token_typed (out_token out)))"

lemma BigInt_of_positive: "is_positive_dec s \<Longrightarrow> 0 < BigInt_of s"
  using positive_dec_pos [of s]
  by (cases s) (auto simp: BigInt_of_def is_positive_dec_def startsWith_def char_class_defs)

lemma fixture_block_typed: "isFixtureBlock block \<Longrightarrow> block_typed block"
  by (auto simp: isFixtureBlock_def block_typed_def is_safe_def str_field_Some split: js_value.splits)

lemma fixture_output_typed:
  "isFixtureOutput v \<Longrightarrow> 0 < out_sats (fixture_output v) \<and> list_all is_lower_hex (out_outputScript (fixture_output v)) \<and>
     token_typed (out_token (fixture_output v))"
  by (auto simp: isFixtureOutput_def isFixtureToken_def fixture_output_def token_typed_def is_bool_def str_field_Some
      dest: BigInt_of_positive split: js_value.splits)

lemma parseFixtures_typed:
  assumes "parseFixtures num json = Inr txs" "tx \<in> set txs"
  shows "fixture_typed tx"
proof -
  from assms(1) obtain xs where "mapE (\<lambda>candidate. if isFixture candidate then Inr (fixture_tx candidate)
       else Inl (PlainError ''Invalid MOCK_CHRONIK_FIXTURES entry'')) xs = Inr txs"
    unfolding parseFixtures_def ebind_Inr_iff by (elim exE conjE) (simp split: js_value.splits)
  then have "list_all2 (\<lambda>c tx. isFixture c \<and> tx = fixture_tx c) xs txs"
    unfolding mapE_Inr_iff by (rule list_all2_mono) (simp split: if_splits)
  with assms(2) obtain c where "isFixture c" "tx = fixture_tx c"
    by (auto simp: list_all2_conv_all_nth in_set_conv_nth)
  then show ?thesis
    using fixture_output_typed fixture_block_typed
    by (auto simp: isFixture_def fixture_typed_def fixture_tx_def str_field_Some list_all_iff block_typed_def
        split: js_value.splits)
qed

text \<open>C40: What the server reads from \<open>MOCK_CHRONIK_FIXTURES\<close> has the types of the transaction interface: a text id, a
  boolean finality, a time that is a non-negative safe integer, no block or one with a height, a hash and a time,
  and outputs with positive amounts, hex scripts, and no token or one with a hash as its id, a positive number of
  atoms and a boolean.\<close>

theorem fixtures_typed:
  assumes "parseFixtures num json = Inr txs"
  shows "list_all fixture_typed txs"
  using parseFixtures_typed [OF assms] by (simp add: list_all_iff)

text \<open>A confirmed fixture with two outputs, one of them a token's.\<close>

definition sample_fixture :: js_value where
  "sample_fixture = JObj [(''txid'', JStr ''a1''), (''isFinal'', JBool True), (''timeFirstSeen'', JNum (NInt 120)),
     (''block'', JObj [(''height'', JNum (NInt 7)), (''hash'', JStr (replicate 64 CHR ''b'')), (''timestamp'', JNum (NInt 121))]),
     (''outputs'', JArr [JObj [(''sats'', JStr ''546''), (''outputScript'', JStr ''76a9'')],
        JObj [(''sats'', JStr ''546''), (''outputScript'', JStr ''76a9''), (''token'', JObj [(''tokenId'', JStr (replicate 64 CHR ''c'')),
          (''atoms'', JStr ''5''), (''isMintBaton'', JBool False)])]])]"

theorem fixtures_typed_witness:
  "parseFixtures (\<lambda>s. NNaN) (json_text (JArr [sample_fixture])) = Inr [fixture_tx sample_fixture] \<and>
   fixture_typed (fixture_tx sample_fixture)"
proof -
  have "plain (JArr [sample_fixture])" "isFixture sample_fixture" by code_simp+
  then have "parseFixtures (\<lambda>s. NNaN) (json_text (JArr [sample_fixture])) = Inr [fixture_tx sample_fixture]"
    using JSON_parse_text [of "JArr [sample_fixture]"] by (simp add: parseFixtures_def)
  with fixtures_typed [OF this] show ?thesis by simp
qed

subsection \<open>A good request is debited\<close>

text \<open>The request as JSON: what the payment middleware posts.\<close>

definition request_json :: "invoice \<Rightarrow> authorization \<Rightarrow> js_value \<Rightarrow> string \<Rightarrow> js_value" where
  "request_json i a resource key = JObj [(''invoice'', invoice_to_json i), (''authorization'', authorization_to_json a),
     (''resource'', resource), (''idempotencyKey'', JStr key)]"

lemma parse_request_json:
  assumes "invoice_valid i" "authorization_valid a" "parse_resource_request resource = Some r" "is_idempotency_key key"
  shows "parse_verify_request (request_json i a resource key) =
    Some \<lparr>vr_invoice = i, vr_authorization = a, vr_resource = r, vr_idempotencyKey = key\<rparr>"
  using assms
  by (simp add: parse_verify_request_def request_json_def prop_of_def only_keys_def str_field_def
      parse_invoice_to_json parse_authorization_to_json)

text \<open>The outpoint that the authorization names is on chain, settled and without a token, and no account uses it yet.\<close>

definition funded_on_chain :: "tx_provider \<Rightarrow> ledger \<Rightarrow> authorization \<Rightarrow> int \<Rightarrow> bool" where
  "funded_on_chain provider l a amount \<longleftrightarrow>
     (let txid = ref_txid (auth_transaction a); vout = ref_vout (auth_transaction a) in
      jget (lg_accounts l) (outpointKey txid vout) = None \<and>
      (\<exists>tx out. provider txid = Inr (Some tx) \<and>
         funds \<lparr>fin_fundingOutpoint = \<lparr>fo_txid = txid, fo_outIdx = vout\<rparr>, fin_outputScript = None,
                fin_amountSats = amount\<rparr> tx out))"

lemma request_digests_total:
  assumes "invoice_valid (vr_invoice input)" "authorization_valid (vr_authorization input)"
  shows "\<exists>ds. request_digests E input rh = Inr ds"
proof -
  obtain h where "computeInvoiceHash E (vr_invoice input) = Inr h" using computeInvoiceHash_total [OF assms(1)] by blast
  moreover have "\<exists>c. canonicalize (authorization_to_json (vr_authorization input)) = Inr c"
    using canonicalize_plain [OF plain_authorization_json [OF assms(2)]] by blast
  moreover have "\<exists>c. canonicalize (JObj [(''authorizationDigest'', JStr x), (''invoiceId'', JStr y), (''resourceHash'', JStr z)]) = Inr c"
    for x y z
    using canonicalize_plain [of "JObj [(''authorizationDigest'', JStr x), (''invoiceId'', JStr y), (''resourceHash'', JStr z)]"]
    by auto
  ultimately show ?thesis by (fastforce simp: request_digests_def canonicalHash_def)
qed

lemma good_request_debited:
  assumes inv: "ledger_invar l"
    and parsed: "parse_verify_request v = Some input"
    and clock: "safe_nonneg now = Some t"
    and good: "authorization_matches E (vr_invoice input) (vr_authorization input) (vr_resource input) t"
    and signed: "authorizationSigningMessage (vr_authorization input) = Inr m"
      "verify (auth_payer (vr_authorization input)) m (auth_signature (vr_authorization input)) = Inr True"
    and fresh: "unexpired t (jget (lg_nonces l)) (inv_nonce (vr_invoice input)) = None"
      "jget (lg_idempotency l) (vr_idempotencyKey input) = None"
    and amount: "parseAmountSats (inv_amountSats (vr_invoice input)) = Inr amount"
    and funded: "funded_on_chain provider l (vr_authorization input) amount"
  shows "\<exists>rh ds body l'. request_digests E input rh = Inr ds \<and>
    facilitator_verify E provider verify now v l = (Inr (200, VerifyOk body), l') \<and>
    debited_as provider input t ds l body l'"
proof -
  note valid = parse_verify_request_valid [OF parsed]
  obtain rh where rh: "computeResourceHash E (vr_resource input) = Inr rh" using good by (simp add: authorization_matches_def)
  obtain ad ii rd where ds: "request_digests E input rh = Inr (ad, ii, rd)"
    using request_digests_total [of input E rh] valid by (metis prod_cases3)
  have nonces: "nonce_invar (lg_nonces l)" using inv by (simp add: ledger_invar_def)
  have "fst (ledger_consume (ledger_begin l) (inv_nonce (vr_invoice input)) (inv_expiresAt (vr_invoice input)) t)"
    using fresh(1) nonces by (simp add: ledger_consume_begin Let_def jhas_def jget_purge_nonces
        del: not_None_eq unexpired_Some)
  then have "fst (verifyAuthorization E verify ledger_consume (vin_of input now) (ledger_begin l)) = Inr (A_Ok amount)"
    unfolding verifyAuthorization_ok_iff using valid clock good signed amount
    by (auto simp: vin_of_def parse_invoice_to_json parse_authorization_to_json)
  then obtain n t' where v: "verifyAuthorization E verify ledger_consume (vin_of input now) (ledger_begin l) = (Inr (A_Ok n),
      \<lparr>lt_ledger = purged l t', lt_stagedNonces = [(inv_nonce (vr_invoice input), inv_expiresAt (vr_invoice input))]\<rparr>)"
    using verifyAuthorization_ledger [OF nonces valid [THEN conjunct1] valid [THEN conjunct2], of E verify now thesis]
    by blast
  let ?tx = "\<lparr>lt_ledger = purged l t', lt_stagedNonces = [(inv_nonce (vr_invoice input), inv_expiresAt (vr_invoice input))]\<rparr>"
  let ?txid = "ref_txid (auth_transaction (vr_authorization input))" and ?vout = "ref_vout (auth_transaction (vr_authorization input))"
  have op: "facilitator_verify E provider verify now v l = debit provider input ii ad rd ?tx"
    using parsed rh ds fresh(2) v
    by (simp add: facilitator_verify_def verify_transaction_def vin_of_def findIdempotent_def ledger_begin_def)
  obtain out acc where
    out: "funding_output provider ?txid ?vout amount = Inr out"
    and acc: "charge_account None ?txid ?vout (auth_payer (vr_authorization input)) out amount = Inr acc"
    using funded by (auto simp: funded_on_chain_def Let_def funding_output_Inr charge_account_def err_simps funds_def)
  have "getFundingAccount ?tx ?txid ?vout = None"
    using funded by (simp add: getFundingAccount_def purged_def funded_on_chain_def Let_def)
  with out acc amount have "\<not> is_refusal (fst (facilitator_verify E provider verify now v l))"
    unfolding op by (simp add: debit_def is_refusal_def Let_def)
  with inv show ?thesis
  proof (cases rule: facilitator_cases [where E = E and provider = provider and verify = verify and now = now and v = v])
    case (repeated input' rh ad ii rd body)
    with parsed fresh(2) show ?thesis by simp
  next
    case (debited input' rh ds t'' body l')
    moreover from debited parsed clock have "input' = input" "t'' = t" by simp_all
    ultimately show ?thesis by blast
  qed blast
qed

end
