(* ===== verification/Prepaid_Purchase.thy ===== *)
theory Prepaid_Purchase
  imports Payment_Flow Facilitator_Service Offer_Size
begin

text \<open>
  One prepaid purchase through all parties: the payment middleware posts the prepared payment to a facilitator,
  whose application debits it, and the middleware lets the request pass. \<open>facilitator_fetch\<close> is the fetch of
  the middleware where its facilitator URL is answered by \<open>app.ts\<close>. What is assumed of SHA-256 and of the body
  parser of Express are the predicates \<open>hex_hashes\<close> and \<open>receives\<close>.
\<close>

definition hex_hashes :: "runtime \<Rightarrow> bool" where
  "hex_hashes E \<longleftrightarrow> (\<forall>s. is_hash (rt_sha256 E s))"

text \<open>\<open>express.json({ limit: "64kb", strict: true })\<close> gives the handler the object that a body within the limit holds.\<close>

definition receives :: "(string \<Rightarrow> js_number) \<Rightarrow> (string \<Rightarrow> received) \<Rightarrow> bool" where
  "receives num receive \<longleftrightarrow>
     (\<forall>text v. length (utf8_encode text) \<le> 65536 \<and> JSON_parse num text = Inr v \<and> isRecord v \<longrightarrow>
        receive text = Received v)"

definition facilitator_fetch ::
  "(string \<Rightarrow> received) \<Rightarrow> runtime \<Rightarrow> tx_provider \<Rightarrow> signature_verifier \<Rightarrow> js_number \<Rightarrow> ledger \<Rightarrow> fetcher" where
  "facilitator_fetch receive E provider verify now l url body =
     (case fst (app_verify E provider verify now (receive body) l) of
        (status, v) \<Rightarrow> Inr \<lparr>fr_ok = (200 \<le> status \<and> status < 300), fr_status = status, fr_text = Inr (json_text v)\<rparr>)"

text \<open>The middleware's \<open>fetch\<close> gets from the configured URL what the facilitator answers, where it answers.\<close>

definition reaches_facilitator ::
  "payment_server \<Rightarrow> (string \<Rightarrow> received) \<Rightarrow> runtime \<Rightarrow> tx_provider \<Rightarrow> signature_verifier \<Rightarrow> js_number \<Rightarrow> ledger \<Rightarrow> bool" where
  "reaches_facilitator PS receive E provider verify now l \<longleftrightarrow>
     (let url = ps_facilitatorVerifyUrl PS in
      \<forall>v status r l'. plain v \<and> receive (json_text v) = Received v \<and>
        facilitator_verify E provider verify now v l = (Inr (status, r), l') \<longrightarrow>
          ps_fetch PS url (json_text v) = facilitator_fetch receive E provider verify now l url (json_text v))"

lemma fetch_reaches:
  "ps_fetch PS = facilitator_fetch receive E provider verify now l \<Longrightarrow> reaches_facilitator PS receive E provider verify now l"
  by (simp add: reaches_facilitator_def Let_def)

subsection \<open>The resource on the wire\<close>

lemma payment_canonicalBody_plain: "plain v \<Longrightarrow> payment_canonicalBody v = Inr v"
proof (induction v rule: payment_canonicalBody.induct)
  case (5 n)
  then show ?case by (cases n) simp_all
next
  case (6 xs)
  then have "mapE (\<lambda>x. ebind (payment_canonicalBody x) (\<lambda>y.
      if y = JUndef then Inl (TypeError ''body contains undefined'') else Inr y)) xs = Inr xs"
    by (auto simp: mapE_Inr_iff list_all_iff list_all2_same)
  then show ?case by simp
next
  case (7 fs)
  have "payment_canonicalBody x = Inr x \<and> x \<noteq> JUndef" if "(k, x) \<in> set fs" for k x
    using that 7 by (auto simp: list_all_iff)
  then have "mapE (\<lambda>(k, x). ebind (payment_canonicalBody x) (\<lambda>y.
      if y = JUndef then Inl (TypeError ''body contains undefined'') else Inr (k, y))) fs = Inr fs"
    by (auto simp: mapE_Inr_iff list_all2_same)
  then show ?case by simp
qed simp_all

lemma plain_is_json: "plain v \<Longrightarrow> is_json v"
proof (induction v rule: is_json.induct)
  case (4 n)
  then show ?case by (cases n) simp_all
qed (auto simp: list_all_iff)

lemma request_resource:
  assumes "payment_resource X request origin = Inr r" "rq_body request = JUndef \<or> plain (rq_body request)"
  shows "plain (resource_to_json r)" "parse_resource_request (resource_to_json r) = Some r"
proof -
  from assms(1) obtain pathname q body meth path where b: "payment_canonicalBody (rq_body request) = Inr body"
    and r: "r = \<lparr>res_serverOrigin = origin, res_method = meth, res_path = path, res_query = opt_query q, res_body = body\<rparr>"
    by (auto simp: payment_resource_def ebind_Inr_iff split: option.splits)
  have body: "body = JUndef \<or> plain body"
    using assms(2) b payment_canonicalBody_plain [of "rq_body request"] by auto
  have q: "opt_query q = JUndef \<or> plain (opt_query q) \<and> is_query_json (opt_query q)"
    by (auto simp: opt_query_def typed_query_def is_query_json_def list_all_iff)
  show "plain (resource_to_json r)" using body q by (auto simp: r resource_to_json_def)
  show "parse_resource_request (resource_to_json r) = Some r"
    using body q plain_is_json [of body]
    by (auto simp: r resource_to_json_def parse_resource_request_def only_keys_def str_field_def prop_of_def
        is_query_json_def is_body_json_def)
qed

subsection \<open>The answer of the facilitator\<close>

text \<open>What has to hold at the facilitator for a payment to be debited at time \<open>t\<close>. An output holds less than \<open>2 ^ 63\<close>
  satoshis.\<close>

definition facilitator_ready ::
  "runtime \<Rightarrow> tx_provider \<Rightarrow> signature_verifier \<Rightarrow> ledger \<Rightarrow> int \<Rightarrow> invoice \<Rightarrow> authorization \<Rightarrow> string \<Rightarrow> bool" where
  "facilitator_ready E provider verify l t i a key \<longleftrightarrow>
     ledger_invar l \<and> inv_issuedAt i \<le> t \<and> t < inv_expiresAt i \<and>
     (\<exists>m. authorizationSigningMessage a = Inr m \<and> verify (auth_payer a) m (auth_signature a) = Inr True) \<and>
     unexpired t (jget (lg_nonces l)) (inv_nonce i) = None \<and> jget (lg_idempotency l) key = None \<and>
     funded_on_chain provider l a (int (dec_to_nat (inv_amountSats i))) \<and>
     (\<forall>tx outs out. provider (ref_txid (auth_transaction a)) = Inr (Some tx) \<and> ctx_outputs tx = Some outs \<and>
        out \<in> set outs \<longrightarrow> out_sats out < 2 ^ 63)"

lemma clean_dec: "0 \<le> n \<Longrightarrow> clean (int_to_dec n)"
  using nat_to_dec_digits [of "nat n"] by (auto simp: int_to_dec_def clean_def list_all_iff char_class_defs)

lemma length_sats: "0 \<le> n \<Longrightarrow> n < 2 ^ 63 \<Longrightarrow> length (int_to_dec n) \<le> 19"
  using length_nat_to_dec [of "nat n" 18] by (simp add: int_to_dec_def)

lemma verified_size:
  assumes "is_hash (vb_invoiceId b)" "is_hash (vb_authorizationDigest b)" "is_hash (vb_txid b)"
    and "is_timestamp (vb_outIdx b)" "vb_debitedSats b = int_to_dec x" "vb_remainingBalanceSats b = int_to_dec y"
    and "0 \<le> x" "x < 2 ^ 63" "0 \<le> y" "y < 2 ^ 63"
  shows "text_bytes (verify_response_json (VerifyOk b)) \<le> 1000"
proof -
  have "list_all clean [''ok'', ''status'', ''VERIFIED'', ''invoiceId'', ''authorizationDigest'', ''debitedSats'',
      ''remainingBalanceSats'', ''fundingOutpoint'', ''txid'', ''outIdx'']" by code_simp
  moreover have "quoted_bytes (vb_invoiceId b) = 66" "quoted_bytes (vb_authorizationDigest b) = 66"
    "quoted_bytes (vb_txid b) = 66"
    using assms(1-3) [THEN clean_lower_hex] by (simp_all add: quoted_clean)
  moreover have "quoted_bytes (vb_debitedSats b) \<le> 21" "quoted_bytes (vb_remainingBalanceSats b) \<le> 21"
    using assms(5-10) length_sats [of x] length_sats [of y] by (simp_all add: quoted_clean clean_dec)
  moreover have "length (utf8_encode (json_number_text (NInt (vb_outIdx b)))) \<le> 16" using assms(4) by (rule timestamp_text)
  moreover have "length (utf8_encode ''true'') = 4" by code_simp
  ultimately show ?thesis by (simp add: quoted_clean)
qed

lemma verified_plain: "is_timestamp (vb_outIdx b) \<Longrightarrow> plain (verify_response_json (VerifyOk b))"
  by (simp add: is_timestamp_def)

lemma array_get_mem: "array_get xs i = Some x \<Longrightarrow> x \<in> set xs"
  by (auto simp: array_get_def split: if_splits)

lemma debited_answer:
  assumes "debited_as provider input t ds l b l'" "request_digests E input rh = Inr ds" "hex_hashes E"
    and "authorization_valid (vr_authorization input)"
    and "\<forall>tx outs out. provider (ref_txid (auth_transaction (vr_authorization input))) = Inr (Some tx) \<and>
        ctx_outputs tx = Some outs \<and> out \<in> set outs \<longrightarrow> out_sats out < 2 ^ 63"
    and "jget (lg_accounts l) (outpointKey (ref_txid (auth_transaction (vr_authorization input)))
        (ref_vout (auth_transaction (vr_authorization input)))) = None"
  shows "plain (verify_response_json (VerifyOk b))" "text_bytes (verify_response_json (VerifyOk b)) \<le> 1000"
proof -
  let ?a = "vr_authorization input"
  obtain ad ii rd where ds: "ds = (ad, ii, rd)" by (cases ds)
  have hashes: "is_hash ad" "is_hash ii"
    using assms(2,3) by (auto simp: ds request_digests_def canonicalHash_def computeInvoiceHash_def sha256Hex_def
        hex_hashes_def ebind_Inr_iff)
  from assms(1,6) obtain amount acc where amount: "parseAmountSats (inv_amountSats (vr_invoice input)) = Inr amount"
    and ch: "charges provider None (ref_txid (auth_transaction ?a)) (ref_vout (auth_transaction ?a)) (auth_payer ?a) amount acc"
    and b: "b = debit_body input ii ad amount acc"
    by (auto simp: debited_as_def ds Let_def)
  from ch obtain tx outs out where "provider (ref_txid (auth_transaction ?a)) = Inr (Some tx)" "ctx_outputs tx = Some outs"
    "array_get outs (ref_vout (auth_transaction ?a)) = Some out" "out_sats out = fa_fundingValueSats acc"
    by (auto simp: charges_def funds_def)
  with assms(5) array_get_mem have "fa_fundingValueSats acc < 2 ^ 63" by metis
  moreover have "0 < amount" using amount by (rule parseAmountSats_pos)
  moreover have "0 \<le> fa_remainingBalanceSats acc" "fa_remainingBalanceSats acc + amount = fa_fundingValueSats acc"
    using ch by (simp_all add: charges_def)
  ultimately have bounds: "0 \<le> amount" "amount < 2 ^ 63" "0 \<le> fa_remainingBalanceSats acc" "fa_remainingBalanceSats acc < 2 ^ 63"
    by linarith+
  have a: "is_hash (ref_txid (auth_transaction ?a))" "is_timestamp (ref_vout (auth_transaction ?a))"
    using assms(4) by (simp_all add: authorization_valid_def unsigned_valid_def)
  show "plain (verify_response_json (VerifyOk b))" using a by (intro verified_plain) (simp add: b debit_body_def)
  show "text_bytes (verify_response_json (VerifyOk b)) \<le> 1000"
    using a hashes bounds by (intro verified_size [where x = amount and y = "fa_remainingBalanceSats acc"])
      (simp_all add: b debit_body_def)
qed

subsection \<open>The purchase\<close>

definition envelope_key :: "runtime \<Rightarrow> authorization \<Rightarrow> string" where
  "envelope_key E a = (case canonicalHash (rt_sha256 E) (authorization_to_json a) of Inr k \<Rightarrow> ''x402-'' @ k | Inl _ \<Rightarrow> [])"

lemma envelope_key_ok:
  assumes "hex_hashes E" "authorization_valid a"
  shows "\<exists>k. canonicalHash (rt_sha256 E) (authorization_to_json a) = Inr k \<and> envelope_key E a = ''x402-'' @ k \<and>
    is_idempotency_key (''x402-'' @ k)"
proof -
  obtain k where k: "canonicalHash (rt_sha256 E) (authorization_to_json a) = Inr k"
    using canonicalize_plain [OF plain_authorization_json [OF assms(2)]] by (auto simp: canonicalHash_def)
  then have h: "is_hash k" using assms(1) by (auto simp: canonicalHash_def sha256Hex_def hex_hashes_def ebind_Inr_iff)
  have "list_all (\<lambda>c. is_upper c \<or> is_lower c \<or> is_digit c \<or> c \<in> set ''._:-'') ''x402-''" by code_simp
  moreover have "list_all (\<lambda>c. is_upper c \<or> is_lower c \<or> is_digit c \<or> c \<in> set ''._:-'') k"
    using h by (auto simp: is_hash_def list_all_iff is_lower_hex_def is_lower_def in_range_def)
  ultimately have "is_idempotency_key (''x402-'' @ k)"
    using h by (simp add: is_idempotency_key_def is_hash_def)
  with k show ?thesis by (simp add: envelope_key_def)
qed

lemma receives_text:
  "receives num receive \<Longrightarrow> plain v \<Longrightarrow> isRecord v \<Longrightarrow> text_bytes v \<le> 65536 \<Longrightarrow> receive (json_text v) = Received v"
  by (simp add: receives_def text_bytes_correct JSON_parse_text)

lemma judge_text:
  assumes "plain v" "text_bytes v \<le> 65536" "isSuccessfulVerification v" "fr_ok r" "fr_text r = Inr (json_text v)"
  shows "judge_response X (Inr r) = Verified v"
  unfolding judge_response_Verified MAX_FACILITATOR_RESPONSE_BYTES_def
  using assms JSON_parse_text [OF assms(1)] by (intro exI [of _ r] exI [of _ "json_text v"]) (simp add: text_bytes_correct)

lemma facilitator_answers:
  assumes fetch: "reaches_facilitator PS receive E provider verify clock l" "xe_runtime X = E" "receives num receive"
    and hashes: "hex_hashes E"
    and valid: "invoice_valid (re_invoice e)" "authorization_valid (re_authorization e)" "re_idempotencyKey e = None"
    and resource: "plain (resource_to_json resource)" "parse_resource_request (resource_to_json resource) = Some resource"
    and clock: "safe_nonneg clock = Some t" "authorization_matches E (re_invoice e) (re_authorization e) resource t"
    and ready: "facilitator_ready E provider verify l t (re_invoice e) (re_authorization e) (envelope_key E (re_authorization e))"
    and size: "text_bytes (request_json (re_invoice e) (re_authorization e) (resource_to_json resource)
      (envelope_key E (re_authorization e))) \<le> 65536"
  shows "\<exists>text ds b l'. ask_facilitator X PS e resource =
      ([PostFacilitator (ps_facilitatorVerifyUrl PS) text], Inr (Verified (verify_response_json (VerifyOk b)))) \<and>
    app_verify E provider verify clock (receive text) l = ((200, verify_response_json (VerifyOk b)), l') \<and>
    debited_as provider \<lparr>vr_invoice = re_invoice e, vr_authorization = re_authorization e, vr_resource = resource,
      vr_idempotencyKey = envelope_key E (re_authorization e)\<rparr> t ds l b l'"
proof -
  let ?i = "re_invoice e" and ?a = "re_authorization e"
  let ?key = "envelope_key E ?a"
  let ?v = "request_json ?i ?a (resource_to_json resource) ?key"
  let ?input = "\<lparr>vr_invoice = ?i, vr_authorization = ?a, vr_resource = resource, vr_idempotencyKey = ?key\<rparr>"
  obtain k where k: "canonicalHash (rt_sha256 E) (authorization_to_json ?a) = Inr k" "?key = ''x402-'' @ k"
    "is_idempotency_key ?key" using envelope_key_ok [OF hashes valid(2)] by auto
  have v: "plain ?v"
    using plain_invoice_json [OF valid(1)] plain_authorization_json [OF valid(2)] resource(1) by (simp add: request_json_def)
  have posted: "facilitator_body e resource ?key = Inr (json_text ?v)"
    unfolding facilitator_body_def request_json_def [symmetric] stringify_plain [OF v] by simp
  have ask: "ask_facilitator X PS e resource = ([PostFacilitator (ps_facilitatorVerifyUrl PS) (json_text ?v)],
      Inr (judge_response X (ps_fetch PS (ps_facilitatorVerifyUrl PS) (json_text ?v))))"
    using k posted by (simp add: ask_facilitator_def valid(3) fetch(2) ask_def)
  have received: "receive (json_text ?v) = Received ?v"
    by (rule receives_text [OF fetch(3) v _ size]) (simp add: request_json_def)
  have parsed: "parse_verify_request ?v = Some ?input"
    by (rule parse_request_json [OF valid(1,2) resource(2) k(3)])
  from ready obtain m where m: "authorizationSigningMessage ?a = Inr m" "verify (auth_payer ?a) m (auth_signature ?a) = Inr True"
    and l: "ledger_invar l" "unexpired t (jget (lg_nonces l)) (inv_nonce ?i) = None" "jget (lg_idempotency l) ?key = None"
      "funded_on_chain provider l ?a (int (dec_to_nat (inv_amountSats ?i)))"
    by (auto simp: facilitator_ready_def)
  have amount: "parseAmountSats (inv_amountSats ?i) = Inr (int (dec_to_nat (inv_amountSats ?i)))"
    using valid(1) by (simp add: parseAmountSats_Inr invoice_valid_def)
  obtain rh ds b l' where d: "request_digests E ?input rh = Inr ds"
    "facilitator_verify E provider verify clock ?v l = (Inr (200, VerifyOk b), l')" "debited_as provider ?input t ds l b l'"
    using good_request_debited [OF l(1) parsed clock(1), of E m verify "int (dec_to_nat (inv_amountSats ?i))" provider]
      clock(2) m l amount by auto
  have app: "app_verify E provider verify clock (receive (json_text ?v)) l = ((200, verify_response_json (VerifyOk b)), l')"
    by (simp add: app_verify_def received d(2) del: verify_response_json.simps)
  have unused: "jget (lg_accounts l) (outpointKey (ref_txid (auth_transaction ?a)) (ref_vout (auth_transaction ?a))) = None"
    using l(4) by (simp add: funded_on_chain_def Let_def)
  have sats: "\<forall>tx outs out. provider (ref_txid (auth_transaction ?a)) = Inr (Some tx) \<and> ctx_outputs tx = Some outs \<and>
      out \<in> set outs \<longrightarrow> out_sats out < 2 ^ 63"
    using ready unfolding facilitator_ready_def by blast
  have b: "plain (verify_response_json (VerifyOk b))"
    by (rule debited_answer(1) [OF d(3,1) hashes]) (use valid(2) unused sats in simp_all)
  have small: "text_bytes (verify_response_json (VerifyOk b)) \<le> 1000"
    by (rule debited_answer(2) [OF d(3,1) hashes]) (use valid(2) unused sats in simp_all)
  have fetched: "ps_fetch PS (ps_facilitatorVerifyUrl PS) (json_text ?v) =
      facilitator_fetch receive E provider verify clock l (ps_facilitatorVerifyUrl PS) (json_text ?v)"
    using fetch(1) v received d(2) unfolding reaches_facilitator_def Let_def by blast
  have judged: "judge_response X (ps_fetch PS (ps_facilitatorVerifyUrl PS) (json_text ?v)) = Verified (verify_response_json (VerifyOk b))"
    unfolding fetched facilitator_fetch_def app fst_conv prod.case
  proof (rule judge_text [OF b])
    show "text_bytes (verify_response_json (VerifyOk b)) \<le> 65536" using small by linarith
  qed (simp_all add: isSuccessfulVerification_def prop_of_def)
  show ?thesis
    unfolding ask judged
    by (intro exI [of _ "json_text ?v"] exI [of _ ds] exI [of _ b] exI [of _ l'] conjI refl app d(3))
qed

lemma debited_entry:
  assumes "debited_as provider input t ds l b l'"
  shows "\<exists>entry. lg_entries l' = lg_entries l @ [entry] \<and> le_payTo entry = inv_payTo (vr_invoice input) \<and>
    parseAmountSats (inv_amountSats (vr_invoice input)) = Inr (le_debitedSats entry) \<and>
    le_nonce entry = inv_nonce (vr_invoice input) \<and> le_payer entry = auth_payer (vr_authorization input)"
proof -
  obtain ad ii rd where "ds = (ad, ii, rd)" by (cases ds)
  with assms show ?thesis
    by (auto simp: debited_as_def Let_def ledger_commit_def purged_def debit_entry_def)
qed

lemma prepaid_debited:
  assumes "createX402XecMiddleware E href config = Inr PS" "xe_runtime X = E"
    and "rq_get request PAYMENT_HEADER = None"
      "snd (handle_payment X PS now random request) = Inr (PaymentResponse 402 body)"
    and res: "payment_resource X request (ps_publicOrigin PS) = Inr resource"
      "rq_body request = JUndef \<or> plain (rq_body request)"
    and prep: "snd (prepare_payment E L issue P maximum (prop_of body ''invoice'') resource) = Inr pp"
    and "int (length (utf8_encode (pp_paymentSignature pp))) \<le> ps_maxPaymentHeaderBytes PS"
    and "safe_nonneg later = Some t" "inv_issuedAt (env_invoice (pp_envelope pp)) \<le> t"
      "t < inv_expiresAt (env_invoice (pp_envelope pp))"
    and wire: "ps_fetch PS = facilitator_fetch receive E provider verify clock l" "receives num receive" "hex_hashes E"
    and fac: "safe_nonneg clock = Some u"
      "facilitator_ready E provider verify l u (env_invoice (pp_envelope pp)) (env_authorization (pp_envelope pp))
         (envelope_key E (env_authorization (pp_envelope pp)))"
      "text_bytes (request_json (env_invoice (pp_envelope pp)) (env_authorization (pp_envelope pp)) (resource_to_json resource)
         (envelope_key E (env_authorization (pp_envelope pp)))) \<le> 65536"
  shows "\<exists>posted b l' entry.
    handle_payment X PS later random' (paid_request request pp) =
      ([PostFacilitator (ps_facilitatorVerifyUrl PS) posted], Inr (Verified (verify_response_json (VerifyOk b)))) \<and>
    app_verify E provider verify clock (receive posted) l = ((200, verify_response_json (VerifyOk b)), l') \<and>
    lg_entries l' = lg_entries l @ [entry] \<and> le_payTo entry = inv_payTo (env_invoice (pp_envelope pp)) \<and>
    parseAmountSats (inv_amountSats (env_invoice (pp_envelope pp))) = Inr (le_debitedSats entry) \<and>
    le_nonce entry = inv_nonce (env_invoice (pp_envelope pp)) \<and>
    le_payer entry = auth_payer (env_authorization (pp_envelope pp))"
proof -
  let ?e = "envelope_of pp"
  have parts: "re_invoice ?e = env_invoice (pp_envelope pp)" "re_authorization ?e = env_authorization (pp_envelope pp)"
    "re_idempotencyKey ?e = None" by (simp_all add: envelope_of_def)
  note ok = prepare_payment_Inr [OF prep]
  then have valid: "invoice_valid (re_invoice ?e)" "authorization_valid (re_authorization ?e)"
    unfolding parts by (auto simp: prepared_ok_def dest: parse_invoice_valid)
  have matches: "authorization_matches E (re_invoice ?e) (re_authorization ?e) resource u"
    unfolding parts by (rule prepared_matches [OF ok]) (use fac(2) in \<open>simp_all add: facilitator_ready_def\<close>)
  obtain posted ds b l' where a: "ask_facilitator X PS ?e resource =
      ([PostFacilitator (ps_facilitatorVerifyUrl PS) posted], Inr (Verified (verify_response_json (VerifyOk b))))"
    "app_verify E provider verify clock (receive posted) l = ((200, verify_response_json (VerifyOk b)), l')"
    and d: "debited_as provider \<lparr>vr_invoice = re_invoice ?e, vr_authorization = re_authorization ?e, vr_resource = resource,
      vr_idempotencyKey = envelope_key E (re_authorization ?e)\<rparr> u ds l b l'"
    using facilitator_answers [OF fetch_reaches [OF wire(1)] assms(2) wire(2,3) valid parts(3) request_resource [OF res] fac(1) matches]
      fac(2,3) unfolding parts by blast
  have "handle_payment X PS later random' (paid_request request pp) = ask_facilitator X PS ?e resource"
    by (rule payment_flow [OF assms(1-4) res(1) prep assms(8-11)])
  with a debited_entry [OF d] show ?thesis unfolding parts by auto
qed

end
