(* ===== verification/Axios_Interceptor.thy ===== *)
theory Axios_Interceptor
  imports Payment_Middleware
begin

text \<open>
  \<open>packages/x402-xec-axios/src/interceptor.ts\<close>: the response interceptor that pays a 402 and repeats the
  request once. Axios and the URL parser are parameters: a request configuration has the parts that the
  code reads, and repeating the request is an event. The methods compared are HTTP tokens. The lemmas
  say which offers are paid, that a request is repeated once, and that the header it carries is the one
  the server reads.
\<close>

definition PAYMENT_SCHEME :: string where "PAYMENT_SCHEME = ''xec-prepaid-utxo''"
definition PAYMENT_ASSET :: string where "PAYMENT_ASSET = ''XEC''"
definition SIGNATURE_HEADER :: string where "SIGNATURE_HEADER = ''PAYMENT-SIGNATURE''"

record xec_signer =
  xs_payer :: string
  xs_transaction :: tx_ref
  xs_sign :: "string \<Rightarrow> js_value result"

type_synonym payer_service = "invoice \<Rightarrow> resource_request \<Rightarrow> js_value result"

record interceptor_options =
  io_maxPaymentSats :: js_value
  io_signer :: "xec_signer option"
  io_paymentPreparer :: "payer_service option"
  io_orchestrator :: "payer_service option"
  io_enableOrchestratorPayments :: "bool option"

text \<open>\<open>ac_attempted\<close> is the retry marker and \<open>ac_signature\<close> the payment header.\<close>

record axios_config =
  ac_url :: "string option"
  ac_baseURL :: "string option"
  ac_method :: "string option"
  ac_attempted :: bool
  ac_signature :: "string option"

record axios_error =
  ae_error :: js_error
  ae_isAxiosError :: bool
  ae_status :: "int option"
  ae_data :: js_value
  ae_config :: "axios_config option"

text \<open>\<open>ax_url\<close> parses a URL against an optional base, giving its origin and path; \<open>ax_location\<close> is the
  origin of a browser's location (\<open>None\<close> where there is no string), or throws.\<close>

record axios_env =
  ax_runtime :: runtime
  ax_url :: "string \<Rightarrow> string option \<Rightarrow> (string \<times> string) option"
  ax_location :: "string option result"
  ax_issue :: "js_value \<Rightarrow> string"

subsection \<open>Options\<close>

definition validatePaymentMode :: "interceptor_options \<Rightarrow> unit result" where
  "validatePaymentMode opt =
     (let modes = length (filter id [io_signer opt \<noteq> None, io_paymentPreparer opt \<noteq> None, io_orchestrator opt \<noteq> None]) in
      if modes \<noteq> 1 then Inl (TypeError ''configure exactly one of signer, paymentPreparer, or orchestrator'')
      else if io_orchestrator opt \<noteq> None \<and> io_enableOrchestratorPayments opt \<noteq> Some True then
        Inl (PlainError ''x402-XEC orchestrator payments are disabled; set enableOrchestratorPayments: true for explicit dry-run/testing use'')
      else Inr ())"

definition axios_readMaximum :: "js_value \<Rightarrow> int result" where
  "axios_readMaximum input = (case limit_of input of
     None \<Rightarrow> Inl (TypeError ''maxPaymentSats must be a non-negative integer'')
   | Some maximum \<Rightarrow>
       if maximum < 0 then Inl (RangeError ''maxPaymentSats must be non-negative'') else Inr maximum)"

definition new_interceptor :: "interceptor_options \<Rightarrow> int result" where
  "new_interceptor opt = ebind (validatePaymentMode opt) (\<lambda>_. axios_readMaximum (io_maxPaymentSats opt))"

subsection \<open>The offer\<close>

definition isQuery :: "js_value \<Rightarrow> bool" where
  "isQuery v = (case v of
     JArr ps \<Rightarrow> list_all (\<lambda>p. case p of JArr [a, b] \<Rightarrow> is_str a \<and> is_str b | _ \<Rightarrow> False) ps
   | _ \<Rightarrow> False)"

definition parseResource :: "js_value \<Rightarrow> resource_request result" where
  "parseResource input =
     (if \<not> isRecord input then Inl (PlainError ''invalid x402-XEC resource metadata'')
      else (case (prop_of input ''serverOrigin'', prop_of input ''method'', prop_of input ''path'') of
          (JStr serverOrigin, JStr method, JStr path) \<Rightarrow>
            if prop_of input ''query'' \<noteq> JUndef \<and> \<not> isQuery (prop_of input ''query'') then
              Inl (PlainError ''invalid x402-XEC resource metadata'')
            else Inr \<lparr>res_serverOrigin = serverOrigin, res_method = method, res_path = path,
                      res_query = prop_of input ''query'', res_body = prop_of input ''body''\<rparr>
        | _ \<Rightarrow> Inl (PlainError ''invalid x402-XEC resource metadata'')))"

definition resolveRequestedUrl :: "axios_env \<Rightarrow> axios_config \<Rightarrow> (string \<times> string) result" where
  "resolveRequestedUrl A config =
     (let requestUrl = (case ac_url config of None \<Rightarrow> [] | Some u \<Rightarrow> u) in
      case ax_url A requestUrl None of
        Some u \<Rightarrow> Inr u
      | None \<Rightarrow>
          ebind (case ac_baseURL config of
              Some b \<Rightarrow> Inr (Some b)
            | None \<Rightarrow> (case ax_location A of
                Inl _ \<Rightarrow> Inl (PlainError ''cannot bind x402-XEC invoice to request URL'')
              | Inr o' \<Rightarrow> Inr o')) (\<lambda>baseUrl.
            case ax_url A requestUrl baseUrl of
              None \<Rightarrow> Inl (PlainError ''cannot bind x402-XEC invoice to request URL'')
            | Some u \<Rightarrow> Inr u))"

definition validateRequestedResource :: "axios_env \<Rightarrow> resource_request \<Rightarrow> axios_config \<Rightarrow> unit result" where
  "validateRequestedResource A resource config =
     ebind (resolveRequestedUrl A config) (\<lambda>(origin, pathname).
       let method = toUpperCase (case ac_method config of None \<Rightarrow> ''get'' | Some m \<Rightarrow> m) in
       if origin \<noteq> res_serverOrigin resource \<or> pathname \<noteq> res_path resource \<or>
          method \<noteq> toUpperCase (res_method resource) then
         Inl (PlainError ''x402-XEC resource metadata does not match the original request'')
       else Inr ())"

definition accepts_invoice :: "invoice \<Rightarrow> js_value \<Rightarrow> bool" where
  "accepts_invoice i candidate \<longleftrightarrow> isRecord candidate \<and>
     prop_of candidate ''asset'' = JStr PAYMENT_ASSET \<and> prop_of candidate ''network'' = JStr XEC_MAINNET \<and>
     prop_of candidate ''scheme'' = JStr PAYMENT_SCHEME \<and>
     prop_of candidate ''amountSats'' = JStr (inv_amountSats i) \<and>
     prop_of candidate ''payTo'' = JStr (inv_payTo i) \<and>
     prop_of candidate ''paymentHeader'' = JStr SIGNATURE_HEADER"

definition demand_offer :: "bool \<Rightarrow> string \<Rightarrow> unit result" where
  "demand_offer b m = (if b then Inr () else Inl (PlainError m))"

definition check_accepts :: "invoice \<Rightarrow> js_value \<Rightarrow> unit result" where
  "check_accepts i v = (case v of
     JArr accepts \<Rightarrow>
       demand_offer (list_ex (accepts_invoice i) accepts) ''unsupported or inconsistent x402-XEC payment method''
   | _ \<Rightarrow> Inl (PlainError ''invalid x402-XEC payment methods''))"

definition parseAndValidateOffer ::
  "axios_env \<Rightarrow> js_value \<Rightarrow> axios_config \<Rightarrow> js_number \<Rightarrow> (invoice \<times> resource_request) result" where
  "parseAndValidateOffer A input config clock =
     ebind (checkedNow clock) (\<lambda>now.
     ebind (demand_offer (isRecord input) ''invalid x402-XEC payment response'') (\<lambda>_.
     ebind (demand_offer (prop_of input ''x402Version'' = JNum (NInt X402_VERSION)) ''unsupported x402-XEC version'') (\<lambda>_.
     ebind (case parse_invoice (prop_of input ''invoice'') of
         None \<Rightarrow> Inl (PlainError (''invalid x402-XEC invoice: '' @ ax_issue A (prop_of input ''invoice'')))
       | Some i \<Rightarrow> Inr i) (\<lambda>i.
     ebind (demand_offer (inv_network i = XEC_MAINNET) (''unsupported x402-XEC network: '' @ inv_network i)) (\<lambda>_.
     ebind (demand_offer (inv_scheme i = XEC_SCHEME) (''unsupported x402-XEC invoice scheme: '' @ inv_scheme i)) (\<lambda>_.
     ebind (demand_offer (\<not> now < inv_issuedAt i) ''x402-XEC invoice is not yet valid'') (\<lambda>_.
     ebind (demand_offer (\<not> now \<ge> inv_expiresAt i) ''x402-XEC invoice has expired'') (\<lambda>_.
     ebind (computeInvoiceHash (ax_runtime A) i) (\<lambda>h.
     ebind (demand_offer (prop_of input ''invoiceId'' = JStr h) ''invalid x402-XEC invoice id'') (\<lambda>_.
     ebind (parseResource (prop_of input ''resource'')) (\<lambda>resource.
     ebind (computeResourceHash (ax_runtime A) resource) (\<lambda>rh.
     ebind (demand_offer (rh = inv_resourceHash i) ''x402-XEC invoice does not match resource metadata'') (\<lambda>_.
     ebind (validateRequestedResource A resource config) (\<lambda>_.
     ebind (check_accepts i (prop_of input ''accepts'')) (\<lambda>_.
       Inr (i, resource))))))))))))))))"

subsection \<open>The payment\<close>

text \<open>\<open>btoa\<close> of the UTF-8 bytes, with the two characters of base64url and without padding.\<close>

definition axios_encodeBase64UrlJson :: "js_value \<Rightarrow> string result" where
  "axios_encodeBase64UrlJson input = ebind (stringify input) (\<lambda>t.
     let binary = utf8_encode (case t of None \<Rightarrow> [] | Some json \<Rightarrow> json) in
     Inr (unpadded_url (base64 binary)))"

definition readPaymentSignature :: "js_value \<Rightarrow> string \<Rightarrow> string result" where
  "readPaymentSignature input source = (case input of
     JStr s \<Rightarrow> if s = [] then Inl (TypeError (source @ '' must return a non-empty paymentSignature'')) else Inr s
   | _ \<Rightarrow> Inl (TypeError (source @ '' must return a non-empty paymentSignature'')))"

definition createAuthorization :: "runtime \<Rightarrow> invoice \<Rightarrow> xec_signer \<Rightarrow> authorization result" where
  "createAuthorization E i signer =
     ebind (computeInvoiceHash E i) (\<lambda>invoiceHash.
     let unsigned = \<lparr>auth_x402Version = X402_VERSION, auth_scheme = XEC_SCHEME, auth_network = XEC_MAINNET,
       auth_invoiceHash = invoiceHash, auth_resourceHash = inv_resourceHash i, auth_amountSats = inv_amountSats i,
       auth_payTo = inv_payTo i, auth_nonce = inv_nonce i, auth_payer = xs_payer signer,
       auth_transaction = xs_transaction signer\<rparr> in
     ebind (authorizationSigningMessage (with_signature unsigned ''placeholder'')) (\<lambda>message.
     ebind (xs_sign signer message) (\<lambda>signature.
       case parse_authorization (JObj (unsigned_fields unsigned @ [(''signature'', signature)])) of
         None \<Rightarrow> Inl ZodError
       | Some a \<Rightarrow> Inr a)))"

definition createTestOnlyMockXecSigner :: "runtime \<Rightarrow> string \<Rightarrow> tx_ref option \<Rightarrow> xec_signer result" where
  "createTestOnlyMockXecSigner E payer transaction =
     (let tx = (case transaction of None \<Rightarrow> \<lparr>ref_txid = replicate 64 CHR ''0'', ref_vout = 0\<rparr> | Some t \<Rightarrow> t) in
      if is_address payer \<and> is_hash (ref_txid tx) \<and> is_timestamp (ref_vout tx) then
        Inr \<lparr>xs_payer = payer, xs_transaction = tx,
             xs_sign = (\<lambda>message. ebind (canonicalHash (rt_sha256 E) (JObj
               [(''domain'', JStr ''x402-xec-local-mock-signature-v1''), (''message'', JStr message),
                (''payer'', JStr payer)])) (\<lambda>h. Inr (JStr h)))\<rparr>
      else Inl ZodError)"

definition createPaymentSignature :: "runtime \<Rightarrow> interceptor_options \<Rightarrow> invoice \<Rightarrow> resource_request \<Rightarrow> string result" where
  "createPaymentSignature E opt i resource =
     (case io_orchestrator opt of
        Some execute \<Rightarrow>
          (case execute i resource of
             Inl _ \<Rightarrow> Inl (PlainError ''x402-XEC orchestrator payment failed'')
           | Inr result \<Rightarrow>
               ebind (get_prop result ''broadcasted'') (\<lambda>broadcasted.
               if broadcasted = JBool True then
                 Inl (PlainError ''x402-XEC Axios rejects broadcasted orchestrator payments'')
               else readPaymentSignature (prop_of result ''paymentSignature'') ''orchestrator''))
      | None \<Rightarrow>
          (case io_paymentPreparer opt of
             Some prepare \<Rightarrow>
               ebind (prepare i resource) (\<lambda>result.
               ebind (get_prop result ''paymentSignature'') (\<lambda>s. readPaymentSignature s ''payment preparer''))
           | None \<Rightarrow>
               (case io_signer opt of
                  None \<Rightarrow> Inl (TypeError ''Cannot read properties of undefined'')
                | Some signer \<Rightarrow>
                    ebind (createAuthorization E i signer) (\<lambda>a.
                      axios_encodeBase64UrlJson (envelope_to_json \<lparr>env_invoice = i, env_authorization = a\<rparr>)))))"

datatype axios_event = PayOffer invoice resource_request | RepeatRequest axios_config

text \<open>The interceptor: \<open>repeat\<close> is \<open>client.request\<close>. An error that is not to be paid is thrown again.\<close>

definition intercept ::
  "axios_env \<Rightarrow> interceptor_options \<Rightarrow> int \<Rightarrow> (axios_config \<Rightarrow> 'r result) \<Rightarrow> js_number \<Rightarrow> axios_error \<Rightarrow>
   (axios_event, 'r) traced" where
  "intercept A opt maxPaymentSats repeat clock error =
     (case ae_config error of
        None \<Rightarrow> tpure (Inl (ae_error error))
      | Some config \<Rightarrow>
          if \<not> ae_isAxiosError error \<or> ae_status error \<noteq> Some 402 \<or> ac_attempted config \<or> ac_signature config \<noteq> None
          then tpure (Inl (ae_error error))
          else
            tbind (tpure (parseAndValidateOffer A (ae_data error) config clock)) (\<lambda>(i, resource).
            tbind (tpure (parseAmountSats (inv_amountSats i))) (\<lambda>amount.
            if amount > maxPaymentSats then
              tpure (Inl (PlainError (''x402-XEC payment amount '' @ inv_amountSats i @ '' exceeds maxPaymentSats '' @
                int_to_dec maxPaymentSats)))
            else
              tbind (ask (PayOffer i resource) (createPaymentSignature (ax_runtime A) opt i resource)) (\<lambda>s.
              let again = config\<lparr>ac_attempted := True, ac_signature := Some s\<rparr> in
              ask (RepeatRequest again) (repeat again)))))"

subsection \<open>The header\<close>

lemma axios_encode_same: "stringify v \<noteq> Inr None \<Longrightarrow> axios_encodeBase64UrlJson v = encodeBase64UrlJson v"
  by (cases "stringify v")
     (auto simp: axios_encodeBase64UrlJson_def encodeBase64UrlJson_def Let_def unpadded_base64 split: option.splits)

lemma createAuthorization_Inr:
  assumes "createAuthorization E i signer = Inr a"
  shows "authorization_valid a \<and> computeInvoiceHash E i = Inr (auth_invoiceHash a) \<and>
    auth_resourceHash a = inv_resourceHash i \<and> auth_amountSats a = inv_amountSats i \<and>
    auth_payTo a = inv_payTo i \<and> auth_nonce a = inv_nonce i \<and> auth_payer a = xs_payer signer \<and>
    auth_transaction a = xs_transaction signer \<and>
    (\<exists>m. authorizationSigningMessage a = Inr m \<and> xs_sign signer m = Inr (JStr (auth_signature a)))"
proof -
  let ?v = "\<lambda>h. \<lparr>auth_x402Version = X402_VERSION, auth_scheme = XEC_SCHEME,
       auth_network = XEC_MAINNET, auth_invoiceHash = h, auth_resourceHash = inv_resourceHash i,
       auth_amountSats = inv_amountSats i, auth_payTo = inv_payTo i, auth_nonce = inv_nonce i,
       auth_payer = xs_payer signer, auth_transaction = xs_transaction signer\<rparr>"
  from assms obtain h m sg where h: "computeInvoiceHash E i = Inr h"
    and ms: "authorizationSigningMessage (with_signature (?v h) ''placeholder'') = Inr m"
    and sg: "xs_sign signer m = Inr sg"
    and a: "parse_authorization (JObj (unsigned_fields (?v h) @ [(''signature'', sg)])) = Some a"
    by (auto simp: createAuthorization_def Let_def ebind_Inr_iff split: option.splits)
  have "prop_of (JObj (unsigned_fields (?v h) @ [(''signature'', sg)])) ''signature'' = sg"
    by (simp add: prop_of_def unsigned_fields_def)
  with parse_authorization_signature [OF a] have s: "sg = JStr (auth_signature a)" by simp
  with a have "parse_authorization (authorization_to_json (with_signature (?v h) (auth_signature a))) = Some a"
    by (simp add: with_signature_json [symmetric])
  then have "a = with_signature (?v h) (auth_signature a)" by (rule parse_authorization_exact)
  moreover from this have "authorizationSigningMessage a = Inr m"
    using ms signing_message_unsigned by metis
  moreover have "auth_invoiceHash (with_signature u t) = auth_invoiceHash u" "auth_resourceHash (with_signature u t) = auth_resourceHash u"
    "auth_amountSats (with_signature u t) = auth_amountSats u" "auth_payTo (with_signature u t) = auth_payTo u"
    "auth_nonce (with_signature u t) = auth_nonce u" "auth_payer (with_signature u t) = auth_payer u"
    "auth_transaction (with_signature u t) = auth_transaction u" for u t
    by (simp_all add: with_signature_def unsigned_authorization.defs authorization.defs)
  ultimately show ?thesis
    using h sg s parse_authorization_valid [OF a] by (metis unsigned_authorization.simps(4-10))
qed

subsection \<open>Which offers are paid\<close>

lemma demand_offer_Inr [err_simps]: "demand_offer b m = Inr u \<longleftrightarrow> b"
  by (simp add: demand_offer_def)

definition offer_accepted ::
  "axios_env \<Rightarrow> js_value \<Rightarrow> axios_config \<Rightarrow> js_number \<Rightarrow> invoice \<Rightarrow> resource_request \<Rightarrow> bool" where
  "offer_accepted A input config clock i resource \<longleftrightarrow>
     (\<exists>now h origin pathname accepts. safe_nonneg clock = Some now \<and> isRecord input \<and>
        prop_of input ''x402Version'' = JNum (NInt X402_VERSION) \<and>
        parse_invoice (prop_of input ''invoice'') = Some i \<and> inv_issuedAt i \<le> now \<and> now < inv_expiresAt i \<and>
        computeInvoiceHash (ax_runtime A) i = Inr h \<and> prop_of input ''invoiceId'' = JStr h \<and>
        parseResource (prop_of input ''resource'') = Inr resource \<and>
        computeResourceHash (ax_runtime A) resource = Inr (inv_resourceHash i) \<and>
        resolveRequestedUrl A config = Inr (origin, pathname) \<and>
        origin = res_serverOrigin resource \<and> pathname = res_path resource \<and>
        toUpperCase (case ac_method config of None \<Rightarrow> ''get'' | Some m \<Rightarrow> m) = toUpperCase (res_method resource) \<and>
        prop_of input ''accepts'' = JArr accepts \<and> list_ex (accepts_invoice i) accepts)"

lemma validateRequestedResource_Inr:
  "validateRequestedResource A resource config = Inr u \<longleftrightarrow>
     (\<exists>origin pathname. resolveRequestedUrl A config = Inr (origin, pathname) \<and>
        origin = res_serverOrigin resource \<and> pathname = res_path resource \<and>
        toUpperCase (case ac_method config of None \<Rightarrow> ''get'' | Some m \<Rightarrow> m) = toUpperCase (res_method resource))"
  by (cases "resolveRequestedUrl A config") (auto simp: validateRequestedResource_def Let_def split: if_splits)

lemma check_accepts_Inr: "check_accepts i v = Inr u \<longleftrightarrow> (\<exists>accepts. v = JArr accepts \<and> list_ex (accepts_invoice i) accepts)"
  by (cases v) (simp_all add: check_accepts_def demand_offer_Inr)

lemma parseAndValidateOffer_Inr:
  "parseAndValidateOffer A input config clock = Inr (i, resource) \<longleftrightarrow> offer_accepted A input config clock i resource"
proof
  assume "parseAndValidateOffer A input config clock = Inr (i, resource)"
  then show "offer_accepted A input config clock i resource"
    unfolding offer_accepted_def parseAndValidateOffer_def
    by (auto simp: ebind_Inr_iff demand_offer_Inr checkedNow_Inr validateRequestedResource_Inr check_accepts_Inr
        split: option.splits)
next
  assume a: "offer_accepted A input config clock i resource"
  then have "invoice_valid i" by (auto simp: offer_accepted_def dest: parse_invoice_valid)
  then have "inv_network i = XEC_MAINNET" "inv_scheme i = XEC_SCHEME" by (simp_all add: invoice_valid_def)
  with a show "parseAndValidateOffer A input config clock = Inr (i, resource)"
    unfolding offer_accepted_def parseAndValidateOffer_def
    by (auto simp: ebind_Inr_iff demand_offer_Inr checkedNow_Inr validateRequestedResource_Inr check_accepts_Inr
        split: option.splits)
qed

text \<open>The first failures that are paid for, and what is done for them.\<close>

definition pays_for :: "axios_env \<Rightarrow> int \<Rightarrow> js_number \<Rightarrow> axios_error \<Rightarrow> axios_config \<Rightarrow> invoice \<Rightarrow> resource_request \<Rightarrow> bool" where
  "pays_for A maximum clock error config i resource \<longleftrightarrow>
     ae_config error = Some config \<and> ae_isAxiosError error \<and> ae_status error = Some 402 \<and>
     \<not> ac_attempted config \<and> ac_signature config = None \<and>
     offer_accepted A (ae_data error) config clock i resource \<and> int (dec_to_nat (inv_amountSats i)) \<le> maximum"

lemma intercept_run:
  assumes "pays_for A maximum clock error config i resource"
  shows "intercept A opt maximum repeat clock error =
    tbind (ask (PayOffer i resource) (createPaymentSignature (ax_runtime A) opt i resource)) (\<lambda>s.
      let again = config\<lparr>ac_attempted := True, ac_signature := Some s\<rparr> in
      ask (RepeatRequest again) (repeat again))"
proof -
  have o': "parseAndValidateOffer A (ae_data error) config clock = Inr (i, resource)"
    using assms by (simp add: pays_for_def parseAndValidateOffer_Inr)
  have "invoice_valid i" using assms by (auto simp: pays_for_def offer_accepted_def dest: parse_invoice_valid)
  then have "parseAmountSats (inv_amountSats i) = Inr (int (dec_to_nat (inv_amountSats i)))"
    by (simp add: parseAmountSats_Inr invoice_valid_def)
  with o' assms show ?thesis by (simp add: intercept_def pays_for_def)
qed

lemma intercept_nothing:
  fixes repeat :: "axios_config \<Rightarrow> 'r result"
  assumes "\<nexists>config i resource. pays_for A maximum clock error config i resource"
  shows "fst (intercept A opt maximum repeat clock error) = []"
proof -
  have "fst (tbind (tpure (parseAmountSats (inv_amountSats i))) (\<lambda>amount.
      if amount > maximum then tpure (Inl (e amount)) else f amount)) = []"
    if "parseAndValidateOffer A (ae_data error) config clock = Inr (i, resource)" "ae_config error = Some config"
      "ae_isAxiosError error" "ae_status error = Some 402" "\<not> ac_attempted config" "ac_signature config = None"
    for config i resource e and f :: "int \<Rightarrow> (axios_event, 'r) traced"
  proof -
    have "\<not> int (dec_to_nat (inv_amountSats i)) \<le> maximum"
      using assms that by (auto simp: pays_for_def parseAndValidateOffer_Inr)
    then have "maximum < n" if "parseAmountSats (inv_amountSats i) = Inr n" for n
      using that by (simp add: parseAmountSats_Inr)
    then show ?thesis by (cases "parseAmountSats (inv_amountSats i)") simp_all
  qed
  then show ?thesis
    by (cases "ae_config error")
      (auto simp: intercept_def tbind_def [of "tpure (parseAndValidateOffer _ _ _ _)"] split: sum.split)
qed

lemma intercept_events:
  "ev \<in> set (fst (intercept A opt maximum repeat clock error)) \<longleftrightarrow>
     (\<exists>config i resource. pays_for A maximum clock error config i resource \<and>
        (ev = PayOffer i resource \<or>
         (\<exists>s. createPaymentSignature (ax_runtime A) opt i resource = Inr s \<and>
            ev = RepeatRequest (config\<lparr>ac_attempted := True, ac_signature := Some s\<rparr>))))"
proof (cases "\<exists>config i resource. pays_for A maximum clock error config i resource")
  case True
  then obtain config i resource where p: "pays_for A maximum clock error config i resource" by blast
  have "config' = config \<and> i' = i \<and> resource' = resource" if "pays_for A maximum clock error config' i' resource'"
    for config' i' resource'
    using p that by (auto simp: pays_for_def parseAndValidateOffer_Inr [symmetric])
  then have only: "(\<exists>config i resource. pays_for A maximum clock error config i resource \<and> Q config i resource) \<longleftrightarrow>
      Q config i resource" for Q
    using p by blast
  show ?thesis unfolding only by (auto simp: intercept_run [OF p] fst_tbind Let_def)
next
  case False
  then show ?thesis by (simp add: intercept_nothing [OF False])
qed

text \<open>A repeated request is not paid for again.\<close>

lemma repeated_not_paid:
  "ae_config error = Some config \<Longrightarrow> ac_attempted config \<or> ac_signature config \<noteq> None \<Longrightarrow>
   intercept A opt maximum repeat clock error = ([], Inl (ae_error error))"
  by (auto simp: intercept_def tpure_def)

text \<open>The header of the signer mode is read by the server as the envelope it was made from.\<close>

lemma signer_header:
  assumes "invoice_valid i" "createAuthorization E i signer = Inr a"
    and "io_orchestrator opt = None" "io_paymentPreparer opt = None" "io_signer opt = Some signer"
  shows "\<exists>s. createPaymentSignature E opt i resource = Inr s \<and>
    parsePaymentEnvelope X s = Inr \<lparr>re_invoice = i, re_authorization = a, re_idempotencyKey = None\<rparr>"
proof -
  let ?e = "\<lparr>env_invoice = i, env_authorization = a\<rparr>"
  have a: "authorization_valid a" using createAuthorization_Inr [OF assms(2)] by simp
  then have p: "plain (envelope_to_json ?e)" using assms(1) by (intro plain_envelope) simp_all
  then have "createPaymentSignature E opt i resource = Inr (base64url (utf8_encode (json_text (envelope_to_json ?e))))"
    using assms(2-5) encode_plain [OF p] axios_encode_same [of "envelope_to_json ?e"] stringify_plain [OF p]
    by (simp add: createPaymentSignature_def)
  with parse_envelope_text [of ?e X] assms(1) a show ?thesis by simp
qed

end
