(* ===== verification/Express_Properties.thy ===== *)
theory Express_Properties
  imports Settlement_Flow Offer_Size Prepaid_Purchase Axios_Interceptor Payment_Samples
begin

text \<open>
  The properties of HTTP payments: what unlocks a protected route and what the 402 answer of the settlement
  middleware promises, a purchase from the offer to the unlocked request, the payment middleware and the
  client that pays it, and the header encodings. The witnesses run one purchase of the sample resource
  on the SQLite store.
\<close>

subsection \<open>A server and a request\<close>

definition sample_express :: express_env where
  "sample_express = \<lparr>xe_runtime = sample_runtime, xe_url = (\<lambda>u base. Some (''/report'', [])), xe_num = (\<lambda>s. NNaN),
     xe_parse_wide = (\<lambda>b. Inl (PlainError ''not JSON'')), xe_collate = (\<lambda>s. s), xe_issues = (\<lambda>v. [])\<rparr>"

definition sample_engine_ops :: sqlite_engine where
  "sample_engine_ops = \<lparr>sq_report = (\<lambda>cs. hd cs), sq_resolve = (\<lambda>p. p), sq_open = (\<lambda>p. Inr ()),
     sq_database_list = (\<lambda>p. Inr [(JStr ''main'', JStr p)])\<rparr>"

definition sample_store :: "table settlement_store" where
  "sample_store = \<lparr>ss_isDurable = True, ss_issue = sqlite_issue sample_engine_ops,
     ss_issueWithAllocation = sqlite_issueWithAllocation sample_runtime sample_engine_ops,
     ss_getByInvoiceHash = sqlite_getByInvoiceHash, ss_commitPaid = sqlite_commitPaid sample_engine_ops\<rparr>"

definition sample_settlement :: "table settlement_config" where
  "sample_settlement = \<lparr>sm_publicOrigin = ''https://shop.example'', sm_payTo = None,
     sm_payToAllocator = Some sample_allocator,
     sm_routes = [(''GET /report'', \<lparr>rc_amountSats = ''546'', rc_description = None\<rparr>)],
     sm_store = sample_store, sm_txProvider = GetTx (\<lambda>t. Inr (Some sample_tx)), sm_expirySeconds = Some 100,
     sm_addressToScript = None, sm_allowInsecureDevelopmentMode = None\<rparr>"

definition sample_route :: protected_route where
  "sample_route = \<lparr>pr_method = ''GET'', pr_path = ''/report'', pr_amountSats = ''546'', pr_description = None\<rparr>"

definition sample_server :: "table settlement_server" where
  "sample_server = \<lparr>sv_config = sample_settlement, sv_publicOrigin = ''https://shop.example'',
     sv_routes = [(''GET /report'', sample_route)], sv_staticPayTo = None, sv_expirySeconds = 100\<rparr>"

definition sample_http :: "string \<Rightarrow> http_request" where
  "sample_http m = \<lparr>rq_method = m, rq_path = ''/Report/'', rq_originalUrl = ''/Report/'', rq_url = ''/Report/'',
     rq_body = JUndef, rq_get = (\<lambda>h. None), rq_headers = (\<lambda>h. None)\<rparr>"

lemma sample_server_new:
  "createX402SettlementMiddleware sample_runtime sample_codec None sample_settlement = Inr sample_server"
proof -
  have "insecure_mode None sample_settlement = False" by (simp add: insecure_mode_def)
  moreover have "production_guards sample_settlement = Inr ()"
    by (simp add: production_guards_def sample_settlement_def sample_store_def)
  moreover have "normalizeServerOrigin sample_runtime ''https://shop.example'' = Inr ''https://shop.example''" by code_simp
  moreover have "settlement_parseRoutes [(''GET /report'', \<lparr>rc_amountSats = ''546'', rc_description = None\<rparr>)] =
      Inr [(''GET /report'', sample_route)]" by code_simp
  ultimately show ?thesis
    by (simp add: createX402SettlementMiddleware_def given_payTo_def sample_settlement_def sample_server_def)
qed

lemma sample_protected: "protecting_route sample_server (sample_http ''get'') = Inr (Some sample_route)"
  by code_simp

text \<open>The answer to a first request: an invoice for 546 satoshis, and its offer in a header.\<close>

definition sample_random :: string where
  "sample_random = from_base64 sample_nonce"

lemma sample_random_nonce: "base64url sample_random = sample_nonce"
  by code_simp

definition sample_offer :: payment_offer where
  "sample_offer = offer_of sample_route sample_invoice (hex64 CHR ''0'')"

definition sample_issue :: issue_params where
  "sample_issue = \<lparr>ip_nonce = sample_nonce, ip_resourceHash = hex64 CHR ''0'', ip_amountSats = 546,
     ip_network = Some XEC_MAINNET, ip_scheme = Some XEC_SCHEME, ip_issuedAt = 100, ip_expiresAt = 200,
     ip_state = Some ISSUED\<rparr>"

definition sample_row :: invoice_row where
  "sample_row = recordToRow (allocated_record sample_issue (hex64 CHR ''0'') sample_address 0) 0"

lemma sample_issuance:
  "computeResourceHash sample_runtime r = Inr (hex64 CHR ''0'') \<Longrightarrow>
   issue_invoice sample_runtime sample_server 100 sample_random r sample_route [] =
     (Inr (sample_invoice, hex64 CHR ''0''), [sample_row])"
proof -
  note sample_random_nonce
  moreover have "parseAmountSats ''546'' = Inr 546" by code_simp
  moreover have "sqlite_issueWithAllocation sample_runtime sample_engine_ops [] sample_issue sample_allocator =
      (Inr (allocated_record sample_issue (hex64 CHR ''0'') sample_address 0, sample_invoice), [sample_row])" by code_simp
  moreover assume "computeResourceHash sample_runtime r = Inr (hex64 CHR ''0'')"
  ultimately show ?thesis
    by (simp add: issue_invoice_def sample_server_def sample_settlement_def sample_store_def
        sample_route_def sample_issue_def [symmetric] allocated_record_def Let_def)
qed

lemma sample_offer_valid: "offer_valid sample_runtime sample_offer"
proof -
  have "computeInvoiceHash sample_runtime sample_invoice = Inr (hex64 CHR ''0'')"
    by (simp add: computeInvoiceHash_text sample_invoice_valid sha256Hex_def sample_runtime_def)
  moreover have "is_hash (hex64 CHR ''0'')" by code_simp
  ultimately show ?thesis by (simp add: offer_valid_def sample_offer_def offer_of_def sample_invoice_valid)
qed

lemma sample_offer_fits: "length (offer_header sample_offer) \<le> MAX_X402_PAYMENT_OFFER_HEADER_LENGTH"
  by (intro offer_header_fits [OF sample_offer_valid])
    (simp add: offer_bytes_def sample_offer_def offer_of_def sample_route_def sample_invoice_def
      sample_address_def)

lemma sample_answer:
  "\<exists>body. handle_settlement sample_express sample_codec sample_server 100 sample_random (sample_http ''get'') [] =
     (Inr (Respond 402 [(''payment-required'', ''true''), (X402_PAYMENT_OFFER_HEADER, offer_header sample_offer)] body),
      [sample_row])"
proof -
  have "is_multipart (sample_http ''get'') = False" "rq_body (sample_http ''get'') = JUndef"
    "requestIndicatesBody (sample_http ''get'') = False" "proof_headers (sample_http ''get'') = []"
    by code_simp+
  moreover obtain r where r: "settlement_resource sample_express (sample_http ''get'') ''https://shop.example'' = Inr r"
    "computeResourceHash sample_runtime r = computeResourceHash sample_runtime sample_request"
    by (rule that [of "sample_request\<lparr>res_method := ''GET''\<rparr>"]) code_simp+
  moreover have "issue_invoice sample_runtime sample_server 100 sample_random r sample_route [] =
      (Inr (sample_invoice, hex64 CHR ''0''), [sample_row])"
    using sample_issuance r(2) sample_resource_hash by simp
  moreover have "encodePaymentOfferHeader sample_runtime xs (offer_to_json sample_offer) = Inr (offer_header sample_offer)" for xs
    using encode_valid_offer [OF sample_offer_valid] sample_offer_fits by simp
  moreover have "sv_publicOrigin sample_server = ''https://shop.example''" "xe_runtime sample_express = sample_runtime"
    by (simp_all add: sample_server_def sample_express_def)
  ultimately show ?thesis
    by (simp add: handle_settlement_alt sample_protected serve_protected_def respond_402_def sample_offer_def [symmetric])
qed

subsection \<open>The settlement middleware\<close>

text \<open>C14: The settlement middleware unlocks a request exactly where a route protects it, its body was parsed and is
  not multipart, it carries one proof header, and the proof has the evidence that the invoice it names
  was issued for this resource and is paid, which the store commits.\<close>

theorem settlement_unlock_iff:
  "fst (handle_settlement X L SV now random request s) = Inr (Unlock r pf i tx idem) \<longleftrightarrow>
     (\<exists>route resource raw v invoice.
        protecting_route SV request = Inr (Some route) \<and>
        \<not> is_multipart request \<and> \<not> (rq_body request = JUndef \<and> requestIndicatesBody request) \<and>
        settlement_resource X request (sv_publicOrigin SV) = Inr resource \<and>
        proof_headers request = [raw] \<and> parseProofHeader X raw = Inr v \<and> parse_proof v = Some pf \<and>
        ss_getByInvoiceHash (sm_store (sv_config SV)) s (prf_invoiceHash pf) = Some invoice \<and>
        (\<exists>t. settlement_evidence
           \<lparr>se_runtime = xe_runtime X, se_codec = L, se_target = sm_txProvider (sv_config SV),
            se_proof_issues = xe_issues X\<rparr>
           \<lparr>so_proof = v, so_expectedResource = Some resource, so_now = JNum (NInt now),
            so_addressToScript = sm_addressToScript (sv_config SV)\<rparr> invoice pf i tx t \<and>
         fst (ss_commitPaid (sm_store (sv_config SV)) s (prf_invoiceHash pf) (prf_txid pf) t) = Inr (Committed idem r)))"
  by (rule unlock_evidence)

text \<open>C7: A middleware that was created never passes a request for a configured route on without a settlement,
  whatever the case of the path, its trailing slashes or a HEAD in place of a GET; outside the insecure
  development mode its store is durable, its addresses are allocated, and its scripts are decoded.\<close>

theorem configured_routes_guarded:
  assumes "createX402SettlementMiddleware E L node_env config = Inr SV" "(key, rc) \<in> set (sm_routes config)"
    and "split_route key = Some (m, p)" "normalizeMethod m = Inr route_method"
    and "normalizeMethod (rq_method request) = Inr method" "served_by route_method method"
    and "same_path p (rq_path request)" "ok (validatePath (rq_path request))"
  shows "fst (handle_settlement X L SV now random request s) \<noteq> Inr PassThrough \<and>
    (insecure_mode node_env config \<or>
     (ss_isDurable (sm_store config) \<and> sm_payToAllocator config \<noteq> None \<and> sm_addressToScript config = None))"
proof -
  note c = create_settlement_Inr [OF assms(1)]
  from configured_request_protected [OF c(2) assms(2-8)] obtain route
    where "protecting_route SV request = Inr (Some route)" ..
  then show ?thesis using c(4) by (simp add: pass_through_iff)
qed

theorem configured_routes_guarded_witness:
  "fst (handle_settlement sample_express sample_codec sample_server 100 sample_random (sample_http ''head'') []) \<noteq>
     Inr PassThrough"
proof -
  have k: "split_route ''GET /report'' = Some (''GET'', ''/report'')" "normalizeMethod ''GET'' = Inr ''GET''"
    "normalizeMethod (rq_method (sample_http ''head'')) = Inr ''HEAD''" "served_by ''GET'' ''HEAD''"
    "same_path ''/report'' (rq_path (sample_http ''head''))" "ok (validatePath (rq_path (sample_http ''head'')))"
    by code_simp+
  have "(''GET /report'', \<lparr>rc_amountSats = ''546'', rc_description = None\<rparr>) \<in> set (sm_routes sample_settlement)"
    by (simp add: sample_settlement_def)
  from configured_routes_guarded [OF sample_server_new this k] show ?thesis by blast
qed

lemma sample_uses:
  "uses_store sqlite_getByInvoiceHash (sqlite_issue sample_engine_ops)
     (sqlite_issueWithAllocation sample_runtime sample_engine_ops) (sqlite_commitPaid sample_engine_ops) sample_server"
  by (simp add: uses_store_def sample_server_def sample_settlement_def sample_store_def)

lemma sample_no_proof: "proof_headers (sample_http ''get'') = []"
  by code_simp

text \<open>C15: A 402 answer over the SQLite store carries in its header an offer for the requested resource at the
  route's price, which a client decodes as it was made, and whose invoice is new in the store, issued
  and with the offer's terms.\<close>

theorem offers_are_backed:
  assumes "uses_store sqlite_getByInvoiceHash (sqlite_issue Q) (sqlite_issueWithAllocation E Q) (sqlite_commitPaid Q) SV"
    and "sqlite_invar T" "xe_runtime X = E" "protecting_route SV request = Inr (Some route)"
    and "proof_headers request = []" "handle_settlement X L SV now random request T = (Inr (Respond 402 hs body), T')"
  shows "\<exists>resource encoded i h. settlement_resource X request (sv_publicOrigin SV) = Inr resource \<and>
    map_of hs X402_PAYMENT_OFFER_HEADER = Some encoded \<and>
    decodePaymentOfferHeader E issues num encoded = Inr (offer_of route i h) \<and>
    computeResourceHash E resource = Inr (inv_resourceHash i) \<and> inv_amountSats i = pr_amountSats route \<and>
    sqlite_invar T' \<and> sqlite_getByInvoiceHash T h = None \<and>
    (\<exists>r. sqlite_getByInvoiceHash T' = (sqlite_getByInvoiceHash T)(h \<mapsto> r) \<and> backed_by r i h)"
  by (rule sqlite.no_proof_offers [OF assms])

theorem offers_are_backed_witness:
  "\<exists>encoded i h. decodePaymentOfferHeader sample_runtime (\<lambda>v. []) (\<lambda>s. NNaN) encoded = Inr (offer_of sample_route i h) \<and>
     inv_amountSats i = ''546'' \<and> sqlite_getByInvoiceHash [] h = None"
proof -
  obtain body where "handle_settlement sample_express sample_codec sample_server 100 sample_random (sample_http ''get'') [] =
     (Inr (Respond 402 [(''payment-required'', ''true''), (X402_PAYMENT_OFFER_HEADER, offer_header sample_offer)] body),
      [sample_row])" using sample_answer by blast
  from offers_are_backed [OF sample_uses sqlite_invar_empty _ sample_protected sample_no_proof this, of "\<lambda>v. []" "\<lambda>s. NNaN"]
  show ?thesis by (auto simp: sample_express_def sample_route_def)
qed

text \<open>C4: A purchase over HTTP on the SQLite store: a client that decodes the offer of a 402 answer, pays its address
  exactly its amount with a transaction not used before, and repeats the request with the proof in a
  header before the offer expires, is unlocked.\<close>

theorem purchase_unlocks:
  assumes "uses_store sqlite_getByInvoiceHash (sqlite_issue Q) (sqlite_issueWithAllocation E Q) (sqlite_commitPaid Q) SV"
    and "sqlite_invar T" "xe_runtime X = E" "protecting_route SV request = Inr (Some route)"
    and "proof_headers request = []" "handle_settlement X L SV now random request T = (Inr (Respond 402 hs body), T')"
    and "map_of hs X402_PAYMENT_OFFER_HEADER = Some encoded"
    and "decodePaymentOfferHeader E issues num encoded = Inr offer"
    and "paid_on_chain L (sm_addressToScript (sv_config SV)) (sm_txProvider (sv_config SV)) offer txid tx i"
    and "\<forall>k. \<not> settled_by (sqlite_getByInvoiceHash T) k txid"
    and "0 \<le> later" "later \<le> max_safe_integer" "inv_issuedAt (po_invoice offer) \<le> later"
      "later < inv_expiresAt (po_invoice offer)"
  shows "\<exists>r. fst (handle_settlement X L SV later random' (proof_request request (proof_of offer txid)) T') =
    Inr (Unlock r (proof_of offer txid) i tx False)"
  by (rule sqlite.paid_offer_unlocks [OF assms])

lemma sample_paid_on_chain:
  "paid_on_chain sample_codec None (GetTx (\<lambda>t. Inr (Some sample_tx))) sample_offer (hex64 CHR ''1'') sample_tx 1"
proof -
  have "is_hash (hex64 CHR ''1'')" "toLowerCase (hex64 CHR ''1'') = hex64 CHR ''1''" "tx_settled sample_tx"
    "observed_at sample_tx = Some 120" "BigInt_of ''546'' = 546" "ok (decodeCashAddress sample_codec sample_address)"
    "cashAddressToOutputScriptHex sample_codec sample_address = Inr sample_script"
    "toLowerCase sample_script = sample_script" "toLowerCase ''6a'' \<noteq> sample_script"
    by code_simp+
  moreover have "fetchChronikTx (GetTx (\<lambda>t. Inr (Some sample_tx))) (hex64 CHR ''1'') = Inr (Some sample_tx)"
    by code_simp
  moreover have "po_payTo sample_offer = sample_address" "po_amountSats sample_offer = ''546''"
    "inv_issuedAt (po_invoice sample_offer) = 100"
    by (simp_all add: sample_offer_def offer_of_def sample_invoice_def)
  ultimately show ?thesis
    by (simp add: paid_on_chain_def script_of_invoice_def pays_def TEMPORAL_FENCE_TOLERANCE_SECONDS_def)
      (auto simp: sample_tx_def)
qed

theorem purchase_unlocks_witness:
  "\<exists>r. fst (handle_settlement sample_express sample_codec sample_server 150 [] 
      (proof_request (sample_http ''get'') (proof_of sample_offer (hex64 CHR ''1''))) [sample_row]) =
    Inr (Unlock r (proof_of sample_offer (hex64 CHR ''1'')) 1 sample_tx False)"
proof -
  obtain body where a: "handle_settlement sample_express sample_codec sample_server 100 sample_random (sample_http ''get'') [] =
     (Inr (Respond 402 [(''payment-required'', ''true''), (X402_PAYMENT_OFFER_HEADER, offer_header sample_offer)] body),
      [sample_row])" using sample_answer by blast
  have d: "decodePaymentOfferHeader sample_runtime (\<lambda>v. []) (\<lambda>s. NNaN) (offer_header sample_offer) = Inr sample_offer"
    using decode_offer_iff sample_offer_valid sample_offer_fits by blast
  have p: "paid_on_chain sample_codec (sm_addressToScript (sv_config sample_server)) (sm_txProvider (sv_config sample_server))
      sample_offer (hex64 CHR ''1'') sample_tx 1"
    using sample_paid_on_chain by (simp add: sample_server_def sample_settlement_def)
  have "\<forall>k. \<not> settled_by (sqlite_getByInvoiceHash []) k (hex64 CHR ''1'')"
    by (simp add: settled_by_iff [OF sqlite_invar_empty])
  then show ?thesis
    by (intro purchase_unlocks [OF sample_uses sqlite_invar_empty _ sample_protected sample_no_proof a _ d p])
      (simp_all add: sample_express_def X402_PAYMENT_OFFER_HEADER_def sample_offer_def offer_of_def
        sample_invoice_def max_safe_integer_def)
qed

subsection \<open>The headers\<close>

text \<open>C34: \<open>decodePaymentOfferHeader\<close> accepts exactly the headers that \<open>encodePaymentOfferHeader\<close> makes of a valid
  offer within the length limit, and gives that offer back: an offer has one header and a header one offer.\<close>

theorem offer_roundtrip:
  "decodePaymentOfferHeader E issues num s = Inr p \<longleftrightarrow>
     offer_valid E p \<and> encodePaymentOfferHeader E issues' (offer_to_json p) = Inr s"
proof
  assume "decodePaymentOfferHeader E issues num s = Inr p"
  then show "offer_valid E p \<and> encodePaymentOfferHeader E issues' (offer_to_json p) = Inr s"
    using decode_offer_iff [THEN iffD1] encode_valid_offer by blast
next
  assume "offer_valid E p \<and> encodePaymentOfferHeader E issues' (offer_to_json p) = Inr s"
  then show "decodePaymentOfferHeader E issues num s = Inr p"
    using decode_offer_iff [THEN iffD2] encode_valid_offer by blast
qed

text \<open>C38: The server can always emit an offer whose amount has at most 21 digits, whose address at most 64
  characters and whose description at most 350: its header fits the limit of 4096 characters.\<close>

theorem offer_always_fits:
  assumes "offer_valid E p" "length (po_amountSats p) \<le> 21" "length (po_payTo p) \<le> 64"
    and "po_description p = None \<or> (\<exists>d. po_description p = Some d \<and> length d \<le> 350)"
  shows "encodePaymentOfferHeader E issues (offer_to_json p) = Inr (offer_header p) \<and> length (offer_header p) \<le> 4096"
proof -
  have "offer_bytes p \<le> 3071" using assms(2-4) by (auto simp: offer_bytes_def)
  from offer_header_fits [OF assms(1) this] show ?thesis
    using encode_valid_offer [OF assms(1)] by (simp add: MAX_X402_PAYMENT_OFFER_HEADER_LENGTH_def)
qed

theorem offer_always_fits_witness:
  "encodePaymentOfferHeader sample_runtime (\<lambda>v. []) (offer_to_json sample_offer) = Inr (offer_header sample_offer) \<and>
   length (offer_header sample_offer) \<le> 4096"
  by (rule offer_always_fits [OF sample_offer_valid])
    (simp_all add: sample_offer_def offer_of_def sample_route_def sample_invoice_def sample_address_def)

text \<open>C39: The payment header survives its way between the packages: for every valid invoice and
  authorization, the encoder of the Axios client (UTF-8, \<open>btoa\<close>, replaced characters) and that of the offline
  payment preparer (\<open>Buffer\<close>) give one header, all of whose characters are base64url, and the payment
  middleware reads exactly this invoice and this authorization back from it.\<close>

theorem payment_header_roundtrip:
  assumes "invoice_valid i" "authorization_valid a"
  shows "\<exists>header. axios_encodeBase64UrlJson (envelope_to_json \<lparr>env_invoice = i, env_authorization = a\<rparr>) = Inr header \<and>
    encodeBase64UrlJson (envelope_to_json \<lparr>env_invoice = i, env_authorization = a\<rparr>) = Inr header \<and>
    list_all is_base64url header \<and>
    parsePaymentEnvelope X header =
      Inr \<lparr>re_invoice = i, re_authorization = a, re_idempotencyKey = None\<rparr>"
proof -
  let ?e = "\<lparr>env_invoice = i, env_authorization = a\<rparr>"
  have plain: "plain (envelope_to_json ?e)" using assms by (simp add: plain_envelope)
  then have "axios_encodeBase64UrlJson (envelope_to_json ?e) = encodeBase64UrlJson (envelope_to_json ?e)"
    by (simp add: axios_encode_same stringify_plain)
  moreover have "parsePaymentEnvelope X (base64url (utf8_encode (json_text (envelope_to_json ?e)))) =
      Inr \<lparr>re_invoice = i, re_authorization = a, re_idempotencyKey = None\<rparr>"
    using parse_envelope_text [of ?e X] assms by simp
  ultimately show ?thesis by (simp add: encode_plain [OF plain] base64url_chars)
qed

theorem payment_header_roundtrip_witness:
  "\<exists>header. parsePaymentEnvelope sample_express header =
    Inr \<lparr>re_invoice = sample_invoice, re_authorization = sample_authorization, re_idempotencyKey = None\<rparr>"
  using payment_header_roundtrip [OF sample_invoice_valid sample_authorization_valid] by blast

subsection \<open>A payment server\<close>

definition sample_payment :: route_payment_config where
  "sample_payment = \<lparr>rp_amountSats = ''546'', rp_description = None, rp_asset = ''XEC'', rp_network = ''xec:mainnet'',
     rp_scheme = ''xec-prepaid-utxo''\<rparr>"

text \<open>Its facilitator starts with an empty ledger, on a chain that has the funding transaction.\<close>

definition sample_chain :: tx_provider where
  "sample_chain = (\<lambda>t. Inr (Some \<lparr>ctx_txid = JStr t,
     ctx_outputs = Some [\<lparr>out_sats = 546, out_outputScript = sample_script, out_token = JUndef\<rparr>],
     ctx_block = JUndef, ctx_isFinal = JBool True, ctx_timeFirstSeen = JNum (NInt 120)\<rparr>))"

definition sample_receive :: "string \<Rightarrow> received" where
  "sample_receive body = (case JSON_parse (\<lambda>s. NNaN) body of
     Inr v \<Rightarrow> if isRecord v then Received v else NotJson
   | Inl _ \<Rightarrow> NotJson)"

definition sample_verifier :: signature_verifier where
  "sample_verifier = (\<lambda>payer message signature. Inr (signature = ''sig''))"

definition sample_fetch :: fetcher where
  "sample_fetch = facilitator_fetch sample_receive sample_runtime sample_chain sample_verifier (NInt 150) ledger_empty"

definition sample_href :: "string \<Rightarrow> string \<Rightarrow> string" where
  "sample_href base path = ''https://shop.example'' @ path"

definition sample_payment_config :: payment_middleware_config where
  "sample_payment_config = \<lparr>pm_publicOrigin = ''https://shop.example'', pm_facilitatorUrl = ''https://shop.example'',
     pm_payTo = sample_address, pm_routes = [(''get /Report/'', sample_payment)], pm_expirySeconds = Some (NInt 100),
     pm_maxPaymentHeaderBytes = None, pm_fetch = Some sample_fetch\<rparr>"

definition sample_payment_server :: payment_server where
  "sample_payment_server = \<lparr>ps_publicOrigin = ''https://shop.example'',
     ps_facilitatorVerifyUrl = ''https://shop.example/facilitator/verify'',
     ps_routes = [(''GET /Report/'', \<lparr>pq_method = ''GET'', pq_path = ''/Report/'', pq_payment = sample_payment,
       pq_amountSats = 546\<rparr>)],
     ps_payTo = sample_address, ps_expirySeconds = 100, ps_maxPaymentHeaderBytes = 16384, ps_fetch = sample_fetch\<rparr>"

lemma sample_payment_new:
  "createX402XecMiddleware sample_runtime sample_href sample_payment_config = Inr sample_payment_server"
proof -
  have "normalizeServerOrigin sample_runtime ''https://shop.example'' = Inr ''https://shop.example''"
    "resolveFacilitatorVerifyUrl sample_runtime sample_href ''https://shop.example'' =
       Inr ''https://shop.example/facilitator/verify''"
    "payment_parseRoutes [(''get /Report/'', sample_payment)] = Inr (ps_routes sample_payment_server)"
    "is_address sample_address" "positiveInteger (NInt 100) ''expirySeconds'' = Inr 100"
    "positiveInteger (NInt DEFAULT_MAX_PAYMENT_HEADER_BYTES) ''maxPaymentHeaderBytes'' = Inr 16384"
    by code_simp+
  then show ?thesis by (simp add: createX402XecMiddleware_def sample_payment_config_def sample_payment_server_def)
qed

text \<open>This middleware looks a route up by the very path and method: another case of the path, or HEAD, which
  Express serves by the GET route, is passed on unpaid, unlike by the settlement middleware.\<close>

lemma unpaid_lookalikes:
  "snd (handle_payment X sample_payment_server now random (sample_http ''get''\<lparr>rq_path := ''/report/''\<rparr>)) = Inr PassUnprotected"
  "snd (handle_payment X sample_payment_server now random (sample_http ''head'')) = Inr PassUnprotected"
proof -
  have "routeKey ''get'' ''/report/'' = Inr ''GET /report/''" "routeKey ''head'' ''/Report/'' = Inr ''HEAD /Report/''"
    by code_simp+
  then show "snd (handle_payment X sample_payment_server now random (sample_http ''get''\<lparr>rq_path := ''/report/''\<rparr>)) =
      Inr PassUnprotected"
    "snd (handle_payment X sample_payment_server now random (sample_http ''head'')) = Inr PassUnprotected"
    by (simp_all add: handle_payment_def sample_http_def sample_payment_server_def)
qed

lemma sample_payment_requests:
  "routeKey (rq_method (sample_http ''get'')) (rq_path (sample_http ''get'')) = Inr ''GET /Report/''"
  "payment_resource sample_express (sample_http ''get'') ''https://shop.example'' =
     Inr (sample_request\<lparr>res_method := ''GET'', res_path := ''/Report/''\<rparr>)"
  by code_simp+

abbreviation bought_resource :: resource_request where
  "bought_resource \<equiv> sample_request\<lparr>res_method := ''GET'', res_path := ''/Report/''\<rparr>"

lemma bought_resource_hash: "computeResourceHash sample_runtime bought_resource = Inr (hex64 CHR ''0'')"
  by code_simp

lemma sample_402:
  "\<exists>body. snd (handle_payment sample_express sample_payment_server (NInt 100) sample_random (sample_http ''get'')) =
     Inr (PaymentResponse 402 body) \<and> prop_of body ''invoice'' = invoice_to_json sample_invoice"
proof -
  have i: "createInvoice sample_runtime \<lparr>cin_request = bought_resource, cin_amountSats = 546, cin_payTo = sample_address,
      cin_nonce = base64url sample_random, cin_issuedAt = 100, cin_expiresAt = 100 + 100\<rparr> = Inr sample_invoice"
    unfolding createInvoice_Inr sample_random_nonce
    using bought_resource_hash sample_invoice_valid by (simp add: sample_invoice_def) code_simp
  have "safe_nonneg (NInt 100) = Some 100" by code_simp
  moreover have "rq_get (sample_http ''get'') PAYMENT_HEADER = None" by (simp add: sample_http_def)
  ultimately show ?thesis
    using sample_payment_requests i sample_invoice_hash
    by (simp add: handle_payment_def sample_payment_server_def checkedNow_def payment_required_def
        sample_express_def prop_of_def)
qed

lemma sample_bought: "prepared_ok sample_runtime sample_lib sample_preparer 600 (invoice_to_json sample_invoice)
    bought_resource sample_prepared_payment"
  using sample_preparer_ok bought_resource_hash sample_resource_hash by (simp add: prepared_ok_def)

lemma sample_header_size:
  "int (length (utf8_encode (pp_paymentSignature sample_prepared_payment))) \<le> ps_maxPaymentHeaderBytes sample_payment_server"
proof -
  let ?v = "envelope_to_json \<lparr>env_invoice = sample_invoice, env_authorization = sample_signed\<rparr>"
  have "text_bytes ?v \<le> 12000" by code_simp
  moreover have "list_all (\<lambda>c. code c < 128) s" if "list_all is_base64url s" for s
    using that by (auto simp: list_all_iff char_class_defs is_base64url_def)
  then have "utf8_encode (pp_paymentSignature sample_prepared_payment) = pp_paymentSignature sample_prepared_payment"
    by (intro utf8_encode_ascii) (simp add: sample_prepared_payment_def base64url_chars)
  ultimately show ?thesis
    using length_base64url_le [of "utf8_encode (json_text ?v)"]
    by (simp add: sample_prepared_payment_def sample_payment_server_def text_bytes_correct)
qed

lemma sample_receives: "receives (\<lambda>s. NNaN) sample_receive"
  by (simp add: receives_def sample_receive_def)

lemma sample_hex: "hex_hashes sample_runtime"
proof -
  have "is_hash (hex64 CHR ''0'')" by code_simp
  then show ?thesis by (simp add: hex_hashes_def sample_runtime_def)
qed

lemma sample_ready:
  "facilitator_ready sample_runtime sample_chain sample_verifier ledger_empty 150 sample_invoice sample_signed key"
proof -
  obtain m where "authorizationSigningMessage sample_signed = Inr m" using authorizationSigningMessage_total by blast
  moreover have "inv_issuedAt sample_invoice = 100" "inv_expiresAt sample_invoice = 200"
    "dec_to_nat (inv_amountSats sample_invoice) = 546" "auth_signature sample_signed = ''sig''"
    "ref_vout (auth_transaction sample_signed) = 0" by code_simp+
  moreover have "lg_nonces ledger_empty = []" "lg_idempotency ledger_empty = []" "lg_accounts ledger_empty = []"
    by (simp_all add: ledger_empty_def)
  ultimately show ?thesis
    by (simp add: facilitator_ready_def ledger_invar_empty funded_on_chain_def sample_chain_def sample_verifier_def
        funds_def tx_settled_def array_get_def unexpired_def Let_def)
qed

lemma sample_request_size:
  "text_bytes (request_json sample_invoice sample_signed (resource_to_json bought_resource)
     (envelope_key sample_runtime sample_signed)) \<le> 65536"
proof -
  obtain k where k: "canonicalHash (rt_sha256 sample_runtime) (authorization_to_json sample_signed) = Inr k"
    "envelope_key sample_runtime sample_signed = ''x402-'' @ k"
    using envelope_key_ok [OF sample_hex sample_signed_valid] by blast
  then have "k = hex64 CHR ''0''"
    by (auto simp: canonicalHash_def ebind_Inr_iff sha256Hex_def sample_runtime_def)
  moreover have "text_bytes (request_json sample_invoice sample_signed (resource_to_json bought_resource)
      (''x402-'' @ hex64 CHR ''0'')) \<le> 12000" by code_simp
  ultimately show ?thesis using k(2) by simp
qed

text \<open>The purchase, as the facts that the lemmas on purchases ask for.\<close>

definition sample_body :: js_value where
  "sample_body = (case snd (handle_payment sample_express sample_payment_server (NInt 100) sample_random (sample_http ''get''))
     of Inr (PaymentResponse _ body) \<Rightarrow> body | _ \<Rightarrow> JUndef)"

lemma sample_answered:
  "snd (handle_payment sample_express sample_payment_server (NInt 100) sample_random (sample_http ''get'')) =
     Inr (PaymentResponse 402 sample_body)"
  "snd (prepare_payment sample_runtime sample_lib (\<lambda>v. []) sample_preparer 600 (prop_of sample_body ''invoice'') bought_resource) =
     Inr sample_prepared_payment"
proof -
  obtain body where body: "snd (handle_payment sample_express sample_payment_server (NInt 100) sample_random (sample_http ''get'')) =
     Inr (PaymentResponse 402 body)" "prop_of body ''invoice'' = invoice_to_json sample_invoice" using sample_402 by blast
  moreover from body(1) have "sample_body = body" by (simp add: sample_body_def)
  ultimately show
    "snd (handle_payment sample_express sample_payment_server (NInt 100) sample_random (sample_http ''get'')) =
       Inr (PaymentResponse 402 sample_body)"
    "snd (prepare_payment sample_runtime sample_lib (\<lambda>v. []) sample_preparer 600 (prop_of sample_body ''invoice'') bought_resource) =
       Inr sample_prepared_payment"
    using sample_bought by (simp_all add: prepare_payment_iff)
qed

lemma sample_parts:
  "xe_runtime sample_express = sample_runtime" "rq_get (sample_http ''get'') PAYMENT_HEADER = None"
  "rq_body (sample_http ''get'') = JUndef \<or> plain (rq_body (sample_http ''get''))"
  "payment_resource sample_express (sample_http ''get'') (ps_publicOrigin sample_payment_server) = Inr bought_resource"
  "ps_fetch sample_payment_server =
     facilitator_fetch sample_receive sample_runtime sample_chain sample_verifier (NInt 150) ledger_empty"
  using sample_payment_requests(2)
  by (simp_all add: sample_express_def sample_http_def sample_payment_server_def sample_fetch_def)

lemma sample_clock:
  "safe_nonneg (NInt 150) = Some 150" "inv_issuedAt (env_invoice (pp_envelope sample_prepared_payment)) \<le> 150"
  "150 < inv_expiresAt (env_invoice (pp_envelope sample_prepared_payment))"
  by (code_simp, simp_all add: sample_prepared_payment_def sample_invoice_def)

lemma sample_at_facilitator:
  "facilitator_ready sample_runtime sample_chain sample_verifier ledger_empty 150 (env_invoice (pp_envelope sample_prepared_payment))
     (env_authorization (pp_envelope sample_prepared_payment))
     (envelope_key sample_runtime (env_authorization (pp_envelope sample_prepared_payment)))"
  "text_bytes (request_json (env_invoice (pp_envelope sample_prepared_payment))
     (env_authorization (pp_envelope sample_prepared_payment)) (resource_to_json bought_resource)
     (envelope_key sample_runtime (env_authorization (pp_envelope sample_prepared_payment)))) \<le> 65536"
proof -
  have "env_invoice (pp_envelope sample_prepared_payment) = sample_invoice"
    "env_authorization (pp_envelope sample_prepared_payment) = sample_signed"
    by (simp_all add: sample_prepared_payment_def)
  with sample_ready sample_request_size show
    "facilitator_ready sample_runtime sample_chain sample_verifier ledger_empty 150 (env_invoice (pp_envelope sample_prepared_payment))
       (env_authorization (pp_envelope sample_prepared_payment))
       (envelope_key sample_runtime (env_authorization (pp_envelope sample_prepared_payment)))"
    "text_bytes (request_json (env_invoice (pp_envelope sample_prepared_payment))
       (env_authorization (pp_envelope sample_prepared_payment)) (resource_to_json bought_resource)
       (envelope_key sample_runtime (env_authorization (pp_envelope sample_prepared_payment)))) \<le> 65536"
    by metis+
qed

lemmas sample_purchase = sample_payment_new sample_parts(1,2) sample_answered(1) sample_parts(4,3) sample_answered(2)
  sample_header_size sample_clock sample_parts(5) sample_receives sample_hex sample_clock(1) sample_at_facilitator

text \<open>C18: The payment middleware, for a request whose method and path are a key of its route table, either
  answers itself or passes the request on, and the latter only as verified: with one post to its facilitator
  about an envelope whose invoice is timely, for this resource, this price and this recipient, and is the
  one authorized; and the facilitator answered with a successful status, within the size limit, by JSON that
  says \<open>ok\<close> and \<open>VERIFIED\<close> (or \<open>isValid\<close>).\<close>

theorem payment_verified:
  assumes "routeKey (rq_method request) (rq_path request) = Inr key" "jget (ps_routes PS) key = Some route"
    and "snd (handle_payment X PS now random request) = Inr outcome"
      "\<nexists>status body. outcome = PaymentResponse status body"
  shows "\<exists>v resource header e t k body r text.
    outcome = Verified v \<and> payment_resource X request (ps_publicOrigin PS) = Inr resource \<and>
    rq_get request PAYMENT_HEADER = Some header \<and> parsePaymentEnvelope X header = Inr e \<and>
    safe_nonneg now = Some t \<and>
    envelope_accepted (xe_runtime X) e resource route (ps_payTo PS) (ps_expirySeconds PS) t \<and>
    facilitator_body e resource k = Inr body \<and>
    fst (handle_payment X PS now random request) = [PostFacilitator (ps_facilitatorVerifyUrl PS) body] \<and>
    ps_fetch PS (ps_facilitatorVerifyUrl PS) body = Inr r \<and> fr_ok r \<and> fr_text r = Inr text \<and>
    int (length (utf8_encode text)) \<le> MAX_FACILITATOR_RESPONSE_BYTES \<and> JSON_parse (xe_num X) text = Inr v \<and>
    (prop_of v ''ok'' = JBool True \<and> prop_of v ''status'' = JStr ''VERIFIED'' \<or> prop_of v ''isValid'' = JBool True)"
  by (rule handle_payment_passes [OF assms])

theorem payment_verified_witness:
  "\<exists>route e. envelope_accepted sample_runtime e bought_resource route sample_address 100 150"
proof -
  let ?request = "paid_request (sample_http ''get'') sample_prepared_payment"
  obtain route where route: "routeKey (rq_method ?request) (rq_path ?request) = Inr ''GET /Report/''"
    "jget (ps_routes sample_payment_server) ''GET /Report/'' = Some route"
  proof
    show "routeKey (rq_method ?request) (rq_path ?request) = Inr ''GET /Report/''"
      by (simp add: paid_request_def sample_http_def) code_simp
    show "jget (ps_routes sample_payment_server) ''GET /Report/'' = Some (hd (map snd (ps_routes sample_payment_server)))"
      by (simp add: sample_payment_server_def)
  qed
  have "payment_resource sample_express (paid_request (sample_http ''get'') sample_prepared_payment)
      (ps_publicOrigin sample_payment_server) = Inr bought_resource"
    using sample_parts(4) by (simp add: paid_request_def payment_resource_def split: option.splits prod.splits)
  moreover obtain v where "snd (handle_payment sample_express sample_payment_server (NInt 150) []
      (paid_request (sample_http ''get'') sample_prepared_payment)) = Inr (Verified v)"
    using prepaid_debited [OF sample_purchase, of "[]"] by (elim exE conjE) (metis snd_conv)
  ultimately show ?thesis
    using payment_verified [OF route, of sample_express "NInt 150" "[]" "Verified v"] sample_clock(1) sample_parts(1)
    by (fastforce simp: sample_payment_server_def)
qed

text \<open>C16: A prepaid purchase: where the payment middleware answers a request without a payment by 402, the offline
  preparer pays the invoice of that answer for that resource, and the request is repeated with the prepared
  header while the invoice is valid, the middleware posts it to the facilitator once; if the facilitator has the
  funding on chain, verifies the signature and has used neither nonce nor key before, it debits the
  invoice's amount to the payer in one new ledger entry, and the request passes as verified.\<close>

theorem prepaid_purchase:
  assumes "createX402XecMiddleware E href config = Inr PS" "xe_runtime X = E"
    and "rq_get request PAYMENT_HEADER = None"
      "snd (handle_payment X PS now random request) = Inr (PaymentResponse 402 body)"
    and "payment_resource X request (ps_publicOrigin PS) = Inr resource"
      "rq_body request = JUndef \<or> plain (rq_body request)"
    and "snd (prepare_payment E L issue P maximum (prop_of body ''invoice'') resource) = Inr pp"
    and "int (length (utf8_encode (pp_paymentSignature pp))) \<le> ps_maxPaymentHeaderBytes PS"
    and "safe_nonneg later = Some t" "inv_issuedAt (env_invoice (pp_envelope pp)) \<le> t"
      "t < inv_expiresAt (env_invoice (pp_envelope pp))"
    and "ps_fetch PS = facilitator_fetch receive E provider verify clock l" "receives num receive" "hex_hashes E"
    and "safe_nonneg clock = Some u"
      "facilitator_ready E provider verify l u (env_invoice (pp_envelope pp)) (env_authorization (pp_envelope pp))
         (envelope_key E (env_authorization (pp_envelope pp)))"
      "text_bytes (request_json (env_invoice (pp_envelope pp)) (env_authorization (pp_envelope pp)) (resource_to_json resource)
         (envelope_key E (env_authorization (pp_envelope pp)))) \<le> 65536"
  shows "\<exists>posted b l' entry.
    handle_payment X PS later random' (paid_request request pp) =
      ([PostFacilitator (ps_facilitatorVerifyUrl PS) posted], Inr (Verified (verify_response_json (VerifyOk b)))) \<and>
    app_verify E provider verify clock (receive posted) l = ((200, verify_response_json (VerifyOk b)), l') \<and>
    lg_entries l' = lg_entries l @ [entry] \<and> le_payTo entry = inv_payTo (env_invoice (pp_envelope pp)) \<and>
    parseAmountSats (inv_amountSats (env_invoice (pp_envelope pp))) = Inr (le_debitedSats entry) \<and>
    le_nonce entry = inv_nonce (env_invoice (pp_envelope pp)) \<and>
    le_payer entry = auth_payer (env_authorization (pp_envelope pp))"
  by (rule prepaid_debited [OF assms])

theorem prepaid_purchase_witness:
  "\<exists>posted b l'. app_verify sample_runtime sample_chain sample_verifier (NInt 150) (sample_receive posted) ledger_empty =
      ((200, verify_response_json (VerifyOk b)), l') \<and> length (lg_entries l') = 1"
  using prepaid_purchase [OF sample_purchase, of "[]"]
  by (elim exE conjE) (intro exI conjI, assumption, simp add: ledger_empty_def)

subsection \<open>The client's interceptor\<close>

text \<open>C20: The interceptor of the client asks for a payment exactly for the first failure with status 402 of a request
  whose answer carries a valid, timely offer for the requested resource within the limit, and repeats a request exactly
  where that payment was made, with its signature and marked as attempted; it does nothing else.\<close>

theorem interceptor_events:
  "ev \<in> set (fst (intercept A opt maximum repeat clock error)) \<longleftrightarrow>
     (\<exists>config i resource. pays_for A maximum clock error config i resource \<and>
        (ev = PayOffer i resource \<or>
         (\<exists>s. createPaymentSignature (ax_runtime A) opt i resource = Inr s \<and>
            ev = RepeatRequest (config\<lparr>ac_attempted := True, ac_signature := Some s\<rparr>))))"
  by (rule intercept_events)

end
