(* ===== verification/Wallet_Keys.thy ===== *)
theory Wallet_Keys
  imports Base64 Transactions
begin

text \<open>
  The signing keys of \<open>examples/manual-payment-cli/src\<close>: the two signers of \<open>wallet-signer.ts\<close> and the
  decoding of keys in \<open>cli.ts\<close>. Bytes are characters. The HD key library, the elliptic curve and the hash
  functions are parameters. The lemmas say that a signer signs until it is destroyed and never after, and
  that a key has one WIF text.
\<close>

subsection \<open>Signers\<close>

text \<open>\<open>kl_key mnemonic path\<close> is the private key that BIP39 and BIP32 derive, \<open>kl_nfkd\<close> is \<open>normalize("NFKD")\<close>,
  \<open>kl_address\<close> the address of a public key and \<open>kl_signMsg\<close> a signature in base64.\<close>

record 'k key_lib =
  kl_nfkd :: "string \<Rightarrow> string"
  kl_validMnemonic :: "string \<Rightarrow> bool"
  kl_key :: "string \<Rightarrow> string \<Rightarrow> string option result"
  kl_isValidSeckey :: "string \<Rightarrow> bool"
  kl_derivePubkey :: "string \<Rightarrow> string"
  kl_address :: "string \<Rightarrow> string"
  kl_signMsg :: "string \<Rightarrow> string \<Rightarrow> string"
  kl_signatory :: "string \<Rightarrow> string \<Rightarrow> 'k"
  kl_sha256 :: "string \<Rightarrow> string"

record wallet_signer =
  ws_address :: string
  ws_publicKey :: string
  ws_secretKey :: string
  ws_destroyed :: bool

definition TONALLI_DERIVATION_PATH :: string where
  "TONALLI_DERIVATION_PATH = ''m/44'' @ [CHR 0x27] @ ''/899'' @ [CHR 0x27] @ ''/0'' @ [CHR 0x27] @ ''/0/0''"

text \<open>\<open>s.replace(/\s+/g, " ")\<close>.\<close>

fun single_spaces :: "string \<Rightarrow> string" where
  "single_spaces (c # d # s) =
     (if is_space c \<and> is_space d then single_spaces (d # s)
      else (if is_space c then CHR '' '' else c) # single_spaces (d # s))"
| "single_spaces [c] = [if is_space c then CHR '' '' else c]"
| "single_spaces [] = []"

definition normalizeMnemonic :: "'k key_lib \<Rightarrow> string \<Rightarrow> string" where
  "normalizeMnemonic K mnemonic = single_spaces (trim (kl_nfkd K mnemonic))"

definition signer_of :: "'k key_lib \<Rightarrow> string \<Rightarrow> wallet_signer" where
  "signer_of K secretKey = \<lparr>ws_address = kl_address K (kl_derivePubkey K secretKey),
     ws_publicKey = kl_derivePubkey K secretKey, ws_secretKey = secretKey, ws_destroyed = False\<rparr>"

definition newEcashMnemonicSigner :: "'k key_lib \<Rightarrow> string \<Rightarrow> wallet_signer result" where
  "newEcashMnemonicSigner K mnemonic =
     (let normalized = normalizeMnemonic K mnemonic in
      if \<not> kl_validMnemonic K normalized then Inl (TypeError ''mnemonic is not a valid BIP39 English seed phrase'')
      else ebind (kl_key K normalized TONALLI_DERIVATION_PATH) (\<lambda>derivedKey. case derivedKey of
          None \<Rightarrow> Inl (PlainError ''mnemonic derivation did not produce a private key'')
        | Some secretKey \<Rightarrow>
            if \<not> kl_isValidSeckey K secretKey then
              Inl (PlainError ''mnemonic derivation produced an invalid signing key'')
            else Inr (signer_of K secretKey)))"

definition newEcashPrivateKeySigner :: "'k key_lib \<Rightarrow> string \<Rightarrow> wallet_signer result" where
  "newEcashPrivateKeySigner K secretKey =
     (if \<not> kl_isValidSeckey K secretKey then Inl (TypeError ''private key is not a valid secp256k1 key'')
      else Inr (signer_of K secretKey))"

definition signer_sign :: "'k key_lib \<Rightarrow> wallet_signer \<Rightarrow> string \<Rightarrow> string result" where
  "signer_sign K S message =
     (if ws_destroyed S then Inl (PlainError ''wallet signer has been destroyed'')
      else Inr (unpadded_url (kl_signMsg K message (ws_secretKey S))))"

definition signatoryForUtxo :: "'k key_lib \<Rightarrow> wallet_signer \<Rightarrow> funding_utxo \<Rightarrow> 'k result" where
  "signatoryForUtxo K S utxo =
     (if ws_destroyed S then Inl (PlainError ''wallet signer has been destroyed'')
      else Inr (kl_signatory K (ws_secretKey S) (ws_publicKey S)))"

definition signer_destroy :: "wallet_signer \<Rightarrow> wallet_signer" where
  "signer_destroy S =
     (if ws_destroyed S then S
      else S\<lparr>ws_secretKey := replicate (length (ws_secretKey S)) (char_of (0 :: nat)), ws_destroyed := True\<rparr>)"

text \<open>A signature over bytes travels as their base64url text; after \<open>destroy\<close> nothing is signed.\<close>

lemma signer_sign_bytes:
  "\<not> ws_destroyed S \<Longrightarrow> kl_signMsg K message (ws_secretKey S) = base64 bytes \<Longrightarrow>
   signer_sign K S message = Inr (base64url bytes)"
  by (simp add: signer_sign_def)

lemma signer_destroy_idem [simp]: "signer_destroy (signer_destroy S) = signer_destroy S"
  by (simp add: signer_destroy_def)

lemma signer_destroyed: "signer_sign K (signer_destroy S) m = Inl (PlainError ''wallet signer has been destroyed'')"
  "signatoryForUtxo K (signer_destroy S) u = Inl (PlainError ''wallet signer has been destroyed'')"
  by (simp_all add: signer_sign_def signatoryForUtxo_def signer_destroy_def)

subsection \<open>Base58 and WIF\<close>

definition cli_usage :: "string \<Rightarrow> js_error" where
  "cli_usage message = CodedError ''CLI_USAGE'' message"

definition base58_alphabet :: string where
  "base58_alphabet = ''123456789ABCDEFGHJKLMNPQRSTUVWXYZabcdefghijkmnopqrstuvwxyz''"

fun index_in :: "string \<Rightarrow> char \<Rightarrow> nat" where
  "index_in [] c = 0"
| "index_in (d # ds) c = (if d = c then 0 else Suc (index_in ds c))"

text \<open>\<open>number.toString(16)\<close>, and \<open>Buffer.from(s, "hex")\<close> on hex digits.\<close>

fun nat_to_hex :: "nat \<Rightarrow> string" where
  "nat_to_hex n = (if n < 16 then [hex_digit n] else nat_to_hex (n div 16) @ [hex_digit (n mod 16)])"

declare nat_to_hex.simps [simp del]

definition hex_code :: "char \<Rightarrow> nat" where
  "hex_code c = (if is_digit c then code c - 48 else if is_upper c then code c - 55 else code c - 87)"

fun from_hex :: "string \<Rightarrow> string" where
  "from_hex (a # b # s) = char_of (16 * hex_code a + hex_code b) # from_hex s"
| "from_hex s = []"

definition decodeBase58 :: "string \<Rightarrow> string result" where
  "decodeBase58 value =
     (if \<not> (value \<noteq> [] \<and> list_all (\<lambda>c. c \<in> set base58_alphabet) value) then
        Inl (cli_usage ''--wif is not valid Base58'')
      else
        let number = foldl (\<lambda>n c. n * 58 + index_in base58_alphabet c) 0 value;
            hex = nat_to_hex number;
            hex' = (if length hex mod 2 \<noteq> 0 then CHR ''0'' # hex else hex);
            body = (if number = 0 then [] else from_hex hex');
            leadingZeroes = length (takeWhile (\<lambda>c. c = CHR ''1'') value) in
        Inr (replicate leadingZeroes (char_of (0 :: nat)) @ body))"

definition sha256d :: "'k key_lib \<Rightarrow> string \<Rightarrow> string" where
  "sha256d K value = kl_sha256 K (kl_sha256 K value)"

text \<open>\<open>timingSafeEqual\<close> throws on texts of different lengths; a SHA-256 hash is long enough.\<close>

definition decodeCompressedMainnetWif :: "'k key_lib \<Rightarrow> string \<Rightarrow> string result" where
  "decodeCompressedMainnetWif K wif =
     ebind (decodeBase58 wif) (\<lambda>decoded.
     if length decoded \<noteq> 38 then Inl (cli_usage ''--wif must be a compressed mainnet WIF'')
     else
       let payload = take 34 decoded; checksum = drop 34 decoded; expected = take 4 (sha256d K payload) in
       if length checksum \<noteq> length expected then Inl (RangeError ''Input buffers must have the same byte length'')
       else if checksum \<noteq> expected then Inl (cli_usage ''--wif checksum is invalid'')
       else if payload ! 0 \<noteq> char_of (128 :: nat) \<or> payload ! 33 \<noteq> char_of (1 :: nat) then
         Inl (cli_usage ''--wif must be a compressed mainnet WIF'')
       else Inr (take 32 (drop 1 payload)))"

subsection \<open>One text for one key\<close>

definition digits_value :: "nat \<Rightarrow> nat list \<Rightarrow> nat" where
  "digits_value B ds = foldl (\<lambda>n d. n * B + d) 0 ds"

lemma digits_value_snoc: "digits_value B (ds @ [d]) = digits_value B ds * B + d"
  by (simp add: digits_value_def)

lemma digits_value_Nil [simp]: "digits_value B [] = 0"
  by (simp add: digits_value_def)

definition no_leading_zero :: "nat list \<Rightarrow> bool" where
  "no_leading_zero ds \<longleftrightarrow> (\<forall>e es. ds = e # es \<longrightarrow> e \<noteq> 0)"

lemma no_leading_zero_snoc: "no_leading_zero (ds @ [d]) \<Longrightarrow> no_leading_zero ds \<and> (ds = [] \<longrightarrow> d \<noteq> 0)"
  by (cases ds) (auto simp: no_leading_zero_def)

lemma digits_value_zero: "no_leading_zero ds \<Longrightarrow> 0 < B \<Longrightarrow> digits_value B ds = 0 \<Longrightarrow> ds = []"
proof (induction ds rule: rev_induct)
  case (snoc d ds)
  then show ?case using no_leading_zero_snoc [of ds d] by (auto simp: digits_value_snoc)
qed simp

lemma digits_unique:
  assumes "list_all (\<lambda>d. d < B) ds" "list_all (\<lambda>d. d < B) es" "no_leading_zero ds" "no_leading_zero es"
    and "digits_value B ds = digits_value B es"
  shows "ds = es"
  using assms
proof (induction ds arbitrary: es rule: rev_induct)
  case Nil
  show ?case
  proof (cases "B = 0")
    case True
    with Nil show ?thesis by (cases es) auto
  next
    case False
    with Nil digits_value_zero [of es B] show ?thesis by simp
  qed
next
  case (snoc d ds)
  then have B: "0 < B" by auto
  show ?case
  proof (cases es rule: rev_cases)
    case Nil
    with snoc.prems B digits_value_zero [of "ds @ [d]" B] show ?thesis by simp
  next
    case (snoc es' e)
    with snoc.prems have v: "digits_value B ds * B + d = digits_value B es' * B + e" and lt: "d < B" "e < B"
      by (simp_all add: digits_value_snoc)
    then have "d = e" by (metis mod_less mod_mult_self3)
    moreover from v \<open>d = e\<close> B have "digits_value B ds = digits_value B es'" by simp
    ultimately show ?thesis
      using snoc.IH [of es'] snoc.prems snoc no_leading_zero_snoc [of ds d] no_leading_zero_snoc [of es' e] by simp
  qed
qed

lemma hex_code_digit [simp]: "d < 16 \<Longrightarrow> hex_code (hex_digit d) = d"
proof -
  assume d: "d < 16"
  then consider "d < 10" | "10 \<le> d" "d < 16" by linarith
  then show ?thesis by cases (auto simp: hex_code_def hex_digit_def char_class_defs)
qed

lemma nat_to_hex_value:
  "digits_value 16 (map hex_code (nat_to_hex n)) = n \<and> list_all (\<lambda>d. d < 16) (map hex_code (nat_to_hex n)) \<and>
   nat_to_hex n \<noteq> [] \<and> (0 < n \<longrightarrow> no_leading_zero (map hex_code (nat_to_hex n)))"
proof (induction n rule: nat_to_hex.induct)
  case (1 n)
  show ?case
  proof (cases "n < 16")
    case True
    then have "nat_to_hex n = [hex_digit n]" by (subst nat_to_hex.simps) simp
    with True show ?thesis by (simp add: digits_value_def no_leading_zero_def)
  next
    case False
    define h where "h = nat_to_hex (n div 16)"
    have ih: "digits_value 16 (map hex_code h) = n div 16" "list_all (\<lambda>d. d < 16) (map hex_code h)" "h \<noteq> []"
      "no_leading_zero (map hex_code h)"
      using 1 [OF False] False by (simp_all add: h_def)
    have n: "nat_to_hex n = h @ [hex_digit (n mod 16)]"
      by (subst nat_to_hex.simps) (simp add: False h_def)
    have "no_leading_zero (map hex_code (h @ [hex_digit (n mod 16)]))"
      using ih(3,4) by (cases h) (auto simp: no_leading_zero_def)
    then show ?thesis unfolding n using ih(1,2) by (simp add: digits_value_snoc)
  qed
qed

lemma from_hex_value:
  assumes "even (length s)" "list_all (\<lambda>d. d < 16) (map hex_code s)"
  shows "foldl (\<lambda>n c. n * 256 + code c) a (from_hex s) = foldl (\<lambda>n d. n * 16 + d) a (map hex_code s)"
  using assms
proof (induction s arbitrary: a rule: from_hex.induct)
  case (1 x y s)
  have "code (char_of (16 * hex_code x + hex_code y) :: char) = 16 * hex_code x + hex_code y"
    using 1(3) by simp
  with 1 show ?case by (simp add: algebra_simps)
qed auto

text \<open>The bytes of a number: big-endian, without a leading zero.\<close>

definition number_bytes :: "nat \<Rightarrow> string" where
  "number_bytes n = (if n = 0 then [] else from_hex
     (if length (nat_to_hex n) mod 2 \<noteq> 0 then CHR ''0'' # nat_to_hex n else nat_to_hex n))"

lemma number_bytes_value: "digits_value 256 (map code (number_bytes n)) = n"
proof (cases "n = 0")
  case False
  define h where "h = (if length (nat_to_hex n) mod 2 \<noteq> 0 then CHR ''0'' # nat_to_hex n else nat_to_hex n)"
  have zero: "hex_code CHR ''0'' = 0" by code_simp
  have h: "even (length h)" "list_all (\<lambda>d. d < 16) (map hex_code h)"
    using nat_to_hex_value [of n] by (auto simp: h_def zero)
  have nb: "number_bytes n = from_hex h" using False by (simp add: number_bytes_def h_def)
  have "digits_value 256 (map code (number_bytes n)) = digits_value 16 (map hex_code h)"
    using from_hex_value [OF h, of 0] nb by (simp add: digits_value_def foldl_map)
  also have "\<dots> = n" using nat_to_hex_value [of n] by (auto simp: h_def digits_value_def zero)
  finally show ?thesis .
qed (simp add: number_bytes_def)

lemma number_bytes_first: "no_leading_zero (map code (number_bytes n))"
proof (cases "n = 0")
  case False
  then obtain c t where h: "nat_to_hex n = c # t" "hex_code c \<noteq> 0" and d: "hex_code c < 16"
    "list_all (\<lambda>d. d < 16) (map hex_code t)"
    using nat_to_hex_value [of n] by (cases "nat_to_hex n") (auto simp: no_leading_zero_def)
  have zero: "hex_code CHR ''0'' = 0" by code_simp
  show ?thesis
  proof (cases "length (nat_to_hex n) mod 2 = 0")
    case True
    with h(1) obtain b s where "t = b # s" by (cases t) auto
    with h d True False show ?thesis by (simp add: number_bytes_def no_leading_zero_def)
  next
    case odd: False
    with h d False show ?thesis by (simp add: number_bytes_def no_leading_zero_def zero)
  qed
qed (simp add: number_bytes_def no_leading_zero_def)

text \<open>Base58 is read one-to-one: the text without its leading ones is the number, the ones count the zeros.\<close>

lemma base58_index: "c \<in> set base58_alphabet \<Longrightarrow> index_in base58_alphabet c < 58 \<and> base58_alphabet ! index_in base58_alphabet c = c"
proof -
  have "list_all (\<lambda>c. index_in base58_alphabet c < 58 \<and> base58_alphabet ! index_in base58_alphabet c = c) base58_alphabet"
    by code_simp
  then show "c \<in> set base58_alphabet \<Longrightarrow> index_in base58_alphabet c < 58 \<and> base58_alphabet ! index_in base58_alphabet c = c"
    by (simp add: list_all_iff)
qed

lemma base58_index_pos: "0 < index_in base58_alphabet c \<longleftrightarrow> c \<noteq> CHR ''1''"
proof -
  obtain t where t: "base58_alphabet = CHR ''1'' # t" by (simp add: base58_alphabet_def)
  show ?thesis unfolding t by simp
qed

definition base58_digits :: "string \<Rightarrow> nat list" where
  "base58_digits v = map (index_in base58_alphabet) (dropWhile (\<lambda>c. c = CHR ''1'') v)"

lemma decodeBase58_Inr:
  "decodeBase58 v = Inr d \<longleftrightarrow> v \<noteq> [] \<and> list_all (\<lambda>c. c \<in> set base58_alphabet) v \<and>
     d = replicate (length (takeWhile (\<lambda>c. c = CHR ''1'') v)) (char_of (0 :: nat)) @
         number_bytes (digits_value 58 (base58_digits v))"
proof -
  have "index_in base58_alphabet CHR ''1'' = 0" by code_simp
  then have "foldl (\<lambda>n c. n * 58 + index_in base58_alphabet c) 0 v = digits_value 58 (base58_digits v)" for v
    by (induction v) (simp_all add: base58_digits_def digits_value_def foldl_map)
  then show ?thesis by (auto simp: decodeBase58_def number_bytes_def Let_def)
qed

lemma replicate_prefix:
  assumes "replicate m z @ xs = replicate n z @ ys" "xs = [] \<or> hd xs \<noteq> z" "ys = [] \<or> hd ys \<noteq> z"
  shows "m = n \<and> xs = ys"
  using assms
proof (induction m arbitrary: n)
  case 0
  then show ?case by (cases n) auto
next
  case (Suc m)
  then show ?case by (cases n) auto
qed

lemma base58_digits_ok:
  assumes "list_all (\<lambda>c. c \<in> set base58_alphabet) v"
  shows "list_all (\<lambda>d. d < 58) (base58_digits v)" "no_leading_zero (base58_digits v)"
    "dropWhile (\<lambda>c. c = CHR ''1'') v = map (nth base58_alphabet) (base58_digits v)"
proof -
  let ?w = "dropWhile (\<lambda>c. c = CHR ''1'') v"
  have w: "\<forall>c \<in> set ?w. c \<in> set base58_alphabet" using assms by (auto simp: list_all_iff dest: set_dropWhileD)
  then show "list_all (\<lambda>d. d < 58) (base58_digits v)" "?w = map (nth base58_alphabet) (base58_digits v)"
    using base58_index by (auto simp: base58_digits_def list_all_iff map_idI)
  show "no_leading_zero (base58_digits v)"
  proof (cases ?w)
    case (Cons c cs)
    then have "c \<noteq> CHR ''1''" using hd_dropWhile [of "\<lambda>c. c = CHR ''1''" v] by simp
    with Cons w base58_index_pos show ?thesis by (simp add: base58_digits_def no_leading_zero_def)
  next
    case Nil
    then have "base58_digits v = []" unfolding base58_digits_def by (simp only: list.map)
    then show ?thesis by (simp add: no_leading_zero_def)
  qed
qed

lemma decodeBase58_inj:
  assumes "decodeBase58 v = Inr d" "decodeBase58 w = Inr d"
  shows "v = w"
proof -
  let ?ones = "\<lambda>v. length (takeWhile (\<lambda>c. c = CHR ''1'') v)"
  let ?n = "\<lambda>v. digits_value 58 (base58_digits v)"
  have first: "number_bytes n = [] \<or> hd (number_bytes n) \<noteq> char_of (0 :: nat)" for n
    using number_bytes_first [of n] by (cases "number_bytes n") (auto simp: no_leading_zero_def)
  from assms have "replicate (?ones v) (char_of (0 :: nat)) @ number_bytes (?n v) =
      replicate (?ones w) (char_of (0 :: nat)) @ number_bytes (?n w)"
    and chars: "list_all (\<lambda>c. c \<in> set base58_alphabet) v" "list_all (\<lambda>c. c \<in> set base58_alphabet) w"
    by (simp_all add: decodeBase58_Inr)
  from replicate_prefix [OF this(1) first first]
  have ones: "?ones v = ?ones w" and "number_bytes (?n v) = number_bytes (?n w)" by simp_all
  then have "?n v = ?n w" by (metis number_bytes_value)
  then have "base58_digits v = base58_digits w"
    using digits_unique base58_digits_ok chars by blast
  then have "dropWhile (\<lambda>c. c = CHR ''1'') v = dropWhile (\<lambda>c. c = CHR ''1'') w"
    using base58_digits_ok(3) chars by simp
  moreover have "takeWhile (\<lambda>c. c = CHR ''1'') v = replicate (?ones v) CHR ''1''" for v
    by (intro replicate_eqI) (auto dest: set_takeWhileD)
  ultimately show ?thesis using ones by (metis takeWhile_dropWhile_id)
qed

text \<open>A key has one WIF text.\<close>

lemma list_ends: "length p = Suc (Suc n) \<Longrightarrow> p = p ! 0 # take n (drop 1 p) @ [p ! Suc n]"
  using take_Suc_conv_app_nth [of n "tl p"] by (cases p) simp_all

lemma wif_unique:
  assumes "decodeCompressedMainnetWif K v = Inr key" "decodeCompressedMainnetWif K w = Inr key"
  shows "v = w"
proof -
  have decoded: "\<exists>d. decodeBase58 v = Inr d \<and>
      d = (let payload = char_of (128 :: nat) # key @ [char_of (1 :: nat)] in payload @ take 4 (sha256d K payload))"
    if "decodeCompressedMainnetWif K v = Inr key" for v
  proof -
    from that obtain d where d: "decodeBase58 v = Inr d" "length d = 38" "drop 34 d = take 4 (sha256d K (take 34 d))"
      "take 34 d ! 0 = char_of (128 :: nat)" "take 34 d ! 33 = char_of (1 :: nat)" "key = take 32 (drop 1 (take 34 d))"
      by (auto simp: decodeCompressedMainnetWif_def ebind_Inr_iff Let_def split: if_splits)
    from d(2) have "take 34 d = char_of (128 :: nat) # key @ [char_of (1 :: nat)]"
      using list_ends [of "take 34 d" 32] d(4-6) by simp
    with d(1,3) append_take_drop_id [of 34 d] show ?thesis by (simp add: Let_def)
  qed
  from decoded [OF assms(1)] decoded [OF assms(2)] decodeBase58_inj show ?thesis by metis
qed

end
