(* ===== verification/Manual_Cli.thy ===== *)
theory Manual_Cli
  imports Payment_Orchestrator Payment_Providers Wallet_Keys
begin

text \<open>
  \<open>examples/manual-payment-cli/src/cli.ts\<close>: a command line around the live payment orchestrator. A run is the
  trace of what it prints, of the calls of the orchestrator and of the destruction of the signer. The lemmas
  say under which arguments a transaction is broadcast, and that no message of a failure holds a key that
  was given on the command line.
\<close>

subsection \<open>Arguments\<close>

datatype cli_mode = CliDryRun | CliBroadcast

record cli_options =
  clo_mode :: cli_mode
  clo_allowBroadcast :: bool
  clo_confirmation :: bool
  clo_confirmationPhrase :: "string option"
  clo_overrideConservativeLimit :: bool
  clo_chronikUrl :: "string option"
  clo_fromAddress :: "string option"
  clo_wif :: "string option"
  clo_privateKey :: "string option"
  clo_maxPaymentSats :: "string option"
  clo_payTo :: "string option"
  clo_amountSats :: "string option"

definition BROADCAST_CONFIRMATION_PHRASE :: string where
  "BROADCAST_CONFIRMATION_PHRASE = ''I UNDERSTAND THIS BROADCASTS XEC''"

definition DEFAULT_MAX_BROADCAST_SATS :: int where
  "DEFAULT_MAX_BROADCAST_SATS = 1000"

definition MNEMONIC_ENV :: string where
  "MNEMONIC_ENV = ''X402_XEC_MNEMONIC_UNSAFE_LOCAL_ONLY''"

definition BOOLEAN_FLAGS :: "(string, string) jmap" where
  "BOOLEAN_FLAGS =
     [(''--allow-broadcast'', ''allowBroadcast''), (''--yes-i-understand-this-broadcasts-xec'', ''confirmation''),
      (''--override-conservative-limit'', ''overrideConservativeLimit'')]"

definition VALUE_FLAGS :: "(string, string) jmap" where
  "VALUE_FLAGS =
     [(''--confirmation-phrase'', ''confirmationPhrase''), (''--chronik-url'', ''chronikUrl''),
      (''--from-address'', ''fromAddress''), (''--wif'', ''wif''), (''--private-key'', ''privateKey''),
      (''--max-payment-sats'', ''maxPaymentSats''), (''--pay-to'', ''payTo''), (''--amount-sats'', ''amountSats'')]"

definition rejectDuplicate :: "(string, js_value) jmap \<Rightarrow> string \<Rightarrow> unit result" where
  "rejectDuplicate values field =
     (if jget values field \<noteq> None then Inl (cli_usage (''duplicate argument for '' @ field)) else Inr ())"

definition requireValue :: "string option \<Rightarrow> string \<Rightarrow> string result" where
  "requireValue v flag = (case v of
     None \<Rightarrow> Inl (cli_usage (''payment execution requires '' @ flag))
   | Some s \<Rightarrow> if s = [] then Inl (cli_usage (''payment execution requires '' @ flag)) else Inr s)"

definition canonicalPositiveSats :: "string \<Rightarrow> string \<Rightarrow> string result" where
  "canonicalPositiveSats s flag =
     (if is_positive_dec s then Inr s else Inl (cli_usage (flag @ '' must be a canonical positive integer'')))"

text \<open>The loop over the arguments; \<open>values\<close> are the options read so far.\<close>

fun parse_flags :: "string list \<Rightarrow> (string, js_value) jmap \<Rightarrow> (string, js_value) jmap result" where
  "parse_flags [] values = Inr values"
| "parse_flags (flag # rest) values =
     (case jget BOOLEAN_FLAGS flag of
        Some f \<Rightarrow> ebind (rejectDuplicate values f) (\<lambda>_. parse_flags rest (jset values f (JBool True)))
      | None \<Rightarrow>
          (case jget VALUE_FLAGS flag of
             None \<Rightarrow> Inl (cli_usage (''unknown argument: '' @ flag))
           | Some f \<Rightarrow> ebind (rejectDuplicate values f) (\<lambda>_.
               case rest of
                 [] \<Rightarrow> Inl (cli_usage (flag @ '' requires a value''))
               | v # rest' \<Rightarrow>
                   if startsWith v ''--'' then Inl (cli_usage (flag @ '' requires a value''))
                   else parse_flags rest' (jset values f (JStr v)))))"

definition string_option :: "(string, js_value) jmap \<Rightarrow> string \<Rightarrow> string option" where
  "string_option values field = (case jget values field of Some (JStr s) \<Rightarrow> Some s | _ \<Rightarrow> None)"

definition options_of :: "cli_mode \<Rightarrow> (string, js_value) jmap \<Rightarrow> cli_options" where
  "options_of mode values =
     \<lparr>clo_mode = mode, clo_allowBroadcast = (jget values ''allowBroadcast'' = Some (JBool True)),
      clo_confirmation = (jget values ''confirmation'' = Some (JBool True)),
      clo_confirmationPhrase = string_option values ''confirmationPhrase'',
      clo_overrideConservativeLimit = (jget values ''overrideConservativeLimit'' = Some (JBool True)),
      clo_chronikUrl = string_option values ''chronikUrl'', clo_fromAddress = string_option values ''fromAddress'',
      clo_wif = string_option values ''wif'', clo_privateKey = string_option values ''privateKey'',
      clo_maxPaymentSats = string_option values ''maxPaymentSats'', clo_payTo = string_option values ''payTo'',
      clo_amountSats = string_option values ''amountSats''\<rparr>"

definition demand_cli :: "bool \<Rightarrow> string \<Rightarrow> unit result" where
  "demand_cli b message = (if b then Inr () else Inl (cli_usage message))"

definition validateModeGates :: "cli_options \<Rightarrow> unit result" where
  "validateModeGates options =
     ebind (demand_cli (\<not> (clo_wif options \<noteq> None \<and> clo_privateKey options \<noteq> None))
       ''use exactly one of --wif or --private-key'') (\<lambda>_.
     if clo_mode options \<noteq> CliBroadcast then Inr ()
     else
       ebind (demand_cli (clo_allowBroadcast options) ''broadcast mode requires --allow-broadcast'') (\<lambda>_.
       ebind (demand_cli (clo_confirmation options)
         ''broadcast mode requires --yes-i-understand-this-broadcasts-xec'') (\<lambda>_.
       ebind (demand_cli (clo_confirmationPhrase options = Some BROADCAST_CONFIRMATION_PHRASE)
         (''broadcast mode requires --confirmation-phrase '' @ [CHR 0x22] @ ''I UNDERSTAND THIS BROADCASTS XEC'' @ [CHR 0x22])) (\<lambda>_.
       ebind (demand_cli (clo_maxPaymentSats options \<noteq> None) ''broadcast mode requires --max-payment-sats'') (\<lambda>_.
       ebind (ebind (requireValue (clo_amountSats options) ''--amount-sats'') (\<lambda>v.
         canonicalPositiveSats v ''--amount-sats'')) (\<lambda>amountSats.
       ebind (demand_cli (\<not> (BigInt_of amountSats > DEFAULT_MAX_BROADCAST_SATS \<and> \<not> clo_overrideConservativeLimit options))
         (''broadcast amount exceeds the conservative default limit of 1000 sats; '' @
          ''use --override-conservative-limit only for an explicitly reviewed manual test'')) (\<lambda>_.
       ebind (requireValue (clo_chronikUrl options) ''--chronik-url'') (\<lambda>_.
       ebind (requireValue (clo_payTo options) ''--pay-to'') (\<lambda>_.
       ebind (requireValue (clo_amountSats options) ''--amount-sats'') (\<lambda>_. Inr ()))))))))))"

definition mode_of :: "string list \<Rightarrow> cli_mode \<times> string list" where
  "mode_of argv = (case argv of
     [] \<Rightarrow> (CliDryRun, [])
   | a # rest \<Rightarrow> if a = ''dry-run'' then (CliDryRun, rest) else if a = ''broadcast'' then (CliBroadcast, rest)
       else (CliDryRun, argv))"

definition parseCliArgs :: "string list \<Rightarrow> cli_options result" where
  "parseCliArgs argv = (case mode_of argv of (mode, rest) \<Rightarrow>
     ebind (parse_flags rest []) (\<lambda>values.
     ebind (validateModeGates (options_of mode values)) (\<lambda>_. Inr (options_of mode values))))"

subsection \<open>Secrets\<close>

fun collectSuppliedSecrets :: "string list \<Rightarrow> string list" where
  "collectSuppliedSecrets (flag # v # rest) =
     (if flag = ''--wif'' \<or> flag = ''--private-key'' then v # collectSuppliedSecrets rest
      else collectSuppliedSecrets (v # rest))"
| "collectSuppliedSecrets _ = []"

text \<open>\<open>s.replaceAll(p, r)\<close> for a non-empty \<open>p\<close> and an \<open>r\<close> without a dollar sign.\<close>

function replaceAll :: "string \<Rightarrow> string \<Rightarrow> string \<Rightarrow> string" where
  "replaceAll p r [] = []"
| "replaceAll p r (c # s) =
     (if startsWith (c # s) p then r @ replaceAll p r (drop (length p - 1) s) else c # replaceAll p r s)"
  by pat_completeness auto
termination
  by (relation "measure (\<lambda>(p, r, s). length s)") auto

definition REDACTED :: string where
  "REDACTED = ''[REDACTED]''"

definition redact :: "string list \<Rightarrow> string \<Rightarrow> string" where
  "redact secrets message = foldl (\<lambda>m secret. if secret = [] then m else replaceAll secret REDACTED m) message secrets"

text \<open>The error that the command throws: a usage error, or another one, of which only the message is kept here.\<close>

datatype cli_failure = CliUsage string | CliFailed string

definition sanitizeError :: "js_error \<Rightarrow> string list \<Rightarrow> cli_failure" where
  "sanitizeError e secrets =
     (let message = redact secrets (err_text e) in
      case e of CodedError c m \<Rightarrow> if c = ''CLI_USAGE'' then CliUsage message else CliFailed message
      | _ \<Rightarrow> CliFailed message)"

fun failure_message :: "cli_failure \<Rightarrow> string" where
  "failure_message (CliUsage m) = m"
| "failure_message (CliFailed m) = m"

subsection \<open>Dependencies and required options\<close>

text \<open>What a run is given: the injected providers, the clock, the environment's mnemonic and 24 random bytes; and the
  libraries: the clients that are made for an endpoint, and \<open>Address.fromCashAddress\<close> as the prefix and type of an address.\<close>

record cli_dependencies =
  cd_utxoProvider :: "(utxo_request \<Rightarrow> funding_utxo list option result) option"
  cd_broadcastProvider :: "broadcaster option"
  cd_approvalProvider :: "(payment_plan \<Rightarrow> js_value result) option"
  cd_now :: js_number
  cd_mnemonic :: "string option"
  cd_randomBytes :: string
  cd_utxoClient :: "string \<Rightarrow> string \<Rightarrow> chronik_utxo_set result"
  cd_broadcastClient :: "string \<Rightarrow> broadcast_client"
  cd_fromCashAddress :: "string \<Rightarrow> (string \<times> string) option"

definition manual_RESOURCE :: resource_request where
  "manual_RESOURCE = \<lparr>res_serverOrigin = ''https://manual-payment.invalid'', res_method = ''POST'',
     res_path = ''/controlled-payment-experiment'', res_query = JArr [], res_body = JNull\<rparr>"

record execution_options =
  eo_chronikUrl :: string
  eo_fromAddress :: string
  eo_payTo :: string
  eo_amountSats :: string
  eo_maxPaymentSats :: string

definition cli_validateAddress :: "cli_dependencies \<Rightarrow> string \<Rightarrow> string \<Rightarrow> unit result" where
  "cli_validateAddress D a flag = (case cd_fromCashAddress D a of
     None \<Rightarrow> Inl (cli_usage (flag @ '' must be a valid eCash address''))
   | Some (prefix, type) \<Rightarrow>
       if prefix \<noteq> ''ecash'' \<or> type \<noteq> ''p2pkh'' then Inl (cli_usage (flag @ '' must be an eCash mainnet P2PKH address''))
       else Inr ())"

definition requiredExecutionOptions :: "cli_options \<Rightarrow> cli_dependencies \<Rightarrow> string \<Rightarrow> execution_options result" where
  "requiredExecutionOptions options D derivedAddress =
     (let fromAddress = (case clo_fromAddress options of Some a \<Rightarrow> a | None \<Rightarrow> derivedAddress) in
     ebind (requireValue (clo_payTo options) ''--pay-to'') (\<lambda>payTo.
     ebind (ebind (requireValue (clo_amountSats options) ''--amount-sats'') (\<lambda>v.
       canonicalPositiveSats v ''--amount-sats'')) (\<lambda>amountSats.
     ebind (case clo_maxPaymentSats options of
         None \<Rightarrow> Inr amountSats | Some m \<Rightarrow> canonicalPositiveSats m ''--max-payment-sats'') (\<lambda>maxPaymentSats.
     ebind (case clo_chronikUrl options of
         Some url \<Rightarrow> Inr url
       | None \<Rightarrow> if cd_utxoProvider D = None then requireValue None ''--chronik-url''
                 else Inr ''https://injected-provider.invalid'') (\<lambda>chronikUrl.
     ebind (cli_validateAddress D fromAddress ''--from-address'') (\<lambda>_.
     ebind (cli_validateAddress D payTo ''--pay-to'') (\<lambda>_.
       Inr \<lparr>eo_chronikUrl = chronikUrl, eo_fromAddress = fromAddress, eo_payTo = payTo,
            eo_amountSats = amountSats, eo_maxPaymentSats = maxPaymentSats\<rparr>)))))))"

subsection \<open>The signer\<close>

definition is_hex_char :: "char \<Rightarrow> bool" where
  "is_hex_char c \<longleftrightarrow> is_digit c \<or> in_range 97 102 c \<or> in_range 65 70 c"

definition createWalletSigner :: "'k key_lib \<Rightarrow> cli_options \<Rightarrow> string option \<Rightarrow> wallet_signer result" where
  "createWalletSigner K options mnemonic =
     (let hasLegacyKey = (clo_wif options \<noteq> None \<or> clo_privateKey options \<noteq> None) in
      case mnemonic of
        Some m \<Rightarrow>
          if hasLegacyKey then Inl (cli_usage (MNEMONIC_ENV @ '' cannot be combined with deprecated --wif or --private-key''))
          else newEcashMnemonicSigner K m
      | None \<Rightarrow> (case clo_privateKey options of
          Some key \<Rightarrow>
            if \<not> (length key = 64 \<and> list_all is_hex_char key) then
              Inl (cli_usage ''--private-key must be exactly 32 bytes of hex'')
            else newEcashPrivateKeySigner K (from_hex key)
        | None \<Rightarrow> (case clo_wif options of
            Some wif \<Rightarrow> ebind (decodeCompressedMainnetWif K wif) (newEcashPrivateKeySigner K)
          | None \<Rightarrow> Inl (cli_usage (''payment preparation requires '' @ MNEMONIC_ENV @ ''; '' @
              ''deprecated --wif/--private-key are local-only compatibility options'')))))"

subsection \<open>A run\<close>

text \<open>\<open>PrintedJson v\<close> is the line \<open>JSON.stringify(v, null, 2)\<close>.\<close>

datatype cli_event =
    Printed string
  | PrintedJson js_value
  | PaymentStep payment_event
  | SignerDestroyed wallet_signer

type_synonym 'a cli = "(cli_event, 'a) traced"

definition payment_steps :: "'a payment \<Rightarrow> 'a cli" where
  "payment_steps m = (map PaymentStep (fst m), snd m)"

definition explicit_approval :: "bool \<Rightarrow> payment_plan \<Rightarrow> js_value result" where
  "explicit_approval confirmed plan =
     Inr (JObj (if confirmed then [(''approved'', JBool True), (''approver'', JStr ''explicit-cli-confirmation'')]
       else [(''approved'', JBool False), (''reason'', JStr ''explicit broadcast confirmation is missing'')]))"

definition printSafetyWarning :: "bool \<Rightarrow> unit cli" where
  "printSafetyWarning dryRun = ask (Printed
     (if dryRun then ''WARNING: eCash mainnet configuration detected. DRY RUN: no transaction will be broadcast.''
      else ''WARNING: eCash mainnet broadcast is enabled. Broadcast is irreversible.'')) (Inr ())"

definition payment_report :: "prepared_payment \<Rightarrow> string \<Rightarrow> bool \<Rightarrow> string \<times> js_value \<Rightarrow> js_value" where
  "payment_report p mode broadcasted extra =
     (let b = pp_fundingTransaction p; i = env_invoice (pp_envelope p) in
      JObj ([(''mode'', JStr mode), (''broadcasted'', JBool broadcasted),
        (''paymentPlan'', JObj [(''amountSats'', JStr (inv_amountSats i)), (''payTo'', JStr (inv_payTo i)),
           (''transactionTxid'', JStr (bt_txid b)),
           (''fundingOutpoint'', JObj [(''txid'', JStr (bt_outpoint_txid b)), (''outIdx'', JNum (NInt (bt_outpoint_outIdx b)))]),
           (''feeSats'', JStr (bt_feeSats b)), (''changeSats'', JStr (bt_changeSats b))]),
        (''paymentSignatureHeader'', JStr (pp_paymentSignature p)), extra]))"

definition print_json :: "js_value \<Rightarrow> unit cli" where
  "print_json v = (case stringify v of Inl e \<Rightarrow> tpure (Inl e) | Inr t \<Rightarrow> ask (PrintedJson v) (Inr ()))"

definition printResult :: "payment_result \<Rightarrow> unit cli" where
  "printResult r = (case r of
     DryRun p manual \<Rightarrow> print_json (payment_report p ''dry-run'' False
       (''warning'', JStr ''DRY RUN ONLY: transaction was not broadcast''))
   | Broadcasted p answer decision \<Rightarrow>
       tbind (tpure (get_prop answer ''txid'')) (\<lambda>txid.
         print_json (payment_report p ''broadcast'' True (''txid'', txid))))"

definition supplied_secrets :: "cli_dependencies \<Rightarrow> string list \<Rightarrow> string list" where
  "supplied_secrets D argv = collectSuppliedSecrets argv @ (case cd_mnemonic D of None \<Rightarrow> [] | Some m \<Rightarrow> [m])"

definition cli_utxoProvider ::
  "runtime \<Rightarrow> 'k ecash_lib \<Rightarrow> cli_dependencies \<Rightarrow> execution_options \<Rightarrow>
   (utxo_request \<Rightarrow> funding_utxo list option result) result" where
  "cli_utxoProvider E L D required = (case cd_utxoProvider D of
     Some p \<Rightarrow> Inr p
   | None \<Rightarrow> ebind (newChronikUtxoProvider E L (eo_chronikUrl required) (eo_fromAddress required)
         (cd_utxoClient D (eo_chronikUrl required))) (\<lambda>p.
       Inr (\<lambda>r. ebind (chronik_getUtxos p r) (\<lambda>us. Inr (Some us)))))"

definition cli_broadcastProvider ::
  "runtime \<Rightarrow> cli_dependencies \<Rightarrow> execution_options \<Rightarrow> bool \<Rightarrow> broadcaster option result" where
  "cli_broadcastProvider E D required dryRun = (case cd_broadcastProvider D of
     Some b \<Rightarrow> Inr (Some b)
   | None \<Rightarrow> if dryRun then Inr None
       else ebind (validateEndpoint E (eo_chronikUrl required)) (\<lambda>endpoint.
         Inr (Some (Broadcaster (chronik_broadcastTx (cd_broadcastClient D endpoint))))))"

definition cli_policy :: "execution_options \<Rightarrow> payment_policy" where
  "cli_policy required =
     \<lparr>pol_maxPaymentSats = JStr (eo_maxPaymentSats required), pol_allowedNetworks = [JStr XEC_MAINNET],
      pol_allowedSchemes = [JStr XEC_SCHEME], pol_allowedPayToAddresses = Some [eo_payTo required],
      pol_requireFinality = None, pol_requireManualApproval = True, pol_expiresAtSkewSeconds = None,
      pol_maxFeeSats = None\<rparr>"

definition cli_config ::
  "'k key_lib \<Rightarrow> cli_dependencies \<Rightarrow> cli_options \<Rightarrow> execution_options \<Rightarrow> wallet_signer \<Rightarrow> int \<Rightarrow>
   (utxo_request \<Rightarrow> funding_utxo list option result) \<Rightarrow> broadcaster option \<Rightarrow> 'k orchestrator_config" where
  "cli_config K D options required S now utxos broadcast =
     \<lparr>oc_utxoProvider = utxos, oc_transactionBuilder = None,
      oc_sign = (\<lambda>m. ebind (signer_sign K S m) (\<lambda>s. Inr (JStr s))), oc_broadcastProvider = broadcast,
      oc_approvalProvider = Some (case cd_approvalProvider D of Some p \<Rightarrow> p
        | None \<Rightarrow> explicit_approval (clo_confirmation options \<and>
            clo_confirmationPhrase options = Some BROADCAST_CONFIRMATION_PHRASE)),
      oc_paymentPolicy = Some (cli_policy required), oc_payer = eo_fromAddress required,
      oc_changeAddress = eo_fromAddress required, oc_signatoryForUtxo = signatoryForUtxo K S,
      oc_dryRun = Some (clo_mode options = CliDryRun), oc_allowBroadcast = Some (clo_allowBroadcast options),
      oc_maxPaymentSats = JUndef, oc_feePerKb = None, oc_dustSats = None, oc_now = NInt now\<rparr>"

definition manual_invoice_input :: "cli_dependencies \<Rightarrow> execution_options \<Rightarrow> int \<Rightarrow> create_invoice_input" where
  "manual_invoice_input D required now =
     \<lparr>cin_request = manual_RESOURCE, cin_amountSats = BigInt_of (eo_amountSats required),
      cin_payTo = eo_payTo required, cin_nonce = base64url (cd_randomBytes D), cin_issuedAt = now,
      cin_expiresAt = now + 300\<rparr>"

text \<open>The body of the \<open>try\<close> block, from the creation of the signer on.\<close>

definition run_with_signer ::
  "runtime \<Rightarrow> 'k ecash_lib \<Rightarrow> 'k key_lib \<Rightarrow> (js_value \<Rightarrow> string) \<Rightarrow> (string \<Rightarrow> js_number) \<Rightarrow> cli_dependencies \<Rightarrow>
   cli_options \<Rightarrow> wallet_signer \<Rightarrow> payment_result cli" where
  "run_with_signer E L K issue num D options S =
     (let dryRun = (clo_mode options = CliDryRun) in
     tbind (tpure (requiredExecutionOptions options D (ws_address S))) (\<lambda>required.
     tbind (tpure (demand_cli (\<not> (clo_fromAddress options \<noteq> None \<and> ws_address S \<noteq> eo_fromAddress required))
       ''--from-address does not match the supplied signing key'')) (\<lambda>_.
     tbind (tpure (checkedNow (cd_now D))) (\<lambda>now.
     tbind (tpure (createInvoice E (manual_invoice_input D required now))) (\<lambda>i.
     tbind (printSafetyWarning dryRun) (\<lambda>_.
     tbind (tpure (cli_utxoProvider E L D required)) (\<lambda>utxos.
     tbind (tpure (cli_broadcastProvider E D required dryRun)) (\<lambda>broadcast.
     let C = cli_config K D options required S now utxos broadcast in
     tbind (tpure (newLivePaymentOrchestrator C)) (\<lambda>_.
     tbind (payment_steps (execute_payment E L issue num C (invoice_to_json i) manual_RESOURCE)) (\<lambda>r.
     tbind (printResult r) (\<lambda>_. tpure (Inr r))))))))))))"

text \<open>\<open>finally\<close> destroys the signer, whether or not the run failed.\<close>

definition runManualPaymentCli ::
  "runtime \<Rightarrow> 'k ecash_lib \<Rightarrow> 'k key_lib \<Rightarrow> (js_value \<Rightarrow> string) \<Rightarrow> (string \<Rightarrow> js_number) \<Rightarrow> cli_dependencies \<Rightarrow>
   string list \<Rightarrow> cli_event list \<times> (cli_failure + payment_result)" where
  "runManualPaymentCli E L K issue num D argv =
     (case ebind (parseCliArgs argv) (\<lambda>options.
         ebind (createWalletSigner K options (cd_mnemonic D)) (\<lambda>S. Inr (options, S))) of
        Inl e \<Rightarrow> ([], Inl (sanitizeError e (supplied_secrets D argv)))
      | Inr (options, S) \<Rightarrow>
          let m = run_with_signer E L K issue num D options S in
          (fst m @ [SignerDestroyed (signer_destroy S)],
           case snd m of Inl e \<Rightarrow> Inl (sanitizeError e (supplied_secrets D argv)) | Inr r \<Rightarrow> Inr r))"

subsection \<open>No secret in a failure\<close>

text \<open>A secret that is longer than eight characters and has no square bracket: every key and every mnemonic of twelve
  words. A shorter text could be part of the replacement itself.\<close>

definition redactable :: "string \<Rightarrow> bool" where
  "redactable s \<longleftrightarrow> 8 < length s \<and> CHR ''['' \<notin> set s \<and> CHR '']'' \<notin> set s"

definition bracket_free :: "string \<Rightarrow> bool" where
  "bracket_free s \<longleftrightarrow> CHR ''['' \<notin> set s \<and> CHR '']'' \<notin> set s"

lemma replaceAll_starts:
  assumes "bracket_free s" "startsWith (replaceAll p REDACTED m) s"
  shows "startsWith m s"
  using assms
proof (induction p REDACTED m arbitrary: s rule: replaceAll.induct)
  case (2 p c m)
  show ?case
  proof (cases s)
    case (Cons d t)
    with 2 show ?thesis
      by (cases "startsWith (c # m) p") (auto simp: bracket_free_def startsWith_def REDACTED_def)
  qed (simp add: startsWith_def)
qed simp

text \<open>A long text without brackets is either before or behind the replacement.\<close>

lemma startsWith_nth: "startsWith m s \<Longrightarrow> k < length s \<Longrightarrow> m ! k = s ! k"
  unfolding startsWith_def by (metis nth_take)

lemma includes_drop: "str_includes (drop k m) s \<Longrightarrow> str_includes m s"
  unfolding str_includes_iff by (metis append_assoc append_take_drop_id)

lemma includes_behind:
  assumes "redactable s" "str_includes (REDACTED @ m) s"
  shows "str_includes m s"
proof -
  have behind: "str_includes (w @ CHR '']'' # m) s \<Longrightarrow> length w \<le> 8 \<Longrightarrow> str_includes m s" for w
  proof (induction w)
    case Nil
    with assms(1) show ?case by (cases s) (auto simp: redactable_def startsWith_def)
  next
    case (Cons c w)
    have "\<not> startsWith ((c # w) @ CHR '']'' # m) s"
    proof
      assume "startsWith ((c # w) @ CHR '']'' # m) s"
      moreover have "Suc (length w) < length s" using Cons.prems(2) assms(1) by (simp add: redactable_def)
      ultimately have "s ! Suc (length w) = CHR '']''" by (metis length_Cons nth_append_length startsWith_nth)
      with \<open>Suc (length w) < length s\<close> assms(1) show False unfolding redactable_def by (metis nth_mem)
    qed
    with Cons show ?case by simp
  qed
  have split: "REDACTED @ m = CHR ''['' # ''REDACTED'' @ CHR '']'' # m" by (simp add: REDACTED_def)
  have "\<not> startsWith (CHR ''['' # ''REDACTED'' @ CHR '']'' # m) s"
    using assms(1) by (cases s) (auto simp: redactable_def startsWith_def)
  with assms(2) split have "str_includes (''REDACTED'' @ CHR '']'' # m) s" by simp
  then show ?thesis by (rule behind) simp
qed

lemma redactable_free: "redactable s \<Longrightarrow> bracket_free s"
  by (simp add: redactable_def bracket_free_def)

lemma replaceAll_keeps_out:
  assumes "redactable s" "str_includes (replaceAll p REDACTED m) s"
  shows "str_includes m s"
  using assms
proof (induction p REDACTED m rule: replaceAll.induct)
  case (2 p c m)
  show ?case
  proof (cases "startsWith (c # m) p")
    case True
    with 2 have "str_includes (drop (length p - 1) m) s" by (auto dest: includes_behind)
    then show ?thesis using includes_drop by auto
  next
    case False
    with 2 replaceAll_starts [of s p "c # m"] redactable_free show ?thesis by auto
  qed
qed simp

lemma replaceAll_absent:
  assumes "redactable s"
  shows "\<not> str_includes (replaceAll s REDACTED m) s"
  using assms
proof (induction s REDACTED m rule: replaceAll.induct)
  case (1 p)
  then show ?case by (auto simp: redactable_def)
next
  case (2 p c m)
  show ?case
  proof (cases "startsWith (c # m) p")
    case True
    with 2 show ?thesis by (auto dest: includes_behind)
  next
    case False
    with 2 replaceAll_starts [of p p "c # m"] redactable_free show ?thesis by auto
  qed
qed

lemma redact_absent:
  assumes "secret \<in> set secrets" "redactable secret"
  shows "\<not> str_includes (redact secrets m) secret"
  using assms(1)
proof (induction secrets rule: rev_induct)
  case (snoc x xs)
  show ?case
  proof (cases "x = secret")
    case True
    moreover have "secret \<noteq> []" using assms(2) by (auto simp: redactable_def)
    ultimately show ?thesis using replaceAll_absent [OF assms(2)] by (simp add: redact_def)
  next
    case False
    with snoc replaceAll_keeps_out [OF assms(2)] show ?thesis by (auto simp: redact_def)
  qed
qed simp

lemma failure_message_sanitized: "failure_message (sanitizeError e secrets) = redact secrets (err_text e)"
  by (cases e) (simp_all add: sanitizeError_def Let_def)

lemma run_failure_redacted:
  assumes "snd (runManualPaymentCli E L K issue num D argv) = Inl e"
  shows "\<exists>m. failure_message e = redact (supplied_secrets D argv) m"
  using assms by (auto simp: runManualPaymentCli_def Let_def failure_message_sanitized split: sum.splits) blast

text \<open>A text right after a key flag is collected, unless that flag is itself in the place of another one's key.\<close>

lemma collect_after_flag:
  assumes "flag \<in> {''--wif'', ''--private-key''}" "xs = [] \<or> last xs \<notin> {''--wif'', ''--private-key''}"
  shows "secret \<in> set (collectSuppliedSecrets (xs @ flag # secret # ys))"
  using assms(2)
proof (induction xs rule: induct_list012)
  case 1
  with assms(1) show ?case by auto
next
  case (2 x)
  with assms(1) show ?case by auto
next
  case (3 x y zs)
  from 3(3) have "zs = [] \<or> last zs \<notin> {''--wif'', ''--private-key''}" by (cases zs) simp_all
  with 3 show ?case by simp
qed

text \<open>A key attached to its flag by an equals sign is not collected, and comes back in the message.\<close>

lemma attached_key_echoed:
  "runManualPaymentCli E L K issue num D [''--wif='' @ key] =
     ([], Inl (CliUsage (redact (supplied_secrets D []) (''unknown argument: --wif='' @ key))))"
proof -
  have "jget BOOLEAN_FLAGS (''--wif='' @ key) = None" "jget VALUE_FLAGS (''--wif='' @ key) = None"
    by (simp_all add: BOOLEAN_FLAGS_def VALUE_FLAGS_def)
  then have "parseCliArgs [''--wif='' @ key] = Inl (cli_usage (''unknown argument: --wif='' @ key))"
    by (simp add: parseCliArgs_def mode_of_def)
  then show ?thesis
    by (simp add: runManualPaymentCli_def sanitizeError_def cli_usage_def supplied_secrets_def Let_def)
qed

subsection \<open>Who may broadcast\<close>

lemma demand_cli_Inr [err_simps]: "demand_cli b m = Inr u \<longleftrightarrow> b"
  by (simp add: demand_cli_def)

lemma requireValue_Inr [err_simps]: "requireValue v flag = Inr s \<longleftrightarrow> v = Some s \<and> s \<noteq> []"
  by (auto simp: requireValue_def split: option.splits)

lemma canonicalPositiveSats_Inr [err_simps]: "canonicalPositiveSats s flag = Inr t \<longleftrightarrow> is_positive_dec s \<and> t = s"
  by (auto simp: canonicalPositiveSats_def)

lemma cli_validateAddress_Inr [err_simps]:
  "cli_validateAddress D a flag = Inr u \<longleftrightarrow> cd_fromCashAddress D a = Some (''ecash'', ''p2pkh'')"
  by (auto simp: cli_validateAddress_def split: option.splits)

text \<open>What the arguments of a broadcast have: the two flags, the phrase, a limit, and a small or overridden amount.\<close>

definition broadcast_args :: "cli_options \<Rightarrow> bool" where
  "broadcast_args options \<longleftrightarrow>
     clo_mode options = CliBroadcast \<and> clo_allowBroadcast options \<and> clo_confirmation options \<and>
     clo_confirmationPhrase options = Some BROADCAST_CONFIRMATION_PHRASE \<and> clo_maxPaymentSats options \<noteq> None \<and>
     (\<exists>a. clo_amountSats options = Some a \<and> is_positive_dec a \<and>
        (BigInt_of a \<le> DEFAULT_MAX_BROADCAST_SATS \<or> clo_overrideConservativeLimit options)) \<and>
     clo_chronikUrl options \<noteq> None \<and> clo_payTo options \<noteq> None"

lemma validateModeGates_Inr:
  "validateModeGates options = Inr () \<Longrightarrow> clo_mode options = CliBroadcast \<Longrightarrow> broadcast_args options"
  by (auto simp: validateModeGates_def err_simps broadcast_args_def split: if_splits)

lemma parseCliArgs_gates: "parseCliArgs argv = Inr options \<Longrightarrow> validateModeGates options = Inr ()"
  by (auto simp: parseCliArgs_def err_simps split: prod.splits)

lemma requiredExecutionOptions_Inr:
  assumes "requiredExecutionOptions options D derived = Inr r"
  shows "clo_payTo options = Some (eo_payTo r)" "clo_amountSats options = Some (eo_amountSats r)"
    "is_positive_dec (eo_amountSats r)" "is_positive_dec (eo_maxPaymentSats r)"
    "clo_maxPaymentSats options = Some m \<Longrightarrow> eo_maxPaymentSats r = m"
    "cd_fromCashAddress D (eo_payTo r) = Some (''ecash'', ''p2pkh'')"
  using assms by (auto simp: requiredExecutionOptions_def err_simps Let_def split: option.splits if_splits)

text \<open>A step of the orchestrator in a run: the configuration and the invoice it ran with.\<close>

lemma set_payment_steps: "PaymentStep ev \<in> set (fst (payment_steps m)) \<longleftrightarrow> ev \<in> set (fst m)"
  by (auto simp: payment_steps_def)

lemma printResult_steps: "PaymentStep ev \<notin> set (fst (printResult r))"
  by (auto simp: printResult_def print_json_def fst_tbind split: payment_result.splits sum.splits)

lemma run_with_signer_step:
  assumes "PaymentStep ev \<in> set (fst (run_with_signer E L K issue num D options S))"
  shows "\<exists>required now i utxos broadcast.
    requiredExecutionOptions options D (ws_address S) = Inr required \<and>
    (clo_fromAddress options \<noteq> None \<longrightarrow> ws_address S = eo_fromAddress required) \<and>
    cli_utxoProvider E L D required = Inr utxos \<and>
    createInvoice E (manual_invoice_input D required now) = Inr i \<and>
    newLivePaymentOrchestrator (cli_config K D options required S now utxos broadcast) = Inr () \<and>
    ev \<in> set (fst (execute_payment E L issue num (cli_config K D options required S now utxos broadcast)
      (invoice_to_json i) manual_RESOURCE))"
  using assms
  by (auto simp: run_with_signer_def Let_def fst_tbind printSafetyWarning_def set_payment_steps printResult_steps
      demand_cli_Inr split: if_splits) blast+

lemma run_step:
  assumes "PaymentStep ev \<in> set (fst (runManualPaymentCli E L K issue num D argv))"
  shows "\<exists>options S required now i utxos broadcast. parseCliArgs argv = Inr options \<and>
    createWalletSigner K options (cd_mnemonic D) = Inr S \<and>
    requiredExecutionOptions options D (ws_address S) = Inr required \<and> eo_fromAddress required = ws_address S \<and>
    cli_utxoProvider E L D required = Inr utxos \<and>
    createInvoice E (manual_invoice_input D required now) = Inr i \<and>
    newLivePaymentOrchestrator (cli_config K D options required S now utxos broadcast) = Inr () \<and>
    ev \<in> set (fst (execute_payment E L issue num (cli_config K D options required S now utxos broadcast)
      (invoice_to_json i) manual_RESOURCE))"
proof -
  from assms obtain options S where run: "parseCliArgs argv = Inr options"
    "createWalletSigner K options (cd_mnemonic D) = Inr S"
    "PaymentStep ev \<in> set (fst (run_with_signer E L K issue num D options S))"
    by (auto simp: runManualPaymentCli_def Let_def ebind_Inr_iff split: sum.splits)
  have "eo_fromAddress required = ws_address S"
    if "requiredExecutionOptions options D (ws_address S) = Inr required"
      "clo_fromAddress options \<noteq> None \<longrightarrow> ws_address S = eo_fromAddress required" for required
    using that by (cases "clo_fromAddress options") (auto simp: requiredExecutionOptions_def err_simps Let_def)
  with run(1,2) run_with_signer_step [OF run(3)] show ?thesis by blast
qed

lemma positive_dec_exact: "is_positive_dec s \<Longrightarrow> int_to_dec (BigInt_of s) = s"
proof -
  assume s: "is_positive_dec s"
  then have "\<not> startsWith s ''-''" by (cases s) (auto simp: is_positive_dec_def startsWith_def in_range_def)
  with s show ?thesis by (simp add: BigInt_of_def int_to_dec_def nat_to_dec_of_positive)
qed

text \<open>A transaction is broadcast for complete arguments only, and is one that the library signed over outputs of the
  provider, which pays the amount asked for to the address asked for and returns the rest to the signer.\<close>

lemma cli_broadcast:
  assumes step: "PaymentStep (BroadcastTx raw) \<in> set (fst (runManualPaymentCli E L K issue num D argv))"
    and "builder_pays L"
  shows "\<exists>options amount payTo S required utxos us n inputs script change fee dust tx rest.
    parseCliArgs argv = Inr options \<and> broadcast_args options \<and>
    clo_amountSats options = Some amount \<and> clo_payTo options = Some payTo \<and>
    cd_fromCashAddress D payTo = Some (''ecash'', ''p2pkh'') \<and>
    BigInt_of amount \<le> BigInt_of (the (clo_maxPaymentSats options)) \<and>
    createWalletSigner K options (cd_mnemonic D) = Inr S \<and>
    requiredExecutionOptions options D (ws_address S) = Inr required \<and> cli_utxoProvider E L D required = Inr utxos \<and>
    utxos \<lparr>ur_network = XEC_MAINNET, ur_payer = ws_address S, ur_amountSats = amount\<rparr> = Inr (Some us) \<and>
    addressScript L payTo ''invoice.payTo'' = Inr script \<and> addressScript L (ws_address S) ''changeAddress'' = Inr change \<and>
    map fst inputs = take n us \<and>
    el_sign L False inputs (BigInt_of amount, script) change fee dust = Inr tx \<and> raw = lt_hex tx \<and>
    lt_outputs tx = (BigInt_of amount, script) # rest \<and> (rest = [] \<or> (\<exists>c. rest = [(c, change)]))"
proof -
  from run_step [OF step] obtain options S required now i utxos broadcast where
    options: "parseCliArgs argv = Inr options"
    and signer: "createWalletSigner K options (cd_mnemonic D) = Inr S" "eo_fromAddress required = ws_address S"
    and utxos: "cli_utxoProvider E L D required = Inr utxos"
    and required: "requiredExecutionOptions options D (ws_address S) = Inr required"
    and i: "createInvoice E (manual_invoice_input D required now) = Inr i"
    and ev: "BroadcastTx raw \<in> set (fst (execute_payment E L issue num
      (cli_config K D options required S now utxos broadcast) (invoice_to_json i) manual_RESOURCE))"
    by blast
  define C where "C = cli_config K D options required S now utxos broadcast"
  from execute_events [OF ev [folded C_def]] obtain policy plan prepared where
    live: "\<not> is_dryRun C" and raw: "raw = pp_rawTx prepared"
    and planned: "planned E L issue num C (invoice_to_json i) manual_RESOURCE policy plan prepared"
    by auto
  from live have "clo_mode options = CliBroadcast"
    by (cases "clo_mode options") (auto simp: is_dryRun_def C_def cli_config_def)
  with options parseCliArgs_gates validateModeGates_Inr have args: "broadcast_args options" by blast
  note r = requiredExecutionOptions_Inr [OF required]
  from i have valid: "invoice_valid i" and terms: "inv_payTo i = eo_payTo required"
    "inv_amountSats i = eo_amountSats required"
    using positive_dec_exact [OF r(3)] by (auto simp: createInvoice_Inr manual_invoice_input_def)
  have env: "env_invoice (pp_envelope prepared) = i" using planned_terms(2) [OF planned] parse_invoice_to_json [OF valid] by simp
  have C: "oc_transactionBuilder C = None" "oc_utxoProvider C = utxos" "oc_payer C = ws_address S"
    "oc_changeAddress C = ws_address S" by (simp_all add: C_def cli_config_def signer)
  from planned_built [OF planned] obtain clock us where
    us: "utxos \<lparr>ur_network = XEC_MAINNET, ur_payer = ws_address S, ur_amountSats = eo_amountSats required\<rparr> = Inr (Some us)"
    and b: "buildFundingTx L (funding_request (preparer_of C policy clock) i us) = Inr (pp_fundingTransaction prepared)"
    using C env terms by auto
  have "parse_invoice (br_invoice (funding_request (preparer_of C policy clock) i us)) = Some i"
    using valid by (simp add: funding_request_def parse_invoice_to_json)
  from funding_tx_signed [OF b assms(2) this] have signed: "\<exists>n inputs script change fee dust tx rest.
      addressScript L (eo_payTo required) ''invoice.payTo'' = Inr script \<and>
      addressScript L (ws_address S) ''changeAddress'' = Inr change \<and> map fst inputs = take n us \<and>
      el_sign L False inputs (BigInt_of (eo_amountSats required), script) change fee dust = Inr tx \<and> raw = lt_hex tx \<and>
      lt_outputs tx = (BigInt_of (eo_amountSats required), script) # rest \<and> (rest = [] \<or> (\<exists>c. rest = [(c, change)]))"
    using terms C raw planned_terms(3) [OF planned] by (simp add: funding_request_def preparer_of_def)
  from args obtain m where m: "clo_maxPaymentSats options = Some m" by (auto simp: broadcast_args_def)
  have "BigInt_of (eo_amountSats required) \<le> BigInt_of (eo_maxPaymentSats required)"
  proof -
    from planned have "policy = cli_policy required" "plan_allowed policy (approval_plan plan prepared) (run_context C (the (safe_nonneg (oc_now C))))"
      by (auto simp: planned_def C_def cli_config_def)
    moreover have "plan_amountSats (approval_plan plan prepared) = eo_amountSats required"
      using planned_terms(1,2) [OF planned] terms(2) parse_invoice_to_json [OF valid] by (simp add: plan_of_def)
    moreover have "is_canonical_dec (eo_maxPaymentSats required)" using r(4) by (simp add: is_canonical_dec_def)
    ultimately show ?thesis by (simp add: plan_allowed_def cli_policy_def limit_of_def)
  qed
  then have "BigInt_of (eo_amountSats required) \<le> BigInt_of (the (clo_maxPaymentSats options))"
    using r(5) [OF m] m by simp
  with options args r(1,2,6) signer(1) required utxos us signed show ?thesis by metis
qed

text \<open>Every run that made a signer ends with its destruction.\<close>

lemma signer_destroyed_last:
  "fst (runManualPaymentCli E L K issue num D argv) \<noteq> [] \<Longrightarrow>
   \<exists>S. last (fst (runManualPaymentCli E L K issue num D argv)) = SignerDestroyed S \<and> ws_destroyed S"
  by (auto simp: runManualPaymentCli_def Let_def signer_destroy_def split: sum.splits)

end
