(* ===== verification/Cli_Properties.thy ===== *)
theory Cli_Properties
  imports Manual_Cli Payment_Samples
begin

text \<open>
  The properties of the command line: what has to be on it for a transaction to be broadcast, and that the
  keys on it are not in the message of a failure. The witnesses run one broadcast of 546 satoshis.
\<close>

subsection \<open>A broadcast from the command line\<close>

definition sample_keys :: "unit key_lib" where
  "sample_keys = \<lparr>kl_nfkd = (\<lambda>s. s), kl_validMnemonic = (\<lambda>s. s = ''legal winner''), kl_key = (\<lambda>m p. Inr (Some ''key'')),
     kl_isValidSeckey = (\<lambda>k. True), kl_derivePubkey = (\<lambda>k. ''pub''), kl_address = (\<lambda>p. sample_address),
     kl_signMsg = (\<lambda>m k. ''sig''), kl_signatory = (\<lambda>s p. ()), kl_sha256 = (\<lambda>s. s)\<rparr>"

definition sample_signer :: wallet_signer where
  "sample_signer = \<lparr>ws_address = sample_address, ws_publicKey = ''pub'', ws_secretKey = ''key'', ws_destroyed = False\<rparr>"

definition sample_cli :: cli_dependencies where
  "sample_cli = \<lparr>cd_utxoProvider = Some (oc_utxoProvider sample_live), cd_broadcastProvider = oc_broadcastProvider sample_live,
     cd_approvalProvider = None, cd_now = NInt 150, cd_mnemonic = Some ''legal  winner '',
     cd_randomBytes = replicate 24 CHR ''r'', cd_utxoClient = (\<lambda>e a. Inl ZodError), cd_broadcastClient = (\<lambda>e r b. Inl NetworkError),
     cd_fromCashAddress = (\<lambda>a. if a = sample_address then Some (''ecash'', ''p2pkh'') else None)\<rparr>"

definition sample_argv :: "string list" where
  "sample_argv = [''broadcast'', ''--allow-broadcast'', ''--yes-i-understand-this-broadcasts-xec'',
     ''--confirmation-phrase'', BROADCAST_CONFIRMATION_PHRASE, ''--chronik-url'', ''https://chronik.example'',
     ''--max-payment-sats'', ''600'', ''--pay-to'', sample_address, ''--amount-sats'', ''546'']"

definition sample_cli_options :: cli_options where
  "sample_cli_options = \<lparr>clo_mode = CliBroadcast, clo_allowBroadcast = True, clo_confirmation = True,
     clo_confirmationPhrase = Some BROADCAST_CONFIRMATION_PHRASE, clo_overrideConservativeLimit = False,
     clo_chronikUrl = Some ''https://chronik.example'', clo_fromAddress = None, clo_wif = None, clo_privateKey = None,
     clo_maxPaymentSats = Some ''600'', clo_payTo = Some sample_address, clo_amountSats = Some ''546''\<rparr>"

definition sample_execution :: execution_options where
  "sample_execution = \<lparr>eo_chronikUrl = ''https://chronik.example'', eo_fromAddress = sample_address,
     eo_payTo = sample_address, eo_amountSats = ''546'', eo_maxPaymentSats = ''600''\<rparr>"

definition sample_cli_invoice :: invoice where
  "sample_cli_invoice = sample_invoice\<lparr>inv_nonce := base64url (replicate 24 CHR ''r''), inv_issuedAt := 150, inv_expiresAt := 450\<rparr>"

abbreviation sample_cli_config :: "unit orchestrator_config" where
  "sample_cli_config \<equiv> cli_config sample_keys sample_cli sample_cli_options sample_execution sample_signer 150
     (oc_utxoProvider sample_live) (oc_broadcastProvider sample_live)"

lemma sample_cli_parts:
  "parseCliArgs sample_argv = Inr sample_cli_options"
  "createWalletSigner sample_keys sample_cli_options (cd_mnemonic sample_cli) = Inr sample_signer"
  "requiredExecutionOptions sample_cli_options sample_cli sample_address = Inr sample_execution"
  "createInvoice sample_runtime (manual_invoice_input sample_cli sample_execution 150) = Inr sample_cli_invoice"
  by code_simp+

lemma sample_cli_invoice_ok: "invoice_valid sample_cli_invoice"
  "computeInvoiceHash sample_runtime sample_cli_invoice = Inr (hex64 CHR ''0'')"
  "computeResourceHash sample_runtime manual_RESOURCE = Inr (inv_resourceHash sample_cli_invoice)"
  by code_simp+

text \<open>What the preparer and the orchestrator make of the invoice.\<close>

abbreviation sample_cli_preparer :: "unit preparer_options" where
  "sample_cli_preparer \<equiv> preparer_of sample_cli_config (cli_policy sample_execution) 150"

definition sample_cli_signed :: authorization where
  "sample_cli_signed =
     with_signature (unsigned_payment sample_cli_invoice (hex64 CHR ''0'') sample_address sample_funding) ''sig''"

definition sample_cli_prepared :: prepared_payment where
  "sample_cli_prepared = \<lparr>pp_envelope = \<lparr>env_invoice = sample_cli_invoice, env_authorization = sample_cli_signed\<rparr>,
     pp_paymentSignature = base64url (utf8_encode (json_text (envelope_to_json
       \<lparr>env_invoice = sample_cli_invoice, env_authorization = sample_cli_signed\<rparr>))),
     pp_rawTx = ''0200'', pp_fundingTransaction = sample_funding\<rparr>"

definition sample_cli_plan :: payment_plan where
  "sample_cli_plan = sample_plan\<lparr>plan_expiresAt := NInt 450\<rparr>"

lemma sample_cli_funding:
  "buildFundingTx sample_lib (funding_request sample_cli_preparer sample_cli_invoice [sample_utxo, sample_utxo, sample_utxo]) =
     Inr sample_funding"
  "authorization_valid sample_cli_signed"
  by code_simp+

lemma sample_cli_prepared_ok:
  "prepared_ok sample_runtime sample_lib sample_cli_preparer 600 (invoice_to_json sample_cli_invoice) manual_RESOURCE
     sample_cli_prepared"
proof -
  obtain m where m: "authorizationSigningMessage sample_cli_signed = Inr m" using authorizationSigningMessage_total by blast
  have "snd (fetch_utxos sample_cli_preparer sample_cli_invoice) = Inr [sample_utxo, sample_utxo, sample_utxo]"
    by (simp add: fetch_utxos_Inr preparer_of_def cli_config_def sample_live_def)
  moreover have "op_transactionBuilder sample_cli_preparer = None" "op_now sample_cli_preparer = NInt 150"
    "op_payer sample_cli_preparer = sample_address"
    by (simp_all add: preparer_of_def cli_config_def sample_execution_def)
  moreover have "unpadded_url ''sig'' = ''sig''" by code_simp
  then have "op_sign sample_cli_preparer m = Inr (JStr ''sig'')"
    by (simp add: preparer_of_def cli_config_def signer_sign_def sample_signer_def sample_keys_def)
  moreover have "int (dec_to_nat (inv_amountSats sample_cli_invoice)) \<le> 600" "safe_nonneg (NInt 150) = Some 150"
    by code_simp+
  moreover have "inv_issuedAt sample_cli_invoice = 150" "inv_expiresAt sample_cli_invoice = 450"
    by (simp_all add: sample_cli_invoice_def)
  ultimately show ?thesis
    using sample_cli_funding sample_cli_invoice_ok parse_invoice_to_json [OF sample_cli_invoice_ok(1)] m
    unfolding prepared_ok_def
    by (intro exI [of _ 150] exI [of _ sample_cli_invoice] exI [of _ "[sample_utxo, sample_utxo, sample_utxo]"]
        exI [of _ "hex64 CHR ''0''"] exI [of _ m] exI [of _ "''sig''"])
      (simp add: sample_cli_prepared_def, simp add: sample_cli_signed_def sample_funding_def)
qed

lemma sample_cli_planned:
  "planned sample_runtime sample_lib (\<lambda>v. []) (\<lambda>s. NNaN) sample_cli_config (invoice_to_json sample_cli_invoice) manual_RESOURCE
     (cli_policy sample_execution) sample_cli_plan sample_cli_prepared"
proof -
  have "initial_plan (\<lambda>s. NNaN) (cli_policy sample_execution) (invoice_to_json sample_cli_invoice) = Inr sample_cli_plan"
    by code_simp
  moreover have "evaluatePaymentPolicy (cli_policy sample_execution) sample_cli_plan (run_context sample_cli_config 150) = Inr ()"
    "evaluatePaymentPolicy (cli_policy sample_execution)
       (sample_cli_plan\<lparr>plan_feeSats := Some ''254'', plan_transactionTxid := Some (hex64 CHR ''2'')\<rparr>)
       (run_context sample_cli_config 150) = Inr ()"
    by code_simp+
  moreover have "approval_plan sample_cli_plan sample_cli_prepared =
      sample_cli_plan\<lparr>plan_feeSats := Some ''254'', plan_transactionTxid := Some (hex64 CHR ''2'')\<rparr>"
    by (simp add: approval_plan_def sample_cli_prepared_def sample_funding_def)
  moreover have "safe_nonneg (oc_now sample_cli_config) = Some 150"
    "limit_of (pol_maxPaymentSats (cli_policy sample_execution)) = Some 600" "is_address (oc_payer sample_cli_config)"
    by code_simp+
  moreover have "oc_paymentPolicy sample_cli_config = Some (cli_policy sample_execution)" by (simp add: cli_config_def)
  ultimately show ?thesis
    using sample_cli_prepared_ok unfolding planned_def prepare_payment_iff evaluatePaymentPolicy_Inr
    by (intro exI [of _ 150] exI [of _ 600]) simp
qed

lemma sample_cli_run:
  "PaymentStep (BroadcastTx ''0200'') \<in> set (fst (runManualPaymentCli sample_runtime sample_lib sample_keys (\<lambda>v. [])
     (\<lambda>s. NNaN) sample_cli sample_argv))"
proof -
  have "approvalProvider sample_cli_config p = Inr (JObj [(''approved'', JBool True), (''approver'', JStr ''explicit-cli-confirmation'')])"
    for p
    by (simp add: approvalProvider_def cli_config_def sample_cli_def sample_cli_options_def explicit_approval_def)
  moreover have live: "\<not> is_dryRun sample_cli_config"
    by (simp add: is_dryRun_def cli_config_def sample_cli_options_def)
  ultimately have "BroadcastTx ''0200'' \<in> set (fst (execute_payment sample_runtime sample_lib (\<lambda>v. []) (\<lambda>s. NNaN)
      sample_cli_config (invoice_to_json sample_cli_invoice) manual_RESOURCE))"
    using broadcast_run [OF sample_cli_planned live] by (simp add: sample_cli_prepared_def prop_of_def)
  moreover have "newLivePaymentOrchestrator sample_cli_config = Inr ()"
    using live by (simp add: newLivePaymentOrchestrator_def broadcastProvider_def cli_config_def sample_live_def sample_cli_options_def)
  moreover have "cli_utxoProvider sample_runtime L sample_cli r = Inr (oc_utxoProvider sample_live)"
    "cli_broadcastProvider sample_runtime sample_cli r b = Inr (oc_broadcastProvider sample_live)"
    "checkedNow (cd_now sample_cli) = Inr 150" "ws_address sample_signer = sample_address"
    "clo_fromAddress sample_cli_options = None" for L :: "unit ecash_lib" and r b
    by (simp_all add: cli_utxoProvider_def cli_broadcastProvider_def sample_cli_def sample_live_def checkedNow_def
        safe_nonneg_def max_safe_integer_def sample_signer_def sample_cli_options_def)
  ultimately show ?thesis
    using sample_cli_parts
    by (simp add: runManualPaymentCli_def run_with_signer_def Let_def fst_tbind set_payment_steps printSafetyWarning_def
        demand_cli_def)
qed

text \<open>C8: The command line broadcasts a transaction only in broadcast mode with both confirmation flags, the exact phrase,
  a limit, and an amount of at most 1000 satoshis unless the override is given. The bytes are those of a
  transaction that the library signed over outputs which the provider offered for the signer's address; its first output
  pays exactly the amount of \<open>--amount-sats\<close>, within \<open>--max-payment-sats\<close>, to the script of the P2PKH address
  given as \<open>--pay-to\<close>, and its only other output, if any, is change to the signer. The library
  is assumed to pay the output it is asked for (\<open>builder_pays\<close>).\<close>

theorem cli_broadcast_gated:
  assumes "PaymentStep (BroadcastTx raw) \<in> set (fst (runManualPaymentCli E L K issue num D argv))" "builder_pays L"
  shows "\<exists>options amount payTo S required utxos us n inputs script change fee dust tx rest.
    parseCliArgs argv = Inr options \<and> broadcast_args options \<and>
    clo_amountSats options = Some amount \<and> clo_payTo options = Some payTo \<and>
    cd_fromCashAddress D payTo = Some (''ecash'', ''p2pkh'') \<and>
    BigInt_of amount \<le> BigInt_of (the (clo_maxPaymentSats options)) \<and>
    createWalletSigner K options (cd_mnemonic D) = Inr S \<and>
    requiredExecutionOptions options D (ws_address S) = Inr required \<and> cli_utxoProvider E L D required = Inr utxos \<and>
    utxos \<lparr>ur_network = XEC_MAINNET, ur_payer = ws_address S, ur_amountSats = amount\<rparr> = Inr (Some us) \<and>
    addressScript L payTo ''invoice.payTo'' = Inr script \<and> addressScript L (ws_address S) ''changeAddress'' = Inr change \<and>
    map fst inputs = take n us \<and>
    el_sign L False inputs (BigInt_of amount, script) change fee dust = Inr tx \<and> raw = lt_hex tx \<and>
    lt_outputs tx = (BigInt_of amount, script) # rest \<and> (rest = [] \<or> (\<exists>c. rest = [(c, change)]))"
  by (rule cli_broadcast [OF assms])

theorem cli_broadcast_gated_witness:
  "broadcast_args sample_cli_options \<and> (\<exists>script inputs change fee dust tx rest.
     addressScript sample_lib sample_address ''invoice.payTo'' = Inr script \<and>
     el_sign sample_lib False inputs (BigInt_of ''546'', script) change fee dust = Inr tx \<and> ''0200'' = lt_hex tx \<and>
     lt_outputs tx = (BigInt_of ''546'', script) # rest)"
proof -
  have "clo_amountSats sample_cli_options = Some ''546''" "clo_payTo sample_cli_options = Some sample_address"
    by (simp_all add: sample_cli_options_def)
  with cli_broadcast_gated [OF sample_cli_run sample_lib_pays] sample_cli_parts(1) show ?thesis
    by (elim exE conjE) (simp, blast)
qed

subsection \<open>Secrets\<close>

text \<open>C21: The mnemonic of the environment, and a key that follows \<open>--wif\<close> or \<open>--private-key\<close>, is not part of the
  message of any failure of the command, whatever failed, if it is longer than eight characters and has no
  square brackets (as every key and every twelve words), and its flag does not itself stand right
  after such a flag.\<close>

theorem secrets_redacted:
  assumes "snd (runManualPaymentCli E L K issue num D argv) = Inl e"
    and "cd_mnemonic D = Some secret \<or>
      (\<exists>xs flag ys. argv = xs @ flag # secret # ys \<and> flag \<in> {''--wif'', ''--private-key''} \<and>
         (xs = [] \<or> last xs \<notin> {''--wif'', ''--private-key''}))"
    and "8 < length secret" "CHR ''['' \<notin> set secret" "CHR '']'' \<notin> set secret"
  shows "\<not> str_includes (failure_message e) secret"
proof -
  have "secret \<in> set (supplied_secrets D argv)"
    using assms(2) collect_after_flag by (fastforce simp: supplied_secrets_def)
  moreover have "redactable secret" using assms(3-5) by (simp add: redactable_def)
  ultimately show ?thesis using run_failure_redacted [OF assms(1)] redact_absent by metis
qed

theorem secrets_redacted_witness:
  "\<exists>e. snd (runManualPaymentCli sample_runtime sample_lib sample_keys (\<lambda>v. []) (\<lambda>s. NNaN) sample_cli
     [''--wif'', ''L4rK1yDtCWekvXuE'', ''--L4rK1yDtCWekvXuE'']) = Inl e \<and> \<not> str_includes (failure_message e) ''L4rK1yDtCWekvXuE''"
proof -
  have "parseCliArgs [''--wif'', ''L4rK1yDtCWekvXuE'', ''--L4rK1yDtCWekvXuE''] =
      Inl (cli_usage ''unknown argument: --L4rK1yDtCWekvXuE'')"
    by code_simp
  then obtain e where e: "snd (runManualPaymentCli sample_runtime sample_lib sample_keys (\<lambda>v. []) (\<lambda>s. NNaN) sample_cli
     [''--wif'', ''L4rK1yDtCWekvXuE'', ''--L4rK1yDtCWekvXuE'']) = Inl e"
    by (simp add: runManualPaymentCli_def)
  have "\<exists>xs flag ys. [''--wif'', ''L4rK1yDtCWekvXuE'', ''--L4rK1yDtCWekvXuE''] = xs @ flag # ''L4rK1yDtCWekvXuE'' # ys \<and>
      flag \<in> {''--wif'', ''--private-key''} \<and> (xs = [] \<or> last xs \<notin> {''--wif'', ''--private-key''})"
    by (intro exI [of _ "[]"] exI [of _ "''--wif''"] exI [of _ "[''--L4rK1yDtCWekvXuE'']"]) simp
  then have "\<not> str_includes (failure_message e) ''L4rK1yDtCWekvXuE''"
    by (intro secrets_redacted [OF e] disjI2) simp_all
  with e show ?thesis by blast
qed

text \<open>An attached key is not among the secrets and comes back.\<close>

lemma attached_key_leaks:
  "\<exists>e. snd (runManualPaymentCli E L K issue num (D\<lparr>cd_mnemonic := None\<rparr>) [''--wif='' @ key]) = Inl e \<and>
     str_includes (failure_message e) key"
  using attached_key_echoed [of E L K issue num "D\<lparr>cd_mnemonic := None\<rparr>" key] includes_append [of "''unknown argument: --wif=''" key "[]"]
  by (simp add: supplied_secrets_def redact_def)

end
