(* ===== verification/Client_Purchase.thy ===== *)
theory Client_Purchase
  imports Prepaid_Purchase Axios_Interceptor
begin

text \<open>
  The client package against the server packages: the interceptor of \<open>x402-xec-axios\<close> gets a 402 from the
  payment middleware of \<open>x402-xec-express\<close>, pays it with a signer and repeats the request, which the middleware
  has verified by the facilitator. The lemmas say that every 402 of the middleware is an offer that the interceptor
  accepts, and that the repeated request is verified and debited.
\<close>

subsection \<open>The offer of the middleware\<close>

lemma parseResource_json:
  assumes "payment_resource X request origin = Inr r"
  shows "parseResource (resource_to_json r) = Inr r"
proof -
  from assms obtain pathname q body meth path where
    r: "r = \<lparr>res_serverOrigin = origin, res_method = meth, res_path = path, res_query = opt_query q, res_body = body\<rparr>"
    by (auto simp: payment_resource_def ebind_Inr_iff split: option.splits)
  have "opt_query q \<noteq> JUndef \<Longrightarrow> isQuery (opt_query q)"
    by (auto simp: opt_query_def typed_query_def isQuery_def list_all_iff)
  then show ?thesis by (auto simp: r parseResource_def resource_to_json_def prop_of_def)
qed

text \<open>The parts of a 402 body, and that it survives the way to the client.\<close>

lemma payment_body:
  assumes server: "createX402XecMiddleware E href config = Inr PS" "xe_runtime X = E"
    and first: "rq_get request PAYMENT_HEADER = None"
      "snd (handle_payment X PS clock random request) = Inr (PaymentResponse 402 body)"
    and res: "payment_resource X request (ps_publicOrigin PS) = Inr resource"
      "rq_body request = JUndef \<or> plain (rq_body request)"
  shows "\<exists>i h accepts. plain body \<and> isRecord body \<and> prop_of body ''x402Version'' = JNum (NInt X402_VERSION) \<and>
    prop_of body ''invoice'' = invoice_to_json i \<and> invoice_valid i \<and> computeInvoiceHash E i = Inr h \<and>
    prop_of body ''invoiceId'' = JStr h \<and> prop_of body ''resource'' = resource_to_json resource \<and>
    computeResourceHash E resource = Inr (inv_resourceHash i) \<and>
    prop_of body ''accepts'' = JArr accepts \<and> list_ex (accepts_invoice i) accepts"
proof -
  from first obtain key where key: "routeKey (rq_method request) (rq_path request) = Inr key"
    by (auto simp: handle_payment_def snd_tbind_Inr)
  with first obtain route where route: "jget (ps_routes PS) key = Some route"
    by (auto simp: handle_payment_def split: option.splits)
  with first key res(1) server(2) obtain now where
    "payment_required E PS now random resource route = Inr (PaymentResponse 402 body)"
    by (auto simp: handle_payment_def snd_tbind_Inr)
  then obtain i h where i: "invoice_valid i" "computeInvoiceHash E i = Inr h"
      "computeResourceHash E resource = Inr (inv_resourceHash i)"
    and body: "body = JObj
         [(''x402Version'', JNum (NInt X402_VERSION)), (''invoiceId'', JStr h), (''invoice'', invoice_to_json i),
          (''resource'', resource_to_json resource),
          (''accepts'', JArr [JObj ([(''asset'', JStr (rp_asset (pq_payment route))),
             (''network'', JStr (rp_network (pq_payment route))), (''scheme'', JStr (rp_scheme (pq_payment route))),
             (''amountSats'', JStr (inv_amountSats i)), (''payTo'', JStr (inv_payTo i))] @
            (case rp_description (pq_payment route) of None \<Rightarrow> [] | Some d \<Rightarrow> [(''description'', JStr d)]) @
            [(''paymentHeader'', JStr ''PAYMENT-SIGNATURE'')])])]"
    by (auto simp: payment_required_def ebind_Inr_iff createInvoice_Inr)
  from server_routes [OF server(1) route] obtain entry where "payment_route_of entry = Inr (key, route)" ..
  then have literals: "rp_asset (pq_payment route) = ''XEC''" "rp_network (pq_payment route) = ''xec:mainnet''"
    "rp_scheme (pq_payment route) = ''xec-prepaid-utxo''"
    by (auto simp: payment_route_of_def ebind_Inr_iff split: prod.splits option.splits if_splits)
  have "plain body" using request_resource(1) [OF res] plain_invoice_json [OF i(1)]
    by (auto simp: body X402_VERSION_def max_safe_integer_def split: option.split)
  moreover have "isRecord body" by (simp add: body)
  ultimately show ?thesis
    using i literals
    by (auto simp: body prop_of_def accepts_invoice_def PAYMENT_ASSET_def XEC_MAINNET_def PAYMENT_SCHEME_def
        SIGNATURE_HEADER_def split: option.split)
qed

text \<open>A first request for the resource, and its failure as Axios reports it: the body is the JSON text that came.\<close>

definition asks_for :: "axios_env \<Rightarrow> axios_config \<Rightarrow> resource_request \<Rightarrow> bool" where
  "asks_for A config resource \<longleftrightarrow>
     resolveRequestedUrl A config = Inr (res_serverOrigin resource, res_path resource) \<and>
     toUpperCase (case ac_method config of None \<Rightarrow> ''get'' | Some m \<Rightarrow> m) = toUpperCase (res_method resource) \<and>
     \<not> ac_attempted config \<and> ac_signature config = None"

definition failed_402 :: "(string \<Rightarrow> js_number) \<Rightarrow> axios_error \<Rightarrow> axios_config \<Rightarrow> js_value \<Rightarrow> bool" where
  "failed_402 num error config body \<longleftrightarrow>
     ae_isAxiosError error \<and> ae_status error = Some 402 \<and> ae_config error = Some config \<and>
     JSON_parse num (json_text body) = Inr (ae_data error)"

lemma middleware_offer_paid:
  assumes server: "createX402XecMiddleware E href config = Inr PS" "xe_runtime X = E"
    and first: "rq_get request PAYMENT_HEADER = None"
      "snd (handle_payment X PS clock random request) = Inr (PaymentResponse 402 body)"
    and res: "payment_resource X request (ps_publicOrigin PS) = Inr resource"
      "rq_body request = JUndef \<or> plain (rq_body request)"
    and client: "ax_runtime A = E" "asks_for A c resource" "failed_402 num error c body"
    and i: "prop_of body ''invoice'' = invoice_to_json i" "invoice_valid i"
    and limits: "int (dec_to_nat (inv_amountSats i)) \<le> maximum"
      "safe_nonneg now = Some t" "inv_issuedAt i \<le> t" "t < inv_expiresAt i"
  shows "pays_for A maximum now error c i resource"
proof -
  from payment_body [OF server first res] obtain j h accepts where body: "plain body" "isRecord body"
    "prop_of body ''x402Version'' = JNum (NInt X402_VERSION)" "prop_of body ''invoice'' = invoice_to_json j"
    "invoice_valid j" "computeInvoiceHash E j = Inr h" "prop_of body ''invoiceId'' = JStr h"
    "prop_of body ''resource'' = resource_to_json resource" "computeResourceHash E resource = Inr (inv_resourceHash j)"
    "prop_of body ''accepts'' = JArr accepts" "list_ex (accepts_invoice j) accepts"
    by blast
  from body(4,5) i have "j = i" by (metis option.inject parse_invoice_to_json)
  moreover have "ae_data error = body" using client(3) JSON_parse_text [OF body(1)] by (simp add: failed_402_def)
  ultimately have "offer_accepted A (ae_data error) c now i resource"
    using body client(1,2) parseResource_json [OF res(1)] parse_invoice_to_json [OF i(2)] limits(2-4)
    by (simp add: offer_accepted_def asks_for_def)
  with client limits(1) show ?thesis by (simp add: pays_for_def asks_for_def failed_402_def)
qed

subsection \<open>The repeated request\<close>

definition with_payment :: "http_request \<Rightarrow> string \<Rightarrow> http_request" where
  "with_payment request s = request\<lparr>rq_get := (rq_get request)(PAYMENT_HEADER \<mapsto> s)\<rparr>"

text \<open>A header with an envelope of the offered invoice reaches the facilitator.\<close>

lemma paid_envelope_asked:
  assumes server: "createX402XecMiddleware E href config = Inr PS" "xe_runtime X = E"
    and first: "rq_get request PAYMENT_HEADER = None"
      "snd (handle_payment X PS clock random request) = Inr (PaymentResponse 402 body)"
    and res: "payment_resource X request (ps_publicOrigin PS) = Inr resource"
    and e: "parsePaymentEnvelope X s = Inr e" "prop_of body ''invoice'' = invoice_to_json (re_invoice e)"
      "authorization_matches E (re_invoice e) (re_authorization e) resource t"
    and later: "safe_nonneg later = Some t" "int (length (utf8_encode s)) \<le> ps_maxPaymentHeaderBytes PS"
  shows "handle_payment X PS later random' (with_payment request s) = ask_facilitator X PS e resource"
proof -
  from payment_answer [OF first] res server(2) obtain key route now i where
    key: "routeKey (rq_method request) (rq_path request) = Inr key" "jget (ps_routes PS) key = Some route"
    and i: "createInvoice E \<lparr>cin_request = resource, cin_amountSats = pq_amountSats route, cin_payTo = ps_payTo PS,
        cin_nonce = base64url random, cin_issuedAt = now, cin_expiresAt = now + ps_expirySeconds PS\<rparr> = Inr i"
    and body: "prop_of body ''invoice'' = invoice_to_json i"
    by auto
  from server_routes [OF server(1) key(2)] obtain entry where entry: "payment_route_of entry = Inr (key, route)" ..
  then have "parseAmountSats (rp_amountSats (pq_payment route)) = Inr (pq_amountSats route)"
    by (auto simp: payment_route_of_def ebind_Inr_iff split: prod.splits option.splits if_splits)
  then have price: "int_to_dec (pq_amountSats route) = rp_amountSats (pq_payment route)" by (rule int_to_dec_parse)
  have valid: "invoice_valid (re_invoice e)" "authorization_valid (re_authorization e)"
    using parsePaymentEnvelope_valid [OF e(1)] by simp_all
  have "invoice_valid i" using i by (simp add: createInvoice_Inr)
  then have "re_invoice e = i" using body e(2) valid(1) by (metis option.inject parse_invoice_to_json)
  then have "envelope_accepted E e resource route (ps_payTo PS) (ps_expirySeconds PS) t"
    using i price e(3) by (auto simp: envelope_accepted_def createInvoice_Inr)
  then have "validateEnvelope E e resource route (ps_payTo PS) (ps_expirySeconds PS) t = Inr None"
    by (simp add: validateEnvelope_None [OF valid])
  moreover have "payment_resource X (with_payment request s) (ps_publicOrigin PS) = Inr resource"
    "routeKey (rq_method (with_payment request s)) (rq_path (with_payment request s)) = Inr key"
    "rq_get (with_payment request s) PAYMENT_HEADER = Some s"
    using res key(1) by (simp_all add: with_payment_def payment_resource_def split: option.splits prod.splits)
  ultimately show ?thesis using handle_payment_run [of "with_payment request s"] key(2) later e(1) server(2) by metis
qed

text \<open>The interceptor's request again, as the server handles it.\<close>

definition repeat_at ::
  "express_env \<Rightarrow> payment_server \<Rightarrow> js_number \<Rightarrow> string \<Rightarrow> http_request \<Rightarrow> axios_config \<Rightarrow> payment_outcome result" where
  "repeat_at X PS later random request config =
     snd (handle_payment X PS later random (case ac_signature config of None \<Rightarrow> request | Some s \<Rightarrow> with_payment request s))"

text \<open>The terms of an invoice in an authorization.\<close>

definition binds_invoice :: "runtime \<Rightarrow> invoice \<Rightarrow> authorization \<Rightarrow> bool" where
  "binds_invoice E i a \<longleftrightarrow> computeInvoiceHash E i = Inr (auth_invoiceHash a) \<and> auth_resourceHash a = inv_resourceHash i \<and>
     auth_amountSats a = inv_amountSats i \<and> auth_payTo a = inv_payTo i \<and> auth_nonce a = inv_nonce i"

text \<open>Whatever makes the header: if it holds an envelope of the offered invoice with an authorization for it, the
  repeated request is verified.\<close>

lemma envelope_purchase:
  assumes server: "createX402XecMiddleware E href config = Inr PS" "xe_runtime X = E"
    and first: "rq_get request PAYMENT_HEADER = None"
      "snd (handle_payment X PS clock random request) = Inr (PaymentResponse 402 body)"
    and res: "payment_resource X request (ps_publicOrigin PS) = Inr resource"
      "rq_body request = JUndef \<or> plain (rq_body request)"
    and client: "ax_runtime A = E" "asks_for A c resource" "failed_402 num error c body"
    and i: "prop_of body ''invoice'' = invoice_to_json i" "invoice_valid i"
    and limits: "int (dec_to_nat (inv_amountSats i)) \<le> maximum"
      "safe_nonneg now = Some t" "inv_issuedAt i \<le> t" "t < inv_expiresAt i"
    and header: "createPaymentSignature E opt i resource = Inr s" "int (length (utf8_encode s)) \<le> ps_maxPaymentHeaderBytes PS"
      "parsePaymentEnvelope X s = Inr \<lparr>re_invoice = i, re_authorization = a, re_idempotencyKey = None\<rparr>" "binds_invoice E i a"
    and later: "safe_nonneg later = Some t'" "inv_issuedAt i \<le> t'" "t' < inv_expiresAt i"
    and wire: "reaches_facilitator PS receive E provider verify fclock l" "receives num' receive" "hex_hashes E"
    and fac: "safe_nonneg fclock = Some u" "facilitator_ready E provider verify l u i a (envelope_key E a)"
      "text_bytes (request_json i a (resource_to_json resource) (envelope_key E a)) \<le> 65536"
  shows "\<exists>posted b l' entry.
    intercept A opt maximum (repeat_at X PS later random' request) now error =
      ([PayOffer i resource, RepeatRequest (c\<lparr>ac_attempted := True, ac_signature := Some s\<rparr>)],
       Inr (Verified (verify_response_json (VerifyOk b)))) \<and>
    app_verify E provider verify fclock (receive posted) l = ((200, verify_response_json (VerifyOk b)), l') \<and>
    lg_entries l' = lg_entries l @ [entry] \<and> le_payTo entry = inv_payTo i \<and>
    parseAmountSats (inv_amountSats i) = Inr (le_debitedSats entry) \<and>
    le_nonce entry = inv_nonce i \<and> le_payer entry = auth_payer a"
proof -
  let ?e = "\<lparr>re_invoice = i, re_authorization = a, re_idempotencyKey = None\<rparr>"
  have valid: "invoice_valid (re_invoice ?e)" "authorization_valid (re_authorization ?e)"
    using parsePaymentEnvelope_valid [OF header(3)] by simp_all
  from payment_body [OF server first res] obtain j where "prop_of body ''invoice'' = invoice_to_json j" "invoice_valid j"
    and hash: "computeResourceHash E resource = Inr (inv_resourceHash j)" by blast
  then have "j = i" using i by (metis option.inject parse_invoice_to_json)
  with hash header(4) have matches: "inv_issuedAt i \<le> n \<Longrightarrow> n < inv_expiresAt i \<Longrightarrow> authorization_matches E i a resource n" for n
    by (simp add: authorization_matches_def binds_invoice_def)
  have ready: "inv_issuedAt i \<le> u" "u < inv_expiresAt i" using fac(2) by (simp_all add: facilitator_ready_def)
  obtain posted ds b l' where asked: "ask_facilitator X PS ?e resource =
      ([PostFacilitator (ps_facilitatorVerifyUrl PS) posted], Inr (Verified (verify_response_json (VerifyOk b))))"
    "app_verify E provider verify fclock (receive posted) l = ((200, verify_response_json (VerifyOk b)), l')"
    and d: "debited_as provider \<lparr>vr_invoice = i, vr_authorization = a, vr_resource = resource,
      vr_idempotencyKey = envelope_key E a\<rparr> u ds l b l'"
    using facilitator_answers [OF wire(1) server(2) wire(2,3) valid _ request_resource [OF res] fac(1)] matches [OF ready]
      fac(2,3) by auto
  have "handle_payment X PS later random' (with_payment request s) = ask_facilitator X PS ?e resource"
    by (rule paid_envelope_asked [OF server first res(1) header(3) _ _ later(1) header(2)])
      (use i(1) matches [OF later(2,3)] in simp_all)
  then have "intercept A opt maximum (repeat_at X PS later random' request) now error =
      ([PayOffer i resource, RepeatRequest (c\<lparr>ac_attempted := True, ac_signature := Some s\<rparr>)],
       Inr (Verified (verify_response_json (VerifyOk b))))"
    unfolding intercept_run [OF middleware_offer_paid [OF server first res client i limits]]
    using asked(1) header(1) client(1) by (simp add: repeat_at_def Let_def del: verify_response_json.simps)
  with asked(2) debited_entry [OF d] show ?thesis by auto
qed

text \<open>In particular the header of a signer.\<close>

lemma signer_purchase:
  assumes server: "createX402XecMiddleware E href config = Inr PS" "xe_runtime X = E"
    and first: "rq_get request PAYMENT_HEADER = None"
      "snd (handle_payment X PS clock random request) = Inr (PaymentResponse 402 body)"
    and res: "payment_resource X request (ps_publicOrigin PS) = Inr resource"
      "rq_body request = JUndef \<or> plain (rq_body request)"
    and client: "ax_runtime A = E" "asks_for A c resource" "failed_402 num error c body"
    and i: "prop_of body ''invoice'' = invoice_to_json i" "invoice_valid i"
    and limits: "int (dec_to_nat (inv_amountSats i)) \<le> maximum"
      "safe_nonneg now = Some t" "inv_issuedAt i \<le> t" "t < inv_expiresAt i"
    and opt: "io_orchestrator opt = None" "io_paymentPreparer opt = None" "io_signer opt = Some signer"
      "createAuthorization E i signer = Inr a"
    and header: "createPaymentSignature E opt i resource = Inr s" "int (length (utf8_encode s)) \<le> ps_maxPaymentHeaderBytes PS"
    and later: "safe_nonneg later = Some t'" "inv_issuedAt i \<le> t'" "t' < inv_expiresAt i"
    and wire: "ps_fetch PS = facilitator_fetch receive E provider verify fclock l" "receives num receive" "hex_hashes E"
    and fac: "safe_nonneg fclock = Some u" "facilitator_ready E provider verify l u i a (envelope_key E a)"
      "text_bytes (request_json i a (resource_to_json resource) (envelope_key E a)) \<le> 65536"
  shows "\<exists>posted b l' entry.
    intercept A opt maximum (repeat_at X PS later random' request) now error =
      ([PayOffer i resource, RepeatRequest (c\<lparr>ac_attempted := True, ac_signature := Some s\<rparr>)],
       Inr (Verified (verify_response_json (VerifyOk b)))) \<and>
    app_verify E provider verify fclock (receive posted) l = ((200, verify_response_json (VerifyOk b)), l') \<and>
    lg_entries l' = lg_entries l @ [entry] \<and> le_payTo entry = inv_payTo i \<and>
    parseAmountSats (inv_amountSats i) = Inr (le_debitedSats entry) \<and>
    le_nonce entry = inv_nonce i \<and> le_payer entry = xs_payer signer"
proof -
  note a = createAuthorization_Inr [OF opt(4)]
  have parsed: "parsePaymentEnvelope X s = Inr \<lparr>re_invoice = i, re_authorization = a, re_idempotencyKey = None\<rparr>"
    using signer_header [OF i(2) opt(4,1-3), of resource X] header(1) by auto
  have binds: "binds_invoice E i a" using a by (simp add: binds_invoice_def)
  from envelope_purchase [OF server first res client i limits header parsed binds later fetch_reaches [OF wire(1)] wire(2,3) fac] a
  show ?thesis by auto
qed

end
