(* ===== verification/Client_Properties.thy ===== *)
theory Client_Properties
  imports Client_Purchase Express_Properties
begin

text \<open>
  The client package with the server packages: the purchase that the interceptor makes on its own. The witness is the
  purchase of the sample invoice, with a signer in the place of the preparer.
\<close>

subsection \<open>A purchase by the interceptor\<close>

definition sample_xec_signer :: xec_signer where
  "sample_xec_signer = \<lparr>xs_payer = sample_address, xs_transaction = \<lparr>ref_txid = hex64 CHR ''2'', ref_vout = 0\<rparr>,
     xs_sign = (\<lambda>m. Inr (JStr ''sig''))\<rparr>"

definition sample_interceptor :: interceptor_options where
  "sample_interceptor = \<lparr>io_maxPaymentSats = JNum (NInt 600), io_signer = Some sample_xec_signer, io_paymentPreparer = None,
     io_orchestrator = None, io_enableOrchestratorPayments = None\<rparr>"

definition sample_axios :: axios_env where
  "sample_axios = \<lparr>ax_runtime = sample_runtime,
     ax_url = (\<lambda>u b. if b = Some ''https://shop.example'' then Some (''https://shop.example'', u) else None),
     ax_location = Inr None, ax_issue = (\<lambda>v. [])\<rparr>"

definition sample_axios_config :: axios_config where
  "sample_axios_config = \<lparr>ac_url = Some ''/Report/'', ac_baseURL = Some ''https://shop.example'', ac_method = Some ''get'',
     ac_attempted = False, ac_signature = None\<rparr>"

definition sample_failure :: axios_error where
  "sample_failure = \<lparr>ae_error = PlainError ''Request failed with status code 402'', ae_isAxiosError = True,
     ae_status = Some 402, ae_data = sample_body, ae_config = Some sample_axios_config\<rparr>"

lemma sample_axios_asks: "asks_for sample_axios sample_axios_config bought_resource"
  by code_simp

lemma sample_bought_body: "prop_of sample_body ''invoice'' = invoice_to_json sample_invoice"
  using sample_402 sample_answered(1) by auto

lemma sample_failed: "failed_402 (\<lambda>s. NNaN) sample_failure sample_axios_config sample_body"
proof -
  have "plain sample_body"
    using payment_body [OF sample_purchase(1,2,3,4,5,6)] by blast
  then show ?thesis by (simp add: failed_402_def sample_failure_def JSON_parse_text)
qed

lemma sample_created: "createAuthorization sample_runtime sample_invoice sample_xec_signer = Inr sample_signed"
proof -
  let ?u = "\<lparr>auth_x402Version = X402_VERSION, auth_scheme = XEC_SCHEME, auth_network = XEC_MAINNET,
       auth_invoiceHash = hex64 CHR ''0'', auth_resourceHash = inv_resourceHash sample_invoice,
       auth_amountSats = inv_amountSats sample_invoice, auth_payTo = inv_payTo sample_invoice,
       auth_nonce = inv_nonce sample_invoice, auth_payer = sample_address,
       auth_transaction = \<lparr>ref_txid = hex64 CHR ''2'', ref_vout = 0\<rparr>\<rparr>"
  obtain m where "authorizationSigningMessage (with_signature ?u ''placeholder'') = Inr m"
    using authorizationSigningMessage_total by blast
  moreover have "parse_authorization (JObj (unsigned_fields ?u @ [(''signature'', JStr ''sig'')])) = Some sample_signed"
    by code_simp
  ultimately show ?thesis
    using sample_invoice_hash by (simp add: createAuthorization_def Let_def sample_xec_signer_def)
qed

lemma sample_signature:
  "createPaymentSignature sample_runtime sample_interceptor sample_invoice bought_resource =
     Inr (pp_paymentSignature sample_prepared_payment)"
proof -
  let ?e = "\<lparr>env_invoice = sample_invoice, env_authorization = sample_signed\<rparr>"
  have p: "plain (envelope_to_json ?e)" using sample_invoice_valid sample_signed_valid by (intro plain_envelope) simp_all
  show ?thesis
    using sample_created encode_plain [OF p] axios_encode_same [of "envelope_to_json ?e"] stringify_plain [OF p]
    by (simp add: createPaymentSignature_def sample_interceptor_def sample_prepared_payment_def)
qed

text \<open>C17: A purchase by the client's interceptor alone: where the payment middleware answers a request for a protected
  resource by 402, the interceptor, given that failure and a signer, pays the offer within its limit and repeats the
  request once; the middleware accepts the header, and a facilitator that has the funding on chain, verifies the
  signature and has used neither nonce nor key before debits exactly the invoice's amount to the signer's payer, and
  the repeated request passes as verified.\<close>

theorem interceptor_purchase:
  assumes "createX402XecMiddleware E href config = Inr PS" "xe_runtime X = E"
    and "rq_get request PAYMENT_HEADER = None"
      "snd (handle_payment X PS clock random request) = Inr (PaymentResponse 402 body)"
    and "payment_resource X request (ps_publicOrigin PS) = Inr resource"
      "rq_body request = JUndef \<or> plain (rq_body request)"
    and "ax_runtime A = E" "asks_for A c resource" "failed_402 num error c body"
    and "prop_of body ''invoice'' = invoice_to_json i" "invoice_valid i"
    and "int (dec_to_nat (inv_amountSats i)) \<le> maximum"
      "safe_nonneg now = Some t" "inv_issuedAt i \<le> t" "t < inv_expiresAt i"
    and "io_orchestrator opt = None" "io_paymentPreparer opt = None" "io_signer opt = Some signer"
      "createAuthorization E i signer = Inr a"
    and "createPaymentSignature E opt i resource = Inr s" "int (length (utf8_encode s)) \<le> ps_maxPaymentHeaderBytes PS"
    and "safe_nonneg later = Some t'" "inv_issuedAt i \<le> t'" "t' < inv_expiresAt i"
    and "ps_fetch PS = facilitator_fetch receive E provider verify fclock l" "receives num receive" "hex_hashes E"
    and "safe_nonneg fclock = Some u" "facilitator_ready E provider verify l u i a (envelope_key E a)"
      "text_bytes (request_json i a (resource_to_json resource) (envelope_key E a)) \<le> 65536"
  shows "\<exists>posted b l' entry.
    intercept A opt maximum (repeat_at X PS later random' request) now error =
      ([PayOffer i resource, RepeatRequest (c\<lparr>ac_attempted := True, ac_signature := Some s\<rparr>)],
       Inr (Verified (verify_response_json (VerifyOk b)))) \<and>
    app_verify E provider verify fclock (receive posted) l = ((200, verify_response_json (VerifyOk b)), l') \<and>
    lg_entries l' = lg_entries l @ [entry] \<and> le_payTo entry = inv_payTo i \<and>
    parseAmountSats (inv_amountSats i) = Inr (le_debitedSats entry) \<and>
    le_nonce entry = inv_nonce i \<and> le_payer entry = xs_payer signer"
  by (rule signer_purchase [OF assms])

theorem interceptor_purchase_witness:
  "\<exists>b l' posted. snd (intercept sample_axios sample_interceptor 600
      (repeat_at sample_express sample_payment_server (NInt 150) [] (sample_http ''get'')) (NInt 150) sample_failure) =
      Inr (Verified (verify_response_json (VerifyOk b))) \<and>
    app_verify sample_runtime sample_chain sample_verifier (NInt 150) (sample_receive posted) ledger_empty =
      ((200, verify_response_json (VerifyOk b)), l') \<and> length (lg_entries l') = 1"
proof -
  have parts: "env_invoice (pp_envelope sample_prepared_payment) = sample_invoice"
    "env_authorization (pp_envelope sample_prepared_payment) = sample_signed"
    by (simp_all add: sample_prepared_payment_def)
  have limits: "int (dec_to_nat (inv_amountSats sample_invoice)) \<le> 600" by code_simp
  have opt: "io_orchestrator sample_interceptor = None" "io_paymentPreparer sample_interceptor = None"
    "io_signer sample_interceptor = Some sample_xec_signer" "ax_runtime sample_axios = sample_runtime"
    by (simp_all add: sample_interceptor_def sample_axios_def)
  note p = interceptor_purchase [OF sample_purchase(1-6) opt(4) sample_axios_asks sample_failed sample_bought_body
      sample_invoice_valid limits sample_clock [unfolded parts] opt(1-3) sample_created sample_signature
      sample_header_size sample_clock [unfolded parts] sample_parts(5) sample_receives sample_hex sample_clock(1)
      sample_ready sample_request_size]
  from p [of "[]"] show ?thesis by (elim exE conjE) (intro exI conjI, simp, assumption, simp add: ledger_empty_def)
qed

end
