(* ===== verification/Gate_Server.thy ===== *)
theory Gate_Server
  imports Wire
begin

text \<open>
  \<open>examples/webmcp-resource-server/src\<close>: a server that advertises a payment and never serves the resource. A request
  is answered by a function; the URL parser is a parameter. The lemmas say that the resource is always answered by 402
  with a header that a client reads back as the offer, that a price is what it displays, which preflight requests are
  allowed, and that a configured port is one.
\<close>

subsection \<open>Configuration\<close>

definition GATE_DEFAULT_HOST :: string where "GATE_DEFAULT_HOST = ''127.0.0.1''"
definition GATE_DEFAULT_PORT :: int where "GATE_DEFAULT_PORT = 4020"
definition GATE_PUBLIC_ORIGIN :: string where "GATE_PUBLIC_ORIGIN = ''http://127.0.0.1:4020''"

type_synonym environment = "string \<Rightarrow> string option"

record gate_config =
  gc_host :: string
  gc_port :: int
  gc_publicOrigin :: string

definition resolveHost :: "string option \<Rightarrow> string result" where
  "resolveHost v = (case v of
     None \<Rightarrow> Inr GATE_DEFAULT_HOST
   | Some s \<Rightarrow>
       if s = [] \<or> trim s \<noteq> s then Inl (PlainError ''H2A_HOST must be a non-empty host without surrounding whitespace'')
       else Inr s)"

definition port_source :: "environment \<Rightarrow> string option" where
  "port_source env = (if env ''H2A_PORT'' \<noteq> None then Some ''H2A_PORT'' else if env ''PORT'' \<noteq> None then Some ''PORT'' else None)"

text \<open>\<open>Number\<close> of a text of digits is its value where that is a safe integer, and no safe integer otherwise.\<close>

definition resolvePort :: "environment \<Rightarrow> int result" where
  "resolvePort env = (case port_source env of
     None \<Rightarrow> Inr GATE_DEFAULT_PORT
   | Some source \<Rightarrow>
       (case env source of
          None \<Rightarrow> Inl (PlainError (source @ '' must be an integer between 1 and 65535''))
        | Some v \<Rightarrow>
            if v = [] \<or> \<not> list_all is_digit v then Inl (PlainError (source @ '' must be an integer between 1 and 65535''))
            else
              let port = int (dec_to_nat v) in
              if \<not> port \<le> max_safe_integer \<or> port < 1 \<or> port > 65535 then
                Inl (PlainError (source @ '' must be an integer between 1 and 65535''))
              else Inr port))"

definition resolveGateH2ARuntimeConfig :: "environment \<Rightarrow> gate_config result" where
  "resolveGateH2ARuntimeConfig env =
     ebind (resolveHost (env ''H2A_HOST'')) (\<lambda>host.
     ebind (resolvePort env) (\<lambda>port.
       Inr \<lparr>gc_host = host, gc_port = port,
            gc_publicOrigin = (case env ''H2A_PUBLIC_ORIGIN'' of None \<Rightarrow> GATE_PUBLIC_ORIGIN | Some s \<Rightarrow> s)\<rparr>))"

lemma resolved_port: "resolveGateH2ARuntimeConfig env = Inr c \<Longrightarrow> 1 \<le> gc_port c \<and> gc_port c \<le> 65535"
  by (auto simp: resolveGateH2ARuntimeConfig_def resolvePort_def GATE_DEFAULT_PORT_def Let_def ebind_Inr_iff
      split: option.splits if_splits)

subsection \<open>The offer\<close>

definition XEC_ATOMIC_UNITS_PER_XEC :: int where "XEC_ATOMIC_UNITS_PER_XEC = 100"
definition PAYMENT_AMOUNT_ATOMIC :: string where "PAYMENT_AMOUNT_ATOMIC = ''10000''"
definition PAYMENT_DISPLAY_AMOUNT :: string where "PAYMENT_DISPLAY_AMOUNT = ''100 XEC''"
definition FIXTURE_PAY_TO :: string where "FIXTURE_PAY_TO = ''ecash:qqg3zyg3zyg3zyg3zyg3zyg3zyg3zyg3zyquz9y96w''"

text \<open>\<open>/^([1-9][0-9]*) XEC$/\<close> and its group.\<close>

definition display_value :: "string \<Rightarrow> string option" where
  "display_value s =
     (let n = length s - 4 in
      if 4 \<le> length s \<and> drop n s = '' XEC'' \<and> is_positive_dec (take n s) then Some (take n s) else None)"

definition assertDisplayAmountMatchesAtomic :: "string \<Rightarrow> string \<Rightarrow> unit result" where
  "assertDisplayAmountMatchesAtomic displayAmount atomicAmount = (case display_value displayAmount of
     None \<Rightarrow> Inl (PlainError ''Gate H2A price must use canonical XEC display and atomic amounts'')
   | Some v \<Rightarrow>
       if \<not> is_positive_dec atomicAmount then
         Inl (PlainError ''Gate H2A price must use canonical XEC display and atomic amounts'')
       else if BigInt_of v * XEC_ATOMIC_UNITS_PER_XEC \<noteq> BigInt_of atomicAmount then
         Inl (PlainError ''Gate H2A display amount does not match its atomic amount'')
       else Inr ())"

text \<open>The module loads: its constants pass the check that it runs.\<close>

lemma module_price: "assertDisplayAmountMatchesAtomic PAYMENT_DISPLAY_AMOUNT PAYMENT_AMOUNT_ATOMIC = Inr ()"
  by code_simp

definition createPaymentRequired :: "string \<Rightarrow> js_value" where
  "createPaymentRequired canonicalResourceUrl = JObj
     [(''x402Version'', JNum (NInt 2)), (''error'', JStr ''PAYMENT-SIGNATURE header is required''),
      (''resource'', JObj [(''url'', JStr canonicalResourceUrl),
         (''description'', JStr ''x402eCash WebMCP Challenge demo resource''), (''mimeType'', JStr ''application/json''),
         (''serviceName'', JStr ''x402eCash'')]),
      (''accepts'', JArr [JObj [(''scheme'', JStr ''xec-prepaid-utxo''), (''network'', JStr ''xec:mainnet''),
         (''amount'', JStr PAYMENT_AMOUNT_ATOMIC), (''asset'', JStr ''XEC''), (''payTo'', JStr FIXTURE_PAY_TO),
         (''maxTimeoutSeconds'', JNum (NInt 60)),
         (''extra'', JObj [(''displayAmount'', JStr PAYMENT_DISPLAY_AMOUNT), (''experimental'', JBool True),
            (''gate'', JStr ''H2A'')])]]),
      (''extensions'', JObj [])]"

definition encodePaymentRequired :: "js_value \<Rightarrow> string" where
  "encodePaymentRequired v = base64 (utf8_encode (json_text v))"

text \<open>What a client reads from the header is the offer.\<close>

lemma plain_payment_required: "plain (createPaymentRequired url)"
  by (simp add: createPaymentRequired_def max_safe_integer_def)

lemma encoded_offer_read:
  "utf8_decode (from_base64 (encodePaymentRequired (createPaymentRequired url))) = Some text \<longleftrightarrow>
   text = json_text (createPaymentRequired url)"
  by (auto simp: encodePaymentRequired_def)

subsection \<open>Requests\<close>

datatype node_header = NoHeader | OneHeader string | ManyHeaders "string list"

record gate_request =
  gr_method :: string
  gr_url :: "string option"
  gr_headers :: "string \<Rightarrow> node_header"

text \<open>\<open>gs_body\<close> is what \<open>response.end\<close> sends.\<close>

record gate_response =
  gs_status :: int
  gs_headers :: "(string, string) jmap"
  gs_body :: string

text \<open>\<open>ge_parse\<close> is \<open>new URL(input)\<close> and \<open>ge_against input base\<close> the path and the text of \<open>new URL(input, base)\<close>.\<close>

record gate_env =
  ge_parse :: "string \<Rightarrow> url option"
  ge_against :: "string \<Rightarrow> string \<Rightarrow> (string \<times> string) option"

definition HEALTH_PATH :: string where "HEALTH_PATH = ''/health''"
definition RESOURCE_PATH :: string where "RESOURCE_PATH = ''/v1/resource/demo''"
definition ALLOWED_ORIGIN :: string where "ALLOWED_ORIGIN = ''https://x402.ecash.mx''"
definition PAYMENT_REQUIRED_HEADER :: string where "PAYMENT_REQUIRED_HEADER = ''PAYMENT-REQUIRED''"
definition GATE_SIGNATURE_HEADER :: string where "GATE_SIGNATURE_HEADER = ''PAYMENT-SIGNATURE''"

definition singleHeader :: "node_header \<Rightarrow> string option" where
  "singleHeader h = (case h of OneHeader s \<Rightarrow> Some s | _ \<Rightarrow> None)"

definition writeJson :: "gate_response \<Rightarrow> int \<Rightarrow> js_value \<Rightarrow> gate_response" where
  "writeJson response status body =
     (let json = json_text body in
      response\<lparr>gs_status := status,
        gs_headers := jset (jset (gs_headers response) ''Content-Type'' ''application/json; charset=utf-8'')
          ''Content-Length'' (nat_to_dec (length (utf8_encode json))),
        gs_body := json\<rparr>)"

definition setHeader :: "gate_response \<Rightarrow> string \<Rightarrow> string \<Rightarrow> gate_response" where
  "setHeader response k v = response\<lparr>gs_headers := jset (gs_headers response) k v\<rparr>"

definition error_json :: "string \<Rightarrow> js_value" where
  "error_json c = JObj [(''error'', JStr c)]"

definition requestPathname :: "gate_env \<Rightarrow> string option \<Rightarrow> string" where
  "requestPathname G requestUrl =
     (case ge_against G (case requestUrl of None \<Rightarrow> ''/'' | Some u \<Rightarrow> u) ''http://gate-h2a.invalid'' of
        None \<Rightarrow> ''/invalid-request-target''
      | Some (pathname, href) \<Rightarrow> pathname)"

definition parseRequestedHeaders :: "string option \<Rightarrow> string list" where
  "parseRequestedHeaders v = (case v of
     None \<Rightarrow> []
   | Some s \<Rightarrow> if s = [] then [] else filter (\<lambda>h. h \<noteq> []) (map (\<lambda>h. toLowerCase (trim h)) (split_on CHR '','' s)))"

definition handleOptions :: "gate_request \<Rightarrow> gate_response \<Rightarrow> string \<Rightarrow> string option \<Rightarrow> gate_response" where
  "handleOptions request response pathname origin =
     (if pathname \<notin> {HEALTH_PATH, RESOURCE_PATH} then writeJson response 404 (error_json ''NOT_FOUND'')
      else if origin \<noteq> Some ALLOWED_ORIGIN then writeJson response 403 (error_json ''CORS_ORIGIN_NOT_ALLOWED'')
      else if singleHeader (gr_headers request ''access-control-request-method'') \<noteq> Some ''GET'' then
        writeJson response 405 (error_json ''CORS_METHOD_NOT_ALLOWED'')
      else
        let requestedHeaders = parseRequestedHeaders (singleHeader (gr_headers request ''access-control-request-headers''));
            allowedHeaders = (if pathname = RESOURCE_PATH then [toLowerCase GATE_SIGNATURE_HEADER] else []) in
        if list_ex (\<lambda>h. h \<notin> set allowedHeaders) requestedHeaders then
          writeJson response 400 (error_json ''CORS_HEADER_NOT_ALLOWED'')
        else
          let r = setHeader response ''Access-Control-Allow-Methods'' ''GET, OPTIONS'';
              r' = (if allowedHeaders \<noteq> [] then setHeader r ''Access-Control-Allow-Headers'' GATE_SIGNATURE_HEADER else r) in
          r'\<lparr>gs_status := 204, gs_body := []\<rparr>)"

definition handleRequest :: "gate_env \<Rightarrow> string \<Rightarrow> gate_request \<Rightarrow> gate_response" where
  "handleRequest G encodedPaymentRequired request =
     (let r0 = setHeader \<lparr>gs_status = 200, gs_headers = [], gs_body = []\<rparr> ''Vary'' ''Origin'';
          origin = singleHeader (gr_headers request ''origin'');
          response = (if origin = Some ALLOWED_ORIGIN
            then setHeader (setHeader r0 ''Access-Control-Allow-Origin'' ALLOWED_ORIGIN)
              ''Access-Control-Expose-Headers'' PAYMENT_REQUIRED_HEADER else r0);
          pathname = requestPathname G (gr_url request) in
      if gr_method request = ''OPTIONS'' then handleOptions request response pathname origin
      else if gr_method request \<noteq> ''GET'' then
        writeJson (setHeader response ''Allow'' ''GET, OPTIONS'') 405 (error_json ''METHOD_NOT_ALLOWED'')
      else if pathname = HEALTH_PATH then
        writeJson response 200 (JObj [(''status'', JStr ''ok''), (''gate'', JStr ''H2A'')])
      else if pathname = RESOURCE_PATH then
        let response' = setHeader response PAYMENT_REQUIRED_HEADER encodedPaymentRequired in
        if gr_headers request (toLowerCase GATE_SIGNATURE_HEADER) \<noteq> NoHeader then
          writeJson response' 402 (JObj [(''error'', JStr ''PAYMENT_NOT_IMPLEMENTED_IN_H2A''),
            (''message'', JStr ''Gate H2A advertises payment requirements but does not verify or settle payments.'')])
        else
          writeJson response' 402 (JObj [(''error'', JStr ''PAYMENT_REQUIRED''),
            (''message'', JStr ''PAYMENT-SIGNATURE header is required'')])
      else writeJson response 404 (error_json ''NOT_FOUND''))"

definition gate_canonicalOrigin :: "gate_env \<Rightarrow> string \<Rightarrow> string result" where
  "gate_canonicalOrigin G input = (case ge_parse G input of
     None \<Rightarrow> Inl (TypeError ''Invalid URL'')
   | Some u \<Rightarrow>
       if url_protocol u \<noteq> ''http:'' \<and> url_protocol u \<noteq> ''https:'' \<or> url_pathname u \<noteq> ''/'' \<or> url_search u \<noteq> [] \<or>
          url_hash u \<noteq> [] \<or> url_username u \<noteq> [] \<or> url_password u \<noteq> [] then
         Inl (PlainError ''Gate H2A publicOrigin must be an absolute origin without credentials or a path'')
       else Inr (url_origin u))"

record gate_handler =
  gh_handler :: "gate_request \<Rightarrow> gate_response"
  gh_canonicalResourceUrl :: string
  gh_paymentRequired :: js_value
  gh_encodedPaymentRequired :: string

definition createGateH2AHandler :: "gate_env \<Rightarrow> string option \<Rightarrow> gate_handler result" where
  "createGateH2AHandler G publicOrigin =
     ebind (gate_canonicalOrigin G (case publicOrigin of None \<Rightarrow> GATE_PUBLIC_ORIGIN | Some s \<Rightarrow> s)) (\<lambda>origin.
     case ge_against G RESOURCE_PATH (origin @ ''/'') of
       None \<Rightarrow> Inl (TypeError ''Invalid URL'')
     | Some (pathname, href) \<Rightarrow>
         let offer = createPaymentRequired href in
         Inr \<lparr>gh_handler = handleRequest G (encodePaymentRequired offer), gh_canonicalResourceUrl = href,
              gh_paymentRequired = offer, gh_encodedPaymentRequired = encodePaymentRequired offer\<rparr>)"

subsection \<open>What the server answers\<close>

lemma jget_setHeader [simp]: "jget (gs_headers (setHeader r k v)) k' = (if k' = k then Some v else jget (gs_headers r) k')"
  by (simp add: setHeader_def)

lemma writeJson_simps [simp]:
  "gs_status (writeJson r n v) = n" "gs_body (writeJson r n v) = json_text v"
  "k \<noteq> ''Content-Type'' \<Longrightarrow> k \<noteq> ''Content-Length'' \<Longrightarrow> jget (gs_headers (writeJson r n v)) k = jget (gs_headers r) k"
  by (simp_all add: writeJson_def Let_def)

lemmas gate_headers = PAYMENT_REQUIRED_HEADER_def GATE_SIGNATURE_HEADER_def ALLOWED_ORIGIN_def HEALTH_PATH_def RESOURCE_PATH_def

text \<open>Only the health check succeeds; the resource is answered by 402, with or without a payment.\<close>

lemma handleOptions_status: "gs_status (handleOptions request r p orig) \<notin> {200, 402}"
  by (simp add: handleOptions_def Let_def)

lemma gate_status:
  "gs_status (handleRequest G enc request) = 200 \<longleftrightarrow>
     gr_method request = ''GET'' \<and> requestPathname G (gr_url request) = HEALTH_PATH"
  "gs_status (handleRequest G enc request) = 402 \<longleftrightarrow>
     gr_method request = ''GET'' \<and> requestPathname G (gr_url request) = RESOURCE_PATH"
proof -
  have "gs_status (handleOptions request r p orig) \<noteq> 200" "gs_status (handleOptions request r p orig) \<noteq> 402" for r p orig
    using handleOptions_status [of request r p orig] by auto
  then show
    "gs_status (handleRequest G enc request) = 200 \<longleftrightarrow>
       gr_method request = ''GET'' \<and> requestPathname G (gr_url request) = HEALTH_PATH"
    "gs_status (handleRequest G enc request) = 402 \<longleftrightarrow>
       gr_method request = ''GET'' \<and> requestPathname G (gr_url request) = RESOURCE_PATH"
    by (auto simp: handleRequest_def Let_def HEALTH_PATH_def RESOURCE_PATH_def)
qed

text \<open>The header of that answer is read as the offer for the server's own resource.\<close>

lemma gate_offer:
  assumes "createGateH2AHandler G o' = Inr h" "gr_method request = ''GET''" "requestPathname G (gr_url request) = RESOURCE_PATH"
  shows "\<exists>v text. jget (gs_headers (gh_handler h request)) PAYMENT_REQUIRED_HEADER = Some v \<and>
    utf8_decode (from_base64 v) = Some text \<and> JSON_parse num text = Inr (gh_paymentRequired h) \<and>
    gh_paymentRequired h = createPaymentRequired (gh_canonicalResourceUrl h)"
proof -
  from assms(1) have h: "gh_handler h = handleRequest G (gh_encodedPaymentRequired h)"
    "gh_encodedPaymentRequired h = encodePaymentRequired (gh_paymentRequired h)"
    "gh_paymentRequired h = createPaymentRequired (gh_canonicalResourceUrl h)"
    by (auto simp: createGateH2AHandler_def ebind_Inr_iff Let_def split: option.splits)
  have "jget (gs_headers (gh_handler h request)) PAYMENT_REQUIRED_HEADER = Some (gh_encodedPaymentRequired h)"
    using assms(2,3) by (simp add: h(1) handleRequest_def Let_def gate_headers)
  then show ?thesis
    using h encoded_offer_read [of "gh_canonicalResourceUrl h"] JSON_parse_text [OF plain_payment_required] by auto
qed

text \<open>Another site never gets to read an answer.\<close>

lemma handleOptions_origin:
  "jget (gs_headers (handleOptions request r p orig)) ''Access-Control-Allow-Origin'' =
   jget (gs_headers r) ''Access-Control-Allow-Origin''"
  by (simp add: handleOptions_def Let_def)

lemma gate_origin:
  "jget (gs_headers (handleRequest G enc request)) ''Access-Control-Allow-Origin'' =
     (if gr_headers request ''origin'' = OneHeader ALLOWED_ORIGIN then Some ALLOWED_ORIGIN else None)"
  by (auto simp: handleRequest_def Let_def handleOptions_origin singleHeader_def PAYMENT_REQUIRED_HEADER_def setHeader_def
      split: node_header.splits)

text \<open>The preflight requests that are allowed.\<close>

lemma gate_preflight:
  assumes "gr_method request = ''OPTIONS''"
  shows "gs_status (handleRequest G enc request) = 204 \<longleftrightarrow>
    requestPathname G (gr_url request) \<in> {HEALTH_PATH, RESOURCE_PATH} \<and>
    gr_headers request ''origin'' = OneHeader ALLOWED_ORIGIN \<and>
    gr_headers request ''access-control-request-method'' = OneHeader ''GET'' \<and>
    (\<forall>h \<in> set (parseRequestedHeaders (singleHeader (gr_headers request ''access-control-request-headers''))).
       requestPathname G (gr_url request) = RESOURCE_PATH \<and> h = ''payment-signature'')"
proof -
  have low: "toLowerCase GATE_SIGNATURE_HEADER = ''payment-signature''" by code_simp
  have single: "singleHeader v = Some s \<longleftrightarrow> v = OneHeader s" for v s by (auto simp: singleHeader_def split: node_header.splits)
  show ?thesis
    using assms by (auto simp: handleRequest_def handleOptions_def Let_def single low list_ex_iff)
qed

end
