(* ===== verification/Browser_Demo.thy ===== *)
theory Browser_Demo
  imports Client_Purchase Wallet_Adapter
begin

text \<open>
  \<open>examples/browser-e2e/src/demo-orchestrator.ts\<close>: the demonstration in a browser has a test wallet and an orchestrator
  that asks a wallet for approval and a signature and never broadcasts; \<open>browser.ts\<close> gives it to the interceptor. The
  lemmas say that whatever the wallet, a header holds the invoice and an authorization of the wallet's account for it
  (\<open>browser_header\<close>), that a rejection signs nothing (\<open>rejected_pays_nothing\<close>), and that the test wallet's approval
  makes a header which the facilitator's test verifier accepts (\<open>test_wallet_header\<close>).
\<close>

subsection \<open>The test wallet\<close>

definition BROWSER_PAYER :: string where
  "BROWSER_PAYER = ''ecash:q'' @ replicate 41 CHR ''b''"

definition BROWSER_PUBLIC_KEY :: string where
  "BROWSER_PUBLIC_KEY = ''02'' @ concat (replicate 32 ''11'')"

definition BROWSER_FUNDING_TXID :: string where
  "BROWSER_FUNDING_TXID = replicate 64 CHR ''c''"

text \<open>\<open>onEvent\<close> and \<open>onRequest\<close> see these in order.\<close>

datatype demo_event =
    DemoApprovalRequested
  | MockApprovalAccepted
  | MockApprovalRejected
  | MockSignatureReturned
  | DemoRequest js_value

definition fake_getActiveAccount :: js_value where
  "fake_getActiveAccount = JObj [(''status'', JStr ''available''),
     (''account'', JObj [(''address'', JStr BROWSER_PAYER), (''publicKey'', JStr BROWSER_PUBLIC_KEY)])]"

definition fake_requestApproval :: "bool \<Rightarrow> js_value \<Rightarrow> (demo_event, js_value) traced" where
  "fake_requestApproval approve request =
     tbind (ask DemoApprovalRequested (Inr ())) (\<lambda>_.
     tbind (ask (DemoRequest request) (Inr ())) (\<lambda>_.
     if \<not> approve then
       ask MockApprovalRejected (Inr (JObj [(''status'', JStr ''rejected''), (''reason'', JStr ''test user rejected payment'')]))
     else
       ask MockApprovalAccepted (Inr (JObj [(''status'', JStr ''approved''), (''approver'', JStr ''fake-tonalli-wallet'')]))))"

definition mockWalletSignature :: "hasher \<Rightarrow> string \<Rightarrow> js_value \<Rightarrow> string result" where
  "mockWalletSignature sha payer message = canonicalHash sha
     (JObj [(''domain'', JStr ''x402-xec-local-mock-signature-v1''), (''message'', message), (''payer'', JStr payer)])"

definition fake_signAuthorization :: "hasher \<Rightarrow> js_value \<Rightarrow> (demo_event, js_value) traced" where
  "fake_signAuthorization sha request =
     tbind (ask (DemoRequest request) (Inr ())) (\<lambda>_.
     tbind (tpure (ebind (get_prop request ''message'') (mockWalletSignature sha BROWSER_PAYER))) (\<lambda>signature.
     ask MockSignatureReturned (Inr (JObj [(''status'', JStr ''approved''), (''signature'', JStr signature),
       (''publicKey'', JStr BROWSER_PUBLIC_KEY)]))))"

definition createFakeTonalliWallet :: "hasher \<Rightarrow> bool option \<Rightarrow> wallet_adapter" where
  "createFakeTonalliWallet sha approve =
     (let approves = (case approve of None \<Rightarrow> True | Some b \<Rightarrow> b) in
      \<lparr>wa_getActiveAccount = Inr fake_getActiveAccount,
       wa_requestApproval = (\<lambda>r. snd (fake_requestApproval approves r)),
       wa_signAuthorization = (\<lambda>r. snd (fake_signAuthorization sha r)), wa_signPreparedTransaction = None\<rparr>)"

subsection \<open>The orchestrator\<close>

text \<open>\<open>throw new Error(reason ?? fallback)\<close>.\<close>

definition fail_reason :: "js_value \<Rightarrow> string \<Rightarrow> 'a result" where
  "fail_reason v fallback =
     (if prop_of v ''reason'' \<in> {JUndef, JNull} then Inl (PlainError fallback)
      else ebind (String_of (prop_of v ''reason'')) (\<lambda>m. Inl (PlainError m)))"

text \<open>The interface types the address of an account as a text.\<close>

definition active_payer :: "js_value \<Rightarrow> string result" where
  "active_payer active =
     ebind (get_prop active ''status'') (\<lambda>status.
     if status \<noteq> JStr ''available'' then fail_reason active ''fake Tonalli wallet is unavailable''
     else ebind (get_prop (prop_of active ''account'') ''address'') (\<lambda>a. case a of
         JStr payer \<Rightarrow> Inr payer | _ \<Rightarrow> Inl (TypeError ''account address must be a string'')))"

definition browser_unsigned :: "invoice \<Rightarrow> string \<Rightarrow> string \<Rightarrow> unsigned_authorization" where
  "browser_unsigned i invoiceHash payer =
     \<lparr>auth_x402Version = inv_x402Version i, auth_scheme = inv_scheme i, auth_network = inv_network i,
      auth_invoiceHash = invoiceHash, auth_resourceHash = inv_resourceHash i, auth_amountSats = inv_amountSats i,
      auth_payTo = inv_payTo i, auth_nonce = inv_nonce i, auth_payer = payer,
      auth_transaction = \<lparr>ref_txid = BROWSER_FUNDING_TXID, ref_vout = 0\<rparr>\<rparr>"

definition browser_plan :: "invoice \<Rightarrow> js_value" where
  "browser_plan i = JObj
     [(''network'', JStr (inv_network i)), (''scheme'', JStr (inv_scheme i)), (''amountSats'', JStr (inv_amountSats i)),
      (''payTo'', JStr (inv_payTo i)), (''expiresAt'', JNum (NInt (inv_expiresAt i))),
      (''transactionTxid'', JStr BROWSER_FUNDING_TXID), (''requiresManualApproval'', JBool True)]"

definition browser_request :: "invoice \<Rightarrow> unsigned_authorization \<Rightarrow> string \<Rightarrow> js_value" where
  "browser_request i u message = JObj
     [(''approval'', JObj [(''invoice'', invoice_to_json i), (''paymentPlan'', browser_plan i)]),
      (''signing'', JObj [(''authorization'', unsigned_to_json u), (''message'', JStr message)])]"

definition read_wallet_result :: "js_value \<Rightarrow> js_value result" where
  "read_wallet_result result =
     (if prop_of (prop_of result ''approval'') ''status'' \<noteq> JStr ''approved'' then
        fail_reason (prop_of result ''approval'') ''wallet approval rejected''
      else if prop_of (prop_of result ''signing'') ''status'' \<noteq> JStr ''approved'' then
        fail_reason (prop_of result ''signing'') ''wallet signing rejected''
      else Inr (prop_of (prop_of result ''signing'') ''signature''))"

definition browser_execute ::
  "runtime \<Rightarrow> wallet_adapter \<Rightarrow> invoice \<Rightarrow> resource_request \<Rightarrow> (wallet_event, js_value) traced" where
  "browser_execute E W i resource =
     tbind (tpure (ebind (wa_getActiveAccount W) active_payer)) (\<lambda>payer.
     tbind (tpure (computeInvoiceHash E i)) (\<lambda>h.
     let u = browser_unsigned i h payer in
     tbind (tpure (authorizationSigningMessage (with_signature u ''unsigned''))) (\<lambda>message.
     tbind (wallet_authorize W (browser_request i u message)) (\<lambda>result.
     tbind (tpure (read_wallet_result result)) (\<lambda>signature.
     tbind (tpure (case parse_authorization (JObj (unsigned_fields u @ [(''signature'', signature)])) of
         None \<Rightarrow> Inl ZodError | Some a \<Rightarrow> Inr a)) (\<lambda>a.
     tbind (tpure (axios_encodeBase64UrlJson (envelope_to_json \<lparr>env_invoice = i, env_authorization = a\<rparr>))) (\<lambda>s.
       tpure (Inr (JObj [(''paymentSignature'', JStr s), (''broadcasted'', JBool False),
         (''mode'', JStr ''browser-dry-run'')])))))))))"

text \<open>\<open>browser.ts\<close>: the interceptor with this orchestrator.\<close>

definition browser_options :: "runtime \<Rightarrow> wallet_adapter \<Rightarrow> interceptor_options" where
  "browser_options E W = \<lparr>io_maxPaymentSats = JStr ''1000'', io_signer = None, io_paymentPreparer = None,
     io_orchestrator = Some (\<lambda>i resource. snd (browser_execute E W i resource)),
     io_enableOrchestratorPayments = Some True\<rparr>"

lemma browser_interceptor: "new_interceptor (browser_options E W) = Inr 1000"
proof -
  have "axios_readMaximum (JStr ''1000'') = Inr 1000" by code_simp
  then show ?thesis by (simp add: new_interceptor_def validatePaymentMode_def browser_options_def)
qed

subsection \<open>What the orchestrator makes\<close>

lemma browser_execute_Inr:
  assumes "snd (browser_execute E W i resource) = Inr v"
  shows "\<exists>payer h m result signature a s. ebind (wa_getActiveAccount W) active_payer = Inr payer \<and>
    computeInvoiceHash E i = Inr h \<and>
    authorizationSigningMessage (with_signature (browser_unsigned i h payer) ''unsigned'') = Inr m \<and>
    snd (wallet_authorize W (browser_request i (browser_unsigned i h payer) m)) = Inr result \<and>
    read_wallet_result result = Inr signature \<and>
    parse_authorization (JObj (unsigned_fields (browser_unsigned i h payer) @ [(''signature'', signature)])) = Some a \<and>
    axios_encodeBase64UrlJson (envelope_to_json \<lparr>env_invoice = i, env_authorization = a\<rparr>) = Inr s \<and>
    v = JObj [(''paymentSignature'', JStr s), (''broadcasted'', JBool False), (''mode'', JStr ''browser-dry-run'')]"
  using assms by (auto simp: browser_execute_def Let_def snd_tbind_Inr split: option.splits)

lemma signed_unsigned:
  assumes "parse_authorization (JObj (unsigned_fields u @ [(''signature'', v)])) = Some a"
  shows "v = JStr (auth_signature a) \<and> a = with_signature u (auth_signature a) \<and> authorization_valid a"
proof -
  have "prop_of (JObj (unsigned_fields u @ [(''signature'', v)])) ''signature'' = v"
    by (simp add: prop_of_def unsigned_fields_def)
  with parse_authorization_signature [OF assms] have v: "v = JStr (auth_signature a)" by simp
  with assms have "parse_authorization (authorization_to_json (with_signature u (auth_signature a))) = Some a"
    by (simp add: with_signature_json [symmetric])
  with v parse_authorization_exact parse_authorization_valid [OF assms] show ?thesis by blast
qed

lemma with_signature_fields [simp]:
  "auth_invoiceHash (with_signature u s) = auth_invoiceHash u" "auth_resourceHash (with_signature u s) = auth_resourceHash u"
  "auth_amountSats (with_signature u s) = auth_amountSats u" "auth_payTo (with_signature u s) = auth_payTo u"
  "auth_nonce (with_signature u s) = auth_nonce u" "auth_payer (with_signature u s) = auth_payer u"
  "auth_transaction (with_signature u s) = auth_transaction u" "auth_signature (with_signature u s) = s"
  by (simp_all add: with_signature_def unsigned_authorization.defs authorization.defs)

lemma browser_binds: "computeInvoiceHash E i = Inr h \<Longrightarrow> binds_invoice E i (with_signature (browser_unsigned i h payer) s)"
  by (simp add: binds_invoice_def browser_unsigned_def)

text \<open>Whatever the wallet, the header is an envelope of the invoice with an authorization of its account for that invoice.\<close>

lemma browser_header:
  assumes "snd (browser_execute E W i resource) = Inr v" "invoice_valid i"
  shows "\<exists>payer a s. ebind (wa_getActiveAccount W) active_payer = Inr payer \<and>
    v = JObj [(''paymentSignature'', JStr s), (''broadcasted'', JBool False), (''mode'', JStr ''browser-dry-run'')] \<and>
    parsePaymentEnvelope X s = Inr \<lparr>re_invoice = i, re_authorization = a, re_idempotencyKey = None\<rparr> \<and>
    binds_invoice E i a \<and> auth_payer a = payer"
proof -
  from browser_execute_Inr [OF assms(1)] obtain payer h m result signature a s where
    parts: "ebind (wa_getActiveAccount W) active_payer = Inr payer" "computeInvoiceHash E i = Inr h"
      "parse_authorization (JObj (unsigned_fields (browser_unsigned i h payer) @ [(''signature'', signature)])) = Some a"
      "axios_encodeBase64UrlJson (envelope_to_json \<lparr>env_invoice = i, env_authorization = a\<rparr>) = Inr s"
      "v = JObj [(''paymentSignature'', JStr s), (''broadcasted'', JBool False), (''mode'', JStr ''browser-dry-run'')]"
    by blast
  note a = signed_unsigned [OF parts(3)]
  let ?e = "\<lparr>env_invoice = i, env_authorization = a\<rparr>"
  have p: "plain (envelope_to_json ?e)" using assms(2) a by (intro plain_envelope) simp_all
  have "s = base64url (utf8_encode (json_text (envelope_to_json ?e)))"
    using parts(4) encode_plain [OF p] axios_encode_same [of "envelope_to_json ?e"] stringify_plain [OF p] by simp
  then have "parsePaymentEnvelope X s = Inr \<lparr>re_invoice = i, re_authorization = a, re_idempotencyKey = None\<rparr>"
    using parse_envelope_text [of ?e X] assms(2) a by simp
  moreover have "binds_invoice E i a" "auth_payer a = payer"
    using a browser_binds [OF parts(2)] by (metis, metis with_signature_fields(6) browser_unsigned_def unsigned_authorization.select_convs(9))
  ultimately show ?thesis using parts(1,5) by blast
qed

subsection \<open>With the test wallet\<close>

lemma mock_signed: "\<exists>h. mockWalletSignature (rt_sha256 E) payer (JStr m) = Inr h \<and> createMockSignature E payer m = Inr h"
proof -
  have "\<exists>c. canonicalize (JObj [(''domain'', JStr ''x402-xec-local-mock-signature-v1''), (''message'', JStr m),
      (''payer'', JStr payer)]) = Inr c"
    using canonicalize_plain [of "JObj [(''domain'', JStr ''x402-xec-local-mock-signature-v1''), (''message'', JStr m),
      (''payer'', JStr payer)]"] by auto
  then show ?thesis by (auto simp: mockWalletSignature_def createMockSignature_def canonicalHash_def)
qed

lemma mock_signature_text:
  assumes "createMockSignature E payer m = Inr g" "hex_hashes E"
  shows "is_signature g" "length g = 64"
proof -
  have "is_hash g" using assms by (auto simp: createMockSignature_def canonicalHash_def sha256Hex_def hex_hashes_def ebind_Inr_iff)
  then show "is_signature g" "length g = 64"
    by (auto simp: is_hash_def is_signature_def list_all_iff char_class_defs)
qed

lemma browser_copies:
  "ebind (get_prop (browser_request i u m) ''approval'') copyApprovalRequest \<noteq> Inl e"
  "ebind (get_prop (browser_request i u m) ''signing'') copySigningRequest \<noteq> Inl e"
  "ebind (get_prop (browser_request i u m) ''signing'') copySigningRequest = Inr r \<Longrightarrow> prop_of r ''message'' = JStr m"
  by (auto simp: browser_request_def get_prop_def prop_of_def copyApprovalRequest_def copySigningRequest_def copyInvoice_def
      copyPaymentPlan_def pick_fields_def invoice_to_json_def browser_plan_def unsigned_to_json_def unsigned_fields_def
      tx_ref_to_json_def mapE_Inr_iff ebind_Inr_iff invoice_fields_def plan_fields_def authorization_fields_def)

lemma copied: "(\<And>e. m \<noteq> Inl e) \<Longrightarrow> \<exists>x. m = Inr x"
  by (cases m) auto

lemma get_prop_field [simp]: "get_prop (JObj ((k, v) # fs)) k = Inr v"
  by (simp add: get_prop_def prop_of_def)

lemma prop_of_next: "k \<noteq> k' \<Longrightarrow> prop_of (JObj ((k', v) # fs)) k = prop_of (JObj fs) k"
  by (simp add: prop_of_def)

lemma fake_approves: "wa_requestApproval (createFakeTonalliWallet sha (Some True)) r =
    Inr (JObj [(''status'', JStr ''approved''), (''approver'', JStr ''fake-tonalli-wallet'')])"
  by (simp add: createFakeTonalliWallet_def fake_requestApproval_def snd_tbind ask_def)

lemma fake_rejects: "wa_requestApproval (createFakeTonalliWallet sha (Some False)) r =
    Inr (JObj [(''status'', JStr ''rejected''), (''reason'', JStr ''test user rejected payment'')])"
  by (simp add: createFakeTonalliWallet_def fake_requestApproval_def snd_tbind ask_def)

lemma fake_signs:
  assumes "get_prop r ''message'' = Inr (JStr m)" "mockWalletSignature sha BROWSER_PAYER (JStr m) = Inr h"
  shows "wa_signAuthorization (createFakeTonalliWallet sha approve) r = Inr (JObj [(''status'', JStr ''approved''),
    (''signature'', JStr h), (''publicKey'', JStr BROWSER_PUBLIC_KEY)])"
  using assms by (simp add: createFakeTonalliWallet_def fake_signAuthorization_def snd_tbind ask_def tpure_def Let_def)

lemma read_signed:
  assumes "approval = JObj [(''status'', JStr ''approved''), (''approver'', x)]"
    "signing = JObj [(''status'', JStr ''approved''), (''signature'', s), (''publicKey'', k)]"
  shows "read_wallet_result (JObj [(''approval'', spread approval), (''signing'', spread signing)]) = Inr s"
  using assms by (simp add: read_wallet_result_def prop_of_def)

lemma test_wallet_signs:
  "\<exists>result h. snd (wallet_authorize (createFakeTonalliWallet (rt_sha256 E) (Some True)) (browser_request i u m)) = Inr result \<and>
     read_wallet_result result = Inr (JStr h) \<and> createMockSignature E BROWSER_PAYER m = Inr h"
proof -
  let ?W = "createFakeTonalliWallet (rt_sha256 E) (Some True)"
  obtain ar sr where ar: "ebind (get_prop (browser_request i u m) ''approval'') copyApprovalRequest = Inr ar"
    and sr: "ebind (get_prop (browser_request i u m) ''signing'') copySigningRequest = Inr sr"
    using copied [OF browser_copies(1)] copied [OF browser_copies(2)] by metis
  from browser_copies(3) [OF sr] have msg: "get_prop sr ''message'' = Inr (JStr m)" by (auto simp: get_prop_def prop_of_def)
  obtain h where h: "mockWalletSignature (rt_sha256 E) BROWSER_PAYER (JStr m) = Inr h"
    "createMockSignature E BROWSER_PAYER m = Inr h" using mock_signed by blast
  have "snd (wallet_authorize ?W (browser_request i u m)) =
      Inr (JObj [(''approval'', spread (JObj [(''status'', JStr ''approved''), (''approver'', JStr ''fake-tonalli-wallet'')])),
        (''signing'', spread (JObj [(''status'', JStr ''approved''), (''signature'', JStr h),
           (''publicKey'', JStr BROWSER_PUBLIC_KEY)]))])"
    by (simp add: wallet_authorize_def snd_tbind ar sr ask_def tpure_def fake_approves fake_signs [OF msg h(1)] del: spread.simps)
  then show ?thesis using h(2) read_signed [OF refl refl] by blast
qed

lemma test_wallet_rejects:
  "\<exists>ar. wallet_authorize (createFakeTonalliWallet sha (Some False)) (browser_request i u m) =
     ([RequestApproval ar], Inr (JObj [(''approval'', JObj [(''status'', JStr ''rejected''),
        (''reason'', JStr ''test user rejected payment'')])]))"
proof -
  obtain ar where ar: "ebind (get_prop (browser_request i u m) ''approval'') copyApprovalRequest = Inr ar"
    using copied [OF browser_copies(1)] by metis
  show ?thesis
    unfolding wallet_authorize_def ar tbind_simps fake_rejects get_prop_field
    by (simp add: tpure_def)
qed

lemma fake_payer: "ebind (wa_getActiveAccount (createFakeTonalliWallet sha approve)) active_payer = Inr BROWSER_PAYER"
  by (simp add: createFakeTonalliWallet_def fake_getActiveAccount_def active_payer_def get_prop_def prop_of_def Let_def)

text \<open>A rejection signs nothing and makes no header.\<close>

lemma rejected_pays_nothing:
  assumes "invoice_valid i"
  shows "\<exists>ar. browser_execute E (createFakeTonalliWallet sha (Some False)) i resource =
    ([RequestApproval ar], Inl (PlainError ''test user rejected payment''))"
proof -
  obtain h where h: "computeInvoiceHash E i = Inr h" using computeInvoiceHash_total [OF assms] by blast
  obtain m where m: "authorizationSigningMessage (with_signature (browser_unsigned i h BROWSER_PAYER) ''unsigned'') = Inr m"
    using authorizationSigningMessage_total by blast
  from test_wallet_rejects [of sha i "browser_unsigned i h BROWSER_PAYER" m] obtain ar where
    "wallet_authorize (createFakeTonalliWallet sha (Some False)) (browser_request i (browser_unsigned i h BROWSER_PAYER) m) =
     ([RequestApproval ar], Inr (JObj [(''approval'', JObj [(''status'', JStr ''rejected''),
        (''reason'', JStr ''test user rejected payment'')])]))" ..
  then show ?thesis
    by (simp add: browser_execute_def fake_payer h m tbind_def [of "([RequestApproval ar], _)"] read_wallet_result_def
        fail_reason_def prop_of_def)
qed

text \<open>An approval makes a header that the test verifier of the facilitator accepts.\<close>

lemma browser_authorization_valid:
  assumes "invoice_valid i" "computeInvoiceHash E i = Inr h" "hex_hashes E" "is_signature s"
  shows "authorization_valid (with_signature (browser_unsigned i h BROWSER_PAYER) s)"
proof -
  have "is_hash h" using assms(2,3) by (auto simp: computeInvoiceHash_text sha256Hex_def hex_hashes_def)
  moreover have "is_address BROWSER_PAYER" "is_hash BROWSER_FUNDING_TXID" by code_simp+
  ultimately show ?thesis
    using assms(1,4)
    by (simp add: authorization_valid_def unsigned_valid_def browser_unsigned_def with_signature_def invoice_valid_def
        unsigned_authorization.defs authorization.defs is_timestamp_def)
qed

text \<open>An approval makes a header of the invoice, with a signature that the test verifier of the facilitator accepts.\<close>

lemma test_wallet_header:
  assumes "invoice_valid i" "hex_hashes E"
  shows "\<exists>a m s. snd (browser_execute E (createFakeTonalliWallet (rt_sha256 E) (Some True)) i resource) =
      Inr (JObj [(''paymentSignature'', JStr s), (''broadcasted'', JBool False), (''mode'', JStr ''browser-dry-run'')]) \<and>
    s = base64url (utf8_encode (json_text (envelope_to_json \<lparr>env_invoice = i, env_authorization = a\<rparr>))) \<and>
    authorization_valid a \<and> binds_invoice E i a \<and> auth_payer a = BROWSER_PAYER \<and>
    auth_transaction a = \<lparr>ref_txid = BROWSER_FUNDING_TXID, ref_vout = 0\<rparr> \<and> length (auth_signature a) = 64 \<and>
    authorizationSigningMessage a = Inr m \<and> mock_verify E (auth_payer a) m (auth_signature a) = Inr True"
proof -
  let ?W = "createFakeTonalliWallet (rt_sha256 E) (Some True)"
  obtain h where h: "computeInvoiceHash E i = Inr h" using computeInvoiceHash_total [OF assms(1)] by blast
  let ?u = "browser_unsigned i h BROWSER_PAYER"
  obtain m where m: "authorizationSigningMessage (with_signature ?u ''unsigned'') = Inr m"
    using authorizationSigningMessage_total by blast
  obtain result g where r: "snd (wallet_authorize ?W (browser_request i ?u m)) = Inr result"
    "read_wallet_result result = Inr (JStr g)" "createMockSignature E BROWSER_PAYER m = Inr g"
    using test_wallet_signs by blast
  let ?a = "with_signature ?u g"
  note g = mock_signature_text [OF r(3) assms(2)]
  have a: "authorization_valid ?a" using browser_authorization_valid [OF assms(1) h assms(2) g(1)] .
  have p: "plain (envelope_to_json \<lparr>env_invoice = i, env_authorization = ?a\<rparr>)" using assms(1) a by (intro plain_envelope) simp_all
  have parsed: "parse_authorization (JObj (unsigned_fields ?u @ [(''signature'', JStr g)])) = Some ?a"
    unfolding with_signature_json by (rule parse_authorization_to_json [OF a])
  have "snd (browser_execute E ?W i resource) = Inr (JObj [(''paymentSignature'',
      JStr (base64url (utf8_encode (json_text (envelope_to_json \<lparr>env_invoice = i, env_authorization = ?a\<rparr>))))),
      (''broadcasted'', JBool False), (''mode'', JStr ''browser-dry-run'')])"
    using axios_encode_same [of "envelope_to_json \<lparr>env_invoice = i, env_authorization = ?a\<rparr>"] stringify_plain [OF p] encode_plain [OF p]
    by (simp add: browser_execute_def Let_def snd_tbind fake_payer h m r parsed tpure_def)
  moreover have "mock_verify E (auth_payer ?a) m (auth_signature ?a) = Inr True"
    using r(3) by (simp add: mock_verify_def browser_unsigned_def)
  moreover have "authorizationSigningMessage ?a = Inr m" using m signing_message_unsigned by metis
  ultimately show ?thesis using a g(2) browser_binds [OF h]
    by - (rule exI [of _ ?a], rule exI [of _ m], simp add: browser_unsigned_def)
qed

end
