(* ===== verification/Browser_Server.thy ===== *)
theory Browser_Server
  imports Browser_Demo Offer_Size
begin

text \<open>
  \<open>examples/browser-e2e/src/server.ts\<close>: the demonstration's server, a route behind the payment middleware whose
  \<open>fetch\<close> reaches no network but a facilitator in the same process, with one transaction on its chain. The lemma
  \<open>demo_purchase\<close> runs the demonstration: the interceptor with the test wallet buys the route from this server.
  The counters of \<open>stats\<close> and the server's life cycle are left out.
\<close>

subsection \<open>The server\<close>

definition DEMO_NOW :: int where
  "DEMO_NOW = 1800000000"

definition DEMO_PAY_TO :: string where
  "DEMO_PAY_TO = ''ecash:q'' @ replicate 41 CHR ''a''"

definition FIXTURE_VERIFY_URL :: string where
  "FIXTURE_VERIFY_URL = ''http://fixture-facilitator.invalid/facilitator/verify''"

definition fixture_funding :: chronik_tx where
  "fixture_funding = \<lparr>ctx_txid = JStr BROWSER_FUNDING_TXID,
     ctx_outputs = Some [\<lparr>out_sats = 10000, out_outputScript = ''51'', out_token = JUndef\<rparr>],
     ctx_block = JObj [(''height'', JNum (NInt 800000)), (''hash'', JStr (replicate 64 CHR ''d'')),
       (''timestamp'', JNum (NInt (DEMO_NOW - 100)))],
     ctx_isFinal = JBool True, ctx_timeFirstSeen = JNum (NInt (DEMO_NOW - 100))\<rparr>"

text \<open>\<open>verify\<close> of the facilitator that \<open>createFixtureFacilitator\<close> makes; its ledger is the last argument.\<close>

definition fixture_verify :: "runtime \<Rightarrow> js_value \<Rightarrow> ledger \<Rightarrow> (int \<times> verify_response) result \<times> ledger" where
  "fixture_verify E = facilitator_verify E (fixture_getTx (newFixtures [fixture_funding])) (mock_verify E) (NInt DEMO_NOW)"

definition fixture_fetch :: "(string \<Rightarrow> js_number) \<Rightarrow> runtime \<Rightarrow> ledger \<Rightarrow> fetcher" where
  "fixture_fetch num E l url body =
     (if url \<noteq> FIXTURE_VERIFY_URL then Inl (PlainError ''browser demo blocked a non-fixture network request'')
      else ebind (JSON_parse num body) (\<lambda>input.
        ebind (fst (fixture_verify E input l)) (\<lambda>(status, r).
          Inr \<lparr>fr_ok = (200 \<le> status \<and> status < 300), fr_status = status,
               fr_text = Inr (json_text (verify_response_json r))\<rparr>)))"

definition browser_server_config :: "(string \<Rightarrow> js_number) \<Rightarrow> runtime \<Rightarrow> string \<Rightarrow> ledger \<Rightarrow> payment_middleware_config" where
  "browser_server_config num E origin l =
     \<lparr>pm_publicOrigin = origin, pm_facilitatorUrl = ''http://fixture-facilitator.invalid'', pm_payTo = DEMO_PAY_TO,
      pm_routes = [(''GET /api/weather'', \<lparr>rp_amountSats = ''1000'', rp_description = Some ''Browser dry-run weather forecast'',
        rp_asset = ''XEC'', rp_network = ''xec:mainnet'', rp_scheme = ''xec-prepaid-utxo''\<rparr>)],
      pm_expirySeconds = None, pm_maxPaymentHeaderBytes = None, pm_fetch = Some (fixture_fetch num E l)\<rparr>"

definition weather :: js_value where
  "weather = JObj [(''city'', JStr (''M'' @ [char_of (233 :: nat)] @ ''rida'')), (''condition'', JStr ''sunny''),
     (''temperatureC'', JNum (NInt 29)), (''broadcasted'', JBool False), (''notice'', JStr ''DRY RUN ONLY'')]"

text \<open>What \<open>express.json\<close> of the facilitator's own server would have read.\<close>

definition fixture_receive :: "(string \<Rightarrow> js_number) \<Rightarrow> string \<Rightarrow> received" where
  "fixture_receive num text = (case JSON_parse num text of Inl _ \<Rightarrow> NotJson | Inr v \<Rightarrow> Received v)"

lemma fixture_receives: "receives num (fixture_receive num)"
  by (simp add: receives_def fixture_receive_def)

lemma weather_price: "dec_to_nat ''1000'' = 1000" "int_to_dec 1000 = ''1000''"
  by code_simp+

text \<open>Both demonstrations sell one route, for 1000 satoshis to one address.\<close>

definition sells_weather :: "payment_middleware_config \<Rightarrow> bool" where
  "sells_weather config \<longleftrightarrow> pm_payTo config = DEMO_PAY_TO \<and> pm_expirySeconds config = None \<and>
     pm_maxPaymentHeaderBytes config = None \<and> (\<exists>key p. pm_routes config = [(key, p)] \<and> rp_amountSats p = ''1000'')"

lemma browser_sells: "sells_weather (browser_server_config num E origin l)"
  by (simp add: sells_weather_def browser_server_config_def)

lemma weather_server:
  assumes "createX402XecMiddleware E href config = Inr PS" "sells_weather config"
  shows "Some (ps_fetch PS) = pm_fetch config" "ps_payTo PS = DEMO_PAY_TO" "ps_expirySeconds PS = 60"
    "ps_maxPaymentHeaderBytes PS = 16384"
    "jget (ps_routes PS) key = Some route \<Longrightarrow> pq_amountSats route = 1000"
proof -
  have "payment_parseRoutes (pm_routes config) = Inr (ps_routes PS)"
    using assms(1) unfolding createX402XecMiddleware_def by (auto simp: ebind_Inr_iff split: option.splits)
  then have "jget (ps_routes PS) key = Some route \<Longrightarrow> pq_amountSats route = 1000"
    using build_routes_from [of payment_route_of "pm_routes config" "[]" "ps_routes PS" key route] assms(2)
    by (auto simp: payment_parseRoutes_def sells_weather_def payment_route_of_def ebind_Inr_iff parseAmountSats_Inr
        weather_price split: option.splits if_splits)
  then show "jget (ps_routes PS) key = Some route \<Longrightarrow> pq_amountSats route = 1000" .
qed (use assms in \<open>auto simp: createX402XecMiddleware_def sells_weather_def ebind_Inr_iff positiveInteger_def
      DEFAULT_EXPIRY_SECONDS_def DEFAULT_MAX_PAYMENT_HEADER_BYTES_def split: if_splits option.splits\<close>)

text \<open>The middleware reaches the facilitator: its \<open>fetch\<close> differs from a facilitator's server only where \<open>verify\<close> throws.\<close>

lemma fixture_reaches:
  assumes "ps_fetch PS = fixture_fetch num E l" "ps_facilitatorVerifyUrl PS = FIXTURE_VERIFY_URL"
  shows "reaches_facilitator PS (fixture_receive num) E (fixture_getTx (newFixtures [fixture_funding])) (mock_verify E)
    (NInt DEMO_NOW) l"
  unfolding reaches_facilitator_def Let_def assms
  by (auto simp: fixture_fetch_def fixture_verify_def facilitator_fetch_def app_verify_def JSON_parse_text fixture_receive_def
      simp del: verify_response_json.simps)

lemma fixture_funds:
  assumes "auth_transaction a = \<lparr>ref_txid = BROWSER_FUNDING_TXID, ref_vout = 0\<rparr>"
    and "authorizationSigningMessage a = Inr m" "mock_verify E (auth_payer a) m (auth_signature a) = Inr True"
    and "inv_issuedAt i \<le> DEMO_NOW" "DEMO_NOW < inv_expiresAt i" "inv_amountSats i = ''1000''"
  shows "facilitator_ready E (fixture_getTx (newFixtures [fixture_funding])) (mock_verify E) ledger_empty DEMO_NOW i a key"
proof -
  have tx: "fixture_getTx (newFixtures [fixture_funding]) BROWSER_FUNDING_TXID = Inr (Some fixture_funding)"
    by (simp add: fixture_getTx_def jget_newFixtures fixture_funding_def)
  have "tx_settled fixture_funding" by code_simp
  moreover have "lg_nonces ledger_empty = []" "lg_idempotency ledger_empty = []" "lg_accounts ledger_empty = []"
    by (simp_all add: ledger_empty_def)
  ultimately show ?thesis
    using assms tx
    by (simp add: facilitator_ready_def ledger_invar_empty funded_on_chain_def funds_def array_get_def unexpired_def Let_def
        fixture_funding_def weather_price)
qed

subsection \<open>The texts fit\<close>

lemma field_literals:
  "list_all clean [''x402Version'', ''scheme'', ''network'', ''resourceHash'', ''amountSats'', ''payTo'', ''nonce'',
     ''issuedAt'', ''expiresAt'', ''invoiceHash'', ''payer'', ''transaction'', ''txid'', ''vout'', ''signature'',
     ''invoice'', ''authorization'', ''resource'', ''idempotencyKey'', ''exact'', ''xec:mainnet'', ''x402-'']"
  by code_simp

lemma number_one: "length (utf8_encode (json_number_text (NInt 1))) = 1"
  by code_simp

lemma invoice_bytes:
  assumes "invoice_valid i"
  shows "text_bytes (invoice_to_json i) \<le> 480 + length (inv_amountSats i) + length (inv_payTo i)"
proof -
  from assms have inv: "inv_x402Version i = 1" "inv_scheme i = ''exact''" "inv_network i = ''xec:mainnet''"
    "is_hash (inv_resourceHash i)" "is_amount (inv_amountSats i)" "is_address (inv_payTo i)"
    "is_nonce (inv_nonce i)" "is_timestamp (inv_issuedAt i)" "is_timestamp (inv_expiresAt i)"
    by (simp_all add: invoice_valid_def X402_VERSION_def XEC_SCHEME_def XEC_MAINNET_def)
  have "quoted_bytes (inv_resourceHash i) = 66" "quoted_bytes (inv_amountSats i) = length (inv_amountSats i) + 2"
    "quoted_bytes (inv_payTo i) = length (inv_payTo i) + 2" "quoted_bytes (inv_nonce i) \<le> 130"
    using clean_lower_hex [OF inv(4)] clean_amount [OF inv(5)] clean_address [OF inv(6)] clean_nonce [OF inv(7)]
    by (simp_all add: quoted_clean)
  then show ?thesis
    using number_one timestamp_text [OF inv(8)] timestamp_text [OF inv(9)] field_literals
    by (simp add: invoice_to_json_def inv quoted_clean del: utf8_encode_append)
qed

lemma clean_signature: "is_signature s \<Longrightarrow> clean s"
  by (auto simp: is_signature_def clean_def list_all_iff char_class_defs is_base64url_def)

lemma authorization_bytes:
  assumes "authorization_valid a"
  shows "text_bytes (authorization_to_json a) \<le> 720 + length (auth_amountSats a) + length (auth_payTo a) +
    length (auth_payer a) + length (auth_signature a)"
proof -
  from assms have auth: "auth_x402Version a = 1" "auth_scheme a = ''exact''" "auth_network a = ''xec:mainnet''"
    "is_hash (auth_invoiceHash a)" "is_hash (auth_resourceHash a)" "is_amount (auth_amountSats a)" "is_address (auth_payTo a)"
    "is_nonce (auth_nonce a)" "is_address (auth_payer a)" "is_hash (ref_txid (auth_transaction a))"
    "is_timestamp (ref_vout (auth_transaction a))" "is_signature (auth_signature a)"
    by (simp_all add: authorization_valid_def unsigned_valid_def X402_VERSION_def XEC_SCHEME_def XEC_MAINNET_def)
  have "quoted_bytes (auth_invoiceHash a) = 66" "quoted_bytes (auth_resourceHash a) = 66"
    "quoted_bytes (ref_txid (auth_transaction a)) = 66" "quoted_bytes (auth_amountSats a) = length (auth_amountSats a) + 2"
    "quoted_bytes (auth_payTo a) = length (auth_payTo a) + 2" "quoted_bytes (auth_payer a) = length (auth_payer a) + 2"
    "quoted_bytes (auth_nonce a) \<le> 130" "quoted_bytes (auth_signature a) = length (auth_signature a) + 2"
    using clean_lower_hex [OF auth(4)] clean_lower_hex [OF auth(5)] clean_lower_hex [OF auth(10)] clean_amount [OF auth(6)]
      clean_address [OF auth(7)] clean_address [OF auth(9)] clean_nonce [OF auth(8)] clean_signature [OF auth(12)]
    by (simp_all add: quoted_clean)
  then show ?thesis
    using number_one timestamp_text [OF auth(11)] field_literals
    by (simp add: authorization_to_json_def unsigned_fields_def tx_ref_to_json_def auth quoted_clean del: utf8_encode_append)
qed

lemma envelope_header_bytes:
  assumes "text_bytes (invoice_to_json i) \<le> n" "text_bytes (authorization_to_json a) \<le> k" "4 * (n + k + 40) + 2 \<le> 3 * b"
  shows "length (base64url (utf8_encode (json_text (envelope_to_json \<lparr>env_invoice = i, env_authorization = a\<rparr>)))) \<le> b"
proof -
  let ?v = "envelope_to_json \<lparr>env_invoice = i, env_authorization = a\<rparr>"
  have bound: "3 * l \<le> 4 * t + 2 \<Longrightarrow> t \<le> n + k + 40 \<Longrightarrow> l \<le> b" for l t
    using assms(3) by presburger
  have "text_bytes ?v \<le> n + k + 40"
    using assms(1,2) field_literals by (simp add: envelope_to_json_def quoted_clean)
  with length_base64url_le [of "utf8_encode (json_text ?v)"] show ?thesis
    unfolding text_bytes_correct by (rule bound)
qed

lemma request_bytes:
  assumes "text_bytes (invoice_to_json i) \<le> n" "text_bytes (authorization_to_json a) \<le> k"
    and "hex_hashes E" "authorization_valid a"
  shows "text_bytes (request_json i a resource (envelope_key E a)) \<le> n + k + text_bytes resource + 160"
proof -
  obtain d where d: "canonicalHash (rt_sha256 E) (authorization_to_json a) = Inr d" "envelope_key E a = ''x402-'' @ d"
    using envelope_key_ok [OF assms(3,4)] by blast
  then have "is_hash d" using assms(3) by (auto simp: canonicalHash_def sha256Hex_def hex_hashes_def ebind_Inr_iff)
  then have "clean (''x402-'' @ d)" "length (''x402-'' @ d) = 69"
    using clean_lower_hex [of d] field_literals by (auto simp: clean_def)
  then have "quoted_bytes (envelope_key E a) = 71" using d(2) by (simp add: quoted_clean)
  then show ?thesis using assms(1,2) field_literals by (simp add: request_json_def quoted_clean)
qed

lemma base64url_utf8: "utf8_encode (base64url s) = base64url s"
  using base64url_chars [of s] by (intro utf8_encode_ascii) (auto simp: list_all_iff is_base64url_def char_class_defs)

subsection \<open>The demonstration\<close>

text \<open>The invoice that the server makes.\<close>

lemma demo_offer:
  assumes server: "createX402XecMiddleware E href config = Inr PS" "sells_weather config" "xe_runtime X = E"
    and first: "rq_get request PAYMENT_HEADER = None"
      "snd (handle_payment X PS (NInt DEMO_NOW) random request) = Inr (PaymentResponse 402 body)"
  shows "\<exists>i. prop_of body ''invoice'' = invoice_to_json i \<and> invoice_valid i \<and> inv_amountSats i = ''1000'' \<and>
    inv_payTo i = DEMO_PAY_TO \<and> inv_issuedAt i = DEMO_NOW \<and> inv_expiresAt i = DEMO_NOW + 60"
proof -
  have now: "checkedNow (NInt DEMO_NOW) = Inr DEMO_NOW" by code_simp
  from first obtain key where key: "routeKey (rq_method request) (rq_path request) = Inr key"
    by (auto simp: handle_payment_def snd_tbind_Inr)
  with first obtain route where route: "jget (ps_routes PS) key = Some route"
    by (auto simp: handle_payment_def split: option.splits)
  with first key obtain resource where "payment_resource X request (ps_publicOrigin PS) = Inr resource"
    by (auto simp: handle_payment_def paymentError_def split: sum.splits)
  with first key route server(3) have "payment_required E PS DEMO_NOW random resource route = Inr (PaymentResponse 402 body)"
    by (auto simp: handle_payment_def snd_tbind_Inr now)
  then show ?thesis
    using weather_server(2,3) [OF server(1,2)] weather_server(5) [OF server(1,2) route]
    by (auto simp: payment_required_def ebind_Inr_iff createInvoice_Inr weather_price prop_of_def)
qed

lemma demo_sizes:
  assumes "invoice_valid i" "inv_amountSats i = ''1000''" "inv_payTo i = DEMO_PAY_TO"
    and "authorization_valid a" "binds_invoice E i a" "auth_payer a = BROWSER_PAYER" "length (auth_signature a) = 64"
    and "hex_hashes E" "text_bytes resource \<le> 60000"
  shows "length (utf8_encode (base64url (utf8_encode (json_text (envelope_to_json
      \<lparr>env_invoice = i, env_authorization = a\<rparr>))))) \<le> 16384"
    and "text_bytes (request_json i a resource (envelope_key E a)) \<le> 65536"
proof -
  have "length BROWSER_PAYER = 48" "length DEMO_PAY_TO = 48" by (simp_all add: BROWSER_PAYER_def DEMO_PAY_TO_def)
  with assms(2-7) have sizes: "text_bytes (invoice_to_json i) \<le> 540" "text_bytes (authorization_to_json a) \<le> 900"
    using invoice_bytes [OF assms(1)] authorization_bytes [OF assms(4)] by (simp_all add: binds_invoice_def)
  show "length (utf8_encode (base64url (utf8_encode (json_text (envelope_to_json
      \<lparr>env_invoice = i, env_authorization = a\<rparr>))))) \<le> 16384"
    unfolding base64url_utf8 by (rule envelope_header_bytes [OF sizes]) simp
  show "text_bytes (request_json i a resource (envelope_key E a)) \<le> 65536"
    using request_bytes [OF sizes assms(8,4), of resource] assms(9) by linarith
qed

lemma browser_signature:
  assumes "snd (browser_execute E W i resource) =
      Inr (JObj [(''paymentSignature'', JStr s), (''broadcasted'', JBool False), (''mode'', JStr ''browser-dry-run'')])" "s \<noteq> []"
  shows "createPaymentSignature E (browser_options E W) i resource = Inr s"
  using assms by (simp add: createPaymentSignature_def browser_options_def readPaymentSignature_def get_prop_def prop_of_def)

abbreviation demo_wallet :: "runtime \<Rightarrow> wallet_adapter" where
  "demo_wallet E \<equiv> createFakeTonalliWallet (rt_sha256 E) (Some True)"

lemma demo_purchase:
  assumes server: "createX402XecMiddleware E href (browser_server_config num E origin ledger_empty) = Inr PS"
      "ps_facilitatorVerifyUrl PS = FIXTURE_VERIFY_URL" "xe_runtime X = E" "hex_hashes E"
    and first: "rq_get request PAYMENT_HEADER = None"
      "snd (handle_payment X PS (NInt DEMO_NOW) random request) = Inr (PaymentResponse 402 body)"
    and res: "payment_resource X request (ps_publicOrigin PS) = Inr resource"
      "rq_body request = JUndef \<or> plain (rq_body request)" "text_bytes (resource_to_json resource) \<le> 60000"
    and client: "ax_runtime A = E" "asks_for A c resource" "failed_402 num' error c body"
  shows "\<exists>i s b l' entry posted.
    intercept A (browser_options E (demo_wallet E)) 1000 (repeat_at X PS (NInt DEMO_NOW) random' request) (NInt DEMO_NOW) error =
      ([PayOffer i resource, RepeatRequest (c\<lparr>ac_attempted := True, ac_signature := Some s\<rparr>)],
       Inr (Verified (verify_response_json (VerifyOk b)))) \<and>
    app_verify E (fixture_getTx (newFixtures [fixture_funding])) (mock_verify E) (NInt DEMO_NOW) (fixture_receive num posted)
      ledger_empty = ((200, verify_response_json (VerifyOk b)), l') \<and>
    lg_entries l' = [entry] \<and> le_payTo entry = DEMO_PAY_TO \<and> le_payer entry = BROWSER_PAYER \<and> le_debitedSats entry = 1000"
proof -
  note sold = server(1) browser_sells
  from demo_offer [OF sold server(3) first] obtain i where i: "prop_of body ''invoice'' = invoice_to_json i" "invoice_valid i"
    and terms: "inv_amountSats i = ''1000''" "inv_payTo i = DEMO_PAY_TO" "inv_issuedAt i = DEMO_NOW"
      "inv_expiresAt i = DEMO_NOW + 60" by blast
  from test_wallet_header [OF i(2) server(4), of resource] obtain a m s where s: "snd (browser_execute E (demo_wallet E) i resource) =
      Inr (JObj [(''paymentSignature'', JStr s), (''broadcasted'', JBool False), (''mode'', JStr ''browser-dry-run'')])"
      "s = base64url (utf8_encode (json_text (envelope_to_json \<lparr>env_invoice = i, env_authorization = a\<rparr>)))"
    and a: "authorization_valid a" "binds_invoice E i a" "auth_payer a = BROWSER_PAYER"
      "auth_transaction a = \<lparr>ref_txid = BROWSER_FUNDING_TXID, ref_vout = 0\<rparr>" "length (auth_signature a) = 64"
      "authorizationSigningMessage a = Inr m" "mock_verify E (auth_payer a) m (auth_signature a) = Inr True" by blast
  have parsed: "parsePaymentEnvelope X s = Inr \<lparr>re_invoice = i, re_authorization = a, re_idempotencyKey = None\<rparr>"
    using parse_envelope_text [of "\<lparr>env_invoice = i, env_authorization = a\<rparr>" X] i(2) a(1) s(2) by simp
  then have "s \<noteq> []" by (auto simp: parsePaymentEnvelope_def)
  note made = browser_signature [OF s(1) this]
  note sizes = demo_sizes [OF i(2) terms(1,2) a(1,2,3,5) server(4) res(3)]
  have header: "int (length (utf8_encode s)) \<le> ps_maxPaymentHeaderBytes PS"
    using sizes(1) by (simp add: s(2) weather_server(4) [OF sold])
  note fits = sizes(2)
  have fetch: "ps_fetch PS = fixture_fetch num E ledger_empty"
    using weather_server(1) [OF sold] by (simp add: browser_server_config_def)
  have now: "safe_nonneg (NInt DEMO_NOW) = Some DEMO_NOW" by code_simp
  have window: "inv_issuedAt i \<le> DEMO_NOW" "DEMO_NOW < inv_expiresAt i" using terms by simp_all
  have maximum: "int (dec_to_nat (inv_amountSats i)) \<le> 1000" by (simp add: terms weather_price)
  note ready = fixture_funds [OF a(4,6,7) window terms(1)]
  obtain posted b l' entry where
      "intercept A (browser_options E (demo_wallet E)) 1000 (repeat_at X PS (NInt DEMO_NOW) random' request) (NInt DEMO_NOW) error =
        ([PayOffer i resource, RepeatRequest (c\<lparr>ac_attempted := True, ac_signature := Some s\<rparr>)],
         Inr (Verified (verify_response_json (VerifyOk b))))"
      "app_verify E (fixture_getTx (newFixtures [fixture_funding])) (mock_verify E) (NInt DEMO_NOW) (fixture_receive num posted)
        ledger_empty = ((200, verify_response_json (VerifyOk b)), l')"
      "lg_entries l' = lg_entries ledger_empty @ [entry]" "le_payTo entry = inv_payTo i"
      "parseAmountSats (inv_amountSats i) = Inr (le_debitedSats entry)" "le_payer entry = auth_payer a"
    using envelope_purchase [OF server(1,3) first res(1,2) client i maximum now window made header parsed a(2) now window
        fixture_reaches [OF fetch server(2)] fixture_receives server(4) now ready fits, of random']
    by - (elim exE conjE, rule that, assumption+)
  note r = this
  have "lg_entries l' = [entry]" using r(3) by (simp add: ledger_empty_def)
  moreover have "le_debitedSats entry = 1000" using r(5) by (simp add: terms parseAmountSats_Inr weather_price)
  ultimately show ?thesis using r(4,6)
    by - (rule exI [of _ i], rule exI [of _ s], rule exI [of _ b], rule exI [of _ l'], rule exI [of _ entry],
        rule exI [of _ posted], intro conjI, rule r(1), rule r(2), simp_all add: terms a(3))
qed

end
