(* ===== verification/Local_Demo.thy ===== *)
theory Local_Demo
  imports Browser_Server
begin

text \<open>
  \<open>examples/local-e2e/src\<close>: the demonstration with three programs, a client (\<open>client.ts\<close>) whose interceptor pays with
  the test signer, a server (\<open>server.ts\<close>) and a facilitator over HTTP (\<open>facilitator.ts\<close>). The lemma
  \<open>local_purchase\<close> runs it. The servers' life cycle, the logger and the counters of \<open>stats\<close> are left out.
\<close>

definition LOCAL_TXID :: string where
  "LOCAL_TXID = replicate 64 CHR ''c''"

definition LOCAL_VOUT :: int where
  "LOCAL_VOUT = 0"

definition LOCAL_PAYER :: string where
  "LOCAL_PAYER = ''ecash:q'' @ replicate 41 CHR ''b''"

definition local_transaction :: chronik_tx where
  "local_transaction = \<lparr>ctx_txid = JStr LOCAL_TXID,
     ctx_outputs = Some [\<lparr>out_sats = 10000, out_outputScript = ''51'', out_token = JUndef\<rparr>],
     ctx_block = JObj [(''height'', JNum (NInt 800000)), (''hash'', JStr (replicate 64 CHR ''d'')),
       (''timestamp'', JNum (NInt (DEMO_NOW - 100)))],
     ctx_isFinal = JBool True, ctx_timeFirstSeen = JNum (NInt (DEMO_NOW - 100))\<rparr>"

text \<open>The routes of the facilitator's server, on a body as \<open>express.json\<close> gives it.\<close>

definition startFacilitator :: "runtime \<Rightarrow> signature_verifier option \<Rightarrow> received \<Rightarrow> ledger \<Rightarrow> app_response \<times> ledger" where
  "startFacilitator E signatureVerifier = app_verify E (fixture_getTx (newFixtures [local_transaction]))
     (case signatureVerifier of None \<Rightarrow> mock_verify E | Some v \<Rightarrow> v) (NInt DEMO_NOW)"

definition startWeatherServer :: "string \<Rightarrow> string \<Rightarrow> fetcher \<Rightarrow> payment_middleware_config" where
  "startWeatherServer origin facilitatorOrigin f =
     \<lparr>pm_publicOrigin = origin, pm_facilitatorUrl = facilitatorOrigin, pm_payTo = DEMO_PAY_TO,
      pm_routes = [(''GET /weather'', \<lparr>rp_amountSats = ''1000'', rp_description = Some ''Local weather forecast'',
        rp_asset = ''XEC'', rp_network = ''xec:mainnet'', rp_scheme = ''xec-prepaid-utxo''\<rparr>)],
      pm_expirySeconds = None, pm_maxPaymentHeaderBytes = None, pm_fetch = Some f\<rparr>"

definition createDemoSigner :: "runtime \<Rightarrow> xec_signer result" where
  "createDemoSigner E = createTestOnlyMockXecSigner E LOCAL_PAYER (Some \<lparr>ref_txid = LOCAL_TXID, ref_vout = LOCAL_VOUT\<rparr>)"

definition createPaymentClient :: "xec_signer \<Rightarrow> interceptor_options" where
  "createPaymentClient signer = \<lparr>io_maxPaymentSats = JNum (NInt 1000), io_signer = Some signer,
     io_paymentPreparer = None, io_orchestrator = None, io_enableOrchestratorPayments = None\<rparr>"

lemma local_client: "new_interceptor (createPaymentClient signer) = Inr 1000"
proof -
  have "axios_readMaximum (JNum (NInt 1000)) = Inr 1000" by code_simp
  then show ?thesis by (simp add: new_interceptor_def validatePaymentMode_def createPaymentClient_def)
qed

lemma local_sells: "sells_weather (startWeatherServer origin facilitatorOrigin f)"
  by (simp add: sells_weather_def startWeatherServer_def)

lemma same_chain: "local_transaction = fixture_funding"
  by (simp add: local_transaction_def fixture_funding_def LOCAL_TXID_def BROWSER_FUNDING_TXID_def)

text \<open>The test signer signs every valid invoice, and the test verifier accepts.\<close>

lemma demo_signer:
  "\<exists>signer. createDemoSigner E = Inr signer \<and> xs_payer signer = BROWSER_PAYER \<and>
     xs_transaction signer = \<lparr>ref_txid = BROWSER_FUNDING_TXID, ref_vout = 0\<rparr> \<and>
     (\<forall>m. \<exists>h. xs_sign signer m = Inr (JStr h) \<and> createMockSignature E BROWSER_PAYER m = Inr h)"
proof -
  have "is_address BROWSER_PAYER" "is_hash BROWSER_FUNDING_TXID" "is_timestamp LOCAL_VOUT" by code_simp+
  moreover have "LOCAL_PAYER = BROWSER_PAYER" "LOCAL_TXID = BROWSER_FUNDING_TXID"
    by (simp_all add: LOCAL_PAYER_def BROWSER_PAYER_def LOCAL_TXID_def BROWSER_FUNDING_TXID_def)
  moreover have "\<exists>h. createMockSignature E BROWSER_PAYER m = Inr h" for m using mock_signed by blast
  ultimately show ?thesis
    by (auto simp: createDemoSigner_def createTestOnlyMockXecSigner_def createMockSignature_def LOCAL_VOUT_def ebind_Inr_iff)
qed

lemma demo_authorization:
  assumes "createDemoSigner E = Inr signer" "invoice_valid i" "hex_hashes E"
  shows "\<exists>a m. createAuthorization E i signer = Inr a \<and> length (auth_signature a) = 64 \<and>
    authorizationSigningMessage a = Inr m \<and> mock_verify E (auth_payer a) m (auth_signature a) = Inr True"
proof -
  from demo_signer [of E] assms(1) have signer: "xs_payer signer = BROWSER_PAYER"
    "xs_transaction signer = \<lparr>ref_txid = BROWSER_FUNDING_TXID, ref_vout = 0\<rparr>"
    "\<And>m. \<exists>h. xs_sign signer m = Inr (JStr h) \<and> createMockSignature E BROWSER_PAYER m = Inr h" by auto
  obtain h where h: "computeInvoiceHash E i = Inr h" using computeInvoiceHash_total [OF assms(2)] by blast
  let ?u = "browser_unsigned i h BROWSER_PAYER"
  have u: "\<lparr>auth_x402Version = X402_VERSION, auth_scheme = XEC_SCHEME, auth_network = XEC_MAINNET, auth_invoiceHash = h,
      auth_resourceHash = inv_resourceHash i, auth_amountSats = inv_amountSats i, auth_payTo = inv_payTo i,
      auth_nonce = inv_nonce i, auth_payer = xs_payer signer, auth_transaction = xs_transaction signer\<rparr> = ?u"
    using assms(2) by (simp add: browser_unsigned_def invoice_valid_def signer)
  obtain m where m: "authorizationSigningMessage (with_signature ?u ''placeholder'') = Inr m"
    using authorizationSigningMessage_total by blast
  from signer(3) [of m] obtain g where g: "xs_sign signer m = Inr (JStr g)" "createMockSignature E BROWSER_PAYER m = Inr g" by blast
  note sig = mock_signature_text [OF g(2) assms(3)]
  have a: "authorization_valid (with_signature ?u g)" by (rule browser_authorization_valid [OF assms(2) h assms(3) sig(1)])
  have "createAuthorization E i signer = Inr (with_signature ?u g)"
    using parse_authorization_to_json [OF a] by (simp add: createAuthorization_def Let_def h u m g(1) with_signature_json)
  moreover have "authorizationSigningMessage (with_signature ?u g) = Inr m" using m signing_message_unsigned by metis
  moreover have "mock_verify E (auth_payer (with_signature ?u g)) m (auth_signature (with_signature ?u g)) = Inr True"
    using g(2) by (simp add: mock_verify_def browser_unsigned_def)
  ultimately show ?thesis using sig(2) by (intro exI [of _ "with_signature ?u g"] exI [of _ m]) simp
qed

lemma local_signature:
  assumes "createAuthorization E i signer = Inr a" "invoice_valid i" "authorization_valid a"
  shows "createPaymentSignature E (createPaymentClient signer) i resource =
    Inr (base64url (utf8_encode (json_text (envelope_to_json \<lparr>env_invoice = i, env_authorization = a\<rparr>))))"
proof -
  have p: "plain (envelope_to_json \<lparr>env_invoice = i, env_authorization = a\<rparr>)" using assms(2,3) by (intro plain_envelope) simp_all
  show ?thesis
    using axios_encode_same [of "envelope_to_json \<lparr>env_invoice = i, env_authorization = a\<rparr>"] stringify_plain [OF p] encode_plain [OF p]
    by (simp add: createPaymentSignature_def createPaymentClient_def assms(1))
qed

lemma local_purchase:
  assumes server: "createX402XecMiddleware E href (startWeatherServer origin facilitatorOrigin
        (facilitator_fetch receive E (fixture_getTx (newFixtures [local_transaction])) (mock_verify E) (NInt DEMO_NOW)
          ledger_empty)) = Inr PS"
      "receives num receive" "xe_runtime X = E" "hex_hashes E"
    and first: "rq_get request PAYMENT_HEADER = None"
      "snd (handle_payment X PS (NInt DEMO_NOW) random request) = Inr (PaymentResponse 402 body)"
    and res: "payment_resource X request (ps_publicOrigin PS) = Inr resource"
      "rq_body request = JUndef \<or> plain (rq_body request)" "text_bytes (resource_to_json resource) \<le> 60000"
    and client: "ax_runtime A = E" "asks_for A c resource" "failed_402 num error c body" "createDemoSigner E = Inr signer"
  shows "\<exists>i s b l' entry posted.
    intercept A (createPaymentClient signer) 1000 (repeat_at X PS (NInt DEMO_NOW) random' request) (NInt DEMO_NOW) error =
      ([PayOffer i resource, RepeatRequest (c\<lparr>ac_attempted := True, ac_signature := Some s\<rparr>)],
       Inr (Verified (verify_response_json (VerifyOk b)))) \<and>
    startFacilitator E None (receive posted) ledger_empty = ((200, verify_response_json (VerifyOk b)), l') \<and>
    lg_entries l' = [entry] \<and> le_payTo entry = DEMO_PAY_TO \<and> le_payer entry = LOCAL_PAYER \<and> le_debitedSats entry = 1000"
proof -
  note sold = server(1) local_sells
  from demo_offer [OF sold server(3) first] obtain i where i: "prop_of body ''invoice'' = invoice_to_json i" "invoice_valid i"
    and terms: "inv_amountSats i = ''1000''" "inv_payTo i = DEMO_PAY_TO" "inv_issuedAt i = DEMO_NOW"
      "inv_expiresAt i = DEMO_NOW + 60" by blast
  from demo_authorization [OF client(4) i(2) server(4)] obtain a m where made: "createAuthorization E i signer = Inr a"
    and a: "length (auth_signature a) = 64" "authorizationSigningMessage a = Inr m"
      "mock_verify E (auth_payer a) m (auth_signature a) = Inr True" by blast
  have signer: "xs_payer signer = BROWSER_PAYER" "xs_transaction signer = \<lparr>ref_txid = BROWSER_FUNDING_TXID, ref_vout = 0\<rparr>"
    using demo_signer [of E] client(4) by auto
  from createAuthorization_Inr [OF made] have valid: "authorization_valid a" "binds_invoice E i a"
    "auth_payer a = BROWSER_PAYER" "auth_transaction a = \<lparr>ref_txid = BROWSER_FUNDING_TXID, ref_vout = 0\<rparr>"
    by (auto simp: binds_invoice_def signer)
  note sizes = demo_sizes [OF i(2) terms(1,2) valid(1-3) a(1) server(4) res(3)]
  have opt: "io_orchestrator (createPaymentClient signer) = None" "io_paymentPreparer (createPaymentClient signer) = None"
    "io_signer (createPaymentClient signer) = Some signer" by (simp_all add: createPaymentClient_def)
  let ?s = "base64url (utf8_encode (json_text (envelope_to_json \<lparr>env_invoice = i, env_authorization = a\<rparr>)))"
  note s = local_signature [OF made i(2) valid(1), of resource]
  have header: "int (length (utf8_encode ?s)) \<le> ps_maxPaymentHeaderBytes PS"
    using sizes(1) by (simp add: weather_server(4) [OF sold])
  have fetch: "ps_fetch PS = facilitator_fetch receive E (fixture_getTx (newFixtures [local_transaction])) (mock_verify E)
      (NInt DEMO_NOW) ledger_empty"
    using weather_server(1) [OF sold] by (simp add: startWeatherServer_def)
  have now: "safe_nonneg (NInt DEMO_NOW) = Some DEMO_NOW" by code_simp
  have window: "inv_issuedAt i \<le> DEMO_NOW" "DEMO_NOW < inv_expiresAt i" using terms by simp_all
  have maximum: "int (dec_to_nat (inv_amountSats i)) \<le> 1000" by (simp add: terms weather_price)
  note ready = fixture_funds [OF valid(4) a(2,3) window terms(1), folded same_chain]
  obtain posted b l' entry where r:
      "intercept A (createPaymentClient signer) 1000 (repeat_at X PS (NInt DEMO_NOW) random' request) (NInt DEMO_NOW) error =
        ([PayOffer i resource, RepeatRequest (c\<lparr>ac_attempted := True, ac_signature := Some ?s\<rparr>)],
         Inr (Verified (verify_response_json (VerifyOk b))))"
      "app_verify E (fixture_getTx (newFixtures [local_transaction])) (mock_verify E) (NInt DEMO_NOW) (receive posted)
        ledger_empty = ((200, verify_response_json (VerifyOk b)), l')"
      "lg_entries l' = lg_entries ledger_empty @ [entry]" "le_payTo entry = inv_payTo i"
      "parseAmountSats (inv_amountSats i) = Inr (le_debitedSats entry)" "le_payer entry = xs_payer signer"
    using signer_purchase [OF server(1,3) first res(1,2) client(1-3) i maximum now window opt made s header now window
        fetch server(2,4) now ready sizes(2), of random']
    by - (elim exE conjE, rule that, assumption+)
  have "lg_entries l' = [entry]" using r(3) by (simp add: ledger_empty_def)
  moreover have "le_debitedSats entry = 1000" using r(5) by (simp add: terms parseAmountSats_Inr weather_price)
  moreover have "LOCAL_PAYER = BROWSER_PAYER" by (simp add: LOCAL_PAYER_def BROWSER_PAYER_def)
  moreover have "startFacilitator E None (receive posted) ledger_empty = ((200, verify_response_json (VerifyOk b)), l')"
    using r(2) by (simp add: startFacilitator_def del: verify_response_json.simps)
  ultimately show ?thesis using r(4,6)
    by - (rule exI [of _ i], rule exI [of _ ?s], rule exI [of _ b], rule exI [of _ l'], rule exI [of _ entry],
        rule exI [of _ posted], intro conjI, rule r(1), simp_all only: terms signer)
qed

end
