(* ===== verification/Chronik_Fixtures.thy ===== *)
theory Chronik_Fixtures
  imports Facilitator_Service
begin

text \<open>
  \<open>packages/x402-xec-facilitator/src/chronik-fixtures.ts\<close>: the transactions that the tests of the funding inspection
  share. The lemma \<open>fixtures_inspected\<close> gives the outcome of the inspection on each, which its name announces.
\<close>

definition FIXTURE_TXID :: string where "FIXTURE_TXID = replicate 64 CHR ''c''"
definition MISSING_FIXTURE_TXID :: string where "MISSING_FIXTURE_TXID = replicate 64 CHR ''d''"

definition FIXTURE_OUTPUT_SCRIPT :: string where
  "FIXTURE_OUTPUT_SCRIPT = ''76a914'' @ concat (replicate 20 ''11'') @ ''88ac''"

definition WRONG_FIXTURE_OUTPUT_SCRIPT :: string where
  "WRONG_FIXTURE_OUTPUT_SCRIPT = ''76a914'' @ concat (replicate 20 ''22'') @ ''88ac''"

definition FIXTURE_AMOUNT_SATS :: int where "FIXTURE_AMOUNT_SATS = 1000"

record inspection_fixture =
  ins_fundingOutpoint :: funding_outpoint
  ins_outputScript :: string
  ins_amountSats :: int
  ins_transactions :: "chronik_tx list"

definition fixture_block :: js_value where
  "fixture_block = JObj [(''height'', JNum (NInt 800000)), (''hash'', JStr (replicate 64 CHR ''a'')),
     (''timestamp'', JNum (NInt 1700000000))]"

definition valid_transaction :: chronik_tx where
  "valid_transaction = \<lparr>ctx_txid = JStr FIXTURE_TXID,
     ctx_outputs = Some [\<lparr>out_sats = 2000, out_outputScript = FIXTURE_OUTPUT_SCRIPT, out_token = JUndef\<rparr>],
     ctx_block = fixture_block, ctx_isFinal = JBool True, ctx_timeFirstSeen = JNum (NInt 1700000000)\<rparr>"

definition inspection_of :: "chronik_tx list \<Rightarrow> funding_outpoint \<Rightarrow> inspection_fixture" where
  "inspection_of transactions fundingOutpoint = \<lparr>ins_fundingOutpoint = fundingOutpoint,
     ins_outputScript = FIXTURE_OUTPUT_SCRIPT, ins_amountSats = FIXTURE_AMOUNT_SATS, ins_transactions = transactions\<rparr>"

definition default_outpoint :: funding_outpoint where
  "default_outpoint = \<lparr>fo_txid = FIXTURE_TXID, fo_outIdx = 0\<rparr>"

definition validFundingFixture :: inspection_fixture where
  "validFundingFixture = inspection_of [valid_transaction] default_outpoint"

definition missingTransactionFixture :: inspection_fixture where
  "missingTransactionFixture = inspection_of [] \<lparr>fo_txid = MISSING_FIXTURE_TXID, fo_outIdx = 0\<rparr>"

definition wrongOutIdxFixture :: inspection_fixture where
  "wrongOutIdxFixture = inspection_of [valid_transaction] \<lparr>fo_txid = FIXTURE_TXID, fo_outIdx = 1\<rparr>"

definition wrongPayToFixture :: inspection_fixture where
  "wrongPayToFixture = inspection_of [valid_transaction\<lparr>ctx_outputs :=
     Some [\<lparr>out_sats = 2000, out_outputScript = WRONG_FIXTURE_OUTPUT_SCRIPT, out_token = JUndef\<rparr>]\<rparr>] default_outpoint"

definition insufficientSatsFixture :: inspection_fixture where
  "insufficientSatsFixture = inspection_of [valid_transaction\<lparr>ctx_outputs :=
     Some [\<lparr>out_sats = 999, out_outputScript = FIXTURE_OUTPUT_SCRIPT, out_token = JUndef\<rparr>]\<rparr>] default_outpoint"

text \<open>The inspection tests only whether a token is there; its \<open>atoms\<close>, a \<open>bigint\<close>, is a number here.\<close>

definition tokenOutputFixture :: inspection_fixture where
  "tokenOutputFixture = inspection_of [valid_transaction\<lparr>ctx_outputs :=
     Some [\<lparr>out_sats = 2000, out_outputScript = FIXTURE_OUTPUT_SCRIPT,
       out_token = JObj [(''tokenId'', JStr (replicate 64 CHR ''e'')), (''atoms'', JNum (NInt 1)),
         (''isMintBaton'', JBool False)]\<rparr>]\<rparr>] default_outpoint"

definition unfinalizedTransactionFixture :: inspection_fixture where
  "unfinalizedTransactionFixture = inspection_of [valid_transaction\<lparr>ctx_block := JUndef, ctx_isFinal := JBool False\<rparr>]
     default_outpoint"

definition confirmedTransactionFixture :: inspection_fixture where
  "confirmedTransactionFixture = inspection_of [valid_transaction\<lparr>ctx_isFinal := JBool False,
     ctx_timeFirstSeen := JNum (NInt 0)\<rparr>] default_outpoint"

definition avalancheFinalTransactionFixture :: inspection_fixture where
  "avalancheFinalTransactionFixture = inspection_of [valid_transaction\<lparr>ctx_block := JUndef\<rparr>] default_outpoint"

text \<open>A fixture inspected, as the tests do it.\<close>

definition inspect_fixture :: "inspection_fixture \<Rightarrow> funding_inspection result" where
  "inspect_fixture f = inspectFundingTransaction (fixture_getTx (newFixtures (ins_transactions f)))
     \<lparr>fin_fundingOutpoint = ins_fundingOutpoint f, fin_outputScript = Some (ins_outputScript f),
      fin_amountSats = ins_amountSats f\<rparr>"

lemma fixtures_inspected:
  "\<exists>tx out. inspect_fixture validFundingFixture = Inr (F_Ok tx out)"
  "inspect_fixture missingTransactionFixture = Inr (F_Fail F_TRANSACTION_NOT_FOUND)"
  "inspect_fixture wrongOutIdxFixture = Inr (F_Fail F_OUTPUT_NOT_FOUND)"
  "inspect_fixture wrongPayToFixture = Inr (F_Fail F_OUTPUT_SCRIPT_MISMATCH)"
  "inspect_fixture insufficientSatsFixture = Inr (F_Fail F_INSUFFICIENT_SATS)"
  "inspect_fixture tokenOutputFixture = Inr (F_Fail F_TOKEN_OUTPUT)"
  "inspect_fixture unfinalizedTransactionFixture = Inr (F_Fail F_TRANSACTION_NOT_FINAL)"
  "\<exists>tx out. inspect_fixture confirmedTransactionFixture = Inr (F_Ok tx out)"
  "\<exists>tx out. inspect_fixture avalancheFinalTransactionFixture = Inr (F_Ok tx out)"
proof -
  have ok: "\<exists>tx out. inspect_fixture f = Inr (F_Ok tx out)"
    if "(case inspect_fixture f of Inr (F_Ok tx out) \<Rightarrow> True | _ \<Rightarrow> False)" for f
    using that by (auto split: sum.splits funding_inspection.splits)
  show "\<exists>tx out. inspect_fixture validFundingFixture = Inr (F_Ok tx out)" by (rule ok) code_simp
  show "\<exists>tx out. inspect_fixture confirmedTransactionFixture = Inr (F_Ok tx out)" by (rule ok) code_simp
  show "\<exists>tx out. inspect_fixture avalancheFinalTransactionFixture = Inr (F_Ok tx out)" by (rule ok) code_simp
qed code_simp+

end
