(* ===== verification/Bridge_Setup.thy ===== *)
theory Bridge_Setup
  imports Bridge
begin

text \<open>
  The constructor of \<open>X402AuthorizationBridge\<close> in \<open>packages/x402-xec-agent-bridge/src/bridge.ts\<close>. The clock, the random
  texts, the replay cache and the two ports are arguments of the model's \<open>authorizePayment\<close>; what remains of the
  options is the kill switch, the limit and whether the ports are there. The lemmas say that the defaults block all
  payments.
\<close>

record bridge_options =
  bo_killSwitch :: "bool option"
  bo_dailyLimitSats :: js_value
  bo_policyEvaluator :: bool
  bo_walletTransport :: bool

text \<open>\<open>BigInt(config.dailyLimitSats ?? 0)\<close> of a number or a bigint; \<open>big\<close> is the value of a number beyond the safe integers,
  which its text does not give exactly, and nothing for a fraction.\<close>

definition daily_limit :: "(string \<Rightarrow> int option) \<Rightarrow> js_value \<Rightarrow> int result" where
  "daily_limit big v = (case v of
     JUndef \<Rightarrow> Inr 0
   | JNull \<Rightarrow> Inr 0
   | JBigInt i \<Rightarrow> Inr i
   | JNum n \<Rightarrow> (case n of
         NInt i \<Rightarrow> Inr i
       | NNegZero \<Rightarrow> Inr 0
       | NFloat s \<Rightarrow> (case big s of
             None \<Rightarrow> Inl (RangeError ''The number cannot be converted to a BigInt because it is not an integer'')
           | Some i \<Rightarrow> Inr i)
       | _ \<Rightarrow> Inl (RangeError ''The number cannot be converted to a BigInt because it is not an integer''))
   | _ \<Rightarrow> Inl (TypeError ''Cannot convert to a BigInt''))"

definition new_bridge :: "(string \<Rightarrow> int option) \<Rightarrow> bridge_options \<Rightarrow> bridge_config result" where
  "new_bridge big options =
     (let killSwitch = (case bo_killSwitch options of None \<Rightarrow> True | Some b \<Rightarrow> b) in
      ebind (daily_limit big (bo_dailyLimitSats options)) (\<lambda>dailyLimitSats.
      ebind (demand (bo_policyEvaluator options) ''POLICY_DECISION_INVALID''
        ''A valid policyEvaluator is required to construct X402AuthorizationBridge'') (\<lambda>_.
      ebind (demand (bo_walletTransport options) ''WALLET_TRANSPORT_ERROR''
        ''A valid walletTransport is required to construct X402AuthorizationBridge'') (\<lambda>_.
        Inr \<lparr>bc_killSwitch = Some killSwitch, bc_dailyLimitSats = Some dailyLimitSats\<rparr>))))"

lemma new_bridge_Inr:
  "new_bridge big options = Inr cfg \<longleftrightarrow>
     (\<exists>limit. daily_limit big (bo_dailyLimitSats options) = Inr limit \<and> bo_policyEvaluator options \<and> bo_walletTransport options \<and>
        cfg = \<lparr>bc_killSwitch = Some (bo_killSwitch options \<noteq> Some False), bc_dailyLimitSats = Some limit\<rparr>)"
  by (auto simp: new_bridge_def Let_def ebind_Inr_iff demand_def split: option.splits if_splits)

text \<open>A bridge without an explicit \<open>false\<close> for its kill switch, and one without a limit, let nothing through: no policy,
  wallet or cache is asked.\<close>

lemma unset_switch_blocks:
  assumes "new_bridge big options = Inr cfg" "bo_killSwitch options \<noteq> Some False" "validateClockValue clock1 = Inr t"
  shows "authorizePayment B cfg reserve commit rollback req clock1 clock2 s =
    (bridge_fail ''KILL_SWITCH_ACTIVE''
       ''Agentic kill switch is active (default). Outbound x402 payment authorization is blocked.'', s)"
proof -
  from assms have "bridge_prepare B cfg req clock1 = bridge_fail ''KILL_SWITCH_ACTIVE''
      ''Agentic kill switch is active (default). Outbound x402 payment authorization is blocked.''"
    by (auto simp: new_bridge_Inr bridge_prepare_def Let_def demand_def)
  then show ?thesis by (simp add: authorizePayment_def)
qed

lemma unset_limit_blocks:
  assumes "new_bridge big options = Inr cfg" "bo_dailyLimitSats options \<in> {JUndef, JNull}"
    and "validateClockValue clock1 = Inr t" "bo_killSwitch options = Some False"
  shows "authorizePayment B cfg reserve commit rollback req clock1 clock2 s =
    (bridge_fail ''INSUFFICIENT_FUNDS_LIMIT''
       ''Configured daily monetary limit is 0 sats (default 0). All spend blocked.'', s)"
proof -
  have zero: "int_to_dec 0 = ''0''" by code_simp
  from assms have "bridge_prepare B cfg req clock1 = bridge_fail ''INSUFFICIENT_FUNDS_LIMIT''
      ''Configured daily monetary limit is 0 sats (default 0). All spend blocked.''"
    by (auto simp: new_bridge_Inr bridge_prepare_def Let_def demand_def daily_limit_def or_zero_def zero)
  then show ?thesis by (simp add: authorizePayment_def)
qed

end
