(* ===== verification/Spec2Isabelle.thy ===== *)
theory Spec2Isabelle
  imports Core_Properties Binding_Properties Facilitator_Properties Agent_Properties
    Payment_Properties Express_Properties Cli_Properties Client_Properties Gate_Server Local_Demo Chronik_Fixtures
    Bridge_Setup
begin

text \<open>
  A model of x402-XEC, a TypeScript implementation of HTTP 402 payments in eCash (XEC).

  A server answers a request for a protected resource by an \<^emph>\<open>invoice\<close>. There are two ways to pay it. In the
  \<^emph>\<open>settlement\<close> way the client pays the invoice's address on chain and repeats the request with a proof that names
  the transaction; the server looks the transaction up and unlocks the resource. In the \<^emph>\<open>prepaid\<close> way the
  client signs an authorization that debits an output it funded before; a facilitator checks the signature and keeps
  the ledger of debits. An agent may pay only through a bridge that asks a policy and a human.

  \<^bold>\<open>Theories and the files they model\<close> (under \<open>src/packages\<close> where nothing else is said).

  \<^item> \<open>Prelude\<close>, \<open>Js_Values\<close>: errors as sums (\<open>ebind\<close>, the collection \<open>err_simps\<close>), JavaScript strings, numbers,
    \<open>unknown\<close> values, insertion-ordered maps (\<open>jmap\<close> for \<open>Map\<close>), UTF-8.
  \<^item> \<open>Canonical\<close>, \<open>Resource\<close>, \<open>Schemas\<close>, \<open>Invoice\<close>, \<open>Nonce_Store\<close>, \<open>Authorization\<close>, \<open>Cashaddr\<close>, \<open>Chronik\<close>,
    \<open>Approval_Context\<close>: the files of \<open>x402-xec-core/src\<close> of the same names (\<open>canonicalize.ts\<close>, \<open>resource.ts\<close>, ...).
    A zod schema is a parser from \<open>js_value\<close>.
  \<^item> \<open>Invoice_Store\<close> (the interface of \<open>invoice-store.ts\<close>, as the locale \<open>invoice_store\<close>), \<open>Memory_Store\<close> and
    \<open>Sqlite_Store\<close> (its two implementations, each an interpretation), \<open>Settlement_Verifier\<close>
    (\<open>settlement-verifier.ts\<close>), \<open>Settlement_System\<close> (servers that run it concurrently over one store, as an inductive
    step relation).
  \<^item> \<open>Ledger\<close>, \<open>Facilitator\<close>: \<open>x402-xec-facilitator/src/ledger.ts\<close>, \<open>facilitator.ts\<close> and \<open>schemas.ts\<close>.
  \<^item> \<open>Replay_Cache\<close>, \<open>Bridge\<close>, \<open>Bridge_Setup\<close>, \<open>Agent_System\<close>: \<open>x402-xec-agent-bridge/src\<close>, and any number of concurrent
    calls.
  \<^item> \<open>Json_Text\<close>, \<open>Base64\<close>, \<open>Wire\<close>: \<open>JSON.stringify\<close>, \<open>JSON.parse\<close> and the base64url encoding that headers use.
  \<^item> \<open>Transactions\<close>, \<open>Payment_Policy\<close>, \<open>Payment_Providers\<close>, \<open>Payment_Preparer\<close>, \<open>Payment_Orchestrator\<close>,
    \<open>Wallet_Adapter\<close>: \<open>x402-xec-transactions/src\<close> and \<open>x402-xec-payments/src\<close>.
  \<^item> \<open>Payment_Offer\<close>, \<open>Offer_Size\<close>, \<open>Express_Core\<close>, \<open>Settlement_Middleware\<close>, \<open>Payment_Middleware\<close>:
    \<open>x402-xec-express/src\<close>; \<open>Settlement_Flow\<close> and \<open>Payment_Flow\<close> compose them with the client into a purchase.
  \<^item> \<open>Axios_Interceptor\<close>: \<open>x402-xec-axios/src/interceptor.ts\<close>.
  \<^item> \<open>Facilitator_Service\<close>: what the facilitator's HTTP server runs (\<open>app.ts\<close>, \<open>server.ts\<close>, the Chronik and the fixture
    provider, the message signatures and their test double); \<open>Prepaid_Purchase\<close> composes it with the client and the
    payment middleware. \<open>Chronik_Fixtures\<close>: the transactions its tests share (\<open>chronik-fixtures.ts\<close>).
  \<^item> \<open>Client_Purchase\<close> composes the interceptor with the payment middleware and the facilitator, for a header made by any
    of the client's modes; \<open>Browser_Demo\<close> and \<open>Browser_Server\<close> (\<open>src/examples/browser-e2e/src\<close>, \<open>demo-orchestrator.ts\<close>,
    \<open>browser.ts\<close>, \<open>server.ts\<close>) and \<open>Local_Demo\<close> (\<open>src/examples/local-e2e/src\<close>) are two instances of it.
  \<^item> \<open>Gate_Server\<close>: \<open>src/examples/webmcp-resource-server/src\<close>, a server that only advertises a payment.
  \<^item> \<open>Wallet_Keys\<close>, \<open>Manual_Cli\<close>: \<open>src/examples/manual-payment-cli/src\<close>, the signers (\<open>wallet-signer.ts\<close>, WIF decoding) and
    the command line (\<open>cli.ts\<close>) around the live payment orchestrator.

  \<^bold>\<open>How the code is represented.\<close> A class with private fields is a record and its methods are functions from
  the old to the new record. A method that calls others (a wallet, a store, a facilitator, an indexer) is \<open>traced\<close>:
  it returns the list of the calls it made and its result. Early returns are a sum \<open>exit\<close>. A database table is the list of its
  rows, with the uniqueness constraints of its schema checked by the statement that inserts. Satoshis and indices are
  unbounded integers as in the code (\<open>bigint\<close>); JavaScript numbers that a caller has validated are integers, others are
  \<open>js_number\<close>, which keeps NaN, infinities and fractions apart. Strings are lists of characters below 256.

  What is outside the repository is an argument: SHA-256, the URL parser, the cashaddr codec, the Chronik client,
  the transaction builder and the key library, the SQLite engine's errors, zod's messages, the clock and random
  bytes. Theorems hold for every such argument; those about hashes say \<open>collides\<close> where two texts have one hash. Three
  assumptions about libraries appear as named hypotheses: \<open>builder_pays\<close> (\<open>Transactions\<close>), a transaction that was built has
  the outputs asked for and pays its fee from its inputs; \<open>hex_hashes\<close>, a SHA-256 text is 64 hex digits; and \<open>receives\<close>
  (\<open>Prepaid_Purchase\<close>), \<open>express.json\<close> gives a handler the object that a body within its limit
  holds.

  \<^bold>\<open>What is proved\<close> (the properties are the theorems after a numbered text).

  \<^item> One transaction unlocks one invoice and an unlocked invoice is paid exactly, under any interleaving
    (\<open>Core_Properties\<close>); both stores refine the store interface.
  \<^item> A canonical text, a hash and a signature bind what they are made of (\<open>Binding_Properties\<close>); one invoice is
    authorized once.
  \<^item> The facilitator conserves the credit that the chain shows, debits an invoice once under a clock that does not go back, repeats its answers, and a refusal changes nothing
    (\<open>Facilitator_Properties\<close>).
  \<^item> An agent's payment was approved for exactly this request, once under a clock that does not go back, a finished call leaves
    nothing reserved, and of concurrent calls exactly those that wait hold a reservation (\<open>Agent_Properties\<close>); that a
    policy or a wallet answers is not assumed.
  \<^item> Nothing is broadcast without policy and approval of the very transaction built, and a funding transaction balances
    (\<open>Payment_Properties\<close>).
  \<^item> A configured route is never served unpaid by the settlement middleware, its offers are recorded invoices, and both ways of
    paying go through, from the 402 answer to the unlocked or verified request (\<open>Express_Properties\<close>); the Axios
    interceptor alone makes such a purchase (\<open>Client_Properties\<close>), and so do both demonstrations with their fixed data
    (\<open>demo_purchase\<close>, \<open>local_purchase\<close>).
  \<^item> The Web MCP server answers 402 with a readable offer exactly on its resource, and allows one origin (\<open>gate_status\<close>,
    \<open>gate_offer\<close>, \<open>gate_preflight\<close> of \<open>Gate_Server\<close>).
  \<^item> The command line broadcasts only with every confirmation on it and pays exactly what it says, and no failure shows a
    key that followed its flag (\<open>Cli_Properties\<close>); a private key has one WIF text (\<open>wif_unique\<close>).

  \<^bold>\<open>Bounds.\<close> All loops are structural recursions, but for the JSON parser and \<open>replaceAll\<close>, whose termination is proved by the
  length of what is left, \<open>nat_to_hex\<close>, which divides by 16, and the search for inputs (\<open>try_prefixes\<close>), which counts up to the number of
  outputs offered: its fuel is that number, and \<open>select_inputs_fails\<close> shows that it runs out exactly where no prefix can
  be built.

  \<^bold>\<open>Not modelled.\<close> Characters above 255 in strings (a text whose bytes decode to one is refused like invalid UTF-8); the wording of zod errors; the scheduling of promises inside
  one handler beyond the steps of the two concurrent systems; Express itself; of the
  demonstrations, the page with its log, the counters, the life cycle of the servers and the scripts that start them; the
  shims of the browser bundle; barrel files, which re-export.
\<close>

end
